(* ===== verification/Prelude.thy ===== *)
theory Prelude
  imports Main "HOL-Library.State_Monad" "HOL-Library.Word" "HOL-Library.Code_Target_Nat"
begin

text \<open>
  Shared vocabulary of the development.

  A Rust \<open>str\<close> or byte slice is a \<open>string\<close>: an Isabelle \<open>char\<close> is one byte, so
  \<open>length\<close> is Rust's \<open>len()\<close> and an index is a byte offset.  A text that Rust knows to be
  UTF-8 is a byte list whose continuation bytes are \<open>0x80\<close> to \<open>0xBF\<close>.  The functions of this
  theory are the methods of \<open>str\<close>, \<open>slice\<close>, \<open>u8\<close> and \<open>Result\<close> that the
  program uses (\<open>strip_prefix\<close>, \<open>find\<close>, \<open>contains\<close>, \<open>join\<close>, \<open>parse\<close>,
  \<open>is_char_boundary\<close>, the \<open>?\<close> operator), and the generic lemmas about them.

  Effects (the PAN-OS session and the change-set coordinator) are run in the state monad of
  the library over an explicit world; \<open>tryS\<close> is the \<open>?\<close> operator on an effectful call.
\<close>

named_theorems return_iff \<open>when a fallible step of the program returns\<close>
named_theorems run_simps \<open>running effectful steps\<close>

section \<open>Result and the question-mark operator\<close>

definition and_then :: "'e + 'a \<Rightarrow> ('a \<Rightarrow> 'e + 'b) \<Rightarrow> 'e + 'b" where
  "and_then m k = (case m of Inl e \<Rightarrow> Inl e | Inr x \<Rightarrow> k x)"

lemma and_then_simps [simp]:
  "and_then (Inl e) k = Inl e"
  "and_then (Inr x) k = k x"
  by (simp_all add: and_then_def)

lemma and_then_Inr [return_iff]:
  "and_then m k = Inr y \<longleftrightarrow> (\<exists>x. m = Inr x \<and> k x = Inr y)"
  by (cases m) simp_all

lemma and_then_Inl:
  "and_then m k = Inl e \<longleftrightarrow> m = Inl e \<or> (\<exists>x. m = Inr x \<and> k x = Inl e)"
  by (cases m) simp_all

text \<open>\<open>Option::ok_or\<close> and \<open>Result::map_err\<close>.\<close>

definition ok_or :: "'e \<Rightarrow> 'a option \<Rightarrow> 'e + 'a" where
  "ok_or e x = (case x of None \<Rightarrow> Inl e | Some y \<Rightarrow> Inr y)"

lemma ok_or_simps [simp]: "ok_or e None = Inl e" "ok_or e (Some y) = Inr y"
  by (simp_all add: ok_or_def)

lemma ok_or_Inr [return_iff]: "ok_or e x = Inr y \<longleftrightarrow> x = Some y"
  by (cases x) simp_all

definition map_err :: "('e \<Rightarrow> 'f) \<Rightarrow> 'e + 'a \<Rightarrow> 'f + 'a" where
  "map_err f m = (case m of Inl e \<Rightarrow> Inl (f e) | Inr x \<Rightarrow> Inr x)"

lemma map_err_simps [simp]: "map_err f (Inl e) = Inl (f e)" "map_err f (Inr x) = Inr x"
  by (simp_all add: map_err_def)

lemma map_err_Inr [return_iff]: "map_err f m = Inr y \<longleftrightarrow> m = Inr y"
  by (cases m) simp_all

definition is_ok :: "'e + 'a \<Rightarrow> bool" where
  "is_ok m = (case m of Inl _ \<Rightarrow> False | Inr _ \<Rightarrow> True)"

lemma is_ok_simps [simp]: "\<not> is_ok (Inl e)" "is_ok (Inr x)"
  by (simp_all add: is_ok_def)

lemma is_ok_iff: "is_ok m \<longleftrightarrow> (\<exists>x. m = Inr x)"
  by (cases m) simp_all

text \<open>A loop that checks every element and stops at the first failure.\<close>

fun check_all :: "('a \<Rightarrow> 'e + unit) \<Rightarrow> 'a list \<Rightarrow> 'e + unit" where
  "check_all f [] = Inr ()"
| "check_all f (x # xs) = and_then (f x) (\<lambda>_. check_all f xs)"

lemma check_all_Inr [return_iff]:
  "check_all f xs = Inr u \<longleftrightarrow> (\<forall>x \<in> set xs. f x = Inr ())"
  by (induction xs) (auto simp: and_then_Inr)

text \<open>\<open>iter().map(f).collect::<Result<Vec<_>, _>>()\<close>.\<close>

fun collect_results :: "('a \<Rightarrow> 'e + 'b) \<Rightarrow> 'a list \<Rightarrow> 'e + 'b list" where
  "collect_results f [] = Inr []"
| "collect_results f (x # xs) =
     and_then (f x) (\<lambda>y. and_then (collect_results f xs) (\<lambda>ys. Inr (y # ys)))"

lemma collect_results_Inr:
  "collect_results f xs = Inr ys \<longleftrightarrow> list_all2 (\<lambda>x y. f x = Inr y) xs ys"
proof (induction xs arbitrary: ys)
  case Nil
  show ?case by auto
next
  case (Cons x xs)
  then show ?case by (cases ys) (auto simp: and_then_Inr)
qed

section \<open>Effects\<close>

definition tryS :: "('s, 'e + 'a) state \<Rightarrow> ('a \<Rightarrow> ('s, 'e + 'b) state) \<Rightarrow> ('s, 'e + 'b) state" where
  "tryS m k = State_Monad.bind m
     (\<lambda>r. case r of Inl e \<Rightarrow> State_Monad.return (Inl e) | Inr x \<Rightarrow> k x)"

lemma run_bind [run_simps]:
  "run_state (State_Monad.bind m k) s = (let (a, s') = run_state m s in run_state (k a) s')"
  by (simp add: State_Monad.bind_def split_beta)

lemma run_tryS [run_simps]:
  "run_state (tryS m k) s =
     (let (r, s') = run_state m s in
      case r of Inl e \<Rightarrow> (Inl e, s') | Inr x \<Rightarrow> run_state (k x) s')"
  by (auto simp: tryS_def run_bind split_beta split: sum.splits)

lemma run_return [run_simps]: "run_state (State_Monad.return x) s = (x, s)"
  by simp

lemma tryS_assoc: "tryS (tryS m k) l = tryS m (\<lambda>x. tryS (k x) l)"
  by (rule state.expand) (auto simp: run_tryS fun_eq_iff split: prod.splits sum.splits)

lemma tryS_ret: "tryS (State_Monad.return (Inr x)) k = k x"
  by (rule state.expand) (simp add: run_tryS fun_eq_iff run_simps)

text \<open>A pure fallible computation, as a step.\<close>

definition lift_res :: "'e + 'a \<Rightarrow> ('s, 'e + 'a) state" where
  "lift_res r = State_Monad.return r"

lemma run_lift_res [run_simps]: "run_state (lift_res r) s = (r, s)"
  by (simp add: lift_res_def)

section \<open>Bytes and ASCII classes\<close>

definition byte :: "char \<Rightarrow> nat" where
  "byte c = of_char c"

definition is_ascii :: "char \<Rightarrow> bool" where
  "is_ascii c \<longleftrightarrow> byte c < 128"

definition is_ascii_digit :: "char \<Rightarrow> bool" where
  "is_ascii_digit c \<longleftrightarrow> 48 \<le> byte c \<and> byte c \<le> 57"

definition is_ascii_upper :: "char \<Rightarrow> bool" where
  "is_ascii_upper c \<longleftrightarrow> 65 \<le> byte c \<and> byte c \<le> 90"

definition is_ascii_lower :: "char \<Rightarrow> bool" where
  "is_ascii_lower c \<longleftrightarrow> 97 \<le> byte c \<and> byte c \<le> 122"

definition is_ascii_alphanumeric :: "char \<Rightarrow> bool" where
  "is_ascii_alphanumeric c \<longleftrightarrow> is_ascii_digit c \<or> is_ascii_upper c \<or> is_ascii_lower c"

definition is_ascii_control :: "char \<Rightarrow> bool" where
  "is_ascii_control c \<longleftrightarrow> byte c < 32 \<or> byte c = 127"

text \<open>\<open>u8::is_ascii_whitespace\<close>: space, tab, line feed, form feed, carriage return.\<close>

definition is_ascii_whitespace :: "char \<Rightarrow> bool" where
  "is_ascii_whitespace c \<longleftrightarrow> byte c \<in> {9, 10, 12, 13, 32}"

definition to_ascii_lower :: "char \<Rightarrow> char" where
  "to_ascii_lower c = (if is_ascii_upper c then char_of (byte c + 32) else c)"

definition eq_ignore_ascii_case :: "string \<Rightarrow> string \<Rightarrow> bool" where
  "eq_ignore_ascii_case a b \<longleftrightarrow> map to_ascii_lower a = map to_ascii_lower b"

lemmas ascii_defs = byte_def is_ascii_def is_ascii_digit_def is_ascii_upper_def
  is_ascii_lower_def is_ascii_alphanumeric_def is_ascii_control_def is_ascii_whitespace_def

section \<open>Text operations\<close>

definition starts_with :: "string \<Rightarrow> string \<Rightarrow> bool" where
  "starts_with p s \<longleftrightarrow> take (length p) s = p"

definition ends_with :: "string \<Rightarrow> string \<Rightarrow> bool" where
  "ends_with p s \<longleftrightarrow> length p \<le> length s \<and> drop (length s - length p) s = p"

definition strip_prefix :: "string \<Rightarrow> string \<Rightarrow> string option" where
  "strip_prefix p s = (if starts_with p s then Some (drop (length p) s) else None)"

definition strip_suffix :: "string \<Rightarrow> string \<Rightarrow> string option" where
  "strip_suffix p s = (if ends_with p s then Some (take (length s - length p) s) else None)"

lemma starts_with_iff: "starts_with p s \<longleftrightarrow> (\<exists>r. s = p @ r)"
proof
  assume "starts_with p s"
  then have "s = p @ drop (length p) s"
    by (metis append_take_drop_id starts_with_def)
  then show "\<exists>r. s = p @ r" ..
qed (auto simp: starts_with_def)

lemma strip_prefix_Some [return_iff]: "strip_prefix p s = Some r \<longleftrightarrow> s = p @ r"
  by (auto simp: strip_prefix_def starts_with_iff)

lemma strip_prefix_None: "strip_prefix p s = None \<longleftrightarrow> \<not> starts_with p s"
  by (auto simp: strip_prefix_def)

lemma ends_with_iff: "ends_with p s \<longleftrightarrow> (\<exists>r. s = r @ p)"
proof
  assume "ends_with p s"
  then have "s = take (length s - length p) s @ p"
    by (metis append_take_drop_id ends_with_def)
  then show "\<exists>r. s = r @ p" ..
qed (auto simp: ends_with_def)

lemma strip_suffix_Some [return_iff]: "strip_suffix p s = Some r \<longleftrightarrow> s = r @ p"
  by (auto simp: strip_suffix_def ends_with_iff)

text \<open>\<open>str::find\<close> with a predicate: the first byte offset whose byte satisfies it.\<close>

fun find_pos :: "(char \<Rightarrow> bool) \<Rightarrow> string \<Rightarrow> nat option" where
  "find_pos P [] = None"
| "find_pos P (c # s) = (if P c then Some 0 else map_option Suc (find_pos P s))"

lemma find_pos_Some:
  "find_pos P s = Some i \<longleftrightarrow> i < length s \<and> P (s ! i) \<and> (\<forall>j < i. \<not> P (s ! j))"
proof (induction s arbitrary: i)
  case Nil
  show ?case by simp
next
  case (Cons c s)
  show ?case
  proof (cases i)
    case 0
    then show ?thesis by auto
  next
    case (Suc k)
    have "(\<forall>j < Suc k. \<not> P ((c # s) ! j)) \<longleftrightarrow> \<not> P c \<and> (\<forall>j < k. \<not> P (s ! j))"
      by (auto simp: less_Suc_eq_0_disj)
    then show ?thesis using Cons.IH [of k] Suc by auto
  qed
qed

lemma find_pos_None: "find_pos P s = None \<longleftrightarrow> (\<forall>c \<in> set s. \<not> P c)"
  by (induction s) auto

text \<open>The first occurrence splits the text around the byte found.\<close>

lemma find_pos_split:
  "find_pos P s = Some i \<longleftrightarrow>
     (\<exists>a c b. s = a @ c # b \<and> length a = i \<and> P c \<and> (\<forall>x \<in> set a. \<not> P x))"
proof (induction s arbitrary: i)
  case Nil
  show ?case by simp
next
  case (Cons d s)
  show ?case
  proof (cases "P d")
    case True
    have "(\<exists>a c b. d # s = a @ c # b \<and> length a = i \<and> P c \<and> (\<forall>x \<in> set a. \<not> P x)) \<longleftrightarrow> i = 0"
    proof
      assume "\<exists>a c b. d # s = a @ c # b \<and> length a = i \<and> P c \<and> (\<forall>x \<in> set a. \<not> P x)"
      then obtain a c b where "d # s = a @ c # b" "length a = i" "\<forall>x \<in> set a. \<not> P x"
        by blast
      with True show "i = 0" by (cases a) auto
    next
      assume "i = 0"
      with True show "\<exists>a c b. d # s = a @ c # b \<and> length a = i \<and> P c \<and> (\<forall>x \<in> set a. \<not> P x)"
        by (intro exI [of _ "[]"] exI [of _ d] exI [of _ s]) simp
    qed
    with True show ?thesis by auto
  next
    case False
    have "(\<exists>a c b. d # s = a @ c # b \<and> length a = i \<and> P c \<and> (\<forall>x \<in> set a. \<not> P x)) \<longleftrightarrow>
        (\<exists>j. i = Suc j \<and> (\<exists>a c b. s = a @ c # b \<and> length a = j \<and> P c \<and> (\<forall>x \<in> set a. \<not> P x)))"
      (is "?L \<longleftrightarrow> ?R")
    proof
      assume ?L
      then obtain a c b where *: "d # s = a @ c # b" "length a = i" "P c" "\<forall>x \<in> set a. \<not> P x"
        by blast
      from * False obtain a' where "a = d # a'" by (cases a) auto
      with * show ?R by auto
    next
      assume ?R
      then obtain j a c b where "i = Suc j" "s = a @ c # b" "length a = j" "P c"
          "\<forall>x \<in> set a. \<not> P x" by blast
      with False show ?L by (intro exI [of _ "d # a"] exI [of _ c] exI [of _ b]) auto
    qed
    with False Cons.IH show ?thesis by auto
  qed
qed

text \<open>\<open>str::find\<close> and \<open>str::contains\<close> with a substring.\<close>

fun find_sub :: "string \<Rightarrow> string \<Rightarrow> nat option" where
  "find_sub p [] = (if p = [] then Some 0 else None)"
| "find_sub p (c # s) =
     (if starts_with p (c # s) then Some 0 else map_option Suc (find_sub p s))"

definition contains :: "string \<Rightarrow> string \<Rightarrow> bool" where
  "contains p s \<longleftrightarrow> find_sub p s \<noteq> None"

lemma find_sub_None: "find_sub p s = None \<longleftrightarrow> (\<forall>a b. s \<noteq> a @ p @ b)"
proof (induction s)
  case Nil
  show ?case by auto
next
  case (Cons c s)
  have "(\<exists>a b. c # s = a @ p @ b) \<longleftrightarrow> starts_with p (c # s) \<or> (\<exists>a b. s = a @ p @ b)"
  proof
    assume "\<exists>a b. c # s = a @ p @ b"
    then obtain a b where "c # s = a @ p @ b" by blast
    then show "starts_with p (c # s) \<or> (\<exists>a b. s = a @ p @ b)"
      by (cases a) (auto simp: starts_with_iff)
  next
    assume "starts_with p (c # s) \<or> (\<exists>a b. s = a @ p @ b)"
    then show "\<exists>a b. c # s = a @ p @ b"
      by (metis append_Cons append_Nil starts_with_iff)
  qed
  with Cons.IH show ?case by auto
qed

lemma contains_iff: "contains p s \<longleftrightarrow> (\<exists>a b. s = a @ p @ b)"
  by (auto simp: contains_def find_sub_None)

lemma find_sub_Some:
  "find_sub p s = Some i \<Longrightarrow> \<exists>b. s = take i s @ p @ b \<and> i \<le> length s"
proof (induction s arbitrary: i)
  case Nil
  then show ?case by (auto split: if_splits)
next
  case (Cons c s)
  show ?case
  proof (cases "starts_with p (c # s)")
    case True
    with Cons.prems show ?thesis by (auto simp: starts_with_iff)
  next
    case False
    with Cons.prems obtain j where j: "i = Suc j" "find_sub p s = Some j" by auto
    with Cons.IH show ?thesis by auto
  qed
qed

fun join :: "string \<Rightarrow> string list \<Rightarrow> string" where
  "join sep [] = []"
| "join sep [x] = x"
| "join sep (x # y # xs) = x @ sep @ join sep (y # xs)"

section \<open>UTF-8\<close>

definition is_cont :: "char \<Rightarrow> bool" where
  "is_cont c \<longleftrightarrow> 128 \<le> byte c \<and> byte c < 192"

text \<open>\<open>str::is_char_boundary\<close>.\<close>

definition is_char_boundary :: "string \<Rightarrow> nat \<Rightarrow> bool" where
  "is_char_boundary s i \<longleftrightarrow> i = 0 \<or> i = length s \<or> (i < length s \<and> \<not> is_cont (s ! i))"

text \<open>
  \<open>while !s.is_char_boundary(b) { b -= 1 }\<close>: the loop every truncation of the program
  runs.  It stops because offset 0 is a boundary.
\<close>

fun floor_boundary :: "string \<Rightarrow> nat \<Rightarrow> nat" where
  "floor_boundary s 0 = 0"
| "floor_boundary s (Suc b) =
     (if is_char_boundary s (Suc b) then Suc b else floor_boundary s b)"

lemma floor_boundary_le: "floor_boundary s b \<le> b"
  by (induction b) (simp_all add: le_SucI)

lemma floor_boundary_boundary: "is_char_boundary s (floor_boundary s b)"
  by (induction b) (simp_all add: is_char_boundary_def)

lemma floor_boundary_max:
  "is_char_boundary s i \<Longrightarrow> i \<le> b \<Longrightarrow> i \<le> floor_boundary s b"
  by (induction b) (auto simp: le_Suc_eq)

lemma floor_boundary_length [simp]: "floor_boundary s (length s) = length s"
  using floor_boundary_max [of s "length s" "length s"] floor_boundary_le [of s "length s"]
  by (simp add: is_char_boundary_def)

text \<open>\<open>chars()\<close>: the characters of a UTF-8 text, each as its bytes; a stray continuation byte,
  which valid text does not have, stands alone after an ASCII byte.\<close>

fun utf8_chars_aux :: "string \<Rightarrow> string \<Rightarrow> string list" where
  "utf8_chars_aux cur [] = (if cur = [] then [] else [cur])"
| "utf8_chars_aux cur (c # s) =
     (if is_cont c \<and> cur \<noteq> [] \<and> \<not> is_ascii (hd cur) then utf8_chars_aux (cur @ [c]) s
      else if cur = [] then utf8_chars_aux [c] s
      else cur # utf8_chars_aux [c] s)"

definition utf8_chars :: "string \<Rightarrow> string list" where
  "utf8_chars s = utf8_chars_aux [] s"

lemma concat_utf8_chars_aux: "concat (utf8_chars_aux cur s) = cur @ s"
  by (induction cur s rule: utf8_chars_aux.induct) auto

lemma concat_utf8_chars [simp]: "concat (utf8_chars s) = s"
  by (simp add: utf8_chars_def concat_utf8_chars_aux)

lemma utf8_chars_aux_ascii:
  "\<forall>c \<in> set s. is_ascii c \<Longrightarrow>
     utf8_chars_aux cur s = (if cur = [] then [] else [cur]) @ map (\<lambda>c. [c]) s"
proof (induction s arbitrary: cur)
  case Nil
  show ?case by simp
next
  case (Cons c s)
  then have "\<not> is_cont c" by (simp add: is_cont_def is_ascii_def)
  with Cons show ?case by simp
qed

lemma utf8_chars_ascii: "\<forall>c \<in> set s. is_ascii c \<Longrightarrow> utf8_chars s = map (\<lambda>c. [c]) s"
  by (simp add: utf8_chars_def utf8_chars_aux_ascii)

text \<open>\<open>str::from_utf8\<close> succeeds.\<close>

fun utf8_valid :: "string \<Rightarrow> bool" where
  "utf8_valid [] = True"
| "utf8_valid (a # s) =
     (if byte a < 128 then utf8_valid s
      else if 194 \<le> byte a \<and> byte a \<le> 223 then
        (case s of b # r \<Rightarrow> is_cont b \<and> utf8_valid r | _ \<Rightarrow> False)
      else if 224 \<le> byte a \<and> byte a \<le> 239 then
        (case s of b # c # r \<Rightarrow>
           (if byte a = 224 then 160 \<le> byte b \<and> byte b < 192
            else if byte a = 237 then 128 \<le> byte b \<and> byte b < 160 else is_cont b)
           \<and> is_cont c \<and> utf8_valid r
         | _ \<Rightarrow> False)
      else if 240 \<le> byte a \<and> byte a \<le> 244 then
        (case s of b # c # d # r \<Rightarrow>
           (if byte a = 240 then 144 \<le> byte b \<and> byte b < 192
            else if byte a = 244 then 128 \<le> byte b \<and> byte b < 144 else is_cont b)
           \<and> is_cont c \<and> is_cont d \<and> utf8_valid r
         | _ \<Rightarrow> False)
      else False)"

text \<open>\<open>String::push\<close>: the UTF-8 bytes of a codepoint.\<close>

definition utf8_encode :: "nat \<Rightarrow> string" where
  "utf8_encode n =
     (if n < 128 then [char_of n]
      else if n < 2048 then [char_of (192 + n div 64), char_of (128 + n mod 64)]
      else if n < 65536 then
        [char_of (224 + n div 4096), char_of (128 + (n div 64) mod 64), char_of (128 + n mod 64)]
      else [char_of (240 + n div 262144), char_of (128 + (n div 4096) mod 64),
            char_of (128 + (n div 64) mod 64), char_of (128 + n mod 64)])"

text \<open>\<open>String::truncate\<close> at the last character boundary not beyond \<open>k\<close>.\<close>

definition truncate_at :: "nat \<Rightarrow> string \<Rightarrow> string" where
  "truncate_at k s = (if k < length s then take (floor_boundary s k) s else s)"

lemma truncate_at_length: "length (truncate_at k s) \<le> k"
  using floor_boundary_le [of s k] by (auto simp: truncate_at_def)

lemma truncate_at_prefix: "\<exists>r. s = truncate_at k s @ r"
  by (auto simp: truncate_at_def intro: exI [of _ "drop (floor_boundary s k) s"])

text \<open>\<open>trim_matches\<close> with a predicate.\<close>

definition trim_matches :: "(char \<Rightarrow> bool) \<Rightarrow> string \<Rightarrow> string" where
  "trim_matches P s = rev (dropWhile P (rev (dropWhile P s)))"

lemma length_trim_matches: "length (trim_matches P s) \<le> length s"
  by (simp add: trim_matches_def) (metis length_dropWhile_le length_rev order_trans)

section \<open>Numbers as text\<close>

text \<open>Decimal output of \<open>format!("{n}")\<close>.\<close>

definition digit_char :: "nat \<Rightarrow> char" where
  "digit_char d = char_of (48 + d)"

fun show_nat :: "nat \<Rightarrow> string" where
  "show_nat n = (if n < 10 then [digit_char n] else show_nat (n div 10) @ [digit_char (n mod 10)])"

declare show_nat.simps [simp del]

definition show_int :: "int \<Rightarrow> string" where
  "show_int i = (if i < 0 then ''-'' @ show_nat (nat (- i)) else show_nat (nat i))"

text \<open>The digits of \<open>from_str_radix(_, 10)\<close>; \<open>None\<close> where a byte is not a digit.\<close>

fun digits_value :: "nat \<Rightarrow> string \<Rightarrow> nat option" where
  "digits_value acc [] = Some acc"
| "digits_value acc (c # s) =
     (if is_ascii_digit c then digits_value (10 * acc + (byte c - 48)) s else None)"

text \<open>\<open>str::parse\<close> at an unsigned type with \<open>w\<close> bits: an optional plus sign, at least one
  digit, no overflow.\<close>

definition parse_unsigned :: "nat \<Rightarrow> string \<Rightarrow> nat option" where
  "parse_unsigned w s =
     (let ds = (case s of [] \<Rightarrow> [] | c # r \<Rightarrow> if c = CHR ''+'' then r else s) in
      if ds = [] then None
      else case digits_value 0 ds of None \<Rightarrow> None
           | Some n \<Rightarrow> if n < 2 ^ w then Some n else None)"

text \<open>\<open>str::parse\<close> at a signed type with \<open>w\<close> bits.\<close>

definition parse_signed :: "nat \<Rightarrow> string \<Rightarrow> int option" where
  "parse_signed w s =
     (case s of [] \<Rightarrow> None
      | c # r \<Rightarrow>
        (let neg = (c = CHR ''-'');
             ds = (if c = CHR ''+'' \<or> c = CHR ''-'' then r else s) in
         if ds = [] then None
         else case digits_value 0 ds of None \<Rightarrow> None
              | Some n \<Rightarrow>
                (if neg then (if n \<le> 2 ^ (w - 1) then Some (- int n) else None)
                 else (if n < 2 ^ (w - 1) then Some (int n) else None))))"

lemma parse_unsigned_bound: "parse_unsigned w s = Some n \<Longrightarrow> n < 2 ^ w"
  by (auto simp: parse_unsigned_def Let_def split: if_splits option.splits)

lemma parse_signed_bound:
  assumes "parse_signed w s = Some i"
  shows "- (2 ^ (w - 1)) \<le> i \<and> i < 2 ^ (w - 1)"
proof -
  have pos: "0 < (2::int) ^ (w - 1)" by simp
  have cast: "int n \<le> 2 ^ (w - 1)" if "n \<le> 2 ^ (w - 1)" for n
    using that by (metis of_nat_le_iff of_nat_numeral of_nat_power)
  have cast': "int n < 2 ^ (w - 1)" if "n < 2 ^ (w - 1)" for n
    using that by (metis of_nat_less_iff of_nat_numeral of_nat_power)
  obtain n where "(i = - int n \<and> n \<le> 2 ^ (w - 1)) \<or> (i = int n \<and> n < 2 ^ (w - 1))"
    using assms by (auto simp: parse_signed_def Let_def split: if_splits option.splits list.splits)
  then show ?thesis
  proof
    assume "i = - int n \<and> n \<le> 2 ^ (w - 1)"
    with cast [of n] pos show ?thesis by linarith
  next
    assume "i = int n \<and> n < 2 ^ (w - 1)"
    with cast' [of n] pos show ?thesis by linarith
  qed
qed

text \<open>Lower-case hexadecimal output of \<open>format!("{byte:02x}")\<close>.\<close>

definition hex_char :: "nat \<Rightarrow> char" where
  "hex_char d = (if d < 10 then char_of (48 + d) else char_of (87 + d))"

definition hex_byte :: "char \<Rightarrow> string" where
  "hex_byte c = [hex_char (byte c div 16), hex_char (byte c mod 16)]"

text \<open>Upper-case hexadecimal padded to four digits, \<open>format!("{:04X}")\<close>.\<close>

definition hex_char_upper :: "nat \<Rightarrow> char" where
  "hex_char_upper d = (if d < 10 then char_of (48 + d) else char_of (55 + d))"

fun show_hex_upper :: "nat \<Rightarrow> string" where
  "show_hex_upper n =
     (if n < 16 then [hex_char_upper n] else show_hex_upper (n div 16) @ [hex_char_upper (n mod 16)])"

declare show_hex_upper.simps [simp del]

definition show_hex4 :: "nat \<Rightarrow> string" where
  "show_hex4 n = (let s = show_hex_upper n in replicate (4 - length s) (CHR ''0'') @ s)"

definition is_lower_hex :: "char \<Rightarrow> bool" where
  "is_lower_hex c \<longleftrightarrow> is_ascii_digit c \<or> (97 \<le> byte c \<and> byte c \<le> 102)"

lemma hex_char_lower: "d < 16 \<Longrightarrow> is_lower_hex (hex_char d)"
  by (auto simp: hex_char_def is_lower_hex_def is_ascii_digit_def byte_def)

lemma byte_less [simp]: "byte c < 256"
  by (simp add: byte_def)

lemma hex_byte_lower:
  assumes "x \<in> set (hex_byte c)"
  shows "is_lower_hex x"
proof -
  have "byte c div 16 < 16" using byte_less [of c] by (simp add: div_less_iff_less_mult)
  with assms show ?thesis by (auto simp: hex_byte_def intro!: hex_char_lower)
qed

end
