(* ===== verification/Errors.thy ===== *)
theory Errors
  imports Prelude
begin

text \<open>
  The error categories of \<^verbatim>\<open>rust-panosmcp-core/src/error.rs\<close>: one constructor per
  variant of \<open>PanosMcpError\<close>, the text the \<open>#[error(...)]\<close> attribute of each variant
  prints, and the one constructor that redacts the device's own message.
  Paths and operating-system errors are carried as their printed text.
\<close>

datatype panos_error =
    Configuration string
  | Inventory string
  | Secret string
  | FileSecurity string string string
  | FileIo string string string
  | UnknownDevice string
  | Tls string string
  | Transport string string
  | HttpStatus string nat
  | Api string int string string
  | InputTooLarge string nat
  | Xml string
  | ResponseTooLarge string nat
  | Policy string string
  | Timeout string
  | Cancelled

type_synonym 'a res = "panos_error + 'a"

text \<open>\<open>Display\<close> of an error.\<close>

fun error_text :: "panos_error \<Rightarrow> string" where
  "error_text (Configuration m) = ''configuration error: '' @ m"
| "error_text (Inventory m) = ''inventory error: '' @ m"
| "error_text (Secret m) = ''secret error: '' @ m"
| "error_text (FileSecurity purpose path reason) =
     purpose @ '' file '' @ [CHR 0x27] @ path @ [CHR 0x27] @ '' is unsafe: '' @ reason"
| "error_text (FileIo purpose path err) =
     ''failed to read '' @ purpose @ '' file '' @ [CHR 0x27] @ path @ [CHR 0x27] @ '': '' @ err"
| "error_text (UnknownDevice d) = ''unknown device '' @ [CHR 0x27] @ d @ [CHR 0x27]"
| "error_text (Tls d reason) =
     ''TLS configuration error for device '' @ [CHR 0x27] @ d @ [CHR 0x27] @ '': '' @ reason"
| "error_text (Transport d reason) =
     ''PAN-OS transport error for device '' @ [CHR 0x27] @ d @ [CHR 0x27] @ '': '' @ reason"
| "error_text (HttpStatus d status) =
     ''PAN-OS HTTP status '' @ show_nat status @ '' for device '' @ [CHR 0x27] @ d @ [CHR 0x27]"
| "error_text (Api d code name m) =
     ''PAN-OS API error for device '' @ [CHR 0x27] @ d @ [CHR 0x27] @ '': code='' @ show_int code
       @ '' ('' @ name @ ''): '' @ m"
| "error_text (InputTooLarge field limit) =
     ''input '' @ [CHR 0x27] @ field @ [CHR 0x27] @ '' exceeds the '' @ show_nat limit @ ''-byte limit''"
| "error_text (Xml m) = ''XML error: '' @ m"
| "error_text (ResponseTooLarge d limit) =
     ''PAN-OS response for device '' @ [CHR 0x27] @ d @ [CHR 0x27] @ '' exceeds the ''
       @ show_nat limit @ ''-byte limit''"
| "error_text (Policy field reason) = ''policy rejected '' @ field @ '': '' @ reason"
| "error_text (Timeout op) = ''operation '' @ [CHR 0x27] @ op @ [CHR 0x27] @ '' timed out''"
| "error_text Cancelled = ''operation cancelled''"

text \<open>\<open>PanosMcpError::api\<close>: \<open>redact_text\<close> is the redaction crate's text pass.\<close>

definition api_error ::
  "(string \<Rightarrow> string) \<Rightarrow> string \<Rightarrow> int \<Rightarrow> string \<Rightarrow> string \<Rightarrow> panos_error" where
  "api_error redact_text device code name message = Api device code name (redact_text message)"

end
