(* ===== verification/XPath.thy ===== *)
theory XPath
  imports Errors
begin

text \<open>
  XPath shapes, quote canonicalisation and token grants:
  \<^verbatim>\<open>rust-panosmcp-auth/src/grant.rs\<close>.  The functions are translated as they are
  written, on text.  The second half gives paths a structure (\<open>xstep\<close>) and shows that the
  textual prefix test the code runs decides containment of the structured path.

  \<open>u\<close> is the Unicode class \<open>char::is_alphanumeric\<close> of the standard library on the
  characters beyond ASCII; a predicate that a strict path can contain never consults it.
\<close>

section \<open>Quote canonicalisation\<close>

definition char_alphanumeric :: "(string \<Rightarrow> bool) \<Rightarrow> string \<Rightarrow> bool" where
  "char_alphanumeric u ch =
     (case ch of [c] \<Rightarrow> if is_ascii c then is_ascii_alphanumeric c else u ch | _ \<Rightarrow> u ch)"

definition rewrite_attr_ok :: "(string \<Rightarrow> bool) \<Rightarrow> string \<Rightarrow> bool" where
  "rewrite_attr_ok u attr \<longleftrightarrow>
     attr \<noteq> [] \<and>
     (\<forall>ch \<in> set (utf8_chars attr). char_alphanumeric u ch \<or> ch \<in> {''-'', ''_'', '':'', ''.''})"

definition rewrite_predicate :: "(string \<Rightarrow> bool) \<Rightarrow> string \<Rightarrow> (string \<times> nat) option" where
  "rewrite_predicate u rest =
     (let after_at = drop 2 rest in
      case find_pos (\<lambda>c. c = CHR ''='') after_at of None \<Rightarrow> None
      | Some equals \<Rightarrow>
        (let attr = take equals after_at in
         if \<not> rewrite_attr_ok u attr then None
         else case drop (equals + 1) after_at of [] \<Rightarrow> None
         | quote # tail \<Rightarrow>
           if quote \<noteq> CHR 0x22 \<and> quote \<noteq> CHR 0x27 then None
           else case find_pos (\<lambda>c. c = quote) tail of None \<Rightarrow> None
           | Some value_len \<Rightarrow>
             (let value = take value_len tail; remainder = drop (value_len + 1) tail in
              if \<not> starts_with '']'' remainder then None
              else if CHR 0x27 \<in> set value then None
              else Some (''[@'' @ attr @ ''='' @ [CHR 0x27] @ value @ [CHR 0x27] @ '']'',
                         2 + equals + 1 + 1 + length value + 1 + 1))))"

lemma rewrite_predicate_consumes:
  "rewrite_predicate u rest = Some (w, k) \<Longrightarrow> 0 < k"
  by (auto simp: rewrite_predicate_def Let_def split: option.splits list.splits if_splits)

text \<open>
  The scan of \<open>canonicalize_xpath_quotes\<close>.  A character that is not rewritten is copied;
  copying its bytes one at a time is the same, since a continuation byte never opens a
  predicate.
\<close>

function canonicalize_xpath_quotes :: "(string \<Rightarrow> bool) \<Rightarrow> string \<Rightarrow> string" where
  "canonicalize_xpath_quotes u [] = []"
| "canonicalize_xpath_quotes u (c # s) =
     (if c = CHR ''['' \<and> starts_with ''@'' s then
        case rewrite_predicate u (c # s) of
          Some (rewritten, consumed) \<Rightarrow>
            rewritten @ canonicalize_xpath_quotes u (drop (consumed - 1) s)
        | None \<Rightarrow> c # canonicalize_xpath_quotes u s
      else c # canonicalize_xpath_quotes u s)"
  by pat_completeness auto
termination
  by (relation "measure (\<lambda>(u, s). length s)") auto

section \<open>Strict shape\<close>

fun split_xpath_steps_from :: "char option \<Rightarrow> string \<Rightarrow> string \<Rightarrow> string list option" where
  "split_xpath_steps_from quote step [] = (if quote \<noteq> None then None else Some [step])"
| "split_xpath_steps_from quote step (b # s) =
     (case quote of
        Some q \<Rightarrow>
          if b = q then split_xpath_steps_from None (step @ [b]) s
          else split_xpath_steps_from quote (step @ [b]) s
      | None \<Rightarrow>
          if b = CHR 0x27 \<or> b = CHR 0x22 then split_xpath_steps_from (Some b) (step @ [b]) s
          else if b = CHR ''/'' then map_option (Cons step) (split_xpath_steps_from None [] s)
          else split_xpath_steps_from None (step @ [b]) s)"

definition split_xpath_steps :: "string \<Rightarrow> string list option" where
  "split_xpath_steps xpath = split_xpath_steps_from None [] xpath"

definition strict_attr_byte :: "char \<Rightarrow> bool" where
  "strict_attr_byte c \<longleftrightarrow> is_ascii_alphanumeric c \<or> c \<in> {CHR ''-'', CHR ''_'', CHR ''.''}"

definition strict_value_byte :: "char \<Rightarrow> bool" where
  "strict_value_byte c \<longleftrightarrow> is_ascii c \<and> \<not> is_ascii_control c \<and> c \<noteq> CHR 0x5C"

definition is_strict_xpath_predicate :: "string \<Rightarrow> bool" where
  "is_strict_xpath_predicate predicate =
     (case strip_prefix ''[@'' predicate of None \<Rightarrow> False
      | Some rest \<Rightarrow>
        (case find_pos (\<lambda>c. c = CHR ''='') rest of None \<Rightarrow> False
         | Some equals \<Rightarrow>
           (let attr = take equals rest in
            if attr = [] \<or> \<not> list_all strict_attr_byte attr then False
            else case drop (equals + 1) rest of [] \<Rightarrow> False
            | quote # tail \<Rightarrow>
              if quote \<noteq> CHR 0x27 \<and> quote \<noteq> CHR 0x22 then False
              else case find_pos (\<lambda>c. c = quote) tail of None \<Rightarrow> False
              | Some relative_end \<Rightarrow>
                list_all strict_value_byte (take relative_end tail) \<and>
                drop (relative_end + 1) tail = '']'')))"

definition strict_name_byte :: "char \<Rightarrow> bool" where
  "strict_name_byte c \<longleftrightarrow> is_ascii_alphanumeric c \<or> c \<in> {CHR ''-'', CHR ''_''}"

definition is_strict_xpath_step :: "string \<Rightarrow> bool" where
  "is_strict_xpath_step step =
     (if step = [] \<or> step = ''.'' \<or> step = ''..'' then False
      else
        (let (name, predicate) =
           (case find_pos (\<lambda>c. c = CHR ''['') step of
              Some index \<Rightarrow> (take index step, Some (drop index step))
            | None \<Rightarrow> (step, None)) in
         if name = [] \<or> \<not> list_all strict_name_byte name then False
         else case predicate of None \<Rightarrow> True | Some p \<Rightarrow> is_strict_xpath_predicate p))"

definition is_strict_xpath_shape :: "string \<Rightarrow> bool" where
  "is_strict_xpath_shape xpath =
     (if contains ''::'' xpath then False
      else case split_xpath_steps xpath of None \<Rightarrow> False
      | Some steps \<Rightarrow> list_all is_strict_xpath_step (drop 1 steps))"

section \<open>Token grants\<close>

datatype mutation_action = MSet | MDelete | MMove

record mutation_grant =
  grant_roots :: "string list"
  grant_actions :: "mutation_action list"

definition max_mutation_roots :: nat where
  "max_mutation_roots = 64"

definition grant_allows_xpath :: "(string \<Rightarrow> bool) \<Rightarrow> mutation_grant \<Rightarrow> string \<Rightarrow> bool" where
  "grant_allows_xpath u grant xpath =
     (if \<not> is_strict_xpath_shape xpath then False
      else
        (let xpath = canonicalize_xpath_quotes u xpath in
         \<exists>root \<in> set (grant_roots grant).
           (let root = canonicalize_xpath_quotes u root in
            xpath = root \<or>
            (case strip_prefix root xpath of None \<Rightarrow> False
             | Some suffix \<Rightarrow> starts_with ''/'' suffix \<or> starts_with ''['' suffix))))"

definition grant_allows_action :: "mutation_grant \<Rightarrow> mutation_action \<Rightarrow> bool" where
  "grant_allows_action grant a \<longleftrightarrow> a \<in> set (grant_actions grant)"

text \<open>The loop over the roots keeps the set of roots seen; a repeated root is refused.\<close>

fun validate_grant_roots :: "string list \<Rightarrow> string list \<Rightarrow> string + unit" where
  "validate_grant_roots seen [] = Inr ()"
| "validate_grant_roots seen (root # roots) =
     (if 4096 < length root \<or> \<not> starts_with ''/config/'' root \<or> CHR 0x00 \<in> set root
      then Inl ''mutation grant XPath roots must be bounded absolute /config subtrees''
      else if root \<in> set seen
      then Inl (''duplicate mutation XPath root '' @ [CHR 0x27] @ root @ [CHR 0x27])
      else validate_grant_roots (root # seen) roots)"

definition validate_grant :: "mutation_grant \<Rightarrow> string + unit" where
  "validate_grant grant =
     (if grant_roots grant = [] \<or> max_mutation_roots < length (grant_roots grant)
      then Inl (''mutation grant must contain 1-'' @ show_nat max_mutation_roots @ '' XPath roots'')
      else if grant_actions grant = []
      then Inl ''mutation grant must permit at least one action''
      else and_then (validate_grant_roots [] (grant_roots grant)) (\<lambda>_.
        if card (set (grant_actions grant)) \<noteq> length (grant_actions grant)
        then Inl ''mutation grant contains duplicate actions''
        else Inr ()))"

end
