(* ===== verification/XPathSpec.thy ===== *)
theory XPathSpec
  imports XPath
begin

text \<open>
  What the textual XPath checks of \<open>XPath\<close> decide.  A strict path is given its structure, a
  list of steps (\<open>xstep\<close>); \<open>covers\<close> is containment of one structured path in
  another.  The locale \<open>root_guard\<close> is the interface of a check that compares a
  canonicalised path with canonicalised roots; the token grant is one instance here, the
  device policy is another in \<open>XmlInput\<close>.
\<close>

section \<open>Structured paths\<close>

datatype xstep = XStep (step_name: string) (step_pred: "(string \<times> string) option")

definition parse_step_predicate :: "string \<Rightarrow> string \<times> string" where
  "parse_step_predicate p =
     (let rest = drop 2 p; attr = takeWhile (\<lambda>c. c \<noteq> CHR ''='') rest;
          quoted = drop (length attr + 1) rest in
      (attr, takeWhile (\<lambda>c. c \<noteq> hd quoted) (tl quoted)))"

definition parse_step :: "string \<Rightarrow> xstep" where
  "parse_step s =
     (let name = takeWhile (\<lambda>c. c \<noteq> CHR ''['') s; p = drop (length name) s in
      XStep name (if p = [] then None else Some (parse_step_predicate p)))"

definition xpath_steps :: "string \<Rightarrow> xstep list option" where
  "xpath_steps x =
     (if is_strict_xpath_shape x then map_option (\<lambda>steps. map parse_step (drop 1 steps)) (split_xpath_steps x)
      else None)"

fun raw_step :: "char \<Rightarrow> xstep \<Rightarrow> string" where
  "raw_step q (XStep n None) = n"
| "raw_step q (XStep n (Some (a, v))) = n @ ''[@'' @ a @ ''='' @ [q] @ v @ [q] @ '']''"

fun wf_step :: "char \<Rightarrow> xstep \<Rightarrow> bool" where
  "wf_step q (XStep n p) \<longleftrightarrow>
     n \<noteq> [] \<and> list_all strict_name_byte n \<and> q \<in> {CHR 0x27, CHR 0x22} \<and>
     (case p of None \<Rightarrow> True
      | Some (a, v) \<Rightarrow> a \<noteq> [] \<and> list_all strict_attr_byte a \<and> list_all strict_value_byte v \<and> q \<notin> set v)"

definition path_text :: "(char \<times> xstep) list \<Rightarrow> string" where
  "path_text qs = concat (map (\<lambda>(q, st). CHR ''/'' # raw_step q st) qs)"

definition canon_text :: "xstep list \<Rightarrow> string" where
  "canon_text sts = path_text (map (Pair (CHR 0x27)) sts)"

text \<open>A value with an apostrophe can only be written in double quotes; the others are plain.\<close>

definition plain_step :: "xstep \<Rightarrow> bool" where
  "plain_step st \<longleftrightarrow> (case step_pred st of None \<Rightarrow> True | Some (a, v) \<Rightarrow> CHR 0x27 \<notin> set v)"

definition plain_path :: "string \<Rightarrow> bool" where
  "plain_path x \<longleftrightarrow>
     starts_with ''/'' x \<and> (case xpath_steps x of None \<Rightarrow> False | Some sts \<Rightarrow> list_all plain_step sts)"

text \<open>
  Containment: equal up to the root's length.  With \<open>br\<close>, a root that ends in a bare name
  also contains the paths that put a predicate on that name.
\<close>

fun covers :: "bool \<Rightarrow> xstep list \<Rightarrow> xstep list \<Rightarrow> bool" where
  "covers br [] xs = True"
| "covers br (r # rs) [] = False"
| "covers br (r # rs) (x # xs) =
     ((r = x \<and> covers br rs xs) \<or>
      (br \<and> rs = [] \<and> step_pred r = None \<and> step_pred x \<noteq> None \<and> step_name r = step_name x))"

section \<open>Lexical lemmas\<close>

lemma find_pos_first:
  "\<forall>x \<in> set a. \<not> P x \<Longrightarrow> P c \<Longrightarrow> find_pos P (a @ c # b) = Some (length a)"
  by (auto simp: find_pos_split)

lemma split_unique:
  assumes "a @ r = b @ t" and "\<forall>c \<in> set a. P c" and "\<forall>c \<in> set b. P c"
    and "r = [] \<or> \<not> P (hd r)" and "t = [] \<or> \<not> P (hd t)"
  shows "a = b \<and> r = t"
proof -
  have tw: "takeWhile P (s @ w) = s" if "\<forall>c \<in> set s. P c" "w = [] \<or> \<not> P (hd w)" for s w
    using that by (cases w) (auto simp: takeWhile_append takeWhile_eq_all_conv)
  have "a = takeWhile P (a @ r)" using tw [of a r] assms(2,4) by simp
  also have "\<dots> = b" using tw [of b t] assms(1,3,5) by simp
  finally show ?thesis using assms(1) by simp
qed

lemma name_byte_not [simp]:
  "\<not> strict_name_byte (CHR ''['')" "\<not> strict_name_byte (CHR ''/'')"
  "\<not> strict_name_byte (CHR 0x27)" "\<not> strict_name_byte (CHR 0x22)"
  "\<not> strict_name_byte (CHR ''.'')"
  by (auto simp: strict_name_byte_def ascii_defs)

lemma attr_byte_not [simp]:
  "\<not> strict_attr_byte (CHR ''['')" "\<not> strict_attr_byte (CHR ''='')"
  "\<not> strict_attr_byte (CHR ''/'')"
  "\<not> strict_attr_byte (CHR 0x27)" "\<not> strict_attr_byte (CHR 0x22)"
  by (auto simp: strict_attr_byte_def ascii_defs)

lemma attr_byte_ascii: "strict_attr_byte c \<Longrightarrow> is_ascii c"
  by (auto simp: strict_attr_byte_def ascii_defs)

lemma all_ne: "list_all P a \<Longrightarrow> \<not> P d \<Longrightarrow> \<forall>c \<in> set a. c \<noteq> d"
  by (auto simp: list_all_iff)

lemma strict_attr_rewrite_ok:
  assumes "a \<noteq> []" and "list_all strict_attr_byte a"
  shows "rewrite_attr_ok u a"
proof -
  have "\<forall>c \<in> set a. is_ascii c"
    using assms(2) attr_byte_ascii by (auto simp: list_all_iff)
  then show ?thesis
    using assms attr_byte_ascii
    by (auto simp: rewrite_attr_ok_def utf8_chars_ascii char_alphanumeric_def list_all_iff
        strict_attr_byte_def)
qed

section \<open>Steps and their text\<close>

lemma takeWhile_none: "\<forall>x \<in> set a. x \<noteq> d \<Longrightarrow> takeWhile (\<lambda>c. c \<noteq> d) a = a"
  by (induction a) auto

lemma takeWhile_until:
  "\<forall>x \<in> set a. x \<noteq> d \<Longrightarrow> takeWhile (\<lambda>c. c \<noteq> d) (a @ d # b) = a"
  by (induction a) auto

lemma parse_raw_step:
  assumes "wf_step q st"
  shows "parse_step (raw_step q st) = st"
proof (cases st)
  case (XStep n p)
  with assms have n: "\<forall>c \<in> set n. c \<noteq> CHR ''[''"
    using all_ne [of strict_name_byte n "CHR ''[''"] by simp
  show ?thesis
  proof (cases p)
    case None
    with XStep show ?thesis by (simp add: parse_step_def Let_def takeWhile_none [OF n])
  next
    case (Some av)
    obtain a v where av: "av = (a, v)" by (cases av)
    with Some XStep assms have a: "\<forall>c \<in> set a. c \<noteq> CHR ''=''" and v: "\<forall>c \<in> set v. c \<noteq> q"
      using all_ne [of strict_attr_byte a "CHR ''=''"] by auto
    have s: "raw_step q st = n @ CHR ''['' # CHR ''@'' # a @ CHR ''='' # q # v @ q # '']''"
      using XStep Some av by simp
    show ?thesis
      using XStep Some av takeWhile_until [OF n] takeWhile_until [OF a] takeWhile_until [OF v]
      unfolding s by (simp add: parse_step_def parse_step_predicate_def Let_def)
  qed
qed

lemma strict_predicate_shape:
  assumes "is_strict_xpath_predicate p"
  shows "\<exists>a q v. p = ''[@'' @ a @ ''='' @ [q] @ v @ [q] @ '']'' \<and> a \<noteq> [] \<and>
    list_all strict_attr_byte a \<and> q \<in> {CHR 0x27, CHR 0x22} \<and> list_all strict_value_byte v \<and> q \<notin> set v"
proof -
  obtain rest where r: "p = ''[@'' @ rest" and sp: "strip_prefix ''[@'' p = Some rest"
    using assms by (auto simp: is_strict_xpath_predicate_def strip_prefix_Some split: option.splits)
  obtain e where e: "find_pos (\<lambda>c. c = CHR ''='') rest = Some e"
    using assms by (auto simp: is_strict_xpath_predicate_def sp split: option.splits)
  have a: "take e rest \<noteq> []" "list_all strict_attr_byte (take e rest)"
    using assms by (simp_all add: is_strict_xpath_predicate_def sp e Let_def split: if_splits)
  obtain q tail where t: "drop (e + 1) rest = q # tail"
    using assms by (auto simp: is_strict_xpath_predicate_def sp e Let_def split: if_splits list.splits)
  have q: "q \<in> {CHR 0x27, CHR 0x22}"
    using assms t a by (auto simp: is_strict_xpath_predicate_def sp e Let_def split: if_splits)
  obtain i where i: "find_pos (\<lambda>c. c = q) tail = Some i"
    using assms t a q
    by (cases "find_pos (\<lambda>c. c = q) tail") (auto simp: is_strict_xpath_predicate_def sp e Let_def)
  have v: "list_all strict_value_byte (take i tail)" and fin: "drop (i + 1) tail = '']''"
    using assms t a q i by (auto simp: is_strict_xpath_predicate_def sp e Let_def)
  obtain a' b where ab: "rest = a' @ CHR ''='' # b" "length a' = e"
    using e unfolding find_pos_split by blast
  obtain v' w where vw: "tail = v' @ q # w" "length v' = i" "\<forall>c \<in> set v'. c \<noteq> q"
    using i unfolding find_pos_split by blast
  have "b = q # tail" using t ab by simp
  moreover have "w = '']''" using fin vw by simp
  ultimately have "p = ''[@'' @ a' @ ''='' @ [q] @ v' @ [q] @ '']''"
    using r ab vw by simp
  moreover have "a' = take e rest" "v' = take i tail" using ab vw by simp_all
  ultimately show ?thesis using a q v vw(3) by blast
qed

lemma strict_step_shape:
  assumes "is_strict_xpath_step s"
  shows "\<exists>q st. wf_step q st \<and> s = raw_step q st"
proof (cases "find_pos (\<lambda>c. c = CHR ''['') s")
  case None
  with assms have "wf_step (CHR 0x27) (XStep s None)"
    by (simp add: is_strict_xpath_step_def split: if_splits)
  then show ?thesis by (intro exI [of _ "CHR 0x27"] exI [of _ "XStep s None"]) simp
next
  case (Some i)
  with assms have n: "take i s \<noteq> []" "list_all strict_name_byte (take i s)"
    and p: "is_strict_xpath_predicate (drop i s)"
    by (simp_all add: is_strict_xpath_step_def split: if_splits)
  obtain a q v where av: "drop i s = ''[@'' @ a @ ''='' @ [q] @ v @ [q] @ '']''" "a \<noteq> []"
    "list_all strict_attr_byte a" "q \<in> {CHR 0x27, CHR 0x22}" "list_all strict_value_byte v" "q \<notin> set v"
    using strict_predicate_shape [OF p] by blast
  have "s = take i s @ drop i s" by simp
  also have "\<dots> = raw_step q (XStep (take i s) (Some (a, v)))"
    unfolding av(1) by simp
  finally have "s = raw_step q (XStep (take i s) (Some (a, v)))" .
  moreover have "wf_step q (XStep (take i s) (Some (a, v)))" using n av by simp
  ultimately show ?thesis by blast
qed

lemma wf_step_strict:
  assumes "wf_step q st"
  shows "is_strict_xpath_step (raw_step q st)"
proof (cases st)
  case (XStep n p)
  with assms have n: "\<forall>c \<in> set n. c \<noteq> CHR ''[''" "n \<noteq> []" "list_all strict_name_byte n"
    using all_ne [of strict_name_byte n "CHR ''[''"] by auto
  show ?thesis
  proof (cases p)
    case None
    moreover have "n \<noteq> ''.''" "n \<noteq> ''..''" using n(3) by auto
    moreover have "find_pos (\<lambda>c. c = CHR ''['') n = None" using n(1) by (simp add: find_pos_None)
    ultimately show ?thesis using XStep n by (simp add: is_strict_xpath_step_def)
  next
    case (Some av)
    obtain a v where av: "av = (a, v)" by (cases av)
    with Some XStep assms have a: "\<forall>c \<in> set a. c \<noteq> CHR ''=''" "a \<noteq> []" "list_all strict_attr_byte a"
      and v: "\<forall>c \<in> set v. c \<noteq> q" "list_all strict_value_byte v" and q: "q \<in> {CHR 0x27, CHR 0x22}"
      using all_ne [of strict_attr_byte a "CHR ''=''"] by auto
    define pr where "pr = CHR ''['' # CHR ''@'' # a @ CHR ''='' # q # v @ q # '']''"
    have s: "raw_step q st = n @ pr" using XStep Some av by (simp add: pr_def)
    have "find_pos (\<lambda>c. c = CHR ''['') (n @ pr) = Some (length n)"
      using n(1) unfolding pr_def by (intro find_pos_first) auto
    moreover have "is_strict_xpath_predicate pr"
      using find_pos_first [of a "\<lambda>c. c = CHR ''=''" "CHR ''=''" "q # v @ q # '']''"]
        find_pos_first [of v "\<lambda>c. c = q" q "'']''"] a v q
      by (auto simp: is_strict_xpath_predicate_def strip_prefix_def starts_with_def pr_def Let_def)
    moreover have "n @ pr \<noteq> ''.''" "n @ pr \<noteq> ''..''" using n(2) by (auto simp: pr_def Cons_eq_append_conv append_eq_Cons_conv)
    ultimately show ?thesis using n unfolding s by (simp add: is_strict_xpath_step_def pr_def)
  qed
qed

section \<open>Splitting\<close>

lemma split_from_join:
  "split_xpath_steps_from q step s = Some steps \<Longrightarrow>
     \<exists>t ts. steps = t # ts \<and> step @ s = t @ concat (map (Cons (CHR ''/'')) ts)"
proof (induction q step s arbitrary: steps rule: split_xpath_steps_from.induct)
  case (1 q step)
  then show ?case by (auto split: if_splits)
next
  case (2 q step b s)
  show ?case
  proof (cases q)
    case None
    show ?thesis
    proof (cases "b = CHR ''/''")
      case True
      with None 2(6) obtain ts where "split_xpath_steps_from None [] s = Some ts" "steps = step # ts"
        by auto
      with 2(2) [OF None] True show ?thesis by fastforce
    next
      case False
      with None 2 show ?thesis by (auto split: if_splits)
    qed
  next
    case (Some d)
    with 2 show ?thesis by (auto split: if_splits)
  qed
qed

lemma split_from_unquoted:
  "\<forall>c \<in> set n. c \<noteq> CHR ''/'' \<and> c \<noteq> CHR 0x27 \<and> c \<noteq> CHR 0x22 \<Longrightarrow>
     split_xpath_steps_from None step (n @ s) = split_xpath_steps_from None (step @ n) s"
  by (induction n arbitrary: step) auto

lemma split_from_quoted:
  "\<forall>c \<in> set v. c \<noteq> q \<Longrightarrow>
     split_xpath_steps_from (Some q) step (v @ q # s) = split_xpath_steps_from None (step @ v @ [q]) s"
  by (induction v arbitrary: step) auto

lemma split_from_raw_step:
  assumes "wf_step q st"
  shows "split_xpath_steps_from None step (raw_step q st @ s)
    = split_xpath_steps_from None (step @ raw_step q st) s"
proof (cases st)
  case (XStep n p)
  with assms have n: "\<forall>c \<in> set n. c \<noteq> CHR ''/'' \<and> c \<noteq> CHR 0x27 \<and> c \<noteq> CHR 0x22"
    using all_ne [of strict_name_byte n] by auto
  show ?thesis
  proof (cases p)
    case None
    with XStep n show ?thesis by (simp add: split_from_unquoted)
  next
    case (Some av)
    obtain a v where av: "av = (a, v)" by (cases av)
    with Some XStep assms have a: "\<forall>c \<in> set a. c \<noteq> CHR ''/'' \<and> c \<noteq> CHR 0x27 \<and> c \<noteq> CHR 0x22"
      and v: "\<forall>c \<in> set v. c \<noteq> q" and q: "q = CHR 0x27 \<or> q = CHR 0x22"
      using all_ne [of strict_attr_byte a] by auto
    have p: "\<forall>c \<in> set (n @ ''[@'' @ a @ ''=''). c \<noteq> CHR ''/'' \<and> c \<noteq> CHR 0x27 \<and> c \<noteq> CHR 0x22"
      using n a by auto
    have s: "raw_step q st @ s = (n @ ''[@'' @ a @ ''='') @ q # v @ q # CHR '']'' # s"
      using XStep Some av by simp
    have t: "raw_step q st = (n @ ''[@'' @ a @ ''='') @ q # v @ [q] @ '']''"
      using XStep Some av by simp
    define m where "m = n @ ''[@'' @ a @ ''=''"
    have "split_xpath_steps_from None step (raw_step q st @ s)
        = split_xpath_steps_from None (step @ m) (q # v @ q # CHR '']'' # s)"
      unfolding s m_def using split_from_unquoted [OF p, of step] by simp
    also have "\<dots> = split_xpath_steps_from (Some q) (step @ m @ [q]) (v @ q # CHR '']'' # s)"
      using q by auto
    also have "\<dots> = split_xpath_steps_from None (step @ m @ [q] @ v @ [q]) (CHR '']'' # s)"
      using split_from_quoted [OF v, of "step @ m @ [q]" "CHR '']'' # s"] by simp
    also have "\<dots> = split_xpath_steps_from None (step @ raw_step q st) s"
      unfolding t m_def by simp
    finally show ?thesis .
  qed
qed

lemma split_from_path_text:
  "\<forall>(q, st) \<in> set qs. wf_step q st \<Longrightarrow>
     split_xpath_steps_from None step (path_text qs) = Some (step # map (\<lambda>(q, st). raw_step q st) qs)"
proof (induction qs arbitrary: step)
  case Nil
  show ?case by (simp add: path_text_def)
next
  case (Cons p qs)
  obtain q st where p: "p = (q, st)" by (cases p)
  with Cons have "wf_step q st" by auto
  then have "split_xpath_steps_from None [] (raw_step q st @ path_text qs)
    = split_xpath_steps_from None (raw_step q st) (path_text qs)"
    using split_from_raw_step by fastforce
  with Cons p show ?case by (auto simp: path_text_def)
qed

lemma strict_path_text:
  assumes "is_strict_xpath_shape x" and "starts_with ''/'' x"
  shows "\<exists>qs. x = path_text qs \<and> (\<forall>(q, st) \<in> set qs. wf_step q st) \<and> xpath_steps x = Some (map snd qs)"
proof -
  obtain steps where sp: "split_xpath_steps x = Some steps" and ok: "list_all is_strict_xpath_step (drop 1 steps)"
    using assms(1) by (auto simp: is_strict_xpath_shape_def split: if_splits option.splits)
  obtain s where x: "x = CHR ''/'' # s" using assms(2) by (auto simp: starts_with_iff)
  with sp obtain ts where ts: "steps = [] # ts" by (auto simp: split_xpath_steps_def)
  have ex: "\<exists>qst. wf_step (fst qst) (snd qst) \<and> t = raw_step (fst qst) (snd qst)" if "t \<in> set ts" for t
  proof -
    have "is_strict_xpath_step t" using ok ts that by (simp add: list_all_iff)
    from strict_step_shape [OF this] show ?thesis by force
  qed
  define f where "f t = (SOME qst. wf_step (fst qst) (snd qst) \<and> t = raw_step (fst qst) (snd qst))" for t
  have f: "wf_step (fst (f t)) (snd (f t)) \<and> t = raw_step (fst (f t)) (snd (f t))" if "t \<in> set ts" for t
    unfolding f_def using someI_ex [OF ex [OF that]] .
  have "x = concat (map (Cons (CHR ''/'')) ts)"
    using split_from_join [OF sp [unfolded split_xpath_steps_def]] ts by auto
  also have "map (Cons (CHR ''/'')) ts = map (\<lambda>(q, st). CHR ''/'' # raw_step q st) (map f ts)"
    using f by (simp add: split_beta)
  finally have "x = path_text (map f ts)" by (simp add: path_text_def)
  moreover have "\<forall>(q, st) \<in> set (map f ts). wf_step q st" using f by (simp add: split_beta)
  moreover have "parse_step t = snd (f t)" if "t \<in> set ts" for t
    using f [OF that] parse_raw_step by metis
  then have "map parse_step ts = map snd (map f ts)" by simp
  then have "xpath_steps x = Some (map snd (map f ts))"
    using assms(1) sp ts by (simp add: xpath_steps_def)
  ultimately show ?thesis by blast
qed

section \<open>Canonicalisation of a structured path\<close>

lemma canon_copy:
  "\<forall>c \<in> set p. c \<noteq> CHR ''['' \<Longrightarrow>
     canonicalize_xpath_quotes u (p @ s) = p @ canonicalize_xpath_quotes u s"
  by (induction p) auto

lemma rewrite_predicate_wf:
  assumes "wf_step q (XStep n (Some (a, v)))"
  shows "rewrite_predicate u (''[@'' @ a @ ''='' @ [q] @ v @ [q] @ '']'' @ s)
    = (if CHR 0x27 \<in> set v then None
       else Some (''[@'' @ a @ ''='' @ [CHR 0x27] @ v @ [CHR 0x27] @ '']'', length a + length v + 6))"
proof -
  have a: "\<forall>c \<in> set a. c \<noteq> CHR ''=''" and ok: "rewrite_attr_ok u a" and v: "\<forall>c \<in> set v. c \<noteq> q"
    and q: "q = CHR 0x27 \<or> q = CHR 0x22"
    using assms all_ne [of strict_attr_byte a "CHR ''=''"] strict_attr_rewrite_ok by auto
  have e: "find_pos (\<lambda>c. c = CHR ''='') (a @ CHR ''='' # q # v @ q # CHR '']'' # s) = Some (length a)"
    using a by (intro find_pos_first) auto
  have f: "find_pos (\<lambda>c. c = q) (v @ q # CHR '']'' # s) = Some (length v)"
    using v by (intro find_pos_first) auto
  show ?thesis using e f ok q by (auto simp: rewrite_predicate_def Let_def starts_with_def)
qed

lemma canon_raw_plain:
  assumes "wf_step q st" and "plain_step st"
  shows "canonicalize_xpath_quotes u (raw_step q st @ s)
    = raw_step (CHR 0x27) st @ canonicalize_xpath_quotes u s"
proof (cases st)
  case (XStep n p)
  with assms have n: "\<forall>c \<in> set n. c \<noteq> CHR ''[''"
    using all_ne [of strict_name_byte n "CHR ''[''"] by simp
  show ?thesis
  proof (cases p)
    case None
    with XStep show ?thesis by (simp add: canon_copy [OF n])
  next
    case (Some av)
    obtain a v where av: "av = (a, v)" by (cases av)
    with assms XStep Some have v: "CHR 0x27 \<notin> set v" by (simp add: plain_step_def)
    have skip: "drop (5 + (length a + length v)) (CHR ''@'' # a @ CHR ''='' # q # v @ q # CHR '']'' # s) = s"
    proof -
      define w where "w = ''@'' @ a @ ''='' @ [q] @ v @ [q] @ '']''"
      have "5 + (length a + length v) = length w" by (simp add: w_def)
      moreover have "CHR ''@'' # a @ CHR ''='' # q # v @ q # CHR '']'' # s = w @ s" by (simp add: w_def)
      ultimately show ?thesis by (metis append_eq_conv_conj)
    qed
    have "canonicalize_xpath_quotes u (''[@'' @ a @ ''='' @ [q] @ v @ [q] @ '']'' @ s)
        = ''[@'' @ a @ ''='' @ [CHR 0x27] @ v @ [CHR 0x27] @ '']'' @ canonicalize_xpath_quotes u s"
      using rewrite_predicate_wf [of q n a v u s] assms XStep Some av v
      by (simp add: starts_with_def skip del: drop_append drop_Cons_numeral)
    with XStep Some av show ?thesis using canon_copy [OF n] by simp
  qed
qed

lemma canon_raw_apostrophe:
  assumes "wf_step q (XStep n (Some (a, v)))" and "CHR 0x27 \<in> set v"
  shows "\<exists>w. canonicalize_xpath_quotes u (raw_step q (XStep n (Some (a, v))) @ s)
    = n @ ''[@'' @ a @ ''='' @ [CHR 0x22] @ w"
proof -
  have n: "\<forall>c \<in> set n. c \<noteq> CHR ''[''" and a: "\<forall>c \<in> set (''@'' @ a @ ''=''). c \<noteq> CHR ''[''"
    and q: "q = CHR 0x22"
    using assms all_ne [of strict_name_byte n "CHR ''[''"] all_ne [of strict_attr_byte a "CHR ''[''"]
    by auto
  have "canonicalize_xpath_quotes u (''[@'' @ a @ ''='' @ [q] @ v @ [q] @ '']'' @ s)
      = CHR ''['' # canonicalize_xpath_quotes u ((''@'' @ a @ ''='') @ [q] @ v @ [q] @ '']'' @ s)"
    using rewrite_predicate_wf [OF assms(1), of u s] assms(2) by (simp add: starts_with_def)
  also have "\<dots> = ''[@'' @ a @ ''='' @ [CHR 0x22] @ canonicalize_xpath_quotes u (v @ [q] @ '']'' @ s)"
    unfolding canon_copy [OF a] using q by simp
  finally show ?thesis using canon_copy [OF n] by (intro exI) simp
qed

lemma canon_path_text_plain:
  "\<forall>(q, st) \<in> set qs. wf_step q st \<and> plain_step st \<Longrightarrow>
     canonicalize_xpath_quotes u (path_text qs) = canon_text (map snd qs)"
  by (induction qs) (auto simp: path_text_def canon_text_def canon_raw_plain)

lemma canon_text_simps [simp]:
  "canon_text [] = []"
  "canon_text (st # sts) = CHR ''/'' # raw_step (CHR 0x27) st @ canon_text sts"
  by (simp_all add: canon_text_def path_text_def)

lemma path_text_simps [simp]:
  "path_text [] = []"
  "path_text ((q, st) # qs) = CHR ''/'' # raw_step q st @ path_text qs"
  by (simp_all add: path_text_def)

section \<open>The prefix test decides containment\<close>

definition boundary :: "string \<Rightarrow> bool" where
  "boundary s \<longleftrightarrow> s = [] \<or> hd s = CHR ''/'' \<or> hd s = CHR ''[''"

text \<open>The canonical text of a predicate, and of a step and what follows it.\<close>

definition pred_text :: "string \<Rightarrow> string \<Rightarrow> string \<Rightarrow> string" where
  "pred_text a v rest = ''[@'' @ a @ ''='' @ [CHR 0x27] @ v @ [CHR 0x27] @ '']'' @ rest"

lemma raw_step_pred_text: "raw_step (CHR 0x27) (XStep n (Some (a, v))) @ rest = n @ pred_text a v rest"
  by (simp add: pred_text_def)

lemma pred_text_unique:
  assumes "pred_text a v X = pred_text b w Y"
    and "\<forall>c \<in> set a. strict_attr_byte c" "\<forall>c \<in> set b. strict_attr_byte c"
    and "CHR 0x27 \<notin> set v" "CHR 0x27 \<notin> set w"
  shows "a = b \<and> v = w \<and> X = Y"
proof -
  have "a @ CHR ''='' # (CHR 0x27 # v @ CHR 0x27 # CHR '']'' # X) = b @ CHR ''='' # (CHR 0x27 # w @ CHR 0x27 # CHR '']'' # Y)"
    using assms(1) by (simp add: pred_text_def)
  from split_unique [OF this assms(2,3)] have ab: "a = b"
    and rest: "v @ CHR 0x27 # CHR '']'' # X = w @ CHR 0x27 # CHR '']'' # Y" by simp_all
  from split_unique [OF rest, of "\<lambda>c. c \<noteq> CHR 0x27"] assms(4,5) ab show ?thesis by auto
qed

lemma pred_text_not_double:
  assumes "\<forall>c \<in> set a. strict_attr_byte c" "\<forall>c \<in> set b. strict_attr_byte c"
  shows "''[@'' @ a @ ''='' @ [CHR 0x22] @ z \<noteq> pred_text b w Y"
proof
  assume "''[@'' @ a @ ''='' @ [CHR 0x22] @ z = pred_text b w Y"
  then have "a @ CHR ''='' # (CHR 0x22 # z) = b @ CHR ''='' # (CHR 0x27 # w @ CHR 0x27 # CHR '']'' # Y)"
    by (simp add: pred_text_def)
  from split_unique [OF this assms] show False by simp
qed

text \<open>After its name, a canonical step goes on with what follows it, with a predicate in apostrophes, or -
  only when the value holds an apostrophe - with one in double quotes.\<close>

lemma canon_step_cases:
  assumes "wf_step q (XStep n p)" and R: "R = [] \<or> hd R = CHR ''/''"
  obtains "p = None" "canonicalize_xpath_quotes u (raw_step q (XStep n p) @ R) = n @ canonicalize_xpath_quotes u R"
  | a v where "p = Some (a, v)" "CHR 0x27 \<notin> set v"
      "canonicalize_xpath_quotes u (raw_step q (XStep n p) @ R) = n @ pred_text a v (canonicalize_xpath_quotes u R)"
  | a v z where "p = Some (a, v)"
      "canonicalize_xpath_quotes u (raw_step q (XStep n p) @ R) = n @ ''[@'' @ a @ ''='' @ [CHR 0x22] @ z"
proof (cases p)
  case None
  then show thesis using canon_raw_plain [OF assms(1), of u R] that(1) by (simp add: plain_step_def)
next
  case (Some av)
  obtain a v where av: "av = (a, v)" by (cases av)
  show thesis
  proof (cases "CHR 0x27 \<in> set v")
    case True
    with canon_raw_apostrophe [of q n a v u R] assms(1) Some av that(3) show thesis by auto
  next
    case False
    then show thesis using canon_raw_plain [OF assms(1), of u R] Some av that(2) [of a v]
      by (simp add: plain_step_def pred_text_def)
  qed
qed

lemma canon_boundary: "R = [] \<or> hd R = CHR ''/'' \<Longrightarrow> canonicalize_xpath_quotes u R = [] \<or> hd (canonicalize_xpath_quotes u R) = CHR ''/''"
  by (cases R) auto

lemma boundary_simps [simp]: "boundary (pred_text a v rest)" "boundary (CHR ''['' # s)"
  by (simp_all add: boundary_def pred_text_def)

lemma pred_text_bracket: "pred_text a v rest = s \<Longrightarrow> s \<noteq> [] \<and> hd s = CHR ''[''"
  by (auto simp: pred_text_def)

text \<open>How the canonical text of one step of the path can agree with a plain step of the root.\<close>

lemma raw_prefix_cases:
  assumes w: "wf_step (CHR 0x27) r" "wf_step q x" and pl: "plain_step r"
    and b: "boundary B" and R: "R = [] \<or> hd R = CHR ''/''"
    and eq: "canonicalize_xpath_quotes u (raw_step q x @ R) = raw_step (CHR 0x27) r @ B"
  shows "(r = x \<and> canonicalize_xpath_quotes u R = B) \<or>
    (step_pred r = None \<and> step_pred x \<noteq> None \<and> step_name r = step_name x \<and> B \<noteq> [] \<and> hd B = CHR ''['')"
proof -
  obtain n p where x: "x = XStep n p" by (cases x)
  obtain m p' where r: "r = XStep m p'" by (cases r)
  have nb: "\<forall>c \<in> set n. strict_name_byte c" "\<forall>c \<in> set m. strict_name_byte c"
    using w x r by (auto simp: list_all_iff)
  have names: "n = m \<and> S = T" if "n @ S = m @ T" "boundary S" "boundary T" for S T
    using split_unique [OF that(1) nb] that(2,3) by (auto simp: boundary_def)
  have cR: "boundary (canonicalize_xpath_quotes u R)" "\<And>a v s. canonicalize_xpath_quotes u R \<noteq> pred_text a v s"
    using canon_boundary [OF R, of u] by (auto simp: boundary_def pred_text_def)
  obtain T where T: "raw_step (CHR 0x27) r @ B = m @ T" "boundary T"
    and none: "p' = None \<Longrightarrow> T = B" and some: "\<And>a' v'. p' = Some (a', v') \<Longrightarrow> T = pred_text a' v' B"
  proof (cases p')
    case None
    with b r that [of B] show thesis by simp
  next
    case (Some av)
    with r that [of "pred_text (fst av) (snd av) B"] show thesis by (cases av) (simp add: raw_step_pred_text del: raw_step.simps)
  qed
  have eqT: "canonicalize_xpath_quotes u (raw_step q (XStep n p) @ R) = m @ T" using eq T(1) unfolding x by simp
  have attrs: "\<forall>c \<in> set a. strict_attr_byte c" if "p = Some (a, v) \<or> p' = Some (a, v)" for a v
    using that w x r by (auto simp: list_all_iff)
  have quiet: "CHR 0x27 \<notin> set v" if "p' = Some (a, v)" for a v
    using that w(1) r by (auto simp: list_all_iff)
  from w(2) [unfolded x] R show ?thesis
  proof (cases rule: canon_step_cases [where u = u])
    case 1
    have S: "n = m" "canonicalize_xpath_quotes u R = T"
      using names [OF 1(2) [unfolded eqT, symmetric] cR(1) T(2)] by simp_all
    show ?thesis
    proof (cases p')
      case None
      with none S 1(1) show ?thesis by (simp add: x r)
    next
      case (Some bw)
      with some [of "fst bw" "snd bw"] S cR(2) show ?thesis by simp
    qed
  next
    case (2 a v)
    have S: "n = m" "pred_text a v (canonicalize_xpath_quotes u R) = T"
      using names [OF 2(3) [unfolded eqT, symmetric] boundary_simps(1) T(2)] by simp_all
    show ?thesis
    proof (cases p')
      case None
      with none S have "pred_text a v (canonicalize_xpath_quotes u R) = B" by simp
      from pred_text_bracket [OF this] None 2(1) S(1) show ?thesis by (simp add: x r)
    next
      case (Some bw)
      obtain b w where bw: "bw = (b, w)" by (cases bw)
      with Some some S have "pred_text a v (canonicalize_xpath_quotes u R) = pred_text b w B" by simp
      moreover have "\<forall>c \<in> set a. strict_attr_byte c" "\<forall>c \<in> set b. strict_attr_byte c" "CHR 0x27 \<notin> set w"
        using attrs [of a v] attrs [of b w] quiet [of b w] 2(1) Some bw by simp_all
      ultimately have "a = b \<and> v = w \<and> canonicalize_xpath_quotes u R = B" by (rule pred_text_unique [OF _ _ _ 2(2)])
      with Some bw 2(1) S(1) show ?thesis by (simp add: x r)
    qed
  next
    case (3 a v z)
    have "boundary (''[@'' @ a @ ''='' @ [CHR 0x22] @ z)" by (simp add: boundary_def)
    from names [OF 3(2) [unfolded eqT, symmetric] this T(2)]
    have S: "n = m" "''[@'' @ a @ ''='' @ [CHR 0x22] @ z = T" by simp_all
    show ?thesis
    proof (cases p')
      case None
      with none S have "B = ''[@'' @ a @ ''='' @ [CHR 0x22] @ z" by simp
      with None 3(1) S(1) show ?thesis by (simp add: x r)
    next
      case (Some bw)
      obtain b w where bw: "bw = (b, w)" by (cases bw)
      with Some some S have "''[@'' @ a @ ''='' @ [CHR 0x22] @ z = pred_text b w B" by simp
      moreover have "\<forall>c \<in> set a. strict_attr_byte c" "\<forall>c \<in> set b. strict_attr_byte c"
        using attrs [of a v] attrs [of b w] 3(1) Some bw by simp_all
      ultimately show ?thesis using pred_text_not_double by metis
    qed
  qed
qed

lemma canon_prefix_covers:
  assumes "\<forall>(q, st) \<in> set xs. wf_step q st"
    and "\<forall>st \<in> set rs. wf_step (CHR 0x27) st \<and> plain_step st"
    and "canonicalize_xpath_quotes u (path_text xs) = canon_text rs @ suffix"
    and "suffix = [] \<or> hd suffix = CHR ''/'' \<or> (br \<and> hd suffix = CHR ''['')"
  shows "covers br rs (map snd xs)"
  using assms
proof (induction rs arbitrary: xs)
  case Nil
  show ?case by simp
next
  case (Cons r rs)
  from Cons.prems(3) obtain q x ys where xs: "xs = (q, x) # ys" by (cases xs) auto
  define B where "B = canon_text rs @ suffix"
  have b: "boundary B" using Cons.prems(4) by (cases rs) (auto simp: B_def boundary_def)
  have R: "path_text ys = [] \<or> hd (path_text ys) = CHR ''/''"
    by (cases ys) auto
  have "canonicalize_xpath_quotes u (raw_step q x @ path_text ys) = raw_step (CHR 0x27) r @ B"
    using Cons.prems(3) xs by (simp add: B_def)
  with raw_prefix_cases [of r q x B "path_text ys" u] Cons.prems(1,2) xs b R
  consider "r = x" "canonicalize_xpath_quotes u (path_text ys) = B"
    | "step_pred r = None" "step_pred x \<noteq> None" "step_name r = step_name x" "B \<noteq> []" "hd B = CHR ''[''"
    by auto
  then show ?case
  proof cases
    case 1
    have "covers br rs (map snd ys)"
      using 1(2) Cons.prems xs by (intro Cons.IH) (auto simp: B_def)
    with 1 xs show ?thesis by simp
  next
    case 2
    then have "rs = []" by (cases rs) (auto simp: B_def)
    with 2 Cons.prems(4) xs show ?thesis by (auto simp: B_def)
  qed
qed

lemma covers_canon_prefix:
  assumes "covers br rs xs"
  shows "\<exists>suffix. canon_text xs = canon_text rs @ suffix \<and>
    (suffix = [] \<or> hd suffix = CHR ''/'' \<or> (br \<and> hd suffix = CHR ''[''))"
  using assms
proof (induction br rs xs rule: covers.induct)
  case (1 br xs)
  then show ?case by (cases xs) auto
next
  case (3 br r rs x xs)
  show ?case
  proof (cases "r = x \<and> covers br rs xs")
    case True
    with 3 show ?thesis by auto
  next
    case False
    with 3 have "br" "rs = []" "step_pred r = None" "step_pred x \<noteq> None" "step_name r = step_name x"
      by auto
    then show ?thesis by (cases r; cases x) auto
  qed
qed simp


section \<open>The interface of a root check\<close>

text \<open>What a root check does to a canonical path: equal to the canonical root, or the root
  followed by a separator.\<close>

definition canon_within :: "(string \<Rightarrow> bool) \<Rightarrow> bool \<Rightarrow> string \<Rightarrow> string \<Rightarrow> bool" where
  "canon_within u br root x \<longleftrightarrow>
     (\<exists>suffix. canonicalize_xpath_quotes u x = canonicalize_xpath_quotes u root @ suffix \<and>
        (suffix = [] \<or> hd suffix = CHR ''/'' \<or> (br \<and> hd suffix = CHR ''['')))"

lemma canon_within_strip:
  "canon_within u br root x \<longleftrightarrow>
     canonicalize_xpath_quotes u x = canonicalize_xpath_quotes u root \<or>
     (case strip_prefix (canonicalize_xpath_quotes u root) (canonicalize_xpath_quotes u x) of
        None \<Rightarrow> False
      | Some suffix \<Rightarrow> starts_with ''/'' suffix \<or> (br \<and> starts_with ''['' suffix))"
  (is "?L \<longleftrightarrow> ?e \<or> ?p")
proof
  assume ?L
  then obtain suffix where s: "canonicalize_xpath_quotes u x = canonicalize_xpath_quotes u root @ suffix"
    "suffix = [] \<or> hd suffix = CHR ''/'' \<or> (br \<and> hd suffix = CHR ''['')"
    by (auto simp: canon_within_def)
  from s(1) have "strip_prefix (canonicalize_xpath_quotes u root) (canonicalize_xpath_quotes u x) = Some suffix"
    by (simp add: strip_prefix_Some)
  with s show "?e \<or> ?p" by (cases suffix) (auto simp: starts_with_def)
next
  assume "?e \<or> ?p"
  then show ?L
  proof
    assume ?e
    then show ?L by (simp add: canon_within_def)
  next
    assume ?p
    then obtain suffix where "strip_prefix (canonicalize_xpath_quotes u root) (canonicalize_xpath_quotes u x) = Some suffix"
      "starts_with ''/'' suffix \<or> (br \<and> starts_with ''['' suffix)" by (auto split: option.splits)
    then show ?L unfolding canon_within_def strip_prefix_Some
      by (intro exI [of _ suffix]) (auto simp: starts_with_iff)
  qed
qed

lemma canon_head: "canonicalize_xpath_quotes u x = CHR ''/'' # s \<Longrightarrow> starts_with ''/'' x"
proof (cases x)
  case (Cons c r)
  assume e: "canonicalize_xpath_quotes u x = CHR ''/'' # s"
  have "c = CHR ''/''"
  proof (cases "c = CHR ''['' \<and> starts_with ''@'' r")
    case True
    with e Cons show ?thesis
      by (auto simp: rewrite_predicate_def Let_def split: option.splits list.splits if_splits)
  next
    case False
    with e Cons show ?thesis by (simp split: if_splits)
  qed
  with Cons show ?thesis by (simp add: starts_with_def)
qed simp

lemma plain_path_text:
  assumes "plain_path x"
  shows "\<exists>qs. x = path_text qs \<and> qs \<noteq> [] \<and> (\<forall>(q, st) \<in> set qs. wf_step q st \<and> plain_step st) \<and>
    xpath_steps x = Some (map snd qs) \<and> canonicalize_xpath_quotes u x = canon_text (map snd qs)"
proof -
  have strict: "is_strict_xpath_shape x" and sl: "starts_with ''/'' x"
    using assms by (auto simp: plain_path_def xpath_steps_def split: option.splits if_splits)
  obtain qs where qs: "x = path_text qs" "\<forall>(q, st) \<in> set qs. wf_step q st" "xpath_steps x = Some (map snd qs)"
    using strict_path_text [OF strict sl] by blast
  have "\<forall>(q, st) \<in> set qs. plain_step st"
    using assms qs(3) by (auto simp: plain_path_def list_all_iff)
  with qs have "\<forall>(q, st) \<in> set qs. wf_step q st \<and> plain_step st" by auto
  moreover have "qs \<noteq> []" using sl qs(1) by (auto simp: starts_with_iff)
  ultimately show ?thesis using qs canon_path_text_plain [of qs u] by auto
qed

lemma wf_plain_canonical: "wf_step q st \<Longrightarrow> plain_step st \<Longrightarrow> wf_step (CHR 0x27) st"
  by (cases "(q, st)" rule: wf_step.cases) (auto simp: plain_step_def split: option.splits)

text \<open>Containment in a plain root is what the textual test decides, for every strict path.\<close>

lemma within_covers:
  assumes w: "canon_within u br root x" and r: "plain_path root" and x: "is_strict_xpath_shape x"
  shows "\<exists>rs xs. xpath_steps root = Some rs \<and> xpath_steps x = Some xs \<and> covers br rs xs"
proof -
  obtain rq where rq: "root = path_text rq" "rq \<noteq> []" "\<forall>(q, st) \<in> set rq. wf_step q st \<and> plain_step st"
    "xpath_steps root = Some (map snd rq)" "canonicalize_xpath_quotes u root = canon_text (map snd rq)"
    using plain_path_text [OF r] by metis
  obtain suffix where s: "canonicalize_xpath_quotes u x = canon_text (map snd rq) @ suffix"
    "suffix = [] \<or> hd suffix = CHR ''/'' \<or> (br \<and> hd suffix = CHR ''['')"
    using w by (auto simp: canon_within_def rq(5))
  have "starts_with ''/'' x" using s(1) rq(2) canon_head by (cases rq) auto
  then obtain xq where xq: "x = path_text xq" "\<forall>(q, st) \<in> set xq. wf_step q st" "xpath_steps x = Some (map snd xq)"
    using strict_path_text [OF x] by blast
  have "\<forall>st \<in> set (map snd rq). wf_step (CHR 0x27) st \<and> plain_step st"
    using rq(3) wf_plain_canonical by fastforce
  from canon_prefix_covers [OF xq(2) this _ s(2)] s(1) xq(1)
  have "covers br (map snd rq) (map snd xq)" by simp
  with rq(4) xq(3) show ?thesis by blast
qed

lemma covers_within:
  assumes r: "plain_path root" and x: "plain_path x"
    and c: "xpath_steps root = Some rs" "xpath_steps x = Some xs" "covers br rs xs"
  shows "canon_within u br root x"
proof -
  have "canonicalize_xpath_quotes u root = canon_text rs"
    using plain_path_text [OF r, of u] c(1) by auto
  moreover have "canonicalize_xpath_quotes u x = canon_text xs"
    using plain_path_text [OF x, of u] c(2) by auto
  ultimately show ?thesis
    using covers_canon_prefix [OF c(3)] by (simp add: canon_within_def)
qed

lemma plain_path_strict: "plain_path x \<Longrightarrow> is_strict_xpath_shape x"
  by (auto simp: plain_path_def xpath_steps_def split: option.splits if_splits)

text \<open>
  A root check accepts a path that is admissible by its own input rules and lies within one
  of its roots; \<open>br\<close> says whether a predicate may follow the root directly.
\<close>

locale root_guard =
  fixes u :: "string \<Rightarrow> bool" and br :: bool
    and admissible :: "string \<Rightarrow> bool"
    and allows :: "string list \<Rightarrow> string \<Rightarrow> bool"
  assumes admissible_strict: "admissible x \<Longrightarrow> is_strict_xpath_shape x"
    and allows_admissible: "allows roots x \<Longrightarrow> admissible x"
    and allows_within: "allows roots x \<Longrightarrow> \<exists>root \<in> set roots. canon_within u br root x"
    and within_allows:
      "admissible x \<Longrightarrow> root \<in> set roots \<Longrightarrow> canon_within u br root x \<Longrightarrow> allows roots x"
begin

lemma allows_iff: "allows roots x \<longleftrightarrow> admissible x \<and> (\<exists>root \<in> set roots. canon_within u br root x)"
  using allows_admissible allows_within within_allows by blast

lemma sound:
  assumes "allows roots x" and "\<forall>root \<in> set roots. plain_path root"
  shows "\<exists>root \<in> set roots. \<exists>rs xs.
    xpath_steps root = Some rs \<and> xpath_steps x = Some xs \<and> covers br rs xs"
  using assms allows_within [OF assms(1)] allows_admissible [OF assms(1)] admissible_strict within_covers
  by metis

lemma complete:
  assumes "admissible x" and "plain_path x" and "root \<in> set roots" and "plain_path root"
    and "xpath_steps root = Some rs" and "xpath_steps x = Some xs" and "covers br rs xs"
  shows "allows roots x"
  using within_allows [OF assms(1,3)] covers_within [OF assms(4,2,5,6,7)] by blast

lemma more_roots: "allows roots x \<Longrightarrow> set roots \<subseteq> set roots' \<Longrightarrow> allows roots' x"
  by (auto simp: allows_iff)

text \<open>Two spellings of one plain path are decided alike.\<close>

lemma spelling:
  assumes "plain_path x" and "plain_path y" and "xpath_steps x = xpath_steps y"
    and "admissible x" and "admissible y"
  shows "allows roots x \<longleftrightarrow> allows roots y"
proof -
  have "canonicalize_xpath_quotes u x = canonicalize_xpath_quotes u y"
    using plain_path_text [OF assms(1), of u] plain_path_text [OF assms(2), of u] assms(3) by auto
  with assms(4,5) show ?thesis by (simp add: allows_iff canon_within_def)
qed

end

section \<open>The token grant is a root check\<close>

lemma grant_allows_iff:
  "grant_allows_xpath u \<lparr>grant_roots = roots, grant_actions = acts\<rparr> x \<longleftrightarrow>
     is_strict_xpath_shape x \<and> (\<exists>root \<in> set roots. canon_within u True root x)"
  by (simp add: grant_allows_xpath_def canon_within_strip Let_def cong: option.case_cong)

interpretation token: root_guard u True is_strict_xpath_shape
  "\<lambda>roots x. grant_allows_xpath u \<lparr>grant_roots = roots, grant_actions = acts\<rparr> x" for u acts
  by unfold_locales (auto simp: grant_allows_iff)


section \<open>Properties of token grants\<close>

text \<open>
  C14. A grant that names plain subtrees never authorises a path outside them: whatever text
  \<open>x\<close> the caller sends, if the check accepts it then its parsed steps begin with the
  steps of a granted root (or put a predicate on the root's last name).
\<close>

theorem grant_confines:
  assumes "grant_allows_xpath u grant x"
    and "\<forall>root \<in> set (grant_roots grant). plain_path root"
  shows "\<exists>root \<in> set (grant_roots grant). \<exists>rs xs.
    xpath_steps root = Some rs \<and> xpath_steps x = Some xs \<and> covers True rs xs"
proof (cases grant)
  case (fields roots acts)
  with assms token.sound [of u roots acts x] show ?thesis by simp
qed

theorem grant_confines_witness:
  "\<exists>rs xs. xpath_steps ''/config/shared/address'' = Some rs \<and>
     xpath_steps ''/config/shared/address/entry[@name=\"web\"]'' = Some xs \<and> covers True rs xs"
proof -
  have "grant_allows_xpath (\<lambda>_. False) \<lparr>grant_roots = [''/config/shared/address''], grant_actions = [MSet]\<rparr>
    ''/config/shared/address/entry[@name=\"web\"]''"
    by code_simp
  moreover have "plain_path ''/config/shared/address''" by code_simp
  ultimately show ?thesis
    using grant_confines [of "\<lambda>_. False" "\<lparr>grant_roots = [''/config/shared/address''], grant_actions = [MSet]\<rparr>"
        "''/config/shared/address/entry[@name=\"web\"]''"] by simp
qed

text \<open>
  C28. Conversely a plain path whose steps extend the steps of a granted plain root is always
  authorised, in whichever quote style either side is written.
\<close>

theorem grant_complete:
  assumes "plain_path x" and "root \<in> set (grant_roots grant)" and "plain_path root"
    and "xpath_steps root = Some rs" and "xpath_steps x = Some xs" and "covers True rs xs"
  shows "grant_allows_xpath u grant x"
proof (cases grant)
  case (fields roots acts)
  with assms token.complete [of x root roots rs xs u acts] plain_path_strict show ?thesis by simp
qed

theorem grant_complete_witness:
  "grant_allows_xpath (\<lambda>_. False)
     \<lparr>grant_roots = [''/config/devices/entry[@name=\"localhost.localdomain\"]''], grant_actions = [MSet]\<rparr>
     (''/config/devices/entry[@name='' @ [CHR 0x27] @ ''localhost.localdomain'' @ [CHR 0x27] @ '']/vsys'')"
proof -
  have "plain_path (''/config/devices/entry[@name='' @ [CHR 0x27] @ ''localhost.localdomain'' @ [CHR 0x27] @ '']/vsys'')"
    "plain_path ''/config/devices/entry[@name=\"localhost.localdomain\"]''"
    by code_simp+
  moreover have "xpath_steps (''/config/devices/entry[@name='' @ [CHR 0x27] @ ''localhost.localdomain'' @ [CHR 0x27] @ '']/vsys'')
      = Some [XStep ''config'' None, XStep ''devices'' None,
          XStep ''entry'' (Some (''name'', ''localhost.localdomain'')), XStep ''vsys'' None]"
    "xpath_steps ''/config/devices/entry[@name=\"localhost.localdomain\"]''
      = Some [XStep ''config'' None, XStep ''devices'' None, XStep ''entry'' (Some (''name'', ''localhost.localdomain''))]"
    by code_simp+
  ultimately show ?thesis
    using grant_complete [where grant = "\<lparr>grant_roots = [''/config/devices/entry[@name=\"localhost.localdomain\"]''], grant_actions = [MSet]\<rparr>"
        and u = "\<lambda>_. False"] by simp
qed

lemma rewrite_predicate_pointwise:
  assumes "rewrite_predicate u rest = Some (w, k)" and "starts_with ''[@'' rest"
  shows "k \<le> length rest \<and> list_all2 (\<lambda>c d. d = c \<or> (c = CHR 0x22 \<and> d = CHR 0x27)) (take k rest) w"
proof -
  obtain body where rest: "rest = ''[@'' @ body" using assms(2) by (auto simp: starts_with_iff)
  obtain e where e: "find_pos (\<lambda>c. c = CHR ''='') body = Some e"
    using assms(1) rest by (auto simp: rewrite_predicate_def Let_def split: option.splits)
  obtain attr part where b: "body = attr @ CHR ''='' # part" "length attr = e"
    using e unfolding find_pos_split by blast
  obtain q tail where part: "part = q # tail"
    using assms(1) rest e b by (auto simp: rewrite_predicate_def Let_def split: list.splits if_splits)
  obtain i where i: "find_pos (\<lambda>c. c = q) tail = Some i"
    using assms(1) rest e b part by (auto simp: rewrite_predicate_def Let_def split: option.splits if_splits)
  obtain v r where v: "tail = v @ q # r" "length v = i" using i unfolding find_pos_split by blast
  have res: "starts_with '']'' r" "q = CHR 0x22 \<or> q = CHR 0x27"
    "w = ''[@'' @ attr @ ''='' @ [CHR 0x27] @ v @ [CHR 0x27] @ '']''" "k = length w"
    using assms(1) rest e b part i v
    by (auto simp: rewrite_predicate_def Let_def split: if_splits)
  obtain z where z: "r = CHR '']'' # z" using res(1) by (auto simp: starts_with_iff)
  have "rest = (''[@'' @ attr @ ''='' @ [q] @ v @ [q] @ '']'') @ z"
    using rest b part v z by simp
  moreover have "length (''[@'' @ attr @ ''='' @ [q] @ v @ [q] @ '']'') = k" using res by simp
  ultimately have "take k rest = ''[@'' @ attr @ ''='' @ [q] @ v @ [q] @ '']''" "k \<le> length rest"
    by (metis append_eq_conv_conj, simp)
  then show ?thesis using res(2,3) by (auto intro!: list_all2_appendI list_all2_refl)
qed

text \<open>
  Quote canonicalisation never adds, drops or reorders a byte: position by position the
  result is the input, except that a double quote may have become an apostrophe.
\<close>

lemma canonicalize_pointwise:
  "list_all2 (\<lambda>c d. d = c \<or> (c = CHR 0x22 \<and> d = CHR 0x27)) x (canonicalize_xpath_quotes u x)"
proof (induction u x rule: canonicalize_xpath_quotes.induct)
  case (1 u)
  show ?case by simp
next
  case (2 u c s)
  show ?case
  proof (cases "c = CHR ''['' \<and> starts_with ''@'' s \<and> rewrite_predicate u (c # s) \<noteq> None")
    case True
    then obtain w k where w: "rewrite_predicate u (c # s) = Some (w, k)" by auto
    have "starts_with ''[@'' (c # s)" using True by (auto simp: starts_with_iff)
    note p = rewrite_predicate_pointwise [OF w this]
    have k: "0 < k" using rewrite_predicate_consumes [OF w] .
    have "list_all2 (\<lambda>c d. d = c \<or> (c = CHR 0x22 \<and> d = CHR 0x27)) (take k (c # s) @ drop (k - 1) s)
      (w @ canonicalize_xpath_quotes u (drop (k - 1) s))"
      using p 2(2) [OF _ w refl] True by (intro list_all2_appendI) auto
    moreover have "take k (c # s) @ drop (k - 1) s = c # s" using k by (cases k) auto
    ultimately show ?thesis using True w by simp
  next
    case False
    then have "canonicalize_xpath_quotes u (c # s) = c # canonicalize_xpath_quotes u s"
      by (auto split: option.splits)
    moreover have "list_all2 (\<lambda>c d. d = c \<or> (c = CHR 0x22 \<and> d = CHR 0x27)) s (canonicalize_xpath_quotes u s)"
      using 2(1,3) False by (cases "c = CHR ''['' \<and> starts_with ''@'' s") blast+
    ultimately show ?thesis by simp
  qed
qed

definition widened_root :: string where
  "widened_root = ''/config/n[@a=\"it'' @ [CHR 0x27] @ ''s[@b='' @ [CHR 0x27] @ '']/foo[@c='' @ [CHR 0x27] @ '']\"]''"

definition crossing_path :: string where
  "crossing_path = ''/config/n[@a=\"it'' @ [CHR 0x27] @ ''s[@b=\"]/foo[@c=\"]\"]''"

text \<open>
  Canonicalisation can still widen a root.  The scan may start inside a double-quoted value
  that holds an apostrophe, run over the step boundary and rewrite the opening quote of the
  next step's value.  Two strict paths with different steps then have one canonical text,
  and a valid grant for the first (one step below \<open>/config\<close>) authorises the second (two
  steps below it), which it does not contain.
\<close>

lemma canonicalize_can_widen:
  "validate_grant \<lparr>grant_roots = [widened_root], grant_actions = [MSet]\<rparr> = Inr () \<and>
   grant_allows_xpath (\<lambda>_. False) \<lparr>grant_roots = [widened_root], grant_actions = [MSet]\<rparr> crossing_path \<and>
   \<not> covers True (the (xpath_steps widened_root)) (the (xpath_steps crossing_path))"
  by code_simp

end
