(* ===== verification/Libs.thy ===== *)
theory Libs
  imports Errors
begin

text \<open>
  The code the program calls and does not contain, as a record of functions every definition
  that needs it takes as an argument: the \<open>quick_xml\<close> pull parser, SHA-256, the
  \<open>mecmcp_redact\<close> passes, and the Unicode tables of the standard library.  Nothing is
  assumed of them here; a theorem that needs a law of the parser states it.
\<close>

text \<open>An attribute as \<open>attributes().with_checks(true)\<close> yields it: malformed, or a key with
  its \<open>normalized_value\<close> (which can fail).\<close>

datatype xattr = AttrBad string | AttrKV string "string + string"

text \<open>One event of \<open>read_event\<close>.  Declarations, comments and processing instructions are
  \<open>XOther\<close>; a reference such as \<open>&amp;\<close> is an event of its own.\<close>

datatype xevent =
    XStart string "xattr list"
  | XEmpty string "xattr list"
  | XEnd string
  | XText string
  | XCData string
  | XRef string
  | XDocType
  | XOther

text \<open>An event with \<open>buffer_position\<close> before and after reading it.\<close>

type_synonym xitem = "xevent \<times> nat \<times> nat"

text \<open>How a reader stops: at the end of the input, or at an error; with the positions around
  the last read.\<close>

datatype xfin = XEof nat nat | XFail string nat

record lib =
  read_events :: "bool \<Rightarrow> string \<Rightarrow> xitem list \<times> xfin"
  resolve_char_ref :: "string \<Rightarrow> string + nat option"
  resolve_xml_entity :: "string \<Rightarrow> string option"
  sha256 :: "string \<Rightarrow> string"
  redact_text :: "string \<Rightarrow> string"
  redact_xml :: "string list \<Rightarrow> string \<Rightarrow> string option"
  unicode_alphanumeric :: "string \<Rightarrow> bool"
  unicode_whitespace :: "string \<Rightarrow> bool"
  str_debug :: "string \<Rightarrow> string"

text \<open>\<open>char::is_whitespace\<close> the ASCII ones, and the characters of the table.\<close>

definition ascii_unicode_space :: "char \<Rightarrow> bool" where
  "ascii_unicode_space c \<longleftrightarrow> byte c \<in> {9, 10, 11, 12, 13, 32}"

definition char_whitespace :: "lib \<Rightarrow> string \<Rightarrow> bool" where
  "char_whitespace lb ch =
     (case ch of [c] \<Rightarrow> if is_ascii c then ascii_unicode_space c else unicode_whitespace lb ch
      | _ \<Rightarrow> unicode_whitespace lb ch)"

text \<open>\<open>str::trim\<close>.\<close>

definition trim_chars :: "(string \<Rightarrow> bool) \<Rightarrow> string \<Rightarrow> string" where
  "trim_chars P s = concat (rev (dropWhile P (rev (dropWhile P (utf8_chars s)))))"

text \<open>\<open>read_events\<close> takes \<open>trim_text\<close>; \<open>check_end_names\<close> is the parser's default.\<close>

definition hex_digest :: "string \<Rightarrow> string" where
  "hex_digest bytes = concat (map hex_byte bytes)"

lemma hex_digest_lower: "c \<in> set (hex_digest bytes) \<Longrightarrow> is_lower_hex c"
  using hex_byte_lower by (auto simp: hex_digest_def)

lemma length_hex_digest [simp]: "length (hex_digest bytes) = 2 * length bytes"
  by (induction bytes) (simp_all add: hex_digest_def hex_byte_def)

text \<open>A trivial instance, for evaluating definitions that take a library on concrete input.\<close>

definition null_lib :: lib where
  "null_lib = \<lparr>read_events = (\<lambda>_ _. ([], XEof 0 0)), resolve_char_ref = (\<lambda>_. Inr None),
     resolve_xml_entity = (\<lambda>_. None), sha256 = id, redact_text = id, redact_xml = (\<lambda>_ t. Some t),
     unicode_alphanumeric = (\<lambda>_. False), unicode_whitespace = (\<lambda>_. False), str_debug = id\<rparr>"

end
