(* ===== verification/Xml.thy ===== *)
theory Xml
  imports Libs
begin

text \<open>
  Bounded XML reading: \<^verbatim>\<open>rust-panosmcp-core/src/xml.rs\<close>, its structure
  check, text extraction and entry scanners.  A loop over \<open>read_event\<close> is a recursion
  over the items the parser delivers, one step function per loop, and ends with how the
  parser stopped.  Offsets are \<open>usize\<close>: \<open>saturating_add\<close> caps at \<open>2 ^ 64 - 1\<close>.
\<close>

definition usize_max :: nat where
  "usize_max = 2 ^ 64 - 1"

definition saturating_add :: "nat \<Rightarrow> nat \<Rightarrow> nat" where
  "saturating_add a b = min (a + b) usize_max"

record xml_limits =
  max_bytes :: nat
  max_depth :: nat

definition default_xml_limits :: xml_limits where
  "default_xml_limits = \<lparr>max_bytes = 5 * 1024 * 1024, max_depth = 64\<rparr>"

definition "max_op_command_bytes = (64 * 1024 :: nat)"
definition "max_xpath_bytes = (4096 :: nat)"
definition "max_config_element_bytes = (256 * 1024 :: nat)"
definition "max_extracted_text_bytes = (4096 :: nat)"
definition "max_envelope_attribute_bytes = (64 :: nat)"
definition "max_job_id_bytes = (32 :: nat)"
definition "max_entry_name_bytes = (256 :: nat)"
definition "max_list_entries = (4096 :: nat)"
definition "max_members_per_entry = (4096 :: nat)"
definition "max_scan_depth = (128 :: nat)"

record envelope_summary =
  env_status :: "string option"
  env_code :: "string option"

abbreviation doctype_error :: panos_error where
  "doctype_error \<equiv> Xml ''DOCTYPE declarations are forbidden''"

section \<open>Attributes\<close>

fun read_envelope_attributes :: "xattr list \<Rightarrow> envelope_summary \<Rightarrow> envelope_summary res" where
  "read_envelope_attributes [] summary = Inr summary"
| "read_envelope_attributes (AttrBad e # as) summary = Inl (Xml e)"
| "read_envelope_attributes (AttrKV key (Inl e) # as) summary = Inl (Xml e)"
| "read_envelope_attributes (AttrKV key (Inr value) # as) summary =
     (if max_envelope_attribute_bytes < length value
      then Inl (Xml (''response envelope attribute exceeds '' @ show_nat max_envelope_attribute_bytes @ '' bytes''))
      else read_envelope_attributes as
        (if key = ''status'' then summary\<lparr>env_status := Some value\<rparr>
         else if key = ''code'' then summary\<lparr>env_code := Some value\<rparr> else summary))"

fun read_status_and_code :: "xattr list \<Rightarrow> envelope_summary \<Rightarrow> envelope_summary res" where
  "read_status_and_code [] summary = Inr summary"
| "read_status_and_code (AttrBad e # as) summary = Inl (Xml e)"
| "read_status_and_code (AttrKV key (Inl e) # as) summary = Inl (Xml e)"
| "read_status_and_code (AttrKV key (Inr value) # as) summary =
     read_status_and_code as
        (if key = ''status'' then summary\<lparr>env_status := Some value\<rparr>
         else if key = ''code'' then summary\<lparr>env_code := Some value\<rparr> else summary)"

fun read_name_attribute :: "xattr list \<Rightarrow> string res" where
  "read_name_attribute [] = Inr []"
| "read_name_attribute (AttrBad e # as) = Inl (Xml e)"
| "read_name_attribute (AttrKV key value # as) =
     (if key = ''name'' then map_err Xml value else read_name_attribute as)"

fun entry_name_attribute :: "xattr list \<Rightarrow> string option res" where
  "entry_name_attribute [] = Inr None"
| "entry_name_attribute (AttrBad e # as) = Inl (Xml e)"
| "entry_name_attribute (AttrKV key value # as) =
     (if key = ''name'' then
        and_then (map_err Xml value) (\<lambda>v.
          if max_entry_name_bytes < length v
          then Inl (Xml (''entry name attribute exceeds '' @ show_nat max_entry_name_bytes @ '' bytes''))
          else Inr (Some v))
      else entry_name_attribute as)"

section \<open>Structure check\<close>

record root_state =
  rs_depth :: nat
  rs_saw :: bool
  rs_closed :: bool
  rs_summary :: envelope_summary

definition depth_error :: "nat \<Rightarrow> panos_error" where
  "depth_error limit = Xml (''element depth exceeds the '' @ show_nat limit @ ''-level limit'')"

definition root_name_error :: "string \<Rightarrow> panos_error" where
  "root_name_error expected = Xml (''root element must be '' @ [CHR 0x27] @ expected @ [CHR 0x27])"

definition xml_space :: "char \<Rightarrow> bool" where
  "xml_space c \<longleftrightarrow> byte c \<in> {32, 9, 10, 13}"

fun root_step :: "nat \<Rightarrow> string \<Rightarrow> xevent \<Rightarrow> root_state \<Rightarrow> root_state res" where
  "root_step limit expected (XStart name as) st =
     (if rs_closed st then Inl (Xml ''input contains multiple root elements'')
      else
       (let st = st\<lparr>rs_depth := saturating_add (rs_depth st) 1\<rparr> in
        if limit < rs_depth st then Inl (depth_error limit)
        else if \<not> rs_saw st then
          (if name \<noteq> expected then Inl (root_name_error expected)
           else and_then (read_envelope_attributes as (rs_summary st)) (\<lambda>sm.
             Inr (st\<lparr>rs_saw := True, rs_summary := sm\<rparr>)))
        else Inr st))"
| "root_step limit expected (XEnd name) st =
     (if rs_depth st = 0 then Inl (Xml ''input contains an unexpected closing element'')
      else
       (let st = st\<lparr>rs_depth := rs_depth st - 1\<rparr> in
        Inr (if rs_saw st \<and> rs_depth st = 0 then st\<lparr>rs_closed := True\<rparr> else st)))"
| "root_step limit expected (XEmpty name as) st =
     (if limit < saturating_add (rs_depth st) 1 then Inl (depth_error limit)
      else if \<not> rs_saw st then
        (if name \<noteq> expected then Inl (root_name_error expected)
         else and_then (read_envelope_attributes as (rs_summary st)) (\<lambda>sm.
           Inr (st\<lparr>rs_saw := True, rs_closed := True, rs_summary := sm\<rparr>)))
      else if rs_depth st = 0 then Inl (Xml ''input contains multiple root elements'')
      else Inr st)"
| "root_step limit expected XDocType st = Inl doctype_error"
| "root_step limit expected (XText t) st =
     (if rs_depth st = 0 \<and> \<not> list_all xml_space t
      then Inl (Xml ''non-whitespace text is forbidden outside the root element'') else Inr st)"
| "root_step limit expected (XCData t) st =
     (if rs_depth st = 0 \<and> t \<noteq> [] then Inl (Xml ''CDATA is forbidden outside the root element'')
      else Inr st)"
| "root_step limit expected (XRef t) st = Inr st"
| "root_step limit expected XOther st = Inr st"

fun root_loop :: "nat \<Rightarrow> string \<Rightarrow> xevent list \<Rightarrow> root_state \<Rightarrow> root_state res" where
  "root_loop limit expected [] st = Inr st"
| "root_loop limit expected (e # es) st =
     and_then (root_step limit expected e st) (root_loop limit expected es)"

text \<open>After the last item: \<open>Eof\<close> leaves the loop, an error is returned.\<close>

fun at_end :: "xfin \<Rightarrow> 'a \<Rightarrow> 'a res" where
  "at_end (XEof _ _) x = Inr x"
| "at_end (XFail e _) x = Inl (Xml e)"

definition initial_root_state :: root_state where
  "initial_root_state = \<lparr>rs_depth = 0, rs_saw = False, rs_closed = False,
     rs_summary = \<lparr>env_status = None, env_code = None\<rparr>\<rparr>"

definition validate_xml_root ::
  "lib \<Rightarrow> string \<Rightarrow> xml_limits \<Rightarrow> string \<Rightarrow> string \<Rightarrow> envelope_summary res" where
  "validate_xml_root lb input limits expected field =
     (if max_bytes limits < length input then Inl (InputTooLarge field (max_bytes limits))
      else
       (let (items, fin) = read_events lb True input in
        and_then (root_loop (max_depth limits) expected (map fst items) initial_root_state) (\<lambda>st.
        and_then (at_end fin st) (\<lambda>st.
          if \<not> rs_saw st then Inl (Xml ''input contains no root element'')
          else if rs_depth st \<noteq> 0 \<or> \<not> rs_closed st
          then Inl (Xml ''input ended with unclosed elements'')
          else Inr (rs_summary st)))))"

section \<open>Text extraction\<close>

definition trim_xml_whitespace :: "string \<Rightarrow> string" where
  "trim_xml_whitespace s = trim_matches (\<lambda>c. byte c \<in> {32, 9, 13, 10}) s"

definition is_xml_char :: "nat \<Rightarrow> bool" where
  "is_xml_char n \<longleftrightarrow> n = 9 \<or> n = 10 \<or> n = 13 \<or> (32 \<le> n \<and> n \<le> 0xD7FF) \<or>
     (0xE000 \<le> n \<and> n \<le> 0xFFFD) \<or> (0x10000 \<le> n \<and> n \<le> 0x10FFFF)"

definition push_entity_ref :: "lib \<Rightarrow> string \<Rightarrow> string \<Rightarrow> string res" where
  "push_entity_ref lb out name =
     (if starts_with ''#'' name then
        (case resolve_char_ref lb name of
           Inl e \<Rightarrow> Inl (Xml (''invalid character reference: '' @ e))
         | Inr None \<Rightarrow> Inl (Xml (''character reference &'' @ name @ ''; does not resolve''))
         | Inr (Some n) \<Rightarrow>
             if \<not> is_xml_char n
             then Inl (Xml (''character reference &'' @ name @ ''; is U+'' @ show_hex4 n @ '', which XML 1.0 forbids''))
             else Inr (out @ utf8_encode n))
      else
        (case resolve_xml_entity lb name of
           Some resolved \<Rightarrow> Inr (out @ resolved)
         | None \<Rightarrow> Inr (out @ ''&'' @ name @ '';'')))"

definition guard_extracted_len :: "string \<Rightarrow> unit res" where
  "guard_extracted_len value =
     (if max_extracted_text_bytes < length value
      then Inl (Xml (''extracted element text exceeds '' @ show_nat max_extracted_text_bytes @ '' bytes''))
      else Inr ())"

text \<open>A text, CDATA or reference run appended to a bounded buffer.\<close>

definition push_bounded :: "string \<Rightarrow> string \<Rightarrow> string res" where
  "push_bounded value t = and_then (guard_extracted_len (value @ t)) (\<lambda>_. Inr (value @ t))"

definition push_ref_bounded :: "lib \<Rightarrow> string \<Rightarrow> string \<Rightarrow> string res" where
  "push_ref_bounded lb value name =
     and_then (push_entity_ref lb value name) (\<lambda>v. and_then (guard_extracted_len v) (\<lambda>_. Inr v))"

text \<open>The loop of \<open>first_element_text\<close>.  The state is the buffer of the wanted element,
  \<open>None\<close> until it opens; \<open>inside\<close> is set at the same moment and never cleared.\<close>

definition or_empty :: "string option \<Rightarrow> string" where
  "or_empty collected = (case collected of None \<Rightarrow> [] | Some v \<Rightarrow> v)"

fun first_text_loop ::
  "lib \<Rightarrow> string \<Rightarrow> xevent list \<Rightarrow> xfin \<Rightarrow> bool \<Rightarrow> string option \<Rightarrow> string option res" where
  "first_text_loop lb wanted [] fin inside collected = at_end fin None"
| "first_text_loop lb wanted (e # es) fin inside collected =
     (case e of
        XStart name as \<Rightarrow>
          if name = wanted then first_text_loop lb wanted es fin True (Some (or_empty collected))
          else first_text_loop lb wanted es fin inside collected
      | XEmpty name as \<Rightarrow>
          if name = wanted then Inr (Some []) else first_text_loop lb wanted es fin inside collected
      | XText t \<Rightarrow>
          if inside then and_then (push_bounded (or_empty collected) t)
            (\<lambda>v. first_text_loop lb wanted es fin inside (Some v))
          else first_text_loop lb wanted es fin inside collected
      | XCData t \<Rightarrow>
          if inside then and_then (push_bounded (or_empty collected) t)
            (\<lambda>v. first_text_loop lb wanted es fin inside (Some v))
          else first_text_loop lb wanted es fin inside collected
      | XRef name \<Rightarrow>
          if inside then and_then (push_ref_bounded lb (or_empty collected) name)
            (\<lambda>v. first_text_loop lb wanted es fin inside (Some v))
          else first_text_loop lb wanted es fin inside collected
      | XEnd name \<Rightarrow>
          if name = wanted then Inr (map_option trim_xml_whitespace collected)
          else first_text_loop lb wanted es fin inside collected
      | XDocType \<Rightarrow> Inl doctype_error
      | XOther \<Rightarrow> first_text_loop lb wanted es fin inside collected)"

definition first_element_text :: "lib \<Rightarrow> string \<Rightarrow> string \<Rightarrow> string option res" where
  "first_element_text lb input wanted =
     (let (items, fin) = read_events lb False input in
      first_text_loop lb wanted (map fst items) fin False None)"

record child_state =
  ch_parent :: "nat option"
  ch_depth :: nat
  ch_inside :: bool
  ch_pieces :: "string list option"
  ch_current :: string

text \<open>The \<open>flush\<close> closures: the buffer becomes a piece unless it is blank.\<close>

definition flush_piece :: "string \<Rightarrow> string list \<Rightarrow> string list" where
  "flush_piece cur ps =
     (let piece = trim_xml_whitespace cur in if piece = [] then ps else ps @ [piece])"

definition flush_child :: "child_state \<Rightarrow> child_state" where
  "flush_child st =
     (let piece = trim_xml_whitespace (ch_current st) in
      st\<lparr>ch_current := [],
         ch_pieces := (if piece = [] then ch_pieces st
                    else Some ((case ch_pieces st of None \<Rightarrow> [] | Some ps \<Rightarrow> ps) @ [piece]))\<rparr>)"

definition child_start :: "string \<Rightarrow> string \<Rightarrow> string \<Rightarrow> child_state \<Rightarrow> child_state" where
  "child_start parent wanted name st =
     (let st = st\<lparr>ch_depth := ch_depth st + 1\<rparr> in
      if ch_parent st = None \<and> name = parent then st\<lparr>ch_parent := Some (ch_depth st)\<rparr>
      else if ch_parent st \<noteq> None \<and> ch_depth st = the (ch_parent st) + 1 \<and> name = wanted
      then st\<lparr>ch_inside := True,
              ch_pieces := Some (case ch_pieces st of None \<Rightarrow> [] | Some ps \<Rightarrow> ps)\<rparr>
      else if ch_inside st then flush_child st else st)"

text \<open>A closing element either ends the search (\<open>Inr\<close> of the result) or continues it.\<close>

definition child_end ::
  "string \<Rightarrow> string \<Rightarrow> string \<Rightarrow> child_state \<Rightarrow> string option res + child_state" where
  "child_end parent wanted name st =
     (if ch_inside st \<and> name = wanted then
        Inl (case ch_pieces (flush_child st) of
               Some ps \<Rightarrow>
                 and_then (guard_extracted_len (join ''; '' ps)) (\<lambda>_. Inr (Some (join ''; '' ps)))
             | None \<Rightarrow> Inr None)
      else
       (let st = (if ch_inside st then flush_child st else st) in
        if ch_parent st = Some (ch_depth st) \<and> name = parent then Inl (Inr None)
        else Inr (st\<lparr>ch_depth := ch_depth st - 1\<rparr>)))"

fun child_text_loop ::
  "lib \<Rightarrow> string \<Rightarrow> string \<Rightarrow> xevent list \<Rightarrow> xfin \<Rightarrow> child_state \<Rightarrow> string option res" where
  "child_text_loop lb parent wanted [] fin st = at_end fin None"
| "child_text_loop lb parent wanted (e # es) fin st =
     (case e of
        XStart name as \<Rightarrow> child_text_loop lb parent wanted es fin (child_start parent wanted name st)
      | XEmpty name as \<Rightarrow>
          if \<not> ch_inside st \<and> ch_parent st = Some (ch_depth st) \<and> name = wanted
          then Inr (Some [])
          else child_text_loop lb parent wanted es fin (if ch_inside st then flush_child st else st)
      | XText t \<Rightarrow>
          if ch_inside st then and_then (push_bounded (ch_current st) t)
            (\<lambda>v. child_text_loop lb parent wanted es fin (st\<lparr>ch_current := v\<rparr>))
          else child_text_loop lb parent wanted es fin st
      | XCData t \<Rightarrow>
          if ch_inside st then and_then (push_bounded (ch_current st) t)
            (\<lambda>v. child_text_loop lb parent wanted es fin (st\<lparr>ch_current := v\<rparr>))
          else child_text_loop lb parent wanted es fin st
      | XRef name \<Rightarrow>
          if ch_inside st then and_then (push_ref_bounded lb (ch_current st) name)
            (\<lambda>v. child_text_loop lb parent wanted es fin (st\<lparr>ch_current := v\<rparr>))
          else child_text_loop lb parent wanted es fin st
      | XEnd name \<Rightarrow>
          (case child_end parent wanted name st of
             Inl r \<Rightarrow> r | Inr st \<Rightarrow> child_text_loop lb parent wanted es fin st)
      | XDocType \<Rightarrow> Inl doctype_error
      | XOther \<Rightarrow> child_text_loop lb parent wanted es fin st)"

definition initial_child_state :: child_state where
  "initial_child_state = \<lparr>ch_parent = None, ch_depth = 0, ch_inside = False, ch_pieces = None, ch_current = []\<rparr>"

definition first_child_text :: "lib \<Rightarrow> string \<Rightarrow> string \<Rightarrow> string \<Rightarrow> string option res" where
  "first_child_text lb input parent wanted =
     (let (items, fin) = read_events lb False input in
      child_text_loop lb parent wanted (map fst items) fin initial_child_state)"

text \<open>\<open>collect_text_for_elements\<close>: matched depth, pieces, buffer.\<close>

fun collect_loop ::
  "lib \<Rightarrow> string list \<Rightarrow> xevent list \<Rightarrow> xfin \<Rightarrow> nat \<Rightarrow> string list \<Rightarrow> string \<Rightarrow> (string list \<times> string) res" where
  "collect_loop lb wanted [] fin md ps cur = at_end fin (ps, cur)"
| "collect_loop lb wanted (e # es) fin md ps cur =
     (case e of
        XStart name as \<Rightarrow>
          if 0 < md then collect_loop lb wanted es fin (md + 1) (flush_piece cur ps) []
          else if name \<in> set wanted then collect_loop lb wanted es fin (md + 1) ps cur
          else collect_loop lb wanted es fin md ps cur
      | XEnd name \<Rightarrow>
          if 0 < md then collect_loop lb wanted es fin (md - 1) (flush_piece cur ps) []
          else collect_loop lb wanted es fin md ps cur
      | XEmpty name as \<Rightarrow>
          if 0 < md then collect_loop lb wanted es fin md (flush_piece cur ps) []
          else collect_loop lb wanted es fin md ps cur
      | XText t \<Rightarrow> collect_loop lb wanted es fin md ps (if 0 < md then cur @ t else cur)
      | XCData t \<Rightarrow> collect_loop lb wanted es fin md ps (if 0 < md then cur @ t else cur)
      | XRef name \<Rightarrow>
          if 0 < md then and_then (push_entity_ref lb cur name) (collect_loop lb wanted es fin md ps)
          else collect_loop lb wanted es fin md ps cur
      | XDocType \<Rightarrow> Inl doctype_error
      | XOther \<Rightarrow> collect_loop lb wanted es fin md ps cur)"

definition collect_text_for_elements :: "lib \<Rightarrow> string \<Rightarrow> string list \<Rightarrow> nat \<Rightarrow> string res" where
  "collect_text_for_elements lb input wanted limit =
     (let (items, fin) = read_events lb False input in
      and_then (collect_loop lb wanted (map fst items) fin 0 [] []) (\<lambda>(ps, cur).
        Inr (truncate_at limit (join ''; '' (flush_piece cur ps)))))"

section \<open>Entry scanners\<close>

record config_entry =
  entry_name :: string
  entry_xml :: string
  entry_digest :: string

record entry_scan_result =
  scan_status :: string
  scan_code :: "int option"
  scan_entries :: "config_entry list"
  total_seen :: nat
  truncated :: bool

definition owned_entry :: "lib \<Rightarrow> string \<Rightarrow> nat \<Rightarrow> nat \<Rightarrow> string \<Rightarrow> config_entry res" where
  "owned_entry lb raw start stop name =
     (let xml = drop start (take stop raw) in
      if \<not> utf8_valid xml then Inl (Xml ''entry is not valid UTF-8'')
      else Inr \<lparr>entry_name = name, entry_xml = xml,
                entry_digest = ''sha256:'' @ hex_digest (sha256 lb xml)\<rparr>)"

text \<open>The variables of the scan loop; \<open>sc_stack\<close> has the innermost element first.\<close>

record scan_state =
  sc_stack :: "string list"
  sc_summary :: envelope_summary
  sc_saw :: bool
  sc_closed :: bool
  sc_entries :: "config_entry list"
  sc_seen :: nat
  sc_pending :: "(nat \<times> nat \<times> string) option"

record scan_window =
  w_offset :: nat
  w_end :: nat
  w_depth :: nat

text \<open>One complete entry: it is counted, and kept when its index is inside the window.\<close>

definition complete_entry ::
  "lib \<Rightarrow> string \<Rightarrow> scan_window \<Rightarrow> nat \<Rightarrow> nat \<Rightarrow> string res \<Rightarrow> scan_state \<Rightarrow> scan_state res" where
  "complete_entry lb raw w start stop name st =
     (let index = sc_seen st; st = st\<lparr>sc_seen := sc_seen st + 1\<rparr> in
      if w_offset w \<le> index \<and> index < w_end w then
        and_then name (\<lambda>n. and_then (owned_entry lb raw start stop n) (\<lambda>e.
          Inr (st\<lparr>sc_entries := sc_entries st @ [e]\<rparr>)))
      else Inr st)"

definition open_root :: "string \<Rightarrow> xattr list \<Rightarrow> scan_state \<Rightarrow> scan_state res" where
  "open_root name as st =
     (if name \<noteq> ''response'' then Inl (root_name_error ''response'')
      else and_then (read_status_and_code as (sc_summary st)) (\<lambda>sm.
        Inr (st\<lparr>sc_saw := True, sc_summary := sm\<rparr>)))"

definition opens_entry :: "scan_window \<Rightarrow> string \<Rightarrow> scan_state \<Rightarrow> bool" where
  "opens_entry w name st \<longleftrightarrow> sc_pending st = None \<and> name = ''entry'' \<and> w_depth w \<le> length (sc_stack st)"

text \<open>After a closing element has left the stack: the pending entry is complete if it closed.\<close>

definition close_pending ::
  "lib \<Rightarrow> string \<Rightarrow> scan_window \<Rightarrow> nat \<Rightarrow> string \<Rightarrow> scan_state \<Rightarrow> scan_state res" where
  "close_pending lb raw w q name st =
     (case sc_pending st of
        Some (level, start, n) \<Rightarrow>
          if length (sc_stack st) = level \<and> name = ''entry'' then
            and_then (complete_entry lb raw w start q (Inr n) st) (\<lambda>st. Inr (st\<lparr>sc_pending := None\<rparr>))
          else Inr st
      | None \<Rightarrow> Inr st)"

fun scan_step :: "lib \<Rightarrow> string \<Rightarrow> scan_window \<Rightarrow> xitem \<Rightarrow> scan_state \<Rightarrow> scan_state res" where
  "scan_step lb raw w (XDocType, p, q) st = Inl doctype_error"
| "scan_step lb raw w (XStart name as, p, q) st =
     (if max_scan_depth \<le> length (sc_stack st) then Inl (depth_error max_scan_depth)
      else and_then
        (if \<not> sc_saw st then open_root name as st
         else if opens_entry w name st then
           and_then (read_name_attribute as) (\<lambda>n. Inr (st\<lparr>sc_pending := Some (length (sc_stack st), p, n)\<rparr>))
         else Inr st)
        (\<lambda>st. Inr (st\<lparr>sc_stack := name # sc_stack st\<rparr>)))"
| "scan_step lb raw w (XEmpty name as, p, q) st =
     (if max_scan_depth \<le> length (sc_stack st) then Inl (depth_error max_scan_depth)
      else if \<not> sc_saw st then
        and_then (open_root name as st) (\<lambda>st. Inr (st\<lparr>sc_closed := True\<rparr>))
      else if opens_entry w name st then
        complete_entry lb raw w p q (read_name_attribute as) st
      else Inr st)"
| "scan_step lb raw w (XEnd name, p, q) st =
     (case sc_stack st of
        [] \<Rightarrow> Inl (Xml ''input contains a mismatched closing element'')
      | innermost # rest \<Rightarrow>
        if innermost \<noteq> name then Inl (Xml ''input contains a mismatched closing element'')
        else
         (let st = st\<lparr>sc_stack := rest\<rparr> in
          and_then (close_pending lb raw w q name st)
            (\<lambda>st. Inr (if sc_saw st \<and> rest = [] then st\<lparr>sc_closed := True\<rparr> else st))))"
| "scan_step lb raw w (e, p, q) st = Inr st"

fun scan_loop :: "lib \<Rightarrow> string \<Rightarrow> scan_window \<Rightarrow> xitem list \<Rightarrow> scan_state \<Rightarrow> scan_state res" where
  "scan_loop lb raw w [] st = Inr st"
| "scan_loop lb raw w (i # is) st = and_then (scan_step lb raw w i st) (scan_loop lb raw w is)"

definition initial_scan_state :: scan_state where
  "initial_scan_state = \<lparr>sc_stack = [], sc_summary = \<lparr>env_status = None, env_code = None\<rparr>,
     sc_saw = False, sc_closed = False, sc_entries = [], sc_seen = 0, sc_pending = None\<rparr>"

definition parse_code :: "string option \<Rightarrow> int option res" where
  "parse_code code =
     (case code of None \<Rightarrow> Inr None
      | Some text \<Rightarrow>
        (case parse_signed 32 text of
           None \<Rightarrow> Inl (Xml ''response code is not an integer'') | Some c \<Rightarrow> Inr (Some c)))"

definition scan_config_entries ::
  "lib \<Rightarrow> string \<Rightarrow> nat \<Rightarrow> nat \<Rightarrow> nat \<Rightarrow> entry_scan_result res" where
  "scan_config_entries lb raw offset limit min_depth =
     (let (items, fin) = read_events lb True raw;
          w = \<lparr>w_offset = offset, w_end = saturating_add offset limit, w_depth = min_depth\<rparr> in
      and_then (scan_loop lb raw w items initial_scan_state) (\<lambda>st.
      and_then (case fin of
          XEof _ _ \<Rightarrow> Inr (\<not> sc_closed st)
        | XFail e _ \<Rightarrow> if sc_saw st then Inr True else Inl (Xml e)) (\<lambda>end_truncated.
      and_then (parse_code (env_code (sc_summary st))) (\<lambda>code.
        Inr \<lparr>scan_status = or_empty (env_status (sc_summary st)), scan_code = code,
             scan_entries = sc_entries st, total_seen = sc_seen st,
             truncated = end_truncated \<or> sc_pending st \<noteq> None\<rparr>))))"

end
