(* ===== verification/XmlSpec.thy ===== *)
theory XmlSpec
  imports Xml
begin

text \<open>
  What the XML layer guarantees: the structure check accepts exactly one bounded, well-nested
  root element; the entry scanner's pages tile the full list; extracted text is bounded.
\<close>

section \<open>Documents\<close>

fun inert :: "xevent \<Rightarrow> bool" where
  "inert (XText _) = True"
| "inert (XCData _) = True"
| "inert (XRef _) = True"
| "inert XOther = True"
| "inert _ = False"

text \<open>What may stand outside the root element.\<close>

fun outside_ok :: "xevent \<Rightarrow> bool" where
  "outside_ok (XText t) = list_all xml_space t"
| "outside_ok (XCData t) = (t = [])"
| "outside_ok (XRef _) = True"
| "outside_ok XOther = True"
| "outside_ok _ = False"

text \<open>\<open>content d es\<close>: a balanced sequence of elements nested at most \<open>d\<close> deep.\<close>

inductive content :: "nat \<Rightarrow> xevent list \<Rightarrow> bool" where
  c_nil: "content d []"
| c_skip: "inert e \<Longrightarrow> content d es \<Longrightarrow> content d (e # es)"
| c_empty: "0 < d \<Longrightarrow> content d es \<Longrightarrow> content d (XEmpty n as # es)"
| c_elem: "content d body \<Longrightarrow> content (Suc d) es \<Longrightarrow> content (Suc d) (XStart n as # body @ XEnd m # es)"

inductive_cases content_StartE: "content d (XStart n as # es)"
inductive_cases content_EndE: "content d (XEnd m # es)"

definition root_element :: "nat \<Rightarrow> string \<Rightarrow> xattr list \<Rightarrow> xevent list \<Rightarrow> bool" where
  "root_element limit expected as es \<longleftrightarrow> 0 < limit \<and>
     (es = [XEmpty expected as] \<or>
      (\<exists>body m. es = XStart expected as # body @ [XEnd m] \<and> content (limit - 1) body))"

lemma saturating_add_small: "n < usize_max \<Longrightarrow> saturating_add n (Suc 0) = Suc n"
  by (simp add: saturating_add_def)

lemma root_step_inert:
  assumes "inert e" and "root_step limit expected e st = Inr st'"
  shows "st' = st"
  using assms by (cases e) (auto split: if_splits)

lemma root_step_outside:
  assumes "inert e" and "root_step limit expected e st = Inr st'" and "rs_depth st = 0"
  shows "outside_ok e"
  using assms by (cases e) (auto split: if_splits)

lemma xevent_cases:
  obtains "inert e" | n as where "e = XStart n as" | n as where "e = XEmpty n as"
  | n where "e = XEnd n" | "e = XDocType"
  by (cases e) auto

text \<open>Inside an element: the loop runs over balanced content up to the matching end.\<close>

lemma root_loop_inside:
  assumes "root_loop limit expected es st = Inr st'" and "rs_depth st = Suc k" and "rs_saw st"
    and "\<not> rs_closed st" and "rs_depth st' = 0" and "Suc k \<le> limit" and "limit < usize_max"
  shows "\<exists>body m rest. es = body @ XEnd m # rest \<and> content (limit - Suc k) body \<and>
    root_loop limit expected rest (st\<lparr>rs_depth := k, rs_closed := (k = 0)\<rparr>) = Inr st'"
  using assms
proof (induction "length es" arbitrary: es st k rule: less_induct)
  case less
  show ?case
  proof (cases es)
    case Nil
    with less.prems show ?thesis by simp
  next
    case (Cons e es')
    obtain st1 where st1: "root_step limit expected e st = Inr st1" "root_loop limit expected es' st1 = Inr st'"
      using less.prems(1) Cons by (auto simp: and_then_Inr)
    show ?thesis
    proof (cases e rule: xevent_cases)
      case 1
      from root_step_inert [OF 1 st1(1)] have "st1 = st" .
      with less.hyps [of es' st k] less.prems st1 Cons obtain body m rest where
        "es' = body @ XEnd m # rest" "content (limit - Suc k) body"
        "root_loop limit expected rest (st\<lparr>rs_depth := k, rs_closed := (k = 0)\<rparr>) = Inr st'" by auto
      with Cons 1 c_skip show ?thesis by (intro exI [of _ "e # body"]) auto
    next
      case (2 n as)
      define st2 where "st2 = st\<lparr>rs_depth := Suc (Suc k)\<rparr>"
      have sk: "Suc (Suc k) \<le> limit" and "st1 = st2"
        using st1(1) less.prems 2 by (auto simp: saturating_add_small Let_def st2_def split: if_splits)
      with less.hyps [of es' st2 "Suc k"] less.prems st1 Cons obtain b1 m1 r1 where
        b1: "es' = b1 @ XEnd m1 # r1" "content (limit - Suc (Suc k)) b1"
        "root_loop limit expected r1 (st2\<lparr>rs_depth := Suc k, rs_closed := False\<rparr>) = Inr st'"
        by (auto simp: st2_def)
      have "length r1 < length es" using b1 Cons by simp
      from less.hyps [OF this, of "st2\<lparr>rs_depth := Suc k, rs_closed := False\<rparr>" k] less.prems b1(3)
      obtain b2 m2 r2 where b2: "r1 = b2 @ XEnd m2 # r2" "content (limit - Suc k) b2"
        "root_loop limit expected r2 (st\<lparr>rs_depth := k, rs_closed := (k = 0)\<rparr>) = Inr st'"
        by (auto simp: st2_def)
      have "limit - Suc k = Suc (limit - Suc (Suc k))" using sk by simp
      with b1(2) b2(2) have "content (limit - Suc k) (XStart n as # b1 @ XEnd m1 # b2)"
        by (metis c_elem)
      with Cons 2 b1(1) b2 show ?thesis
        by (intro exI [of _ "XStart n as # b1 @ XEnd m1 # b2"] exI [of _ m2] exI [of _ r2]) simp
    next
      case (3 n as)
      then have "st1 = st" and "0 < limit - Suc k"
        using st1(1) less.prems by (auto simp: saturating_add_small split: if_splits)
      moreover from this less.hyps [of es' st k] less.prems st1 Cons obtain body m rest where
        "es' = body @ XEnd m # rest" "content (limit - Suc k) body"
        "root_loop limit expected rest (st\<lparr>rs_depth := k, rs_closed := (k = 0)\<rparr>) = Inr st'" by auto
      ultimately show ?thesis using Cons 3 c_empty by (intro exI [of _ "e # body"]) auto
    next
      case (4 m)
      then have "st1 = st\<lparr>rs_depth := k, rs_closed := (k = 0)\<rparr>"
        using st1(1) less.prems by (auto simp: Let_def)
      with st1(2) Cons 4 show ?thesis
        by (intro exI [of _ "[]"] exI [of _ m] exI [of _ es']) (simp add: c_nil)
    next
      case 5
      with st1(1) show ?thesis by simp
    qed
  qed
qed

lemma root_loop_closed:
  assumes "root_loop limit expected es st = Inr st'" and "rs_depth st = 0" and "rs_saw st" and "rs_closed st"
  shows "list_all outside_ok es \<and> st' = st"
  using assms
proof (induction es)
  case Nil
  then show ?case by simp
next
  case (Cons e es)
  obtain st1 where st1: "root_step limit expected e st = Inr st1" "root_loop limit expected es st1 = Inr st'"
    using Cons.prems(1) by (auto simp: and_then_Inr)
  have "inert e" using st1(1) Cons.prems by (cases e rule: xevent_cases) (auto split: if_splits)
  then have "st1 = st" "outside_ok e" using root_step_inert root_step_outside st1(1) Cons.prems(2) by blast+
  with Cons st1 show ?case by simp
qed

lemma root_loop_outside:
  assumes "root_loop limit expected es st = Inr st'" and "rs_depth st = 0" and "\<not> rs_saw st" and "\<not> rs_closed st"
    and "rs_depth st' = 0" and "rs_saw st'" and "limit < usize_max"
  shows "\<exists>pre as root post. es = pre @ root @ post \<and> list_all outside_ok pre \<and> list_all outside_ok post \<and>
    root_element limit expected as root \<and> read_envelope_attributes as (rs_summary st) = Inr (rs_summary st')"
  using assms
proof (induction es arbitrary: st)
  case Nil
  then show ?case by simp
next
  case (Cons e es)
  obtain st1 where st1: "root_step limit expected e st = Inr st1" "root_loop limit expected es st1 = Inr st'"
    using Cons.prems(1) by (auto simp: and_then_Inr)
  show ?case
  proof (cases e rule: xevent_cases)
    case 1
    then have "st1 = st" "outside_ok e" using root_step_inert root_step_outside st1(1) Cons.prems by blast+
    with Cons st1 obtain pre as root post where "es = pre @ root @ post" "list_all outside_ok pre"
      "list_all outside_ok post" "root_element limit expected as root"
      "read_envelope_attributes as (rs_summary st) = Inr (rs_summary st')" by blast
    with \<open>outside_ok e\<close> show ?thesis by (intro exI [of _ "e # pre"]) auto
  next
    case (2 n as)
    obtain sm where sm: "n = expected" "0 < limit" "read_envelope_attributes as (rs_summary st) = Inr sm"
      "st1 = st\<lparr>rs_depth := 1, rs_saw := True, rs_summary := sm\<rparr>"
      using st1(1) 2 Cons.prems by (auto simp: saturating_add_def usize_max_def and_then_Inr Let_def split: if_splits)
    obtain body m rest where b: "es = body @ XEnd m # rest" "content (limit - 1) body"
      "root_loop limit expected rest (st1\<lparr>rs_depth := 0, rs_closed := True\<rparr>) = Inr st'"
      using root_loop_inside [OF st1(2), of 0] sm Cons.prems by auto
    from root_loop_closed [OF b(3)] sm have p: "list_all outside_ok rest" "rs_summary st' = sm" by auto
    have "root_element limit expected as (XStart n as # body @ [XEnd m])"
      using sm b(2) by (auto simp: root_element_def)
    then show ?thesis using 2 b(1) p sm
      by (intro exI [of _ "[]"] exI [of _ as] exI [of _ "XStart n as # body @ [XEnd m]"] exI [of _ rest]) auto
  next
    case (3 n as)
    obtain sm where sm: "n = expected" "0 < limit" "read_envelope_attributes as (rs_summary st) = Inr sm"
      "st1 = st\<lparr>rs_saw := True, rs_closed := True, rs_summary := sm\<rparr>"
      using st1(1) 3 Cons.prems by (auto simp: saturating_add_def usize_max_def and_then_Inr split: if_splits)
    from root_loop_closed [OF st1(2)] sm Cons.prems have p: "list_all outside_ok es" "rs_summary st' = sm" by auto
    have "root_element limit expected as [XEmpty n as]" using sm by (auto simp: root_element_def)
    then show ?thesis using 3 p sm
      by (intro exI [of _ "[]"] exI [of _ as] exI [of _ "[XEmpty n as]"] exI [of _ es]) auto
  next
    case (4 m)
    with st1(1) Cons.prems show ?thesis by simp
  next
    case 5
    with st1(1) show ?thesis by simp
  qed
qed

lemma xml_root_document:
  assumes "validate_xml_root lb input limits expected field = Inr sm" and "max_depth limits < usize_max"
    and "read_events lb True input = (items, fin)"
  shows "length input \<le> max_bytes limits \<and> (\<exists>p q. fin = XEof p q) \<and>
    (\<exists>pre as root post. map fst items = pre @ root @ post \<and> list_all outside_ok pre \<and>
       list_all outside_ok post \<and> root_element (max_depth limits) expected as root \<and>
       read_envelope_attributes as \<lparr>env_status = None, env_code = None\<rparr> = Inr sm)"
proof -
  obtain st where loop: "root_loop (max_depth limits) expected (map fst items) initial_root_state = Inr st"
    and fin: "at_end fin st = Inr st" and st: "rs_saw st" "rs_depth st = 0" "rs_summary st = sm"
    and len: "length input \<le> max_bytes limits"
    using assms(1,3) by (cases fin) (auto simp: validate_xml_root_def and_then_Inr split: if_splits)
  have "\<exists>p q. fin = XEof p q" using fin by (cases fin) auto
  moreover have "\<exists>pre as root post. map fst items = pre @ root @ post \<and> list_all outside_ok pre \<and>
      list_all outside_ok post \<and> root_element (max_depth limits) expected as root \<and>
      read_envelope_attributes as (rs_summary initial_root_state) = Inr (rs_summary st)"
    using root_loop_outside [OF loop] st assms(2) by (simp add: initial_root_state_def)
  ultimately show ?thesis using len st(3) by (simp add: initial_root_state_def)
qed

text \<open>
  C34. The structure check, for every depth limit below the largest machine integer: whatever events the
  parser delivers, an accepted input is no longer than the byte limit, the parser reached its end, and
  the events are exactly one root element of the expected name around balanced content nested
  within the depth limit, with no DOCTYPE anywhere.  Outside the root there is nothing but white-space
  text, entity and character references, CDATA sections that are empty, and the markup the parser reports as declarations,
  comments and processing instructions (\<open>outside_ok\<close>).  The summary is read from that root's attributes.
\<close>

theorem validate_xml_root_document:
  assumes "validate_xml_root lb input limits expected field = Inr sm" and "max_depth limits < usize_max"
    and "read_events lb True input = (items, fin)"
  shows "length input \<le> max_bytes limits \<and> (\<exists>p q. fin = XEof p q) \<and>
    (\<exists>pre as root post. map fst items = pre @ root @ post \<and> list_all outside_ok pre \<and>
       list_all outside_ok post \<and> root_element (max_depth limits) expected as root \<and>
       read_envelope_attributes as \<lparr>env_status = None, env_code = None\<rparr> = Inr sm)"
  using assms by (rule xml_root_document)

text \<open>A parser that delivers one \<open>response\<close> element with a nested empty element.\<close>

definition sample_items :: "xitem list" where
  "sample_items = [(XStart ''response'' [AttrKV ''status'' (Inr ''success'')], 0, 27),
      (XEmpty ''result'' [], 27, 36), (XEnd ''response'', 36, 47)]"

definition sample_lib :: lib where
  "sample_lib = \<lparr>read_events = (\<lambda>_ _. (sample_items, XEof 47 47)),
    resolve_char_ref = (\<lambda>_. Inr None), resolve_xml_entity = (\<lambda>_. None), sha256 = (\<lambda>_. ''h''),
    redact_text = id, redact_xml = (\<lambda>_ t. Some t), unicode_alphanumeric = (\<lambda>_. False),
    unicode_whitespace = (\<lambda>_. False), str_debug = id\<rparr>"

theorem validate_xml_root_document_witness:
  "\<exists>pre as root post. map fst sample_items = pre @ root @ post \<and> root_element 64 ''response'' as root"
proof -
  have a: "validate_xml_root sample_lib ''<response/>'' \<lparr>max_bytes = 100, max_depth = 64\<rparr> ''response'' ''f''
    = Inr \<lparr>env_status = Some ''success'', env_code = None\<rparr>"
    by code_simp
  have b: "max_depth \<lparr>max_bytes = 100, max_depth = 64\<rparr> < usize_max" by code_simp
  have c: "read_events sample_lib True ''<response/>'' = (sample_items, XEof 47 47)"
    by (simp add: sample_lib_def)
  from validate_xml_root_document [OF a b c] show ?thesis unfolding xml_limits.simps by blast
qed

section \<open>Bounded text\<close>

lemma push_bounded_length: "push_bounded v t = Inr w \<Longrightarrow> length w \<le> max_extracted_text_bytes"
  by (auto simp: push_bounded_def guard_extracted_len_def and_then_Inr split: if_splits)

lemma push_ref_bounded_length: "push_ref_bounded lb v t = Inr w \<Longrightarrow> length w \<le> max_extracted_text_bytes"
  by (auto simp: push_ref_bounded_def guard_extracted_len_def and_then_Inr split: if_splits)

lemma first_text_loop_bound:
  assumes "first_text_loop lb wanted es fin inside collected = Inr (Some t)"
    and "length (or_empty collected) \<le> max_extracted_text_bytes"
  shows "length t \<le> max_extracted_text_bytes"
  using assms
proof (induction es arbitrary: inside collected)
  case Nil
  then show ?case by (cases fin) auto
next
  case (Cons e es)
  show ?case
  proof (cases e)
    case (XEnd n)
    then show ?thesis
    proof (cases "n = wanted")
      case True
      with XEnd Cons.prems show ?thesis
        by (cases collected) (auto simp: trim_xml_whitespace_def or_empty_def intro: order_trans [OF length_trim_matches])
    qed (use Cons XEnd in simp)
  qed (use Cons in \<open>auto simp: or_empty_def and_then_Inr dest: push_bounded_length push_ref_bounded_length split: if_splits\<close>)
qed

lemma child_end_bound:
  "child_end parent wanted name st = Inl (Inr (Some t)) \<Longrightarrow> length t \<le> max_extracted_text_bytes"
  by (auto simp: child_end_def guard_extracted_len_def and_then_Inr Let_def split: if_splits option.splits)

lemma child_text_loop_bound:
  "child_text_loop lb parent wanted es fin st = Inr (Some t) \<Longrightarrow> length t \<le> max_extracted_text_bytes"
proof (induction es arbitrary: st)
  case Nil
  then show ?case by (cases fin) auto
next
  case (Cons e es)
  show ?case
  proof (cases e)
    case (XEnd n)
    with Cons show ?thesis
      by (cases "child_end parent wanted n st") (auto dest: child_end_bound)
  qed (use Cons in \<open>auto simp: and_then_Inr Let_def split: if_splits\<close>)
qed

text \<open>
  Text extracted for one field is never longer than the extraction limit, and the message
  of an error envelope never longer than the caller's limit: a device cannot make an
  extracted fact or an error message grow with its response.
\<close>

theorem extracted_text_bounded:
  "(case first_element_text lb input wanted of Inr (Some t) \<Rightarrow> length t \<le> max_extracted_text_bytes | _ \<Rightarrow> True) \<and>
   (case first_child_text lb input parent wanted of Inr (Some t) \<Rightarrow> length t \<le> max_extracted_text_bytes | _ \<Rightarrow> True) \<and>
   (case collect_text_for_elements lb input names limit of Inr t \<Rightarrow> length t \<le> limit | _ \<Rightarrow> True)"
proof (intro conjI)
  show "case first_element_text lb input wanted of Inr (Some t) \<Rightarrow> length t \<le> max_extracted_text_bytes | _ \<Rightarrow> True"
    using first_text_loop_bound [where collected = None]
    by (auto simp: first_element_text_def or_empty_def split: sum.splits option.splits prod.splits)
  show "case first_child_text lb input parent wanted of Inr (Some t) \<Rightarrow> length t \<le> max_extracted_text_bytes | _ \<Rightarrow> True"
    using child_text_loop_bound
    by (auto simp: first_child_text_def split: sum.splits option.splits prod.splits)
  show "case collect_text_for_elements lb input names limit of Inr t \<Rightarrow> length t \<le> limit | _ \<Rightarrow> True"
    using truncate_at_length
    by (auto simp: collect_text_for_elements_def and_then_Inr split: sum.splits prod.splits)
qed

section \<open>Pages of entries\<close>

text \<open>The window scan and the full scan agree on everything but the entries kept.\<close>

definition page_of :: "nat \<Rightarrow> nat \<Rightarrow> 'a list \<Rightarrow> 'a list" where
  "page_of offset stop xs = drop offset (take stop xs)"

definition same_scan :: "scan_window \<Rightarrow> scan_state \<Rightarrow> scan_state \<Rightarrow> bool" where
  "same_scan w full st \<longleftrightarrow> length (sc_entries full) = sc_seen full \<and>
     st = full\<lparr>sc_entries := page_of (w_offset w) (w_end w) (sc_entries full)\<rparr>"

lemma page_of_snoc:
  "page_of offset stop (xs @ [x]) =
     (if offset \<le> length xs \<and> length xs < stop then page_of offset stop xs @ [x] else page_of offset stop xs)"
  by (auto simp: page_of_def)

lemma complete_entry_seen:
  "complete_entry lb raw w p q n st = Inr st' \<Longrightarrow> sc_seen st \<le> sc_seen st'"
  by (auto simp: complete_entry_def and_then_Inr Let_def split: if_splits)

lemma close_pending_seen: "close_pending lb raw w q n st = Inr st' \<Longrightarrow> sc_seen st \<le> sc_seen st'"
  by (auto simp: close_pending_def and_then_Inr dest!: complete_entry_seen split: option.splits if_splits)

lemma scan_step_seen: "scan_step lb raw w i st = Inr st' \<Longrightarrow> sc_seen st \<le> sc_seen st'"
  by (cases "(lb, raw, w, i, st)" rule: scan_step.cases)
    (auto simp: and_then_Inr open_root_def Let_def dest!: complete_entry_seen close_pending_seen
      split: if_splits list.splits)

lemma scan_loop_seen: "scan_loop lb raw w is st = Inr st' \<Longrightarrow> sc_seen st \<le> sc_seen st'"
  by (induction "is" arbitrary: st) (fastforce simp: and_then_Inr dest: scan_step_seen)+

definition full_window :: "nat \<Rightarrow> scan_window" where
  "full_window d = \<lparr>w_offset = 0, w_end = usize_max, w_depth = d\<rparr>"

lemma complete_entry_page:
  assumes "complete_entry lb raw (full_window d) p q n full = Inr full'"
    and "same_scan w full st" and "sc_seen full' \<le> usize_max"
  shows "\<exists>st'. complete_entry lb raw w p q n st = Inr st' \<and> same_scan w full' st'"
proof -
  have "sc_seen full < usize_max"
    using assms(1,3) by (auto simp: complete_entry_def full_window_def and_then_Inr Let_def split: if_splits)
  then obtain m e where m: "n = Inr m" "owned_entry lb raw p q m = Inr e"
    "full' = full\<lparr>sc_seen := sc_seen full + 1, sc_entries := sc_entries full @ [e]\<rparr>"
    using assms(1) by (auto simp: complete_entry_def full_window_def and_then_Inr Let_def split: if_splits)
  with assms(2) show ?thesis
    by (auto simp: complete_entry_def same_scan_def page_of_snoc)
qed

lemma same_scan_fields:
  assumes "same_scan w full st"
  shows "sc_stack st = sc_stack full" "sc_summary st = sc_summary full" "sc_saw st = sc_saw full"
    "sc_closed st = sc_closed full" "sc_seen st = sc_seen full" "sc_pending st = sc_pending full"
  using assms by (simp_all add: same_scan_def)

lemma same_scan_update:
  assumes "same_scan w full st"
  shows "same_scan w (full\<lparr>sc_stack := s\<rparr>) (st\<lparr>sc_stack := s\<rparr>)"
    "same_scan w (full\<lparr>sc_pending := q\<rparr>) (st\<lparr>sc_pending := q\<rparr>)"
    "same_scan w (full\<lparr>sc_closed := c\<rparr>) (st\<lparr>sc_closed := c\<rparr>)"
    "same_scan w (full\<lparr>sc_saw := c, sc_summary := m\<rparr>) (st\<lparr>sc_saw := c, sc_summary := m\<rparr>)"
  using assms by (simp_all add: same_scan_def)

lemma close_pending_page:
  assumes "close_pending lb raw (full_window d) q n full = Inr full'"
    and sim: "same_scan w full st" and bound: "sc_seen full' \<le> usize_max"
  shows "\<exists>st'. close_pending lb raw w q n st = Inr st' \<and> same_scan w full' st'"
proof (cases "\<exists>start m. sc_pending full = Some (length (sc_stack full), start, m) \<and> n = ''entry''")
  case True
  then obtain start m where pend: "sc_pending full = Some (length (sc_stack full), start, m)" "n = ''entry''"
    by auto
  with assms(1) obtain full1 where full1:
    "complete_entry lb raw (full_window d) start q (Inr m) full = Inr full1" "full' = full1\<lparr>sc_pending := None\<rparr>"
    by (auto simp: close_pending_def and_then_Inr)
  with bound have "sc_seen full1 \<le> usize_max" by simp
  from complete_entry_page [OF full1(1) sim this] obtain st1 where
    "complete_entry lb raw w start q (Inr m) st = Inr st1" "same_scan w full1 st1" by blast
  with pend same_scan_fields [OF sim] full1(2) same_scan_update(2) show ?thesis
    by (auto simp: close_pending_def)
next
  case False
  with assms(1) have "full' = full" by (auto simp: close_pending_def split: option.splits if_splits)
  with False sim same_scan_fields [OF sim] show ?thesis
    by (auto simp: close_pending_def split: option.splits)
qed

lemma opens_entry_page:
  "same_scan w full st \<Longrightarrow> opens_entry w n st = opens_entry (full_window (w_depth w)) n full"
  by (simp add: same_scan_fields opens_entry_def full_window_def)

lemma open_root_page:
  assumes "open_root n as full = Inr full1" and sim: "same_scan w full st"
  shows "\<exists>st'. open_root n as st = Inr st' \<and> same_scan w full1 st'"
  using assms(1) same_scan_update(4) [OF sim] same_scan_fields [OF sim]
  by (auto simp: open_root_def and_then_Inr split: if_splits)

lemma scan_empty_page:
  assumes "scan_step lb raw (full_window (w_depth w)) (XEmpty n as, p, q) full = Inr full'"
    and sim: "same_scan w full st" and bound: "sc_seen full' \<le> usize_max"
  shows "\<exists>st'. scan_step lb raw w (XEmpty n as, p, q) st = Inr st' \<and> same_scan w full' st'"
proof -
  note f = same_scan_fields [OF sim] and oe = opens_entry_page [OF sim]
  consider "\<not> sc_saw full" | "sc_saw full" "opens_entry (full_window (w_depth w)) n full"
    | "sc_saw full" "\<not> opens_entry (full_window (w_depth w)) n full" by blast
  then show ?thesis
  proof cases
    case 1
    with assms(1) obtain full1 where
      "open_root n as full = Inr full1" "full' = full1\<lparr>sc_closed := True\<rparr>"
      "\<not> max_scan_depth \<le> length (sc_stack full)" by (auto simp: and_then_Inr split: if_splits)
    with open_root_page [OF _ sim, of n as full1] f 1 show ?thesis by (auto simp: same_scan_update)
  next
    case 2
    with assms(1) have "complete_entry lb raw (full_window (w_depth w)) p q (read_name_attribute as) full = Inr full'"
      and "\<not> max_scan_depth \<le> length (sc_stack full)" by (auto split: if_splits)
    with complete_entry_page [OF this(1) sim bound] 2 f oe show ?thesis by simp
  next
    case 3
    with assms(1) f oe sim show ?thesis by (auto split: if_splits)
  qed
qed

lemma scan_end_page:
  assumes "scan_step lb raw (full_window (w_depth w)) (XEnd n, p, q) full = Inr full'"
    and sim: "same_scan w full st" and bound: "sc_seen full' \<le> usize_max"
  shows "\<exists>st'. scan_step lb raw w (XEnd n, p, q) st = Inr st' \<and> same_scan w full' st'"
proof -
  note f = same_scan_fields [OF sim] and u = same_scan_update
  obtain rest where rest: "sc_stack full = n # rest"
    using assms(1) by (auto split: list.splits if_splits)
  define full1 where "full1 = full\<lparr>sc_stack := rest\<rparr>"
  define st1 where "st1 = st\<lparr>sc_stack := rest\<rparr>"
  have s1: "same_scan w full1 st1" using u(1) [OF sim] by (simp add: full1_def st1_def)
  obtain full2 where full2: "close_pending lb raw (full_window (w_depth w)) q n full1 = Inr full2"
    "full' = (if sc_saw full2 \<and> rest = [] then full2\<lparr>sc_closed := True\<rparr> else full2)"
    using assms(1) rest by (auto simp: and_then_Inr Let_def full1_def)
  have b2: "sc_seen full2 \<le> usize_max" using full2(2) bound by (auto split: if_splits)
  from close_pending_page [OF full2(1) s1 b2] obtain st2 where
    "close_pending lb raw w q n st1 = Inr st2" "same_scan w full2 st2" by blast
  with full2(2) rest f same_scan_fields [of w full2 st2] u(3) [of w full2 st2 True] show ?thesis
    by (auto simp: st1_def)
qed

lemma scan_step_page:
  assumes "scan_step lb raw (full_window (w_depth w)) i full = Inr full'"
    and sim: "same_scan w full st" and bound: "sc_seen full' \<le> usize_max"
  shows "\<exists>st'. scan_step lb raw w i st = Inr st' \<and> same_scan w full' st'"
proof -
  obtain e p q where i: "i = (e, p, q)" by (cases i) auto
  note f = same_scan_fields [OF sim] and u = same_scan_update and oe = opens_entry_page [OF sim]
  show ?thesis
  proof (cases e)
    case (XStart n as)
    then show ?thesis
    proof (cases "sc_saw full")
      case True
      with assms(1) XStart i f oe u sim show ?thesis
        by (auto simp: and_then_Inr split: if_splits intro: u)
    next
      case False
      with assms(1) XStart i obtain full1 where
        "open_root n as full = Inr full1" "full' = full1\<lparr>sc_stack := n # sc_stack full1\<rparr>"
        "\<not> max_scan_depth \<le> length (sc_stack full)" by (auto simp: and_then_Inr split: if_splits)
      with open_root_page [OF _ sim, of n as full1] XStart i f False show ?thesis
        by (auto simp: same_scan_fields u)
    qed
  next
    case (XEmpty n as)
    with scan_empty_page [OF _ sim bound] assms(1) i show ?thesis by simp
  next
    case (XEnd n)
    with scan_end_page [OF _ sim bound] assms(1) i show ?thesis by simp
  qed (use assms i in auto)
qed

lemma scan_loop_page:
  assumes "scan_loop lb raw (full_window (w_depth w)) is full = Inr full'"
    and "same_scan w full st" and "sc_seen full' \<le> usize_max"
  shows "\<exists>st'. scan_loop lb raw w is st = Inr st' \<and> same_scan w full' st'"
  using assms
proof (induction "is" arbitrary: full st)
  case Nil
  then show ?case by simp
next
  case (Cons i "is")
  obtain full1 where f1: "scan_step lb raw (full_window (w_depth w)) i full = Inr full1"
    "scan_loop lb raw (full_window (w_depth w)) is full1 = Inr full'"
    using Cons.prems(1) by (auto simp: and_then_Inr)
  have "sc_seen full1 \<le> usize_max" using scan_loop_seen [OF f1(2)] Cons.prems(3) by simp
  from scan_step_page [OF f1(1) Cons.prems(2) this] Cons.IH [OF f1(2) _ Cons.prems(3)]
  show ?case by fastforce
qed

text \<open>
  C36. Pages tile the list: when a whole response scans, the page at any offset and limit (up to
  the saturated end \<open>usize::MAX\<close>) is the corresponding slice of its entries, with the
  same status, code, total and truncation flag.
\<close>

theorem scan_pages_tile:
  assumes "scan_config_entries lb raw 0 usize_max d = Inr full" and "total_seen full \<le> usize_max"
  shows "scan_config_entries lb raw offset limit d =
    Inr (full\<lparr>scan_entries := drop offset (take (saturating_add offset limit) (scan_entries full))\<rparr>)"
proof -
  obtain items fin where rd: "read_events lb True raw = (items, fin)" by fastforce
  define w where "w = \<lparr>w_offset = offset, w_end = saturating_add offset limit, w_depth = d\<rparr>"
  have fw: "\<lparr>w_offset = 0, w_end = saturating_add 0 usize_max, w_depth = d\<rparr> = full_window (w_depth w)"
    by (simp add: full_window_def w_def saturating_add_def)
  obtain f t c where f: "scan_loop lb raw (full_window (w_depth w)) items initial_scan_state = Inr f"
    and t: "(case fin of XEof _ _ \<Rightarrow> Inr (\<not> sc_closed f)
        | XFail e _ \<Rightarrow> if sc_saw f then Inr True else Inl (Xml e)) = Inr t"
    and c: "parse_code (env_code (sc_summary f)) = Inr c"
    and full: "full = \<lparr>scan_status = or_empty (env_status (sc_summary f)), scan_code = c,
             scan_entries = sc_entries f, total_seen = sc_seen f, truncated = t \<or> sc_pending f \<noteq> None\<rparr>"
    using assms(1) unfolding scan_config_entries_def rd Let_def fw by (auto simp: and_then_Inr)
  have "same_scan w initial_scan_state initial_scan_state"
    by (simp add: same_scan_def initial_scan_state_def page_of_def)
  from scan_loop_page [OF f this] assms(2) full obtain st where
    st: "scan_loop lb raw w items initial_scan_state = Inr st" "same_scan w f st" by auto
  have page: "sc_entries st = drop offset (take (saturating_add offset limit) (sc_entries f))"
    using st(2) by (simp add: same_scan_def page_of_def w_def)
  show ?thesis
    using st(1) same_scan_fields [OF st(2)] t c page
    by (cases fin) (auto simp: scan_config_entries_def rd w_def full split: if_splits)
qed

theorem scan_pages_tile_witness:
  "\<exists>r. scan_config_entries sample_lib ''<response status=success><result/></response>'' 2 3 1 = Inr r \<and> total_seen r = 0"
proof -
  have "scan_config_entries sample_lib ''<response status=success><result/></response>'' 0 usize_max 1
    = Inr \<lparr>scan_status = ''success'', scan_code = None, scan_entries = [], total_seen = 0, truncated = False\<rparr>"
    by code_simp
  from scan_pages_tile [OF this, of 2 3] show ?thesis by simp
qed

end
