(* ===== verification/XmlInput.thy ===== *)
theory XmlInput
  imports Xml XPathSpec
begin

text \<open>
  Validation of caller input: \<^verbatim>\<open>rust-panosmcp-core/src/xml.rs\<close>, the read
  and write XPath checks, operational commands, configuration elements and job identifiers.
  The write check is the second instance of \<open>root_guard\<close>: unlike a token grant it lets
  only a separator follow a root.
\<close>

section \<open>XPath input\<close>

definition xpath_policy :: "string \<Rightarrow> panos_error" where
  "xpath_policy reason = Policy ''xpath'' reason"

definition read_xpath_byte :: "char \<Rightarrow> bool" where
  "read_xpath_byte c \<longleftrightarrow> is_ascii c \<and>
     (is_ascii_alphanumeric c \<or>
      c \<in> {CHR ''/'', CHR ''-'', CHR ''_'', CHR ''.'', CHR '':'', CHR ''['', CHR '']'', CHR ''@'',
           CHR ''='', CHR 0x27, CHR 0x22})"

text \<open>The loop that balances quotes and brackets; \<open>brackets\<close> is a \<open>u8\<close> with checked
  arithmetic.\<close>

fun balance_loop :: "string \<Rightarrow> nat \<Rightarrow> char option \<Rightarrow> (nat \<times> char option) res" where
  "balance_loop [] brackets quote = Inr (brackets, quote)"
| "balance_loop (b # s) brackets quote =
     (case quote of
        Some q \<Rightarrow> balance_loop s brackets (if b = q then None else quote)
      | None \<Rightarrow>
          if b = CHR 0x27 \<or> b = CHR 0x22 then balance_loop s brackets (Some b)
          else if b = CHR ''['' then
            (if 255 < brackets + 1 then Inl (xpath_policy ''predicate nesting is invalid'')
             else if 1 < brackets + 1 then Inl (xpath_policy ''nested predicates are forbidden'')
             else balance_loop s (brackets + 1) quote)
          else if b = CHR '']'' then
            (if brackets = 0 then Inl (xpath_policy ''predicate brackets are unbalanced'')
             else balance_loop s (brackets - 1) quote)
          else balance_loop s brackets quote)"

definition validate_read_xpath :: "string \<Rightarrow> unit res" where
  "validate_read_xpath xpath =
     (if xpath = [] then Inl (xpath_policy ''value is empty'')
      else if max_xpath_bytes < length xpath then Inl (InputTooLarge ''xpath'' max_xpath_bytes)
      else if xpath \<noteq> ''/config'' \<and> \<not> starts_with ''/config/'' xpath
      then Inl (xpath_policy ''path must be rooted at /config'')
      else if contains ''//'' xpath \<or> contains ''..'' xpath
      then Inl (xpath_policy ''descendant and parent traversal are forbidden'')
      else if \<not> list_all read_xpath_byte xpath
      then Inl (xpath_policy ''value contains unsupported XPath syntax'')
      else if 64 < count_list xpath (CHR ''/'')
      then Inl (xpath_policy ''path exceeds the 64-segment limit'')
      else and_then (balance_loop xpath 0 None) (\<lambda>(brackets, quote).
        if brackets \<noteq> 0 \<or> quote \<noteq> None
        then Inl (xpath_policy ''quotes or predicate brackets are unbalanced'')
        else if \<not> is_strict_xpath_shape xpath
        then Inl (xpath_policy ''value contains unsupported XPath syntax'')
        else Inr ()))"

definition validate_write_xpath :: "lib \<Rightarrow> string \<Rightarrow> string list \<Rightarrow> unit res" where
  "validate_write_xpath lb xpath allowed_roots =
     and_then (validate_read_xpath xpath) (\<lambda>_.
       let candidate = canonicalize_xpath_quotes (unicode_alphanumeric lb) xpath in
       if \<exists>root \<in> set allowed_roots.
            (let root = canonicalize_xpath_quotes (unicode_alphanumeric lb) root in
             candidate = root \<or>
             (case strip_prefix root candidate of None \<Rightarrow> False | Some suffix \<Rightarrow> starts_with ''/'' suffix))
       then Inr ()
       else Inl (xpath_policy ''path is outside every operator-configured mutation root''))"

section \<open>Commands, elements, job identifiers\<close>

fun first_show_loop :: "xevent list \<Rightarrow> xfin \<Rightarrow> unit res" where
  "first_show_loop [] fin = at_end fin ()"
| "first_show_loop (XStart name as # es) fin =
     (if as \<noteq> [] then Inl (Policy ''command'' ''attributes on the show root are not permitted'') else Inr ())"
| "first_show_loop (XEmpty name as # es) fin =
     (if as \<noteq> [] then Inl (Policy ''command'' ''attributes on the show root are not permitted'') else Inr ())"
| "first_show_loop (e # es) fin = first_show_loop es fin"

definition validate_read_only_op_command :: "lib \<Rightarrow> string \<Rightarrow> unit res" where
  "validate_read_only_op_command lb input =
     and_then (validate_xml_root lb input \<lparr>max_bytes = max_op_command_bytes, max_depth = 32\<rparr> ''show'' ''command'')
       (\<lambda>_. let (items, fin) = read_events lb False input in first_show_loop (map fst items) fin)"

fun tag_names :: "xevent list \<Rightarrow> string list" where
  "tag_names [] = []"
| "tag_names (XStart name as # es) = name # tag_names es"
| "tag_names (XEmpty name as # es) = name # tag_names es"
| "tag_names (e # es) = tag_names es"

text \<open>A name that is not UTF-8 is refused where it is met, so the first bad name wins over a
  later parse error.\<close>

definition op_command_tag_path :: "lib \<Rightarrow> string \<Rightarrow> string res" where
  "op_command_tag_path lb input =
     (let (items, fin) = read_events lb True input; names = tag_names (map fst items) in
      if \<not> list_all utf8_valid names then Inl (Xml ''non-UTF-8 element name'')
      else at_end fin (join '' '' names))"

fun first_root_name :: "xevent list \<Rightarrow> xfin \<Rightarrow> string res" where
  "first_root_name [] (XEof _ _) = Inl (Xml ''element contains no root node'')"
| "first_root_name [] (XFail e _) = Inl (Xml e)"
| "first_root_name (XStart name as # es) fin = Inr name"
| "first_root_name (XEmpty name as # es) fin = Inr name"
| "first_root_name (XDocType # es) fin = Inl doctype_error"
| "first_root_name (e # es) fin = first_root_name es fin"

definition validate_config_element :: "lib \<Rightarrow> string \<Rightarrow> unit res" where
  "validate_config_element lb element =
     (if element = [] then Inl (Policy ''element'' ''value is empty'')
      else if max_config_element_bytes < length element
      then Inl (InputTooLarge ''element'' max_config_element_bytes)
      else
       (let (items, fin) = read_events lb False element in
        and_then (first_root_name (map fst items) fin) (\<lambda>root.
        and_then (validate_xml_root lb element
            \<lparr>max_bytes = max_config_element_bytes, max_depth = 32\<rparr> root ''element'') (\<lambda>_. Inr ()))))"

definition validate_job_id :: "string \<Rightarrow> unit res" where
  "validate_job_id job_id =
     (if job_id = [] \<or> max_job_id_bytes < length job_id \<or> \<not> list_all is_ascii_digit job_id
      then Inl (Policy ''job_id''
        (''job identifier must contain only 1-'' @ show_nat max_job_id_bytes @ '' ASCII digits''))
      else Inr ())"

section \<open>The device's write policy is a root check\<close>

lemma validate_read_strict: "validate_read_xpath x = Inr () \<Longrightarrow> is_strict_xpath_shape x"
  by (auto simp: validate_read_xpath_def and_then_Inr split: if_splits)

lemma validate_read_slash: "validate_read_xpath x = Inr () \<Longrightarrow> starts_with ''/config'' x"
  by (auto simp: validate_read_xpath_def starts_with_iff split: if_splits)

lemma validate_write_iff:
  "validate_write_xpath lb x roots = Inr () \<longleftrightarrow> validate_read_xpath x = Inr () \<and>
     (\<exists>root \<in> set roots. canon_within (unicode_alphanumeric lb) False root x)"
  by (simp add: validate_write_xpath_def and_then_Inr canon_within_strip Let_def cong: option.case_cong)

interpretation device: root_guard "unicode_alphanumeric lb" False "\<lambda>x. validate_read_xpath x = Inr ()"
  "\<lambda>roots x. validate_write_xpath lb x roots = Inr ()" for lb
  by unfold_locales (auto simp: validate_write_iff dest: validate_read_strict)

text \<open>
  C27. The device policy confines every write: a path that passes \<open>validate_write_xpath\<close>
  under plain operator roots has the parsed steps of one of those roots as a prefix.
\<close>

theorem write_xpath_confined:
  assumes "validate_write_xpath lb x roots = Inr ()" and "\<forall>root \<in> set roots. plain_path root"
  shows "\<exists>root \<in> set roots. \<exists>rs xs.
    xpath_steps root = Some rs \<and> xpath_steps x = Some xs \<and> covers False rs xs"
  using device.sound assms .

theorem write_xpath_confined_witness:
  "\<exists>rs xs. xpath_steps ''/config/shared'' = Some rs \<and>
     xpath_steps ''/config/shared/tag/entry[@name=\"t1\"]'' = Some xs \<and> covers False rs xs"
proof -
  have "validate_write_xpath null_lib ''/config/shared/tag/entry[@name=\"t1\"]'' [''/config/shared''] = Inr ()"
    by code_simp
  moreover have "plain_path ''/config/shared''" by code_simp
  ultimately show ?thesis
    using write_xpath_confined [where roots = "[''/config/shared'']"] by simp
qed

section \<open>What an accepted read path looks like\<close>

text \<open>No accepted path can carry a quote outside its own steps: the byte set has no space,
  backslash, parenthesis or control byte, so the text of an accepted path is its structure.\<close>

text \<open>
  C35. An accepted read path is bounded and is exactly the text of a list of well-formed steps
  below \<open>/config\<close>: bare names or names with one attribute equality whose value cannot
  close its own quotes.
\<close>

theorem read_xpath_structure:
  assumes "validate_read_xpath x = Inr ()"
  shows "length x \<le> max_xpath_bytes \<and> list_all read_xpath_byte x \<and>
    (\<exists>q qs. x = path_text ((q, XStep ''config'' None) # qs) \<and> (\<forall>(q, st) \<in> set qs. wf_step q st) \<and> length qs \<le> 63)"
proof -
  have b: "length x \<le> max_xpath_bytes" "list_all read_xpath_byte x" "count_list x (CHR ''/'') \<le> 64"
    using assms by (auto simp: validate_read_xpath_def split: if_splits)
  have sl: "starts_with ''/'' x" using validate_read_slash [OF assms] by (auto simp: starts_with_iff)
  obtain qs where qs: "x = path_text qs" "\<forall>(q, st) \<in> set qs. wf_step q st"
    using strict_path_text [OF validate_read_strict [OF assms] sl] by blast
  have cnt: "length zs \<le> count_list (path_text zs) (CHR ''/'')" for zs
    by (induction zs) (auto simp: count_list_append)
  obtain q st ys where ys: "qs = (q, st) # ys" using sl qs(1) by (cases qs) (auto simp: starts_with_iff)
  have rest: "x = ''/config'' @ r \<Longrightarrow> r = [] \<or> hd r = CHR ''/''" for r
    using assms by (auto simp: validate_read_xpath_def starts_with_iff split: if_splits)
  obtain r where r: "x = ''/config'' @ r" using validate_read_slash [OF assms] by (auto simp: starts_with_iff)
  obtain n p where st: "st = XStep n p" by (cases st)
  obtain t where t: "raw_step q st = n @ t" "t = [] \<or> hd t = CHR ''[''" "t = [] \<longleftrightarrow> p = None"
    using st by (cases p) auto
  have nb: "\<forall>c \<in> set n. strict_name_byte c" using qs(2) ys st by (auto simp: list_all_iff)
  have eq: "n @ t @ path_text ys = ''config'' @ r" using qs(1) ys t(1) r by simp
  have "n = ''config'' \<and> t @ path_text ys = r"
  proof (rule split_unique [OF eq nb])
    show "\<forall>c \<in> set ''config''. strict_name_byte c"
      by (simp add: strict_name_byte_def ascii_defs)
    show "t @ path_text ys = [] \<or> \<not> strict_name_byte (hd (t @ path_text ys))"
      using t(2) by (cases t; cases ys) auto
    show "r = [] \<or> \<not> strict_name_byte (hd r)" using rest [OF r] by auto
  qed
  with rest [OF r] t have "p = None" by (cases t) auto
  with \<open>n = ''config'' \<and> _\<close> st ys qs b cnt [of qs] show ?thesis
    by (intro conjI exI [of _ q] exI [of _ ys]) auto
qed

theorem read_xpath_structure_witness:
  "\<exists>q qs. ''/config/shared/tag/entry[@name=\"ethernet1/1\"]'' = path_text ((q, XStep ''config'' None) # qs)"
proof -
  have "validate_read_xpath ''/config/shared/tag/entry[@name=\"ethernet1/1\"]'' = Inr ()" by code_simp
  from read_xpath_structure [OF this] show ?thesis by blast
qed

end
