(* ===== verification/Redact.thy ===== *)
theory Redact
  imports Xml
begin

text \<open>
  Redaction of device text: the three shape passes and the structural pass of
  \<^verbatim>\<open>rust-panosmcp-core/src/xml.rs\<close> and the boundary helper of
  \<^verbatim>\<open>rust-panosmcp-core/src/redact.rs\<close>, which calls the redaction crate.
\<close>

section \<open>Shape passes\<close>

text \<open>\<open>str::find\<close> of a byte class, or the whole length.\<close>

definition find_or_end :: "(char \<Rightarrow> bool) \<Rightarrow> string \<Rightarrow> nat" where
  "find_or_end P s = (case find_pos P s of None \<Rightarrow> length s | Some i \<Rightarrow> i)"

text \<open>\<open>str::find\<close> of a class of characters, on the characters of the text.\<close>

fun find_char :: "(string \<Rightarrow> bool) \<Rightarrow> string list \<Rightarrow> nat" where
  "find_char P [] = 0"
| "find_char P (ch # chs) = (if P ch then 0 else length ch + find_char P chs)"

definition token_stop :: "lib \<Rightarrow> string \<Rightarrow> bool" where
  "token_stop lb ch \<longleftrightarrow> ch \<in> {''<'', ''>'', [CHR 0x22]} \<or> char_whitespace lb ch"

definition crypt_id :: "string \<Rightarrow> bool" where
  "crypt_id s \<longleftrightarrow> s \<noteq> [] \<and> length s \<le> 8 \<and> list_all is_ascii_alphanumeric s"

definition crypt_step :: "lib \<Rightarrow> string \<Rightarrow> string option" where
  "crypt_step lb after_dollar =
     (let id_end = find_char (\<lambda>ch. ch = ''$'' \<or> token_stop lb ch) (utf8_chars after_dollar) in
      if crypt_id (take id_end after_dollar) \<and> starts_with ''$'' (drop id_end after_dollar) then
        (let token_body = drop (id_end + 1) after_dollar in
         Some (drop (find_char (token_stop lb) (utf8_chars token_body)) token_body))
      else None)"

lemma crypt_step_suffix:
  assumes "crypt_step lb s = Some r"
  shows "\<exists>x. s = x @ r \<and> x \<noteq> []"
proof -
  obtain i k where s: "starts_with ''$'' (drop i s)" and r: "r = drop k (drop (i + 1) s)"
    using assms by (auto simp: crypt_step_def Let_def split: if_splits)
  from s obtain z where z: "drop i s = CHR ''$'' # z" by (auto simp: starts_with_iff)
  then have "drop (i + 1) s = z" by (metis Suc_eq_plus1 drop_Suc drop_tl list.sel(3) tl_drop)
  moreover have "s = take i s @ CHR ''$'' # take k z @ drop k z" using z by (metis append_take_drop_id)
  ultimately show ?thesis using r by (intro exI [of _ "take i s @ CHR ''$'' # take k z"]) simp
qed

lemma crypt_step_shorter: "crypt_step lb s = Some r \<Longrightarrow> length r < length s"
  using crypt_step_suffix [of lb s r] by auto

function redact_crypt_hashes :: "lib \<Rightarrow> string \<Rightarrow> string" where
  "redact_crypt_hashes lb rest =
     (case find_pos (\<lambda>c. c = CHR ''$'') rest of None \<Rightarrow> rest
      | Some dollar_at \<Rightarrow>
        take dollar_at rest @
        (let after_dollar = drop (dollar_at + 1) rest in
         case crypt_step lb after_dollar of
           Some rest \<Rightarrow> ''[REDACTED-HASH]'' @ redact_crypt_hashes lb rest
         | None \<Rightarrow> ''$'' @ redact_crypt_hashes lb after_dollar))"
  by pat_completeness auto
termination
proof (relation "measure (\<lambda>(lb, s). length s)")
  show "((lb, r), (lb, rest)) \<in> measure (\<lambda>(lb, s). length s)"
    if "find_pos (\<lambda>c. c = CHR ''$'') rest = Some i" "x = drop (i + 1) rest" "crypt_step lb x = Some r"
    for lb rest i x r
    using that crypt_step_shorter [of lb x r] by auto
  show "((lb, x), (lb, rest)) \<in> measure (\<lambda>(lb, s). length s)"
    if "find_pos (\<lambda>c. c = CHR ''$'') rest = Some i" "x = drop (i + 1) rest"
    for lb rest i x
    using that by (auto simp: find_pos_Some)
qed simp

declare redact_crypt_hashes.simps [simp del]

definition master_key_byte :: "char \<Rightarrow> bool" where
  "master_key_byte c \<longleftrightarrow>
     is_ascii_alphanumeric c \<or> c \<in> {CHR ''+'', CHR ''/'', CHR ''='', CHR ''-'', CHR ''_''}"

function redact_master_key_blobs :: "string \<Rightarrow> string" where
  "redact_master_key_blobs rest =
     (case find_sub ''-AQ=='' rest of None \<Rightarrow> rest
      | Some marker_at \<Rightarrow>
        (let after_marker = drop (marker_at + 5) rest in
         take marker_at rest @ ''[REDACTED-SECRET]'' @
         redact_master_key_blobs (drop (find_or_end (\<lambda>c. \<not> master_key_byte c) after_marker) after_marker)))"
  by pat_completeness auto
termination
proof (relation "measure length")
  show "(drop (find_or_end (\<lambda>c. \<not> master_key_byte c) x) x, rest) \<in> measure length"
    if m: "find_sub ''-AQ=='' rest = Some i" "x = drop (i + 5) rest" for rest i x
  proof -
    obtain b where b: "rest = take i rest @ ''-AQ=='' @ b" and i: "i \<le> length rest"
      using find_sub_Some [OF m(1)] by blast
    have "5 \<le> length rest - i" using arg_cong [OF b, of length] i by simp
    then show ?thesis using m by simp
  qed
qed simp

declare redact_master_key_blobs.simps [simp del]

text \<open>\<open>redact_pem_private_keys\<close>: a block whose label ends in \<open>PRIVATE KEY\<close> goes whole, or to the
  end of the text when its end line is missing.\<close>

definition pem_begin :: string where "pem_begin = ''-----BEGIN ''"

lemma find_sub_length: "find_sub p s = Some i \<Longrightarrow> i + length p \<le> length s"
proof -
  assume "find_sub p s = Some i"
  from find_sub_Some [OF this] obtain b where b: "s = take i s @ p @ b" and i: "i \<le> length s" by blast
  show ?thesis using arg_cong [OF b, of length] i by simp
qed

function redact_pem_private_keys :: "string \<Rightarrow> string" where
  "redact_pem_private_keys rest =
     (case find_sub pem_begin rest of None \<Rightarrow> rest
      | Some begin_at \<Rightarrow>
        (let after_begin = drop (begin_at + length pem_begin) rest in
         case find_sub ''-----'' after_begin of
           None \<Rightarrow> take (begin_at + length pem_begin) rest @ redact_pem_private_keys after_begin
         | Some dashes_at \<Rightarrow>
           (let label = take dashes_at after_begin in
            if \<not> ends_with ''PRIVATE KEY'' label then
              (let consumed = dashes_at + 5 in
               take (begin_at + length pem_begin + consumed) rest
                 @ redact_pem_private_keys (drop consumed after_begin))
            else
              (let body = drop (dashes_at + 5) after_begin;
                   end_marker = ''-----END '' @ label @ ''-----'' in
               take begin_at rest @ ''[REDACTED-PRIVATE-KEY]'' @
               (case find_sub end_marker body of
                  Some end_at \<Rightarrow> redact_pem_private_keys (drop (end_at + length end_marker) body)
                | None \<Rightarrow> redact_pem_private_keys [])))))"
  by pat_completeness auto

termination
  by (relation "measure length") (auto simp: pem_begin_def dest!: find_sub_length)

declare redact_pem_private_keys.simps [simp del]

section \<open>Structural pass\<close>

definition secret_element_names :: "string list" where
  "secret_element_names = [''phash'', ''password'', ''private-key'', ''key'', ''secret'', ''bind-password'',
     ''auth-password'', ''priv-password'', ''passphrase'', ''community'']"

definition is_secret_element_name :: "string \<Rightarrow> bool" where
  "is_secret_element_name name \<longleftrightarrow> (\<exists>c \<in> set secret_element_names. eq_ignore_ascii_case name c)"

fun is_content :: "xevent \<Rightarrow> bool" where
  "is_content (XText _) = True"
| "is_content (XCData _) = True"
| "is_content (XRef _) = True"
| "is_content _ = False"

definition slice :: "string \<Rightarrow> nat \<Rightarrow> nat \<Rightarrow> string" where
  "slice s start stop = drop start (take stop s)"

text \<open>The loop variables: element depth, depth of the open secret element, marker just written.\<close>

fun next_secret :: "nat \<Rightarrow> nat option \<Rightarrow> xevent \<Rightarrow> nat \<times> nat option" where
  "next_secret d secret (XStart name as) =
     (d + 1, if secret = None \<and> is_secret_element_name name then Some (d + 1) else secret)"
| "next_secret d secret (XEnd name) = (d - 1, if secret = Some d then None else secret)"
| "next_secret d secret e = (d, secret)"

fun redact_structural_loop :: "string \<Rightarrow> xitem list \<Rightarrow> xfin \<Rightarrow> nat \<Rightarrow> nat option \<Rightarrow> bool \<Rightarrow> string" where
  "redact_structural_loop input [] (XEof start stop) d secret marker_open = slice input start (min stop (length input))"
| "redact_structural_loop input [] (XFail e start) d secret marker_open = drop (min start (length input)) input"
| "redact_structural_loop input ((e, start, stop) # items) fin d secret marker_open =
     (if secret \<noteq> None \<and> is_content e then
        (if marker_open then [] else ''[REDACTED-SECRET]'') @
        redact_structural_loop input items fin d secret True
      else
       (let (d', secret') = next_secret d secret e in
        slice input start stop @ redact_structural_loop input items fin d' secret' False))"

definition redact_structural_secret_elements :: "lib \<Rightarrow> string \<Rightarrow> string" where
  "redact_structural_secret_elements lb input =
     (let (items, fin) = read_events lb False input in redact_structural_loop input items fin 0 None False)"

definition redact_secret_material :: "lib \<Rightarrow> string \<Rightarrow> string" where
  "redact_secret_material lb input =
     redact_master_key_blobs (redact_crypt_hashes lb (redact_pem_private_keys
       (redact_structural_secret_elements lb input)))"

section \<open>Boundary helper\<close>

definition panos_profile_keys :: "string list" where
  "panos_profile_keys = [''sessions'', ''sessionsactive'', ''maxsessions'', ''sessiontimeout'',
     ''idletimeouttcpsession'', ''communitylist'', ''matchcommunity'', ''addcommunity'', ''removecommunity'']"

definition redact_device_xml :: "lib \<Rightarrow> string \<Rightarrow> string" where
  "redact_device_xml lb xml =
     (case redact_xml lb panos_profile_keys xml of Some t \<Rightarrow> t | None \<Rightarrow> redact_text lb xml)"

end
