(* ===== verification/RedactSpec.thy ===== *)
theory RedactSpec
  imports Redact XmlSpec
begin

text \<open>
  What the redaction passes guarantee.  A shape pass is an instance of the locale
  \<open>scan_replace\<close>: it copies text byte by byte and replaces every matched token by a
  bracketed marker.  Inside the locale it is shown once that no token shape survives a pass and
  that a pass never re-creates a shape an earlier pass removed.
\<close>

section \<open>Texts free of a set of shapes\<close>

definition free :: "(string \<Rightarrow> bool) \<Rightarrow> string \<Rightarrow> bool" where
  "free bad s \<longleftrightarrow> (\<forall>a b w. s = a @ b @ w \<longrightarrow> \<not> bad b)"

lemma freeD: "free bad s \<Longrightarrow> s = a @ b @ w \<Longrightarrow> \<not> bad b"
  unfolding free_def by blast

lemma free_sub: "free bad (x @ s @ y) \<Longrightarrow> free bad s"
  unfolding free_def by (metis append.assoc)

lemma split_around:
  assumes "a @ b @ w = x @ d # y" and "d \<notin> set b" and "b \<noteq> []"
  shows "(\<exists>w'. x = a @ b @ w') \<or> (\<exists>a'. y = a' @ b @ w)"
proof (cases "length (a @ b) \<le> length x")
  case True
  have "take (length (a @ b)) x = take (length (a @ b)) (x @ d # y)" using True by simp
  also have "\<dots> = a @ b" using assms(1) [symmetric] by simp
  finally have "x = (a @ b) @ drop (length (a @ b)) x" by (metis append_take_drop_id)
  then show ?thesis by auto
next
  case False
  have "length x < length a \<or> \<not> length x < length a" by blast
  then show ?thesis
  proof
    assume "length x < length a"
    then have "drop (length x + 1) (a @ b @ w) = drop (length x + 1) a @ b @ w" by simp
    moreover have "drop (length x + 1) (x @ d # y) = y" by simp
    ultimately show ?thesis using assms(1) by metis
  next
    assume n: "\<not> length x < length a"
    have "(a @ b @ w) ! length x = d" using assms(1) by (simp add: nth_append)
    moreover have "(a @ b @ w) ! length x = b ! (length x - length a)"
      using n False by (simp add: nth_append) linarith
    moreover have "length x - length a < length b" using n False by simp
    ultimately have "d \<in> set b" by (metis nth_mem)
    with assms(2) show ?thesis by simp
  qed
qed

section \<open>The interface of a shape pass\<close>

locale scan_replace =
  fixes token :: "string \<Rightarrow> string option" and body :: string and pass :: "string \<Rightarrow> string"
  assumes token_suffix: "token s = Some r \<Longrightarrow> \<exists>x. s = x @ r \<and> x \<noteq> []"
    and pass_nil: "pass [] = []"
    and pass_cons: "pass (c # s) = (case token (c # s) of
      Some r \<Rightarrow> CHR ''['' # body @ CHR '']'' # pass r | None \<Rightarrow> c # pass s)"
begin

lemma transparent:
  "pass s = p @ w \<Longrightarrow> CHR ''['' \<notin> set p \<Longrightarrow> \<exists>v. s = p @ v \<and> pass v = w"
proof (induction p arbitrary: s)
  case (Cons x p)
  then obtain c s' where s: "s = c # s'" by (cases s) (auto simp: pass_nil)
  have "token (c # s') = None" using Cons.prems s by (auto simp: pass_cons split: option.splits)
  with Cons.prems s have "x = c" "pass s' = p @ w" by (simp_all add: pass_cons)
  with Cons s show ?case by auto
qed auto

lemma marker_free:
  assumes "\<And>b. bad b \<Longrightarrow> b \<noteq> [] \<and> CHR ''['' \<notin> set b \<and> CHR '']'' \<notin> set b" and "free bad body" and "free bad t"
  shows "free bad (CHR ''['' # body @ CHR '']'' # t)"
  unfolding free_def
proof (intro allI impI notI)
  fix a b w
  assume eq: "CHR ''['' # body @ CHR '']'' # t = a @ b @ w" and bad: "bad b"
  have "a @ b @ w = (CHR ''['' # body) @ CHR '']'' # t" using eq by simp
  from split_around [OF this] assms(1) [OF bad] consider w' where "CHR ''['' # body = a @ b @ w'"
    | a' where "t = a' @ b @ w" by auto
  then show False
  proof cases
    case 1
    then have "a @ b @ w' = [] @ CHR ''['' # body" by simp
    from split_around [OF this] assms(1) [OF bad] obtain a' where "body = a' @ b @ w'" by auto
    with assms(2) bad show False using freeD by metis
  next
    case 2
    with assms(3) bad show False using freeD by metis
  qed
qed

lemma pass_preserves:
  assumes bad: "\<And>b. bad b \<Longrightarrow> b \<noteq> [] \<and> CHR ''['' \<notin> set b \<and> CHR '']'' \<notin> set b" and "free bad body"
    and "free bad s"
  shows "free bad (pass s)"
  using assms(3)
proof (induction s rule: length_induct)
  case (1 s)
  show ?case
  proof (cases s)
    case Nil
    with 1 show ?thesis by (simp add: pass_nil)
  next
    case (Cons c s')
    show ?thesis
    proof (cases "token s")
      case (Some r)
      then obtain x where x: "s = x @ r" "x \<noteq> []" using token_suffix by blast
      with 1(2) have "free bad r" using free_sub [of bad x r "[]"] by simp
      with 1(1) x have "free bad (pass r)" by simp
      with Cons Some marker_free [OF bad assms(2)] show ?thesis by (simp add: pass_cons)
    next
      case None
      have "free bad s'" using 1(2) free_sub [of bad "[c]" s' "[]"] Cons by simp
      with 1(1) Cons have IH: "free bad (pass s')" by simp
      have p: "pass s = c # pass s'" using Cons None by (simp add: pass_cons)
      show ?thesis unfolding free_def
      proof (intro allI impI notI)
        fix a b w
        assume eq: "pass s = a @ b @ w" and b: "bad b"
        show False
        proof (cases a)
          case Nil
          with eq transparent [of s b w] bad [OF b] obtain v where "s = b @ v" by auto
          with 1(2) b freeD [of bad s "[]" b v] show False by simp
        next
          case (Cons d a')
          with eq p have "pass s' = a' @ b @ w" by simp
          with IH b show False using freeD by metis
        qed
      qed
    qed
  qed
qed

lemma pass_clean:
  assumes bad: "\<And>b. bad b \<Longrightarrow> b \<noteq> [] \<and> CHR ''['' \<notin> set b \<and> CHR '']'' \<notin> set b" and "free bad body"
    and match: "\<And>b v. bad b \<Longrightarrow> token (b @ v) \<noteq> None"
  shows "free bad (pass s)"
proof (induction s rule: length_induct)
  case (1 s)
  show ?case
  proof (cases s)
    case Nil
    with bad show ?thesis by (auto simp: pass_nil free_def)
  next
    case (Cons c s')
    show ?thesis
    proof (cases "token s")
      case (Some r)
      then obtain x where x: "s = x @ r" "x \<noteq> []" using token_suffix by blast
      with 1 have "free bad (pass r)" by simp
      with Cons Some marker_free [OF bad assms(2)] show ?thesis by (simp add: pass_cons)
    next
      case None
      have IH: "free bad (pass s')" using 1 Cons by simp
      have p: "pass s = c # pass s'" using Cons None by (simp add: pass_cons)
      show ?thesis unfolding free_def
      proof (intro allI impI notI)
        fix a b w
        assume eq: "pass s = a @ b @ w" and b: "bad b"
        show False
        proof (cases a)
          case Nil
          with eq transparent [of s b w] bad [OF b] obtain v where "s = b @ v" by auto
          with match [OF b, of v] None show False by simp
        next
          case (Cons d a')
          with eq p have "pass s' = a' @ b @ w" by simp
          with IH b show False using freeD by metis
        qed
      qed
    qed
  qed
qed

end

section \<open>The two token passes are shape passes\<close>

definition crypt_token :: "lib \<Rightarrow> string \<Rightarrow> string option" where
  "crypt_token lb s = (case s of [] \<Rightarrow> None | c # r \<Rightarrow> if c = CHR ''$'' then crypt_step lb r else None)"

lemma redact_crypt_cons:
  "redact_crypt_hashes lb (c # s) = (case crypt_token lb (c # s) of
     Some r \<Rightarrow> CHR ''['' # ''REDACTED-HASH'' @ CHR '']'' # redact_crypt_hashes lb r
   | None \<Rightarrow> c # redact_crypt_hashes lb s)"
proof (cases "c = CHR ''$''")
  case True
  then show ?thesis
    by (subst redact_crypt_hashes.simps) (simp add: crypt_token_def split: option.splits)
next
  case False
  then show ?thesis
    by (subst (1 2) redact_crypt_hashes.simps) (simp add: crypt_token_def split: option.splits)
qed

interpretation crypt: scan_replace "crypt_token lb" "''REDACTED-HASH''" "redact_crypt_hashes lb" for lb
proof
  show "\<exists>x. s = x @ r \<and> x \<noteq> []" if "crypt_token lb s = Some r" for s r
    using that crypt_step_suffix [of lb "tl s" r]
    by (auto simp: crypt_token_def split: list.splits if_splits)
  show "redact_crypt_hashes lb [] = []" by (simp add: redact_crypt_hashes.simps)
qed (rule redact_crypt_cons)

definition master_token :: "string \<Rightarrow> string option" where
  "master_token s =
     (case strip_prefix ''-AQ=='' s of None \<Rightarrow> None
      | Some r \<Rightarrow> Some (drop (find_or_end (\<lambda>c. \<not> master_key_byte c) r) r))"

lemma redact_master_cons:
  "redact_master_key_blobs (c # s) = (case master_token (c # s) of
     Some r \<Rightarrow> CHR ''['' # ''REDACTED-SECRET'' @ CHR '']'' # redact_master_key_blobs r
   | None \<Rightarrow> c # redact_master_key_blobs s)"
proof (cases "starts_with ''-AQ=='' (c # s)")
  case True
  then obtain r where "c # s = ''-AQ=='' @ r" by (auto simp: starts_with_iff)
  then show ?thesis
    by (subst redact_master_key_blobs.simps)
      (auto simp: master_token_def strip_prefix_def starts_with_def)
next
  case False
  then show ?thesis
    by (subst (1 2) redact_master_key_blobs.simps)
      (auto simp: master_token_def strip_prefix_def drop_Cons' add.commute Let_def split: option.splits)
qed

interpretation master: scan_replace master_token "''REDACTED-SECRET''" redact_master_key_blobs
proof
  show "\<exists>x. s = x @ r \<and> x \<noteq> []" if "master_token s = Some r" for s r
  proof -
    from that obtain t k where "s = ''-AQ=='' @ t" "r = drop k t"
      by (auto simp: master_token_def strip_prefix_Some split: option.splits)
    then have "s = (''-AQ=='' @ take k t) @ r" by simp
    then show ?thesis by blast
  qed
  show "redact_master_key_blobs [] = []" by (simp add: redact_master_key_blobs.simps)
qed (rule redact_master_cons)

definition crypt_shape :: "string \<Rightarrow> bool" where
  "crypt_shape b \<longleftrightarrow> (\<exists>name. crypt_id name \<and> b = ''$'' @ name @ ''$'')"

lemma crypt_shape_chars:
  assumes "crypt_shape b"
  shows "b \<noteq> [] \<and> CHR ''['' \<notin> set b \<and> CHR '']'' \<notin> set b"
proof -
  obtain name where b: "b = ''$'' @ name @ ''$''" and name: "list_all is_ascii_alphanumeric name"
    using assms by (auto simp: crypt_shape_def crypt_id_def)
  have "\<not> is_ascii_alphanumeric (CHR ''['')" "\<not> is_ascii_alphanumeric (CHR '']'')"
    by (simp_all add: ascii_defs)
  with name b show ?thesis by (auto simp: list_all_iff)
qed

lemma utf8_chars_ascii_prefix:
  assumes "\<forall>c \<in> set s. is_ascii c"
  shows "utf8_chars (s @ v) = map (\<lambda>c. [c]) s @ utf8_chars v"
proof -
  have push: "utf8_chars_aux [c] v = [c] # utf8_chars_aux [] v" if "is_ascii c" for c v
    using that by (cases v) auto
  have "utf8_chars_aux [] (s @ v) = map (\<lambda>c. [c]) s @ utf8_chars_aux [] v"
    using assms push by (induction s) auto
  then show ?thesis by (simp add: utf8_chars_def)
qed

lemma find_char_prefix:
  "\<forall>ch \<in> set chs. \<not> P ch \<Longrightarrow> find_char P (chs @ rest) = length (concat chs) + find_char P rest"
  by (induction chs) auto

lemma alnum_not_stop:
  assumes "is_ascii_alphanumeric c"
  shows "is_ascii c \<and> \<not> token_stop lb [c] \<and> c \<noteq> CHR ''$''"
proof -
  have "\<not> is_ascii_alphanumeric (CHR ''<'')" "\<not> is_ascii_alphanumeric (CHR ''>'')"
    "\<not> is_ascii_alphanumeric (CHR 0x22)" "\<not> is_ascii_alphanumeric (CHR ''$'')"
    by (simp_all add: ascii_defs)
  moreover have "is_ascii c" "\<not> ascii_unicode_space c"
    using assms by (auto simp: ascii_defs ascii_unicode_space_def)
  ultimately show ?thesis using assms by (auto simp: token_stop_def char_whitespace_def)
qed

lemma crypt_shape_token:
  assumes "crypt_shape b"
  shows "crypt_token lb (b @ v) \<noteq> None"
proof -
  obtain name where b: "b = ''$'' @ name @ ''$''" and name: "crypt_id name"
    using assms by (auto simp: crypt_shape_def)
  have al: "\<forall>c \<in> set name. is_ascii_alphanumeric c" using name by (simp add: crypt_id_def list_all_iff)
  define P where "P ch \<longleftrightarrow> ch = ''$'' \<or> token_stop lb ch" for ch
  have dollar: "is_ascii (CHR ''$'')" by (simp add: ascii_defs)
  have "utf8_chars (name @ ''$'' @ v) = map (\<lambda>c. [c]) (name @ ''$'') @ utf8_chars v"
    using utf8_chars_ascii_prefix [of "name @ ''$''" v] al alnum_not_stop dollar by auto
  then have "utf8_chars (name @ ''$'' @ v) = map (\<lambda>c. [c]) name @ ''$'' # utf8_chars v" by simp
  moreover have "\<forall>ch \<in> set (map (\<lambda>c. [c]) name). \<not> P ch"
    using al alnum_not_stop by (auto simp: P_def)
  then have "find_char P (map (\<lambda>c. [c]) name @ ''$'' # utf8_chars v) = length name"
    by (simp add: find_char_prefix P_def)
  ultimately have "find_char P (utf8_chars (name @ ''$'' @ v)) = length name" by simp
  then have "crypt_step lb (name @ ''$'' @ v) \<noteq> None"
    using name unfolding crypt_step_def P_def Let_def by (simp add: starts_with_def)
  then show ?thesis by (simp add: b crypt_token_def)
qed

section \<open>Properties of the redaction\<close>

text \<open>
  C32. Whatever the input, the text that \<open>redact_secret_material\<close> returns contains no
  master-key blob and no crypt-style hash: no \<open>-AQ==\<close>, and no dollar sign followed by one to
  eight alphanumerics and a dollar sign.
\<close>

theorem redacted_output_clean:
  "\<not> contains ''-AQ=='' (redact_secret_material lb input) \<and>
   free crypt_shape (redact_secret_material lb input)"
proof
  let ?blob = "\<lambda>b. b = ''-AQ==''"
  have missing: "free bad s" if "d \<notin> set s" "\<And>b. bad b \<Longrightarrow> d \<in> set b" for bad d s
    unfolding free_def using that by auto
  have "free ?blob ''REDACTED-SECRET''" by (rule missing [of "CHR ''=''"]) simp_all
  moreover have "master_token (''-AQ=='' @ v) \<noteq> None" for v
    by (simp add: master_token_def strip_prefix_def starts_with_def)
  ultimately have "free ?blob (redact_master_key_blobs s)" for s
    by (intro master.pass_clean) auto
  then show "\<not> contains ''-AQ=='' (redact_secret_material lb input)"
    unfolding redact_secret_material_def contains_iff using freeD by metis
  have nodollar: "free crypt_shape s" if "CHR ''$'' \<notin> set s" for s
    by (rule missing [OF that]) (auto simp: crypt_shape_def)
  have "free crypt_shape (redact_crypt_hashes lb s)" for s
    using crypt_shape_chars crypt_shape_token nodollar by (intro crypt.pass_clean) auto
  then show "free crypt_shape (redact_secret_material lb input)"
    unfolding redact_secret_material_def
    using crypt_shape_chars nodollar by (intro master.pass_preserves) auto
qed

section \<open>The structural pass on documents\<close>

text \<open>A document as a tree: elements with the text of their two tags, and leaves with their text.\<close>

datatype leaf = Words string | CharData string | Reference string | Closed string "xattr list" | DocType | Remark

datatype node = Leaf leaf string | Element string "xattr list" string string "node list"

fun leaf_event :: "leaf \<Rightarrow> xevent" where
  "leaf_event (Words t) = XText t"
| "leaf_event (CharData t) = XCData t"
| "leaf_event (Reference t) = XRef t"
| "leaf_event (Closed name as) = XEmpty name as"
| "leaf_event DocType = XDocType"
| "leaf_event Remark = XOther"

text \<open>What the parser delivers for it: each event with its piece of the text, one after the other.\<close>

fun doc_events :: "node list \<Rightarrow> (xevent \<times> string) list" where
  "doc_events [] = []"
| "doc_events (Leaf l t # ns) = (leaf_event l, t) # doc_events ns"
| "doc_events (Element name as open_tag close_tag body # ns) =
     (XStart name as, open_tag) # doc_events body @ (XEnd name, close_tag) # doc_events ns"

primrec positions :: "nat \<Rightarrow> (xevent \<times> string) list \<Rightarrow> xitem list" where
  "positions p [] = []"
| "positions p (x # xs) = (fst x, p, p + length (snd x)) # positions (p + length (snd x)) xs"

definition doc_text :: "node list \<Rightarrow> string" where
  "doc_text doc = concat (map snd (doc_events doc))"

text \<open>The redacted document: inside an element with a secret name, at any depth, every run of text, character
  data and references becomes one marker; everything else stays.\<close>

definition secret_name :: "string \<Rightarrow> bool" where
  "secret_name name \<longleftrightarrow> map to_ascii_lower name \<in>
     {''phash'', ''password'', ''private-key'', ''key'', ''secret'', ''bind-password'', ''auth-password'',
      ''priv-password'', ''passphrase'', ''community''}"

fun redacted :: "bool \<Rightarrow> bool \<Rightarrow> node list \<Rightarrow> string" where
  "redacted inside marked [] = []"
| "redacted inside marked (Leaf l t # ns) =
     (if inside \<and> (case l of Words _ \<Rightarrow> True | CharData _ \<Rightarrow> True | Reference _ \<Rightarrow> True | _ \<Rightarrow> False)
      then (if marked then [] else ''[REDACTED-SECRET]'') @ redacted inside True ns
      else t @ redacted inside False ns)"
| "redacted inside marked (Element name as open_tag close_tag body # ns) =
     open_tag @ redacted (inside \<or> secret_name name) False body @ close_tag @ redacted inside False ns"

lemma secret_name_iff: "is_secret_element_name name \<longleftrightarrow> secret_name name"
proof -
  have lower: "map (map to_ascii_lower) secret_element_names = secret_element_names" by code_simp
  have "is_secret_element_name name \<longleftrightarrow> map to_ascii_lower name \<in> set (map (map to_ascii_lower) secret_element_names)"
    by (auto simp: is_secret_element_name_def eq_ignore_ascii_case_def)
  then show ?thesis unfolding lower by (auto simp: secret_name_def secret_element_names_def)
qed

lemma positions_append: "positions p (xs @ ys) = positions p xs @ positions (p + length (concat (map snd xs))) ys"
  by (induction xs arbitrary: p) (simp_all add: add.assoc)

lemma slice_piece: "slice (pre @ t @ post) (length pre) (length pre + length t) = t"
  by (simp add: slice_def)

lemma leaf_next: "next_secret d secret (leaf_event l) = (d, secret)"
  by (cases l) simp_all

lemma leaf_content: "is_content (leaf_event l) \<longleftrightarrow>
    (case l of Words _ \<Rightarrow> True | CharData _ \<Rightarrow> True | Reference _ \<Rightarrow> True | _ \<Rightarrow> False)"
  by (cases l) simp_all

lemma structural_loop_redacts:
  assumes "s = pre @ concat (map snd (doc_events ns)) @ post" and "\<forall>k. secret = Some k \<longrightarrow> k \<le> d"
  shows "\<exists>m'. redact_structural_loop s (positions (length pre) (doc_events ns) @ items) fin d secret m
    = redacted (secret \<noteq> None) m ns @ redact_structural_loop s items fin d secret m'"
  using assms
proof (induction ns arbitrary: pre post d secret m items rule: doc_events.induct)
  case 1
  then show ?case by auto
next
  case (2 l t ns)
  have s: "s = (pre @ t) @ concat (map snd (doc_events ns)) @ post" using 2(2) by simp
  have piece: "slice s (length pre) (length pre + length t) = t" unfolding 2(2) using slice_piece by simp
  show ?case
    using 2(1) [OF s 2(3), of items True] 2(1) [OF s 2(3), of items False] piece
    by (cases secret; cases l) (simp_all add: leaf_next)
next
  case (3 name as open_tag close_tag body ns)
  let ?inner = "if secret = None \<and> secret_name name then Some (d + 1) else secret"
  let ?body = "concat (map snd (doc_events body))" and ?rest = "concat (map snd (doc_events ns))"
  let ?p2 = "pre @ open_tag @ ?body" and ?p3 = "pre @ open_tag @ ?body @ close_tag"
  let ?after = "positions (length ?p3) (doc_events ns) @ items"
  have s2: "s = (pre @ open_tag) @ ?body @ (close_tag @ ?rest @ post)" and s3: "s = ?p3 @ ?rest @ post"
    using 3(3) by simp_all
  have o: "slice s (length pre) (length pre + length open_tag) = open_tag"
    unfolding s2 using slice_piece [of pre open_tag] by simp
  have c: "slice s (length ?p2) (length ?p2 + length close_tag) = close_tag"
    unfolding s3 using slice_piece [of ?p2 close_tag] by simp
  have inner: "\<forall>k. ?inner = Some k \<longrightarrow> k \<le> d + 1" using 3(4) by (auto split: if_splits)
  obtain m1 where body: "redact_structural_loop s (positions (length (pre @ open_tag)) (doc_events body)
      @ (XEnd name, length ?p2, length ?p2 + length close_tag) # ?after) fin (d + 1) ?inner False
    = redacted (?inner \<noteq> None) False body
      @ redact_structural_loop s ((XEnd name, length ?p2, length ?p2 + length close_tag) # ?after) fin (d + 1) ?inner m1"
    using 3(1) [OF s2 inner] by blast
  have close: "redact_structural_loop s ((XEnd name, length ?p2, length ?p2 + length close_tag) # ?after) fin (d + 1) ?inner m1
    = close_tag @ redact_structural_loop s ?after fin d secret False"
    using 3(4) c by auto
  obtain m2 where rest: "redact_structural_loop s ?after fin d secret False
    = redacted (secret \<noteq> None) False ns @ redact_structural_loop s items fin d secret m2"
    using 3(2) [OF s3 3(4)] by blast
  have "redact_structural_loop s (positions (length pre) (doc_events (Element name as open_tag close_tag body # ns)) @ items) fin d secret m
    = open_tag @ redact_structural_loop s (positions (length (pre @ open_tag)) (doc_events body)
      @ (XEnd name, length ?p2, length ?p2 + length close_tag) # ?after) fin (d + 1) ?inner False"
    using o by (simp add: positions_append secret_name_iff add.assoc)
  moreover have "(?inner \<noteq> None) = (secret \<noteq> None \<or> secret_name name)" by auto
  ultimately show ?case unfolding body close rest by auto
qed

text \<open>
  C33. Structural redaction, for every document the parser reads to its end: in an element whose name is, in
  any case, one of the ten secret names, all text, character data and references are replaced,
  also in elements below it and after such elements have ended, one marker for each run however the parser chunks it; and
  nothing else of the text is changed - no tag, no attribute, no text outside.
\<close>

theorem structural_redaction_exact:
  assumes "read_events lb False (doc_text doc) =
    (positions 0 (doc_events doc), XEof (length (doc_text doc)) (length (doc_text doc)))"
  shows "redact_structural_secret_elements lb (doc_text doc) = redacted False False doc"
proof -
  let ?n = "length (doc_text doc)"
  obtain m where "redact_structural_loop (doc_text doc) (positions 0 (doc_events doc) @ []) (XEof ?n ?n) 0 None False
      = redacted False False doc @ redact_structural_loop (doc_text doc) [] (XEof ?n ?n) 0 None m"
    using structural_loop_redacts [of "doc_text doc" "[]" doc "[]" None 0 "[]" "XEof ?n ?n" False]
    by (auto simp: doc_text_def)
  then show ?thesis by (simp add: redact_structural_secret_elements_def assms slice_def)
qed

text \<open>An element below a secret one ends, and what follows it is still hidden.\<close>

definition nested_key :: "node list" where
  "nested_key = [Element ''key'' [] ''<key>'' ''</key>''
     [Leaf (Words ''ab'') ''ab'', Leaf (Reference ''amp'') ''&amp;'', Element ''i'' [] ''<i>'' ''</i>'' [], Leaf (Words ''c'') ''c''],
     Leaf (Words ''d'') ''d'']"

definition key_lib :: lib where
  "key_lib = sample_lib\<lparr>read_events := \<lambda>_ s. (positions 0 (doc_events nested_key), XEof (length s) (length s))\<rparr>"

theorem structural_redaction_exact_witness:
  "redact_structural_secret_elements key_lib ''<key>ab&amp;<i></i>c</key>d'' =
   ''<key>[REDACTED-SECRET]<i></i>[REDACTED-SECRET]</key>d''"
proof -
  have "read_events key_lib False (doc_text nested_key) =
      (positions 0 (doc_events nested_key), XEof (length (doc_text nested_key)) (length (doc_text nested_key)))"
    by (simp add: key_lib_def)
  moreover have "doc_text nested_key = ''<key>ab&amp;<i></i>c</key>d''" by code_simp
  moreover have "redacted False False nested_key = ''<key>[REDACTED-SECRET]<i></i>[REDACTED-SECRET]</key>d''" by code_simp
  ultimately show ?thesis using structural_redaction_exact by metis
qed

text \<open>
  A private-key block is removed whole: from the first \<open>BEGIN\<close> line with a private-key
  label to its own \<open>END\<close> line, or to the end of the text when that line is missing (a
  truncated key is dropped, not leaked).
\<close>

theorem pem_block_removed:
  assumes "find_sub pem_begin (pre @ pem_begin @ label @ ''-----'' @ rest) = Some (length pre)"
    and "find_sub ''-----'' (label @ ''-----'' @ rest) = Some (length label)" and "ends_with ''PRIVATE KEY'' label"
  shows "redact_pem_private_keys (pre @ pem_begin @ label @ ''-----'' @ rest) =
    pre @ ''[REDACTED-PRIVATE-KEY]'' @
    (case find_sub (''-----END '' @ label @ ''-----'') rest of
       Some i \<Rightarrow> redact_pem_private_keys (drop (i + length (''-----END '' @ label @ ''-----'')) rest)
     | None \<Rightarrow> [])"
proof -
  have nil: "redact_pem_private_keys [] = []" by (simp add: redact_pem_private_keys.simps pem_begin_def)
  have d: "drop (length pre + length pem_begin) (pre @ pem_begin @ label @ ''-----'' @ rest) = label @ ''-----'' @ rest"
    by simp
  have e: "drop (length label + 5) (label @ ''-----'' @ rest) = rest" by simp
  show ?thesis
    by (subst redact_pem_private_keys.simps)
      (simp only: assms(1) d option.case Let_def assms(2) e nil, simp add: assms(3) cong: option.case_cong)
qed

theorem pem_block_removed_witness:
  "redact_pem_private_keys (''x'' @ pem_begin @ ''PRIVATE KEY'' @ ''-----'' @ ''abc'') = ''x[REDACTED-PRIVATE-KEY]''"
  using pem_block_removed [of "''x''" "''PRIVATE KEY''" "''abc''"] by (simp add: pem_begin_def starts_with_def ends_with_def)

end
