(* ===== verification/Inventory.thy ===== *)
theory Inventory
  imports Libs "HOL-Library.List_Lexorder" "HOL-Library.Char_ord"
begin

unbundle bit_operations_syntax

text \<open>
  The device inventory: \<^verbatim>\<open>rust-panosmcp-core/src/inventory.rs\<close>.  JSON
  decoding is the serialisation crate's; the model starts from the decoded raw entries.  What
  the operating system answers (files with their mode and owner, environment variables, the
  effective user) and the URL parser are the record \<open>host\<close>.
\<close>

section \<open>Data\<close>

datatype config_authority = AuthLocal | AuthPanorama | AuthStrata | AuthUnknown

definition is_local :: "config_authority \<Rightarrow> bool" where
  "is_local a \<longleftrightarrow> a = AuthLocal \<or> a = AuthUnknown"

fun authority_str :: "config_authority \<Rightarrow> string" where
  "authority_str AuthLocal = ''local''"
| "authority_str AuthPanorama = ''panorama''"
| "authority_str AuthStrata = ''strata-cloud-manager''"
| "authority_str AuthUnknown = ''unknown''"

record device_metadata =
  dm_name :: string
  dm_endpoint :: string
  dm_vsys :: "string option"
  dm_tags :: "string list"

datatype loaded_tls = TlsSystem | TlsCustomCa string string | TlsLeafSha256 "nat list"

record blocklist_rules =
  bl_commands :: "string list"
  bl_xpath :: "string list"
  bl_allow :: "string list"
  bl_allowed_pipes :: "string list"

datatype policy_mode = Allowlist | Blocklist

record mutation_policy =
  pol_admin :: string
  pol_roots :: "string list"
  pol_allow_delete :: bool
  pol_require_lock :: bool

text \<open>A parsed URL, as far as the program looks at it.\<close>

record url =
  url_scheme :: string
  url_host :: "string option"
  url_username :: string
  url_password :: "string option"
  url_query :: "string option"
  url_fragment :: "string option"
  url_path :: string
  url_text :: string
  url_origin :: string

record device_config =
  dc_metadata :: device_metadata
  dc_endpoint :: url
  dc_api_key :: string
  dc_tls :: loaded_tls
  dc_connect_timeout :: nat
  dc_request_timeout :: nat
  dc_max_concurrency :: nat
  dc_max_response_bytes :: nat
  dc_mutation :: "mutation_policy option"
  dc_blocklist :: "blocklist_rules option"
  dc_authority :: config_authority

record inventory =
  inv_source :: string
  inv_devices :: "(string \<times> device_config) list"
  inv_policy_mode :: policy_mode
  inv_allow_defaults :: "string list"
  inv_pipes_defaults :: "string list"

datatype api_key_source = KeyEnv string | KeyFile string
datatype tls_trust = TrustSystem | TrustCustomCa string | TrustLeafSha256 string

record raw_device =
  raw_name :: string
  raw_endpoint :: string
  raw_vsys :: "string option"
  raw_api_key :: api_key_source
  raw_tls :: tls_trust
  raw_tags :: "string list"
  raw_connect_timeout :: nat
  raw_request_timeout :: nat
  raw_max_concurrency :: nat
  raw_max_response_bytes :: nat
  raw_mutation :: "mutation_policy option"
  raw_blocklist :: "blocklist_rules option"
  raw_authority :: config_authority

record raw_policy =
  rp_mode :: "policy_mode option"
  rp_allow :: "string list"
  rp_allowed_pipes :: "string list"

record raw_inventory =
  ri_version :: nat
  ri_devices :: "raw_device list"
  ri_policy :: "raw_policy option"

definition "default_connect_timeout_secs = (10 :: nat)"
definition "default_request_timeout_secs = (30 :: nat)"
definition "default_max_concurrency = (4 :: nat)"
definition "default_max_response_bytes = (5 * 1024 * 1024 :: nat)"
definition "max_device_concurrency = (5 :: nat)"
definition "max_device_name_bytes = (64 :: nat)"
definition "max_devices = (256 :: nat)"
definition "max_tags_per_device = (32 :: nat)"
definition "max_write_roots_per_device = (32 :: nat)"
definition "inventory_version = (1 :: nat)"

section \<open>The host\<close>

record file_info =
  fi_regular :: bool
  fi_len :: nat
  fi_mode :: "32 word"
  fi_uid :: nat
  fi_content :: "string + string"

datatype inventory_error =
    InvalidName string
  | DuplicateName string
  | UnknownInventoryDevice string
  | ParseError string
  | IoError string
  | UnsupportedVersion nat
  | EmptyInventory

record host =
  open_nofollow :: "string \<Rightarrow> string + file_info"
  env_variable :: "string \<Rightarrow> string option"
  effective_uid :: nat
  parse_url :: "string \<Rightarrow> string + url"
  check_device_name :: "string \<Rightarrow> inventory_error + unit"

fun convert_inventory_error :: "inventory_error \<Rightarrow> panos_error" where
  "convert_inventory_error (InvalidName s) = Inventory (''invalid device name: '' @ s)"
| "convert_inventory_error (DuplicateName s) = Inventory (''duplicate device name '' @ [CHR 0x27] @ s @ [CHR 0x27])"
| "convert_inventory_error (UnknownInventoryDevice s) = UnknownDevice s"
| "convert_inventory_error (ParseError s) = Inventory (''parse error: '' @ s)"
| "convert_inventory_error (IoError s) = Inventory (''I/O error: '' @ s)"
| "convert_inventory_error (UnsupportedVersion v) =
     Inventory (''unsupported inventory version '' @ show_nat v @ ''; expected '' @ show_nat inventory_version)"
| "convert_inventory_error EmptyInventory = Inventory ''inventory must contain at least one device''"

section \<open>Files\<close>

datatype file_purpose = PurposeSecret | PurposeCaBundle

fun purpose_label :: "file_purpose \<Rightarrow> string" where
  "purpose_label PurposeSecret = ''secret''"
| "purpose_label PurposeCaBundle = ''CA bundle''"

fun purpose_max_bytes :: "file_purpose \<Rightarrow> nat" where
  "purpose_max_bytes PurposeSecret = 16 * 1024"
| "purpose_max_bytes PurposeCaBundle = 1024 * 1024"

fun forbidden_bits :: "file_purpose \<Rightarrow> 32 word" where
  "forbidden_bits PurposeSecret = 0x3F"
| "forbidden_bits PurposeCaBundle = 0x12"

fun show_oct :: "nat \<Rightarrow> string" where
  "show_oct n = (if n < 8 then [digit_char n] else show_oct (n div 8) @ [digit_char (n mod 8)])"

declare show_oct.simps [simp del]

definition show_mode :: "32 word \<Rightarrow> string" where
  "show_mode m = (let s = show_oct (unat m) in replicate (4 - length s) (CHR ''0'') @ s)"

definition validate_unix_file_security ::
  "host \<Rightarrow> string \<Rightarrow> file_info \<Rightarrow> file_purpose \<Rightarrow> unit res" where
  "validate_unix_file_security h path info purpose =
     (let mode = fi_mode info AND 0x1FF in
      if mode AND forbidden_bits purpose \<noteq> 0
      then Inl (FileSecurity (purpose_label purpose) path (''mode '' @ show_mode mode @ '' is too permissive''))
      else if fi_uid info \<noteq> effective_uid h \<and> fi_uid info \<noteq> 0
      then Inl (FileSecurity (purpose_label purpose) path
        (''owner uid '' @ show_nat (fi_uid info) @ '' is neither the effective uid ''
          @ show_nat (effective_uid h) @ '' nor root''))
      else Inr ())"

definition read_validated_file :: "host \<Rightarrow> string \<Rightarrow> file_purpose \<Rightarrow> string res" where
  "read_validated_file h path purpose =
     (let label = purpose_label purpose; cap = purpose_max_bytes purpose;
          too_big = FileSecurity label path (''exceeds the '' @ show_nat cap @ ''-byte limit'') in
      and_then (map_err (FileIo label path) (open_nofollow h path)) (\<lambda>info.
      if \<not> fi_regular info then Inl (FileSecurity label path ''must be a regular file'')
      else if cap < fi_len info then Inl too_big
      else
        and_then (validate_unix_file_security h path info purpose) (\<lambda>_.
        and_then (map_err (FileIo label path) (fi_content info)) (\<lambda>content.
          let bytes = take (cap + 1) content in
          if cap < length bytes then Inl too_big else Inr bytes))))"

section \<open>Fields\<close>

definition validate_identifier :: "string \<Rightarrow> string \<Rightarrow> nat \<Rightarrow> unit res" where
  "validate_identifier label value cap =
     (if value = [] \<or> cap < length value
      then Inl (Inventory (label @ '' must be 1-'' @ show_nat cap @ '' bytes''))
      else if starts_with ''-'' value
      then Inl (Inventory (label @ '' cannot start with '' @ [CHR 0x27] @ ''-'' @ [CHR 0x27]))
      else if \<not> list_all (\<lambda>c. is_ascii_alphanumeric c \<or> c \<in> {CHR ''_'', CHR ''.'', CHR ''-''}) value
      then Inl (Inventory (label @ '' may only contain ASCII alphanumeric, '' @ [CHR 0x27] @ ''_'' @ [CHR 0x27]
        @ '', '' @ [CHR 0x27] @ ''.'' @ [CHR 0x27] @ '', or '' @ [CHR 0x27] @ ''-'' @ [CHR 0x27]))
      else Inr ())"

definition validate_endpoint :: "host \<Rightarrow> string \<Rightarrow> url res" where
  "validate_endpoint h raw =
     and_then (map_err (\<lambda>e. Inventory (''invalid endpoint URL: '' @ e)) (parse_url h raw)) (\<lambda>endpoint.
       if url_scheme endpoint \<noteq> ''https'' then Inl (Inventory ''device endpoint must use https'')
       else if url_host endpoint = None then Inl (Inventory ''device endpoint must include a host'')
       else if url_username endpoint \<noteq> [] \<or> url_password endpoint \<noteq> None
       then Inl (Inventory ''device endpoint must not include credentials'')
       else if url_query endpoint \<noteq> None \<or> url_fragment endpoint \<noteq> None
       then Inl (Inventory ''device endpoint must not include a query or fragment'')
       else if url_path endpoint \<noteq> ''/'' \<and> url_path endpoint \<noteq> []
       then Inl (Inventory ''device endpoint must not include a path'')
       else Inr endpoint)"

text \<open>\<open>u8::from_str_radix(_, 16)\<close> on a two-byte chunk: as every Rust integer parser it accepts
  a leading plus sign.\<close>

definition hex_value :: "char \<Rightarrow> nat option" where
  "hex_value c =
     (if is_ascii_digit c then Some (byte c - 48)
      else if 97 \<le> byte c \<and> byte c \<le> 102 then Some (byte c - 87)
      else if 65 \<le> byte c \<and> byte c \<le> 70 then Some (byte c - 55) else None)"

definition parse_hex_pair :: "char \<Rightarrow> char \<Rightarrow> nat option" where
  "parse_hex_pair a b =
     (if a = CHR ''+'' then hex_value b
      else case (hex_value a, hex_value b) of (Some x, Some y) \<Rightarrow> Some (16 * x + y) | _ \<Rightarrow> None)"

fun parse_hex_chunks :: "string \<Rightarrow> nat list res" where
  "parse_hex_chunks (a # b # s) =
     (if \<not> utf8_valid [a, b] then Inl (Inventory ''SHA-256 fingerprint contains invalid UTF-8'')
      else case parse_hex_pair a b of
        None \<Rightarrow> Inl (Inventory ''SHA-256 fingerprint contains non-hex characters'')
      | Some n \<Rightarrow> and_then (parse_hex_chunks s) (\<lambda>ns. Inr (n # ns)))"
| "parse_hex_chunks s = Inr []"

definition parse_sha256 :: "string \<Rightarrow> nat list res" where
  "parse_sha256 s =
     (let hex = (case strip_prefix ''sha256:'' s of Some h \<Rightarrow> h | None \<Rightarrow> s) in
      if length hex \<noteq> 64
      then Inl (Inventory ''SHA-256 fingerprint must be exactly 64 hex characters'')
      else parse_hex_chunks hex)"

section \<open>Devices\<close>

fun load_api_key :: "lib \<Rightarrow> host \<Rightarrow> api_key_source \<Rightarrow> string res" where
  "load_api_key lb h (KeyEnv name) =
     ok_or (Inventory (''api_key references environment variable '' @ [CHR 0x27] @ name @ [CHR 0x27]
       @ '' which is not set'')) (env_variable h name)"
| "load_api_key lb h (KeyFile path) =
     and_then (read_validated_file h path PurposeSecret) (\<lambda>bytes.
       if \<not> utf8_valid bytes
       then Inl (Inventory (''API key file '' @ [CHR 0x27] @ path @ [CHR 0x27] @ '' is not valid UTF-8''))
       else Inr (trim_chars (char_whitespace lb) bytes))"

fun load_tls :: "host \<Rightarrow> tls_trust \<Rightarrow> loaded_tls res" where
  "load_tls h TrustSystem = Inr TlsSystem"
| "load_tls h (TrustCustomCa path) =
     and_then (read_validated_file h path PurposeCaBundle) (\<lambda>pem. Inr (TlsCustomCa path pem))"
| "load_tls h (TrustLeafSha256 fingerprint) =
     and_then (parse_sha256 fingerprint) (\<lambda>digest. Inr (TlsLeafSha256 digest))"

definition device_error :: "string \<Rightarrow> string \<Rightarrow> panos_error" where
  "device_error device message = Inventory (''device '' @ [CHR 0x27] @ device @ [CHR 0x27] @ message)"

definition validate_root :: "string \<Rightarrow> string \<Rightarrow> unit res" where
  "validate_root device root =
     (let named = '' mutation XPath root '' @ [CHR 0x27] @ root @ [CHR 0x27] in
      if \<not> starts_with ''/config/'' root
      then Inl (device_error device (named @ '' must start with '' @ [CHR 0x27] @ ''/config/'' @ [CHR 0x27]))
      else if contains ''//'' root
      then Inl (device_error device (named @ '' contains '' @ [CHR 0x27] @ ''//'' @ [CHR 0x27] @ '' (empty path component)''))
      else Inr ())"

definition load_mutation_policy :: "string \<Rightarrow> mutation_policy \<Rightarrow> mutation_policy res" where
  "load_mutation_policy device raw =
     and_then (validate_identifier ''mutation admin'' (pol_admin raw) max_device_name_bytes) (\<lambda>_.
     if pol_roots raw = []
     then Inl (device_error device '' mutation policy must specify at least one allowed_xpath_roots entry'')
     else if max_write_roots_per_device < length (pol_roots raw)
     then Inl (device_error device ('' mutation policy contains more than ''
       @ show_nat max_write_roots_per_device @ '' roots''))
     else and_then (check_all (validate_root device) (pol_roots raw)) (\<lambda>_. Inr raw))"

fun load_tags :: "string list \<Rightarrow> string list \<Rightarrow> string list res" where
  "load_tags tags [] = Inr tags"
| "load_tags tags (t # ts) =
     and_then (validate_identifier ''tag'' t max_device_name_bytes) (\<lambda>_.
       load_tags (if t \<in> set tags then tags else tags @ [t]) ts)"

definition check_limits :: "raw_device \<Rightarrow> unit res" where
  "check_limits raw =
     (if \<not> (1 \<le> raw_max_concurrency raw \<and> raw_max_concurrency raw \<le> max_device_concurrency)
      then Inl (device_error (raw_name raw) ('' max_concurrency must be between 1 and '' @ show_nat max_device_concurrency))
      else if \<not> (1 \<le> raw_connect_timeout raw \<and> raw_connect_timeout raw \<le> 300)
      then Inl (device_error (raw_name raw) '' connect_timeout_secs must be between 1 and 300'')
      else if \<not> (1 \<le> raw_request_timeout raw \<and> raw_request_timeout raw \<le> 3600)
      then Inl (device_error (raw_name raw) '' request_timeout_secs must be between 1 and 3600'')
      else if \<not> (1024 \<le> raw_max_response_bytes raw \<and> raw_max_response_bytes raw \<le> default_max_response_bytes)
      then Inl (device_error (raw_name raw) ('' max_response_bytes must be between 1024 and ''
        @ show_nat default_max_response_bytes))
      else if max_tags_per_device < length (raw_tags raw)
      then Inl (device_error (raw_name raw) ('' contains more than '' @ show_nat max_tags_per_device @ '' tags''))
      else Inr ())"

definition transpose_res :: "('a \<Rightarrow> 'b res) \<Rightarrow> 'a option \<Rightarrow> 'b option res" where
  "transpose_res f x = (case x of None \<Rightarrow> Inr None | Some y \<Rightarrow> and_then (f y) (\<lambda>z. Inr (Some z)))"

definition load_device :: "lib \<Rightarrow> host \<Rightarrow> raw_device \<Rightarrow> device_config res" where
  "load_device lb h raw =
     and_then (validate_identifier ''device name'' (raw_name raw) max_device_name_bytes) (\<lambda>_.
     and_then (case raw_vsys raw of None \<Rightarrow> Inr ()
       | Some vsys \<Rightarrow> validate_identifier ''vsys'' vsys max_device_name_bytes) (\<lambda>_.
     and_then (validate_endpoint h (raw_endpoint raw)) (\<lambda>endpoint.
     and_then (load_api_key lb h (raw_api_key raw)) (\<lambda>api_key.
     and_then (load_tls h (raw_tls raw)) (\<lambda>tls.
     and_then (transpose_res (load_mutation_policy (raw_name raw)) (raw_mutation raw)) (\<lambda>mutation.
     and_then (check_limits raw) (\<lambda>_.
     and_then (load_tags [] (raw_tags raw)) (\<lambda>tags.
       Inr \<lparr>dc_metadata = \<lparr>dm_name = raw_name raw,
              dm_endpoint = rev (dropWhile (\<lambda>c. c = CHR ''/'') (rev (url_text endpoint))),
              dm_vsys = raw_vsys raw, dm_tags = tags\<rparr>,
            dc_endpoint = endpoint, dc_api_key = api_key, dc_tls = tls,
            dc_connect_timeout = raw_connect_timeout raw,
            dc_request_timeout = raw_request_timeout raw,
            dc_max_concurrency = raw_max_concurrency raw,
            dc_max_response_bytes = raw_max_response_bytes raw,
            dc_mutation = mutation, dc_blocklist = raw_blocklist raw,
            dc_authority = raw_authority raw\<rparr>))))))))"

section \<open>Loading\<close>

definition check_envelope :: "nat \<Rightarrow> nat \<Rightarrow> unit res" where
  "check_envelope version count =
     (if version \<noteq> inventory_version
      then Inl (Inventory (''unsupported inventory version '' @ show_nat version @ ''; expected ''
        @ show_nat inventory_version))
      else if count = 0 then Inl (Inventory ''inventory must contain at least one device'')
      else if max_devices < count
      then Inl (Inventory (''inventory contains more than '' @ show_nat max_devices @ '' devices''))
      else Inr ())"

definition has_legacy_deny_rules :: "raw_device list \<Rightarrow> bool" where
  "has_legacy_deny_rules devices \<longleftrightarrow>
     (\<exists>d \<in> set devices. case raw_blocklist d of None \<Rightarrow> False | Some bl \<Rightarrow> bl_commands bl \<noteq> [])"

definition resolve_policy_mode :: "raw_policy option \<Rightarrow> raw_device list \<Rightarrow> policy_mode" where
  "resolve_policy_mode p devices =
     (case Option.bind p rp_mode of Some mode \<Rightarrow> mode
      | None \<Rightarrow> if has_legacy_deny_rules devices then Blocklist else Allowlist)"

text \<open>A \<open>BTreeMap\<close> by name: a list sorted by name; inserting an existing key is the error.\<close>

fun load_devices :: "lib \<Rightarrow> host \<Rightarrow> (string \<times> device_config) list \<Rightarrow> raw_device list \<Rightarrow> (string \<times> device_config) list res" where
  "load_devices lb h devices [] = Inr devices"
| "load_devices lb h devices (raw # raws) =
     and_then (load_device lb h raw) (\<lambda>loaded.
       let name = dm_name (dc_metadata loaded) in
       if name \<in> fst ` set devices
       then Inl (Inventory (''duplicate device name '' @ [CHR 0x27] @ name @ [CHR 0x27]))
       else load_devices lb h (insort_key fst (name, loaded) devices) raws)"

definition load_with_environment :: "lib \<Rightarrow> host \<Rightarrow> string \<Rightarrow> raw_inventory \<Rightarrow> inventory res" where
  "load_with_environment lb h path parsed =
     and_then (check_envelope (ri_version parsed) (length (ri_devices parsed))) (\<lambda>_.
     let mode = resolve_policy_mode (ri_policy parsed) (ri_devices parsed);
         (allow, pipes) = (case ri_policy parsed of Some p \<Rightarrow> (rp_allow p, rp_allowed_pipes p) | None \<Rightarrow> ([], [])) in
     and_then (load_devices lb h [] (ri_devices parsed)) (\<lambda>devices.
       Inr \<lparr>inv_source = path, inv_devices = devices, inv_policy_mode = mode,
            inv_allow_defaults = allow, inv_pipes_defaults = pipes\<rparr>))"

definition inventory_device :: "inventory \<Rightarrow> string \<Rightarrow> device_config res" where
  "inventory_device iv name = ok_or (UnknownDevice name) (map_of (inv_devices iv) name)"

definition inventory_metadata :: "inventory \<Rightarrow> device_metadata list" where
  "inventory_metadata iv = map (\<lambda>(_, d). dc_metadata d) (inv_devices iv)"

fun device_names_from :: "host \<Rightarrow> string list \<Rightarrow> string list \<Rightarrow> string list res" where
  "device_names_from h names [] = Inr names"
| "device_names_from h names (n # ns) =
     and_then (map_err convert_inventory_error (check_device_name h n)) (\<lambda>_.
       if n \<in> set names then Inl (Inventory (''duplicate device name '' @ [CHR 0x27] @ n @ [CHR 0x27]))
       else device_names_from h (names @ [n]) ns)"

definition device_names :: "host \<Rightarrow> nat \<Rightarrow> string list \<Rightarrow> string list res" where
  "device_names h version names =
     and_then (check_envelope version (length names)) (\<lambda>_. device_names_from h [] names)"

end
