(* ===== verification/InventorySpec.thy ===== *)
theory InventorySpec
  imports Inventory
begin

text \<open>What a loaded inventory guarantees to the rest of the program.\<close>

unbundle bit_operations_syntax

definition good_identifier :: "string \<Rightarrow> bool" where
  "good_identifier s \<longleftrightarrow> s \<noteq> [] \<and> length s \<le> max_device_name_bytes \<and> \<not> starts_with ''-'' s \<and>
     list_all (\<lambda>c. is_ascii_alphanumeric c \<or> c \<in> {CHR ''_'', CHR ''.'', CHR ''-''}) s"

definition good_root :: "string \<Rightarrow> bool" where
  "good_root r \<longleftrightarrow> starts_with ''/config/'' r \<and> \<not> contains ''//'' r"

definition good_policy :: "mutation_policy \<Rightarrow> bool" where
  "good_policy p \<longleftrightarrow> good_identifier (pol_admin p) \<and> pol_roots p \<noteq> [] \<and>
     length (pol_roots p) \<le> max_write_roots_per_device \<and> list_all good_root (pol_roots p)"

definition good_device :: "device_config \<Rightarrow> bool" where
  "good_device d \<longleftrightarrow>
     good_identifier (dm_name (dc_metadata d)) \<and>
     url_scheme (dc_endpoint d) = ''https'' \<and> url_host (dc_endpoint d) \<noteq> None \<and>
     url_username (dc_endpoint d) = [] \<and> url_password (dc_endpoint d) = None \<and>
     1 \<le> dc_max_concurrency d \<and> dc_max_concurrency d \<le> max_device_concurrency \<and>
     1 \<le> dc_connect_timeout d \<and> dc_connect_timeout d \<le> 300 \<and>
     1 \<le> dc_request_timeout d \<and> dc_request_timeout d \<le> 3600 \<and>
     1024 \<le> dc_max_response_bytes d \<and> dc_max_response_bytes d \<le> default_max_response_bytes \<and>
     distinct (dm_tags (dc_metadata d)) \<and> length (dm_tags (dc_metadata d)) \<le> max_tags_per_device \<and>
     (case dc_mutation d of None \<Rightarrow> True | Some p \<Rightarrow> good_policy p)"

definition good_inventory :: "inventory \<Rightarrow> bool" where
  "good_inventory iv \<longleftrightarrow>
     sorted (map fst (inv_devices iv)) \<and> distinct (map fst (inv_devices iv)) \<and>
     inv_devices iv \<noteq> [] \<and> length (inv_devices iv) \<le> max_devices \<and>
     (\<forall>(n, d) \<in> set (inv_devices iv). n = dm_name (dc_metadata d) \<and> good_device d)"

lemma validate_identifier_good:
  "validate_identifier label v max_device_name_bytes = Inr () \<Longrightarrow> good_identifier v"
  by (auto simp: validate_identifier_def good_identifier_def split: if_splits)

lemma load_mutation_policy_good: "load_mutation_policy dev raw = Inr p \<Longrightarrow> good_policy p"
  by (auto simp: load_mutation_policy_def return_iff good_policy_def good_root_def validate_root_def Let_def
      list_all_iff dest!: validate_identifier_good split: if_splits)

lemma load_tags_good:
  "load_tags tags ts = Inr r \<Longrightarrow> distinct tags \<Longrightarrow> distinct r \<and> length r \<le> length tags + length ts"
proof (induction tags ts arbitrary: r rule: load_tags.induct)
  case (2 tags t ts)
  then have "load_tags (if t \<in> set tags then tags else tags @ [t]) ts = Inr r" by (auto simp: return_iff)
  with 2 have "distinct r \<and> length r \<le> length (if t \<in> set tags then tags else tags @ [t]) + length ts"
    by (auto simp: return_iff)
  then show ?case by (auto split: if_splits)
qed simp

lemma validate_endpoint_good:
  "validate_endpoint h raw = Inr e \<Longrightarrow>
     url_scheme e = ''https'' \<and> url_host e \<noteq> None \<and> url_username e = [] \<and> url_password e = None"
  by (auto simp: validate_endpoint_def return_iff split: if_splits)

lemma load_device_good:
  assumes "load_device lb h raw = Inr d"
  shows "good_device d"
proof -
  obtain e k t m tags where
    n: "validate_identifier ''device name'' (raw_name raw) max_device_name_bytes = Inr ()" and
    e: "validate_endpoint h (raw_endpoint raw) = Inr e" and
    m: "transpose_res (load_mutation_policy (raw_name raw)) (raw_mutation raw) = Inr m" and
    c: "check_limits raw = Inr ()" and tags: "load_tags [] (raw_tags raw) = Inr tags" and
    d: "d = \<lparr>dc_metadata = \<lparr>dm_name = raw_name raw,
              dm_endpoint = rev (dropWhile (\<lambda>c. c = CHR ''/'') (rev (url_text e))),
              dm_vsys = raw_vsys raw, dm_tags = tags\<rparr>,
            dc_endpoint = e, dc_api_key = k, dc_tls = t,
            dc_connect_timeout = raw_connect_timeout raw,
            dc_request_timeout = raw_request_timeout raw,
            dc_max_concurrency = raw_max_concurrency raw,
            dc_max_response_bytes = raw_max_response_bytes raw,
            dc_mutation = m, dc_blocklist = raw_blocklist raw,
            dc_authority = raw_authority raw\<rparr>"
    using assms by (auto simp: load_device_def and_then_Inr)
  have "case m of None \<Rightarrow> True | Some p \<Rightarrow> good_policy p"
    using m load_mutation_policy_good by (auto simp: transpose_res_def return_iff split: option.splits)
  then show ?thesis
    using validate_identifier_good [OF n] validate_endpoint_good [OF e] c load_tags_good [OF tags]
    by (auto simp: good_device_def d check_limits_def split: if_splits)
qed

lemma load_device_name: "load_device lb h raw = Inr d \<Longrightarrow> dm_name (dc_metadata d) = raw_name raw"
  by (auto simp: load_device_def and_then_Inr)

lemma distinct_keys_insort:
  "distinct (map fst (insort_key fst x xs)) \<longleftrightarrow> fst x \<notin> fst ` set xs \<and> distinct (map fst xs)"
  by (induction xs) (auto simp: set_insort_key)

lemma load_devices_good:
  assumes "load_devices lb h devs raws = Inr r" and "sorted (map fst devs)" and "distinct (map fst devs)"
    and "\<forall>(n, d) \<in> set devs. n = dm_name (dc_metadata d) \<and> good_device d"
  shows "sorted (map fst r) \<and> distinct (map fst r) \<and> length r = length devs + length raws \<and>
    (\<forall>(n, d) \<in> set r. n = dm_name (dc_metadata d) \<and> good_device d)"
  using assms
proof (induction lb h devs raws arbitrary: r rule: load_devices.induct)
  case (2 lb h devs raw raws)
  obtain d where d: "load_device lb h raw = Inr d" "dm_name (dc_metadata d) \<notin> fst ` set devs"
    "load_devices lb h (insort_key fst (dm_name (dc_metadata d), d) devs) raws = Inr r"
    using 2(2) by (auto simp: and_then_Inr Let_def split: if_splits)
  let ?devs = "insort_key fst (dm_name (dc_metadata d), d) devs"
  have "sorted (map fst ?devs)" using 2(3) by (simp add: sorted_insort_key)
  moreover have "distinct (map fst ?devs)"
    using 2(4) d(2) by (simp add: distinct_keys_insort)
  moreover have "\<forall>(n, x) \<in> set ?devs. n = dm_name (dc_metadata x) \<and> good_device x"
    using 2(5) load_device_good [OF d(1)] by (auto simp: set_insort_key)
  ultimately show ?case using 2(1) [OF refl d(2) d(3)] by simp
qed simp

text \<open>
  C30. Loading validates everything it returns: whatever the file says, a loaded inventory holds
  1 to 256 devices under distinct names in sorted order, and every device has a legal name, an
  HTTPS endpoint without credentials, limits inside their ranges and, if it allows mutation,
  1 to 32 roots below \<open>/config/\<close>.
\<close>

theorem loaded_inventory_good:
  assumes "load_with_environment lb h path parsed = Inr iv"
  shows "good_inventory iv \<and> length (inv_devices iv) = length (ri_devices parsed)"
proof -
  obtain devs where c: "check_envelope (ri_version parsed) (length (ri_devices parsed)) = Inr ()"
    and devs: "load_devices lb h [] (ri_devices parsed) = Inr devs" and iv: "inv_devices iv = devs"
    using assms by (auto simp: load_with_environment_def and_then_Inr Let_def split: option.splits)
  have "sorted (map fst devs) \<and> distinct (map fst devs) \<and> length devs = length (ri_devices parsed) \<and>
    (\<forall>(n, d) \<in> set devs. n = dm_name (dc_metadata d) \<and> good_device d)"
    using load_devices_good [OF devs] by simp
  with c show ?thesis
    by (auto simp: good_inventory_def iv check_envelope_def split: if_splits)
qed

definition sample_raw :: raw_device where
  "sample_raw = \<lparr>raw_name = ''fw1'', raw_endpoint = ''https://fw1'', raw_vsys = None,
     raw_api_key = KeyEnv ''K'', raw_tls = TrustSystem, raw_tags = [''lab'', ''lab''],
     raw_connect_timeout = 10, raw_request_timeout = 30, raw_max_concurrency = 4,
     raw_max_response_bytes = 2048,
     raw_mutation = Some \<lparr>pol_admin = ''svc'', pol_roots = [''/config/shared''], pol_allow_delete = False,
       pol_require_lock = True\<rparr>,
     raw_blocklist = None, raw_authority = AuthUnknown\<rparr>"

definition sample_host :: host where
  "sample_host = \<lparr>open_nofollow = (\<lambda>_. Inl ''missing''), env_variable = (\<lambda>_. Some ''key''),
     effective_uid = 1000,
     parse_url = (\<lambda>s. Inr \<lparr>url_scheme = ''https'', url_host = Some ''fw1'', url_username = [],
       url_password = None, url_query = None, url_fragment = None, url_path = ''/'',
       url_text = ''https://fw1/'', url_origin = ''https://fw1''\<rparr>),
     check_device_name = (\<lambda>_. Inr ())\<rparr>"

definition sample_inventory :: "lib \<Rightarrow> inventory" where
  "sample_inventory lb = (case load_with_environment lb sample_host ''inv.json''
     \<lparr>ri_version = 1, ri_devices = [sample_raw], ri_policy = None\<rparr> of Inr iv \<Rightarrow> iv)"

lemma sample_inventory_loads:
  "load_with_environment lb sample_host ''inv.json'' \<lparr>ri_version = 1, ri_devices = [sample_raw], ri_policy = None\<rparr>
    = Inr (sample_inventory lb)"
proof -
  have "is_ok (load_with_environment lb sample_host ''inv.json''
    \<lparr>ri_version = 1, ri_devices = [sample_raw], ri_policy = None\<rparr>)"
    by code_simp
  then show ?thesis by (auto simp: is_ok_iff sample_inventory_def)
qed

theorem loaded_inventory_good_witness:
  "good_inventory (sample_inventory null_lib)"
  using loaded_inventory_good [OF sample_inventory_loads] by blast

text \<open>
  The command policy is fail-closed unless the operator says otherwise: the loaded mode is
  \<open>Blocklist\<close> exactly when the file says so, or says nothing and some device carries legacy
  deny rules.
\<close>

lemma policy_mode_fail_closed:
  "resolve_policy_mode p devices = Blocklist \<longleftrightarrow>
     Option.bind p rp_mode = Some Blocklist \<or>
     (Option.bind p rp_mode = None \<and>
      (\<exists>d \<in> set devices. \<exists>bl. raw_blocklist d = Some bl \<and> bl_commands bl \<noteq> []))"
  by (auto simp: resolve_policy_mode_def has_legacy_deny_rules_def split: option.splits)

text \<open>
  C31. A secret is read only from a regular file that no one but its owner can access: no group
  or other permission bit is set, the owner is the effective user or root, and at most 16 KiB
  are returned.
\<close>

theorem secret_file_private:
  assumes "read_validated_file h path PurposeSecret = Inr bytes" and "open_nofollow h path = Inr info"
  shows "fi_regular info \<and> fi_mode info AND 0x3F = 0 \<and>
    (fi_uid info = effective_uid h \<or> fi_uid info = 0) \<and> length bytes \<le> 16 * 1024"
proof -
  have "(fi_mode info AND 0x1FF) AND 0x3F = 0"
    using assms by (auto simp: read_validated_file_def and_then_Inr validate_unix_file_security_def Let_def split: if_splits)
  moreover have "(fi_mode info AND 0x1FF) AND 0x3F = fi_mode info AND 0x3F"
    by (simp add: and.assoc)
  ultimately show ?thesis
    using assms by (auto simp: read_validated_file_def and_then_Inr validate_unix_file_security_def Let_def split: if_splits)
qed

definition secret_host :: host where
  "secret_host = sample_host\<lparr>open_nofollow := \<lambda>_. Inr \<lparr>fi_regular = True, fi_len = 3, fi_mode = 0x8180,
     fi_uid = 1000, fi_content = Inr ''key''\<rparr>\<rparr>"

theorem secret_file_private_witness:
  "(0x8180 :: 32 word) AND 0x3F = 0 \<and> read_validated_file secret_host ''/k'' PurposeSecret = Inr ''key''"
proof -
  have a: "read_validated_file secret_host ''/k'' PurposeSecret = Inr ''key''"
    by (simp add: read_validated_file_def secret_host_def sample_host_def validate_unix_file_security_def)
  have b: "open_nofollow secret_host ''/k'' = Inr \<lparr>fi_regular = True, fi_len = 3, fi_mode = 0x8180,
     fi_uid = 1000, fi_content = Inr ''key''\<rparr>"
    by (simp add: secret_host_def)
  from secret_file_private [OF a b] a show ?thesis by simp
qed

text \<open>
  The pin parser is laxer than its error message says: a plus sign is read as part of a
  number, so a text of 64 bytes that is not hexadecimal parses as a fingerprint.
\<close>

lemma pin_accepts_plus_signs:
  "parse_sha256 (concat (replicate 32 ''+f'')) = Inr (replicate 32 15)"
  by code_simp

end
