(* ===== verification/Responses.thy ===== *)
theory Responses
  imports XmlSpec
begin

text \<open>
  PAN-OS responses: \<^verbatim>\<open>rust-panosmcp-core/src/xml.rs\<close>, the response envelope
  and the parsers of device facts, jobs, licences, versions, Panorama groups and pushes.
\<close>

section \<open>The envelope\<close>

record panos_response =
  resp_status :: string
  resp_code :: "int option"
  resp_message :: string
  resp_xml :: string

definition is_success :: "panos_response \<Rightarrow> bool" where
  "is_success r \<longleftrightarrow> eq_ignore_ascii_case (resp_status r) ''success'' \<and>
     (case resp_code r of None \<Rightarrow> True | Some c \<Rightarrow> \<not> ((1 \<le> c \<and> c \<le> 18) \<or> 21 \<le> c))"

definition panos_api_code_name :: "int \<Rightarrow> string" where
  "panos_api_code_name c =
     (if c = 1 then ''unknown-command''
      else if (2 \<le> c \<and> c \<le> 5) \<or> c = 11 \<or> c = 21 then ''internal-error''
      else if c = 6 then ''bad-xpath''
      else if c = 7 then ''object-not-present''
      else if c = 8 then ''object-not-unique''
      else if c = 10 then ''reference-count-not-zero''
      else if c = 12 then ''invalid-object''
      else if c = 13 then ''object-not-found''
      else if c = 14 then ''operation-not-possible''
      else if c = 15 then ''operation-denied''
      else if c = 16 then ''unauthorized''
      else if c = 17 then ''invalid-command''
      else if c = 18 then ''malformed-command''
      else if c = 19 then ''success''
      else if c = 20 then ''success-command-completed''
      else if c = 22 then ''session-timed-out''
      else ''unknown'')"

definition ensure_success :: "lib \<Rightarrow> string \<Rightarrow> panos_response \<Rightarrow> panos_response res" where
  "ensure_success lb device r =
     (if is_success r then Inr r
      else
       (let code = (case resp_code r of None \<Rightarrow> - 1 | Some c \<Rightarrow> c);
            message = (if resp_message r = [] then ''PAN-OS returned an error without a message''
                       else resp_message r) in
        Inl (api_error (redact_text lb) device code (panos_api_code_name code) message)))"

definition validate_panos_response :: "lib \<Rightarrow> string \<Rightarrow> xml_limits \<Rightarrow> envelope_summary res" where
  "validate_panos_response lb input limits =
     validate_xml_root lb input limits ''response'' ''panos_xml_response''"

definition parse_panos_response :: "lib \<Rightarrow> string \<Rightarrow> xml_limits \<Rightarrow> panos_response res" where
  "parse_panos_response lb input limits =
     and_then (validate_panos_response lb input limits) (\<lambda>sm.
     if \<not> utf8_valid input then Inl (Xml ''response is not valid UTF-8'')
     else and_then (parse_code (env_code sm)) (\<lambda>code.
     and_then (collect_text_for_elements lb input [''msg'', ''line''] 1024) (\<lambda>message.
       Inr \<lparr>resp_status = or_empty (env_status sm), resp_code = code, resp_message = message,
            resp_xml = input\<rparr>)))"

section \<open>Jobs and facts\<close>

record job_status =
  job_state :: "string option"
  job_result :: "string option"
  job_progress :: "nat option"
  job_details :: "string option"

definition is_finished :: "job_status \<Rightarrow> bool" where
  "is_finished j \<longleftrightarrow> job_state j = Some ''FIN''"

definition succeeded :: "job_status \<Rightarrow> bool" where
  "succeeded j \<longleftrightarrow> is_finished j \<and> job_result j = Some ''OK''"

definition parse_job_id :: "lib \<Rightarrow> panos_response \<Rightarrow> string res" where
  "parse_job_id lb r =
     and_then (first_element_text lb (resp_xml r) ''job'') (\<lambda>v.
     and_then (ok_or (Xml ''response contains no job identifier'') v) (\<lambda>value.
       if value = [] \<or> 32 < length value \<or> \<not> list_all is_ascii_digit value
       then Inl (Xml ''response job identifier is not 1-32 ASCII digits'') else Inr value))"

text \<open>\<open>Debug\<close> output of an optional text.\<close>

definition debug_option :: "lib \<Rightarrow> string option \<Rightarrow> string" where
  "debug_option lb v = (case v of None \<Rightarrow> ''None'' | Some t \<Rightarrow> ''Some('' @ str_debug lb t @ '')'')"

definition parse_pending_changes :: "lib \<Rightarrow> panos_response \<Rightarrow> bool res" where
  "parse_pending_changes lb r =
     and_then (first_element_text lb (resp_xml r) ''result'') (\<lambda>v.
       if v = Some ''yes'' then Inr True
       else if v = Some ''no'' then Inr False
       else Inl (Xml (''check pending-changes returned an unrecognized result: '' @ debug_option lb v)))"

text \<open>\<open>map(parse::<u8>).transpose()\<close>.\<close>

definition parse_progress :: "string \<Rightarrow> string option \<Rightarrow> nat option res" where
  "parse_progress message v =
     (case v of None \<Rightarrow> Inr None
      | Some t \<Rightarrow> (case parse_unsigned 8 t of None \<Rightarrow> Inl (Xml message) | Some n \<Rightarrow> Inr (Some n)))"

definition parse_job_status :: "lib \<Rightarrow> panos_response \<Rightarrow> job_status res" where
  "parse_job_status lb r =
     and_then (first_child_text lb (resp_xml r) ''job'' ''progress'') (\<lambda>p.
     and_then (parse_progress ''job progress is not an integer'' p) (\<lambda>progress.
     and_then (first_child_text lb (resp_xml r) ''job'' ''status'') (\<lambda>status.
     and_then (first_child_text lb (resp_xml r) ''job'' ''result'') (\<lambda>result.
     and_then (first_child_text lb (resp_xml r) ''job'' ''details'') (\<lambda>details.
       Inr \<lparr>job_state = status, job_result = result, job_progress = progress,
            job_details = map_option (redact_text lb) details\<rparr>)))))"

record device_facts =
  fact_hostname :: "string option"
  fact_management_ip :: "string option"
  fact_model :: "string option"
  fact_serial :: "string option"
  fact_software_version :: "string option"
  fact_app_version :: "string option"
  fact_threat_version :: "string option"
  fact_uptime :: "string option"
  fact_family :: "string option"

definition parse_device_facts :: "lib \<Rightarrow> panos_response \<Rightarrow> device_facts res" where
  "parse_device_facts lb r =
     (let get = first_element_text lb (resp_xml r) in
      and_then (get ''hostname'') (\<lambda>hostname.
      and_then (get ''ip-address'') (\<lambda>ip.
      and_then (get ''model'') (\<lambda>model.
      and_then (get ''serial'') (\<lambda>serial.
      and_then (get ''sw-version'') (\<lambda>software.
      and_then (get ''app-version'') (\<lambda>app.
      and_then (get ''threat-version'') (\<lambda>threat.
      and_then (get ''uptime'') (\<lambda>uptime.
      and_then (get ''family'') (\<lambda>family.
        Inr \<lparr>fact_hostname = hostname, fact_management_ip = ip, fact_model = model,
             fact_serial = serial, fact_software_version = software, fact_app_version = app,
             fact_threat_version = threat, fact_uptime = uptime, fact_family = family\<rparr>))))))))))"

record ha_state =
  ha_enabled :: "string option"
  ha_mode :: "string option"
  ha_local :: "string option"
  ha_peer :: "string option"

definition parse_ha_state :: "lib \<Rightarrow> panos_response \<Rightarrow> ha_state res" where
  "parse_ha_state lb r =
     and_then (first_element_text lb (resp_xml r) ''enabled'') (\<lambda>enabled.
     and_then (first_child_text lb (resp_xml r) ''group'' ''mode'') (\<lambda>mode.
     and_then (first_child_text lb (resp_xml r) ''local-info'' ''state'') (\<lambda>local_state.
     and_then (first_child_text lb (resp_xml r) ''peer-info'' ''state'') (\<lambda>peer_state.
       Inr \<lparr>ha_enabled = enabled, ha_mode = mode, ha_local = local_state, ha_peer = peer_state\<rparr>))))"

section \<open>Entry lists\<close>

record license_entry =
  lic_feature :: "string option"
  lic_description :: "string option"
  lic_serial :: "string option"
  lic_issued :: "string option"
  lic_expires :: "string option"
  lic_expired :: "string option"

record content_version_entry =
  cv_version :: "string option"
  cv_filename :: "string option"
  cv_released_on :: "string option"
  cv_downloaded :: "string option"
  cv_current :: "string option"

record software_version_entry = content_version_entry +
  sv_latest :: "string option"

definition "license_content_entry_depth = (3 :: nat)"
definition "software_entry_depth = (4 :: nat)"
definition "log_entry_depth = (4 :: nat)"

definition parse_license_entries :: "lib \<Rightarrow> panos_response \<Rightarrow> license_entry list res" where
  "parse_license_entries lb r =
     and_then (scan_config_entries lb (resp_xml r) 0 usize_max license_content_entry_depth) (\<lambda>scan.
       collect_results (\<lambda>entry.
         let get = first_element_text lb (entry_xml entry) in
         and_then (get ''feature'') (\<lambda>feature.
         and_then (get ''description'') (\<lambda>description.
         and_then (get ''serial'') (\<lambda>serial.
         and_then (get ''issued'') (\<lambda>issued.
         and_then (get ''expires'') (\<lambda>expires.
         and_then (get ''expired'') (\<lambda>expired.
           Inr \<lparr>lic_feature = feature, lic_description = description, lic_serial = serial,
                lic_issued = issued, lic_expires = expires, lic_expired = expired\<rparr>)))))))
       (scan_entries scan))"

definition parse_content_entries :: "lib \<Rightarrow> panos_response \<Rightarrow> content_version_entry list res" where
  "parse_content_entries lb r =
     and_then (scan_config_entries lb (resp_xml r) 0 usize_max license_content_entry_depth) (\<lambda>scan.
       collect_results (\<lambda>entry.
         let get = first_element_text lb (entry_xml entry) in
         and_then (get ''version'') (\<lambda>version.
         and_then (get ''filename'') (\<lambda>filename.
         and_then (get ''released-on'') (\<lambda>released.
         and_then (get ''downloaded'') (\<lambda>downloaded.
         and_then (get ''current'') (\<lambda>current.
           Inr \<lparr>cv_version = version, cv_filename = filename, cv_released_on = released,
                cv_downloaded = downloaded, cv_current = current\<rparr>))))))
       (scan_entries scan))"

definition parse_software_entries :: "lib \<Rightarrow> panos_response \<Rightarrow> software_version_entry list res" where
  "parse_software_entries lb r =
     and_then (scan_config_entries lb (resp_xml r) 0 usize_max software_entry_depth) (\<lambda>scan.
       collect_results (\<lambda>entry.
         let get = first_element_text lb (entry_xml entry) in
         and_then (get ''version'') (\<lambda>version.
         and_then (get ''filename'') (\<lambda>filename.
         and_then (get ''released-on'') (\<lambda>released.
         and_then (get ''downloaded'') (\<lambda>downloaded.
         and_then (get ''current'') (\<lambda>current.
         and_then (get ''latest'') (\<lambda>latest.
           Inr \<lparr>cv_version = version, cv_filename = filename, cv_released_on = released,
                cv_downloaded = downloaded, cv_current = current, sv_latest = latest\<rparr>)))))))
       (scan_entries scan))"

definition parse_security_policy_match :: "lib \<Rightarrow> panos_response \<Rightarrow> config_entry list res" where
  "parse_security_policy_match lb r =
     and_then (scan_config_entries lb (resp_xml r) 0 usize_max license_content_entry_depth)
       (\<lambda>scan. Inr (scan_entries scan))"

definition log_job_is_finished :: "lib \<Rightarrow> panos_response \<Rightarrow> bool res" where
  "log_job_is_finished lb r =
     and_then (first_element_text lb (resp_xml r) ''status'') (\<lambda>v. Inr (v = Some ''FIN''))"

definition parse_log_entries :: "lib \<Rightarrow> panos_response \<Rightarrow> config_entry list res" where
  "parse_log_entries lb r =
     and_then (scan_config_entries lb (resp_xml r) 0 usize_max log_entry_depth)
       (\<lambda>scan. Inr (scan_entries scan))"

section \<open>Panorama groups\<close>

record grouped_entries =
  group_name :: string
  group_members :: "string list"

text \<open>\<open>stack_ends_with\<close>, on a stack whose innermost element comes first.\<close>

definition stack_ends_with :: "string list \<Rightarrow> string list \<Rightarrow> bool" where
  "stack_ends_with stack tail \<longleftrightarrow>
     length tail \<le> length stack \<and> take (length tail) stack = rev tail"

definition too_many_entries :: panos_error where
  "too_many_entries = Xml (''response contains more than '' @ show_nat max_list_entries @ '' entries'')"

definition record_entry_open ::
  "string list \<Rightarrow> string \<Rightarrow> xattr list \<Rightarrow> string \<Rightarrow> string \<Rightarrow> grouped_entries list \<Rightarrow> grouped_entries list res" where
  "record_entry_open stack name as list_element nested results =
     (if name \<noteq> ''entry'' then Inr results
      else if stack_ends_with stack [list_element] then
        (if max_list_entries \<le> length results then Inl too_many_entries
         else and_then (entry_name_attribute as) (\<lambda>n.
           Inr (results @ [\<lparr>group_name = or_empty n, group_members = []\<rparr>])))
      else if stack_ends_with stack [list_element, ''entry'', nested] \<and> results \<noteq> [] then
        (let current = last results in
         if max_members_per_entry \<le> length (group_members current)
         then Inl (Xml (''entry '' @ [CHR 0x27] @ group_name current @ [CHR 0x27] @ '' contains more than ''
            @ show_nat max_members_per_entry @ '' members''))
         else and_then (entry_name_attribute as) (\<lambda>n.
           Inr (butlast results @ [current\<lparr>group_members := group_members current @ [or_empty n]\<rparr>])))
      else Inr results)"

fun grouped_loop ::
  "string \<Rightarrow> string \<Rightarrow> xevent list \<Rightarrow> xfin \<Rightarrow> string list \<Rightarrow> grouped_entries list \<Rightarrow> grouped_entries list res" where
  "grouped_loop list_element nested [] fin stack results = at_end fin results"
| "grouped_loop list_element nested (XStart name as # es) fin stack results =
     and_then (record_entry_open stack name as list_element nested results)
       (grouped_loop list_element nested es fin (name # stack))"
| "grouped_loop list_element nested (XEmpty name as # es) fin stack results =
     and_then (record_entry_open stack name as list_element nested results)
       (grouped_loop list_element nested es fin stack)"
| "grouped_loop list_element nested (XEnd name # es) fin stack results =
     grouped_loop list_element nested es fin (tl stack) results"
| "grouped_loop list_element nested (XDocType # es) fin stack results = Inl doctype_error"
| "grouped_loop list_element nested (e # es) fin stack results =
     grouped_loop list_element nested es fin stack results"

definition parse_grouped_entries :: "lib \<Rightarrow> string \<Rightarrow> string \<Rightarrow> string \<Rightarrow> grouped_entries list res" where
  "parse_grouped_entries lb input list_element nested =
     (let (items, fin) = read_events lb True input in
      grouped_loop list_element nested (map fst items) fin [] [])"

record device_group_summary =
  dg_name :: string
  dg_member_serials :: "string list"

definition parse_panorama_device_groups_op :: "lib \<Rightarrow> panos_response \<Rightarrow> device_group_summary list res" where
  "parse_panorama_device_groups_op lb r =
     and_then (parse_grouped_entries lb (resp_xml r) ''devicegroups'' ''devices'') (\<lambda>entries.
       Inr (map (\<lambda>e. \<lparr>dg_name = group_name e, dg_member_serials = group_members e\<rparr>) entries))"

record child_entry =
  child_name :: "string option"
  child_xml :: string

record list_state =
  ls_stack :: "string list"
  ls_entries :: "child_entry list"
  ls_depth :: "nat option"
  ls_start :: nat
  ls_name :: "string option"

fun list_child_step :: "string \<Rightarrow> string \<Rightarrow> xitem \<Rightarrow> list_state \<Rightarrow> list_state res" where
  "list_child_step input parent (XStart name as, p, q) st =
     (if ls_depth st = None \<and> name = ''entry'' \<and> stack_ends_with (ls_stack st) [parent] then
        (if max_list_entries \<le> length (ls_entries st) then Inl too_many_entries
         else and_then (entry_name_attribute as) (\<lambda>n.
           Inr (st\<lparr>ls_name := n, ls_start := p, ls_stack := name # ls_stack st,
                    ls_depth := Some (length (ls_stack st) + 1)\<rparr>)))
      else Inr (st\<lparr>ls_stack := name # ls_stack st\<rparr>))"
| "list_child_step input parent (XEmpty name as, p, q) st =
     (if ls_depth st = None \<and> name = ''entry'' \<and> stack_ends_with (ls_stack st) [parent] then
        (if max_list_entries \<le> length (ls_entries st) then Inl too_many_entries
         else and_then (entry_name_attribute as) (\<lambda>n.
           Inr (st\<lparr>ls_entries := ls_entries st @ [\<lparr>child_name = n, child_xml = drop p (take q input)\<rparr>]\<rparr>)))
      else Inr st)"
| "list_child_step input parent (XEnd name, p, q) st =
     (let st = (if ls_depth st = Some (length (ls_stack st))
                then st\<lparr>ls_entries := ls_entries st @
                          [\<lparr>child_name = ls_name st, child_xml = drop (ls_start st) (take q input)\<rparr>],
                        ls_name := None, ls_depth := None\<rparr>
                else st) in
      Inr (st\<lparr>ls_stack := tl (ls_stack st)\<rparr>))"
| "list_child_step input parent (XDocType, p, q) st = Inl doctype_error"
| "list_child_step input parent (e, p, q) st = Inr st"

fun list_child_loop :: "string \<Rightarrow> string \<Rightarrow> xitem list \<Rightarrow> list_state \<Rightarrow> list_state res" where
  "list_child_loop input parent [] st = Inr st"
| "list_child_loop input parent (i # is) st =
     and_then (list_child_step input parent i st) (list_child_loop input parent is)"

definition list_child_entries :: "lib \<Rightarrow> string \<Rightarrow> string \<Rightarrow> child_entry list res" where
  "list_child_entries lb input parent =
     (let (items, fin) = read_events lb False input in
      and_then (list_child_loop input parent items
          \<lparr>ls_stack = [], ls_entries = [], ls_depth = None, ls_start = 0, ls_name = None\<rparr>) (\<lambda>st.
        at_end fin (ls_entries st)))"

definition parse_panorama_templates_op :: "lib \<Rightarrow> panos_response \<Rightarrow> string list res" where
  "parse_panorama_templates_op lb r =
     and_then (list_child_entries lb (resp_xml r) ''templates'') (\<lambda>entries.
       Inr (map (\<lambda>e. or_empty (child_name e)) entries))"

record push_device_status =
  pd_serial :: string
  pd_device_name :: "string option"
  pd_status :: "string option"
  pd_result :: "string option"
  pd_progress :: "nat option"
  pd_details :: "string option"

definition parse_push_device :: "lib \<Rightarrow> child_entry \<Rightarrow> push_device_status res" where
  "parse_push_device lb entry =
     (let get = first_child_text lb (child_xml entry) ''entry'' in
      and_then (get ''serial-no'') (\<lambda>s.
      and_then (ok_or (Xml (''push device entry has neither a '' @ [CHR 0x27] @ ''serial-no'' @ [CHR 0x27] @ '' child nor a '' @
            [CHR 0x27] @ ''name'' @ [CHR 0x27] @ '' attribute''))
          (case s of Some v \<Rightarrow> (if v = [] then child_name entry else s) | None \<Rightarrow> child_name entry)) (\<lambda>serial.
      and_then (get ''progress'') (\<lambda>p.
      and_then (parse_progress ''push device progress is not an integer'' p) (\<lambda>progress.
      and_then (get ''devicename'') (\<lambda>device_name.
      and_then (get ''status'') (\<lambda>status.
      and_then (get ''result'') (\<lambda>result.
      and_then (get ''details'') (\<lambda>details.
        Inr \<lparr>pd_serial = serial, pd_device_name = device_name, pd_status = status,
             pd_result = result, pd_progress = progress, pd_details = details\<rparr>)))))))))"

definition parse_push_devices :: "lib \<Rightarrow> string \<Rightarrow> push_device_status list res" where
  "parse_push_devices lb input =
     and_then (list_child_entries lb input ''devices'') (collect_results (parse_push_device lb))"

record push_job_status =
  push_job :: job_status
  push_devices :: "push_device_status list"

definition parse_push_job_status :: "lib \<Rightarrow> panos_response \<Rightarrow> push_job_status res" where
  "parse_push_job_status lb r =
     and_then (parse_job_status lb r) (\<lambda>job.
     and_then (parse_push_devices lb (resp_xml r)) (\<lambda>devices.
       Inr \<lparr>push_job = job, push_devices = devices\<rparr>))"

end
