(* ===== verification/Auth.thy ===== *)
theory Auth
  imports XPath
begin

text \<open>
  Bearer headers, secrets, the tool registry and the caller of a request:
  \<^verbatim>\<open>rust-panosmcp-auth/src/{bearer,secret,lib}.rs\<close>.  Scope sets and token entries belong to the
  shared auth crate; what the program reads of them is the record \<open>caller_ctx\<close> and the two
  membership functions of \<open>scope_lib\<close>.
\<close>

section \<open>Bearer headers\<close>

definition max_authorization_header_bytes :: nat where
  "max_authorization_header_bytes = 4096"

datatype bearer_error = TooLarge | InvalidCharacters | WrongScheme | EmptyCredential | EmbeddedWhitespace

fun bearer_error_text :: "bearer_error \<Rightarrow> string" where
  "bearer_error_text TooLarge = ''authorization header is too large''"
| "bearer_error_text InvalidCharacters = ''authorization header contains invalid characters''"
| "bearer_error_text WrongScheme = ''authorization header must use the Bearer scheme''"
| "bearer_error_text EmptyCredential = ''bearer credential is empty''"
| "bearer_error_text EmbeddedWhitespace = ''bearer credential contains whitespace''"

definition header_byte :: "char \<Rightarrow> bool" where
  "header_byte c \<longleftrightarrow> byte c = 9 \<or> (is_ascii c \<and> \<not> is_ascii_control c)"

definition parse_bearer_header :: "string \<Rightarrow> bearer_error + string" where
  "parse_bearer_header value =
     (if max_authorization_header_bytes < length value then Inl TooLarge
      else if \<not> list_all header_byte value then Inl InvalidCharacters
      else case find_pos is_ascii_whitespace value of
        None \<Rightarrow> Inl WrongScheme
      | Some separator \<Rightarrow>
          if \<not> eq_ignore_ascii_case (take separator value) ''bearer'' then Inl WrongScheme
          else
            (let credential = trim_matches is_ascii_whitespace (drop separator value) in
             if credential = [] then Inl EmptyCredential
             else if list_ex is_ascii_whitespace credential then Inl EmbeddedWhitespace
             else Inr credential))"

section \<open>Secrets\<close>

datatype secret_string = SecretString (expose_secret: string)

definition secret_debug :: "secret_string \<Rightarrow> string" where
  "secret_debug s = ''SecretString([REDACTED])''"

definition secret_display :: "secret_string \<Rightarrow> string" where
  "secret_display s = ''[REDACTED]''"

section \<open>Tools\<close>

definition known_tools :: "string list" where
  "known_tools =
     [''apply_panos_change_set'', ''approve_panos_change_set'', ''commit_panos_candidate'',
      ''create_panos_change_set'', ''diff_panos_candidate'', ''discard_panos_candidate'',
      ''execute_panos_op'', ''gather_device_facts'', ''get_candidate_fingerprint'',
      ''get_panorama_push_status'', ''get_panos_change_set'', ''get_panos_config'',
      ''get_panos_content_status'', ''get_panos_entry_digest'', ''get_panos_ha_state'',
      ''get_panos_license_info'', ''get_panos_operation'', ''get_panos_software_status'',
      ''list_devices'', ''list_panorama_device_groups'', ''list_panorama_templates'',
      ''list_panos_entries'', ''list_panos_rulebase_entries'', ''query_panos_logs'',
      ''stage_panos_config'', ''test_panos_security_policy_match'', ''validate_panos_candidate'']"

definition mutation_tools :: "string list" where
  "mutation_tools =
     [''commit_panos_candidate'', ''apply_panos_change_set'', ''approve_panos_change_set'',
      ''create_panos_change_set'', ''diff_panos_candidate'', ''discard_panos_candidate'',
      ''get_candidate_fingerprint'', ''get_panos_change_set'', ''get_panos_operation'',
      ''query_panos_logs'', ''stage_panos_config'', ''validate_panos_candidate'']"

section \<open>Callers\<close>

datatype scope_set = Wildcard | ScopeList "string list"

datatype actor = Human | Agent | UnknownActor

text \<open>The caller the bearer boundary attaches to a request.\<close>

record caller_ctx =
  cc_token :: string
  cc_devices :: scope_set
  cc_tools :: scope_set
  cc_grant :: "mutation_grant option"
  cc_provider :: "string option"
  cc_provider_tier :: "string option"
  cc_on_behalf :: "string option"
  cc_actor :: actor
  cc_client_name :: "string option"
  cc_model :: "string option"
  cc_session :: "string option"
  cc_request_id :: string

text \<open>\<open>ScopeSet::allows\<close>, and \<open>allows_tool\<close> with the tools that need an explicit entry.\<close>

record scope_lib =
  sl_allows :: "scope_set \<Rightarrow> string \<Rightarrow> bool"
  sl_allows_tool :: "scope_set \<Rightarrow> string \<Rightarrow> string list \<Rightarrow> bool"

end
