(* ===== verification/World.thy ===== *)
theory World
  imports Inventory Responses Auth
begin

text \<open>
  The world the service acts on.  A world is the list of events so far, newest first, and the
  per-device flag \<open>auth_healthy\<close>.  Everything outside the program answers through the record
  \<open>env\<close>, whose functions take the events so far: the network, the caller's cancellation
  token, the clock, the random source, the change-set coordinator (a crate the program calls),
  the evidence recorder and the JSON encoding of stored actions.  An \<open>env\<close> is arbitrary, so a
  theorem about every \<open>env\<close> covers every behaviour of these parts.  Each call appends one
  event with the answer it got.
\<close>

section \<open>Stored records\<close>

text \<open>\<open>OperationRecord\<close> and \<open>ChangeSetRecord\<close> of the coordinator crate, with the fields the
  program sets; fields it always leaves empty (\<open>attribution\<close>, \<open>rollback_deadline_unix\<close>,
  \<open>preview\<close>) are omitted.  \<open>json\<close> is a stored JSON value.\<close>

type_synonym json = string

datatype lifecycle_state =
    Staging | Staged | Validating | Validated | Committing | Committed | Discarded | Failed | Indeterminate

datatype change_set_state = Planned | Approved | Applying | Applied | Expired | CsFailed | CsOther string

record op_record =
  op_id :: string
  op_owner :: string
  op_device :: string
  op_endpoint :: string
  op_action :: json
  op_xpath :: "string option"
  op_actions :: "json list"
  op_change_set :: "string option"
  op_current :: string
  op_state :: lifecycle_state
  op_job :: "string option"
  op_details :: "string option"
  op_lock_held :: bool
  op_policy_signature :: string
  op_authority :: "string option"

record approval =
  ap_approver :: "string option"
  ap_waived :: "string option"

record cs_record =
  cs_id :: string
  cs_owner :: string
  cs_device :: string
  cs_expected :: string
  cs_actions :: "json list"
  cs_digest :: string
  cs_state :: change_set_state
  cs_approver :: "string option"
  cs_approval :: "approval option"
  cs_expires :: nat
  cs_operation :: "string option"
  cs_policy_signature :: string
  cs_targets :: "string list"
  cs_without_handle :: bool
  cs_task :: "string option"

text \<open>A coordinator error: its field and message.\<close>

type_synonym coord_err = "string \<times> string"

datatype stage_action = StageSet | StageDelete | StageMove

datatype move_position = MoveBefore | MoveAfter | MoveTop | MoveBottom

record cs_action =
  ca_action :: stage_action
  ca_xpath :: string
  ca_element :: "string option"
  ca_confirmation :: "string option"
  ca_position :: "move_position option"
  ca_destination :: "string option"


text \<open>The result of \<open>approve_change_set\<close> and \<open>waive_approval\<close>.\<close>

record approve_output =
  ao_id :: string
  ao_device :: string
  ao_owner :: string
  ao_count :: nat

text \<open>The audit crate's attribution of a call; \<open>e_with_change_set\<close> is its method.\<close>

record attribution =
  at_principal :: string
  at_on_behalf :: "string option"
  at_request_id :: string
  at_change_set :: "string option"
  at_approver :: "string option"

section \<open>Network answers\<close>

record transport_error =
  te_timeout :: bool
  te_connect :: bool
  te_body :: bool
  te_decode :: bool
  te_builder :: bool
  te_request :: bool

datatype net_reply =
    NetClosed
  | NetTimeout
  | NetError transport_error
  | NetResponse nat "nat option" "(transport_error + string) list"

type_synonym fields = "(string \<times> string) list"

section \<open>Events\<close>

datatype event =
    Sent string fields
  | Slept nat
  | TokenChecked bool
  | Clock "nat option"
  | Random "string option"
  | OpInsert op_record "coord_err option"
  | OpUpdate op_record "coord_err option"
  | OpRemove string
  | OpRead string string string "coord_err + op_record"
  | CsInsert cs_record "coord_err option"
  | CsUpdate cs_record "coord_err option"
  | CsRead string string "coord_err + cs_record"
  | CsClaim string string "coord_err + cs_record"
  | CsWaive string string string string "coord_err + change_set_state"
  | CsApprove string string string string actor "coord_err + approve_output"
  | Guard string "coord_err option"
  | Unguard string
  | Intent string string string string "string option"
  | Receipt string string string string bool string "string option"

record world =
  wlog :: "event list"
  wauth :: "string \<Rightarrow> bool"

type_synonym 'a act = "(world, 'a) state"

text \<open>The caller's token can fire; a token the program creates for itself never does.\<close>

datatype token = Caller | Fresh

record env =
  e_lib :: lib
  e_net :: "event list \<Rightarrow> string \<Rightarrow> fields \<Rightarrow> net_reply"
  e_fired :: "event list \<Rightarrow> bool"
  e_header_ok :: "string \<Rightarrow> bool"
  e_rounds :: "event list \<Rightarrow> nat \<times> bool"
  e_clock :: "event list \<Rightarrow> nat option"
  e_random :: "event list \<Rightarrow> string option"
  e_coord_insert :: "event list \<Rightarrow> op_record \<Rightarrow> coord_err option"
  e_coord_update :: "event list \<Rightarrow> op_record \<Rightarrow> coord_err option"
  e_coord_record :: "event list \<Rightarrow> string \<Rightarrow> string \<Rightarrow> string \<Rightarrow> coord_err + op_record"
  e_coord_cs_insert :: "event list \<Rightarrow> cs_record \<Rightarrow> coord_err option"
  e_coord_cs_update :: "event list \<Rightarrow> cs_record \<Rightarrow> coord_err option"
  e_coord_change_set :: "event list \<Rightarrow> string \<Rightarrow> string \<Rightarrow> coord_err + cs_record"
  e_coord_claim :: "event list \<Rightarrow> string \<Rightarrow> string \<Rightarrow> coord_err + cs_record"
  e_coord_waive :: "event list \<Rightarrow> string \<Rightarrow> string \<Rightarrow> string \<Rightarrow> string \<Rightarrow> coord_err + change_set_state"
  e_coord_approve :: "event list \<Rightarrow> string \<Rightarrow> string \<Rightarrow> string \<Rightarrow> string \<Rightarrow> actor \<Rightarrow> coord_err + approve_output"
  e_coord_guard :: "event list \<Rightarrow> string \<Rightarrow> coord_err option"
  e_lab_mode :: bool
  e_approval_ttl :: nat
  e_cs_digest_of :: "string \<Rightarrow> string \<Rightarrow> string \<Rightarrow> json list \<Rightarrow> string + string"
  e_encode_stage :: "stage_action \<Rightarrow> string + json"
  e_decode_stage :: "json \<Rightarrow> string + stage_action"
  e_encode_action :: "cs_action \<Rightarrow> string + json"
  e_decode_action :: "json \<Rightarrow> string + cs_action"
  e_encode_actions :: "cs_action list \<Rightarrow> string + string"
  e_cs_state_text :: "change_set_state \<Rightarrow> string"
  e_cs_state_debug :: "change_set_state \<Rightarrow> string"
  e_op_state_text :: "lifecycle_state \<Rightarrow> string"
  e_xml_escape :: "string \<Rightarrow> string"
  e_evidence_on :: bool
  e_intent_result :: "event list \<Rightarrow> string option"
  e_receipt_result :: "event list \<Rightarrow> string option"
  e_with_change_set :: "attribution \<Rightarrow> string \<Rightarrow> string option \<Rightarrow> attribution"
  e_require_policy :: "op_record \<Rightarrow> string \<Rightarrow> coord_err option"
  e_require_fingerprint :: "op_record \<Rightarrow> string \<Rightarrow> string \<Rightarrow> coord_err option"
  e_detached :: "event list \<Rightarrow> bool"

section \<open>Primitive steps\<close>

definition ask :: "(event list \<Rightarrow> 'a) \<Rightarrow> ('a \<Rightarrow> event) \<Rightarrow> 'a act" where
  "ask f ev = State (\<lambda>w. let r = f (wlog w) in (r, w\<lparr>wlog := ev r # wlog w\<rparr>))"

definition emit :: "event \<Rightarrow> unit act" where
  "emit e = ask (\<lambda>_. ()) (\<lambda>_. e)"

text \<open>An answer of the environment that leaves no event.\<close>

definition peek :: "(event list \<Rightarrow> 'a) \<Rightarrow> 'a act" where
  "peek f = State (\<lambda>w. (f (wlog w), w))"

definition set_auth :: "string \<Rightarrow> bool \<Rightarrow> unit act" where
  "set_auth device b = State (\<lambda>w. ((), w\<lparr>wauth := (wauth w)(device := b)\<rparr>))"

lemma run_ask [run_simps]:
  "run_state (ask f ev) w = (f (wlog w), w\<lparr>wlog := ev (f (wlog w)) # wlog w\<rparr>)"
  by (simp add: ask_def Let_def)

lemma run_emit [run_simps]: "run_state (emit e) w = ((), w\<lparr>wlog := e # wlog w\<rparr>)"
  by (simp add: emit_def run_ask)

lemma run_peek [run_simps]: "run_state (peek f) w = (f (wlog w), w)"
  by (simp add: peek_def)

lemma run_set_auth [run_simps]:
  "run_state (set_auth d b) w = ((), w\<lparr>wauth := (wauth w)(d := b)\<rparr>)"
  by (simp add: set_auth_def)

abbreviation bind_act :: "'a act \<Rightarrow> ('a \<Rightarrow> 'b act) \<Rightarrow> 'b act" where
  "bind_act \<equiv> State_Monad.bind"

abbreviation ret :: "'a \<Rightarrow> 'a act" where
  "ret \<equiv> State_Monad.return"

section \<open>Weakest preconditions\<close>

text \<open>\<open>wp m Q w\<close>: running \<open>m\<close> from \<open>w\<close> ends with a result and a world that satisfy \<open>Q\<close>.
  Steps are total, so this is a total-correctness statement.\<close>

definition wp :: "'a act \<Rightarrow> ('a \<Rightarrow> world \<Rightarrow> bool) \<Rightarrow> world \<Rightarrow> bool" where
  "wp m Q w = (case run_state m w of (r, w') \<Rightarrow> Q r w')"

named_theorems wp_intro \<open>weakest precondition rules\<close>

lemma wp_return [wp_intro]: "Q x w \<Longrightarrow> wp (ret x) Q w"
  by (simp add: wp_def)

lemma wp_bind [wp_intro]: "wp m (\<lambda>r. wp (k r) Q) w \<Longrightarrow> wp (bind_act m k) Q w"
  by (simp add: wp_def run_bind split_beta)

lemma wp_tryS [wp_intro]:
  "wp m (\<lambda>r w. case r of Inl e \<Rightarrow> Q (Inl e) w | Inr x \<Rightarrow> wp (k x) Q w) w \<Longrightarrow> wp (tryS m k) Q w"
  by (auto simp: wp_def run_tryS split_beta split: sum.splits)

lemma wp_lift [wp_intro]: "Q r w \<Longrightarrow> wp (lift_res r) Q w"
  by (simp add: wp_def lift_res_def)

lemma wp_ask [wp_intro]:
  "Q (f (wlog w)) (w\<lparr>wlog := ev (f (wlog w)) # wlog w\<rparr>) \<Longrightarrow> wp (ask f ev) Q w"
  by (simp add: wp_def run_ask)

lemma wp_emit [wp_intro]: "Q () (w\<lparr>wlog := e # wlog w\<rparr>) \<Longrightarrow> wp (emit e) Q w"
  by (simp add: wp_def run_emit)

lemma wp_peek [wp_intro]: "Q (f (wlog w)) w \<Longrightarrow> wp (peek f) Q w"
  by (simp add: wp_def run_peek)

lemma wp_set_auth [wp_intro]: "Q () (w\<lparr>wauth := (wauth w)(d := b)\<rparr>) \<Longrightarrow> wp (set_auth d b) Q w"
  by (simp add: wp_def run_set_auth)

lemma wp_mono: "wp m Q w \<Longrightarrow> (\<And>r w. Q r w \<Longrightarrow> R r w) \<Longrightarrow> wp m R w"
  by (auto simp: wp_def split: prod.splits)

lemma wp_conj: "wp m Q w \<Longrightarrow> wp m R w \<Longrightarrow> wp m (\<lambda>r w. Q r w \<and> R r w) w"
  by (auto simp: wp_def split: prod.splits)

lemma wp_run: "wp m Q w \<Longrightarrow> run_state m w = (r, w') \<Longrightarrow> Q r w'"
  by (simp add: wp_def)

lemma wpI: "(\<And>r w'. run_state m w = (r, w') \<Longrightarrow> Q r w') \<Longrightarrow> wp m Q w"
  by (auto simp: wp_def split: prod.splits)

section \<open>What a step can do\<close>

text \<open>\<open>emits S m\<close>: \<open>m\<close> only appends events of \<open>S\<close>.\<close>

definition emits :: "event set \<Rightarrow> 'a act \<Rightarrow> bool" where
  "emits S m \<longleftrightarrow> (\<forall>w. \<exists>es. wlog (snd (run_state m w)) = es @ wlog w \<and> set es \<subseteq> S)"

named_theorems emits_intro \<open>what steps append\<close>

lemma emits_return [emits_intro]: "emits S (ret x)"
  by (simp add: emits_def)

lemma emits_lift [emits_intro]: "emits S (lift_res x)"
  by (simp add: emits_def lift_res_def)

lemma emits_ask [emits_intro]: "(\<And>r. ev r \<in> S) \<Longrightarrow> emits S (ask f ev)"
  by (auto simp: emits_def run_ask)

lemma emits_emit [emits_intro]: "e \<in> S \<Longrightarrow> emits S (emit e)"
  by (auto simp: emits_def run_emit)

lemma emits_peek [emits_intro]: "emits S (peek f)"
  by (simp add: emits_def run_peek)

lemma emits_set_auth [emits_intro]: "emits S (set_auth d b)"
  by (simp add: emits_def run_set_auth)

lemma emits_bind [emits_intro]:
  assumes "emits S m" and "\<And>x. emits S (k x)"
  shows "emits S (bind_act m k)"
  unfolding emits_def
proof
  fix w
  obtain r w1 where m: "run_state m w = (r, w1)" by fastforce
  obtain es where es: "wlog w1 = es @ wlog w" "set es \<subseteq> S" using assms(1) m unfolding emits_def by (metis snd_conv)
  obtain r' w2 where k: "run_state (k r) w1 = (r', w2)" by fastforce
  obtain fs where fs: "wlog w2 = fs @ wlog w1" "set fs \<subseteq> S" using assms(2) [of r] k unfolding emits_def by (metis snd_conv)
  show "\<exists>es. wlog (snd (run_state (bind_act m k) w)) = es @ wlog w \<and> set es \<subseteq> S"
    using m k es fs by (intro exI [of _ "fs @ es"]) (simp add: run_bind)
qed

lemma emits_tryS [emits_intro]:
  assumes "emits S m" and "\<And>x. emits S (k x)"
  shows "emits S (tryS m k)"
  unfolding tryS_def using assms by (intro emits_bind) (auto intro: emits_return split: sum.splits)

lemma emits_mono: "emits S m \<Longrightarrow> S \<subseteq> T \<Longrightarrow> emits T m"
  unfolding emits_def by blast

lemma emits_sum [emits_intro]:
  "(\<And>e. r = Inl e \<Longrightarrow> emits S (f e)) \<Longrightarrow> (\<And>x. r = Inr x \<Longrightarrow> emits S (g x)) \<Longrightarrow> emits S (case_sum f g r)"
  by (cases r) auto

lemma emits_option [emits_intro]:
  "emits S f \<Longrightarrow> (\<And>x. r = Some x \<Longrightarrow> emits S (g x)) \<Longrightarrow> emits S (case_option f g r)"
  by (cases r) auto

lemma emits_prod [emits_intro]: "(\<And>a b. r = (a, b) \<Longrightarrow> emits S (f a b)) \<Longrightarrow> emits S (case_prod f r)"
  by (cases r) auto

lemma emits_if [emits_intro]:
  "(b \<Longrightarrow> emits S m) \<Longrightarrow> (\<not> b \<Longrightarrow> emits S n) \<Longrightarrow> emits S (if b then m else n)"
  by simp

lemma emits_let [emits_intro]: "(\<And>x. emits S (f x)) \<Longrightarrow> emits S (Let v f)"
  by simp

lemma wp_emits:
  assumes "emits S m" and "\<And>r w' es. wlog w' = es @ wlog w \<Longrightarrow> set es \<subseteq> S \<Longrightarrow> Q r w'"
  shows "wp m Q w"
proof (rule wpI)
  fix r w'
  assume "run_state m w = (r, w')"
  with assms(1) obtain es where "wlog w' = es @ wlog w" "set es \<subseteq> S" unfolding emits_def by (metis snd_conv)
  with assms(2) show "Q r w'" by blast
qed

lemma emits_run:
  assumes "emits S m" and "run_state m w = (r, w')"
  obtains es where "wlog w' = es @ wlog w" "set es \<subseteq> S"
  using assms unfolding emits_def by (metis snd_conv)

end
