(* ===== verification/Client.thy ===== *)
theory Client
  imports World XmlInput
begin

text \<open>
  The per-device API client: \<^verbatim>\<open>rust-panosmcp-core/src/client.rs\<close>.  A
  client is a device configuration; its only mutable state, the flag \<open>auth_healthy\<close>, is in
  the world.  A response body is the list of chunks the stream delivers.  The whole-request
  deadline and the concurrency semaphore are answers of the network oracle.
\<close>

section \<open>Requests\<close>

definition device_name :: "device_config \<Rightarrow> string" where
  "device_name dc = dm_name (dc_metadata dc)"

definition mutation_lock_key :: "device_config \<Rightarrow> string" where
  "mutation_lock_key dc = url_origin (dc_endpoint dc)"

definition is_auth_healthy :: "world \<Rightarrow> device_config \<Rightarrow> bool" where
  "is_auth_healthy w dc = wauth w (device_name dc)"

definition auth_failure_codes :: "int list" where "auth_failure_codes = [22]"
definition auth_failure_http_statuses :: "nat list" where "auth_failure_http_statuses = [401, 403]"

fun is_auth_failure :: "panos_error \<Rightarrow> bool" where
  "is_auth_failure (Api d code n m) = (code \<in> set auth_failure_codes)"
| "is_auth_failure (HttpStatus d status) = (status \<in> set auth_failure_http_statuses)"
| "is_auth_failure _ = False"

definition record_auth_failure :: "device_config \<Rightarrow> panos_error \<Rightarrow> unit act" where
  "record_auth_failure dc e = (if is_auth_failure e then set_auth (device_name dc) False else ret ())"

definition record_auth_result :: "device_config \<Rightarrow> 'a res \<Rightarrow> unit act" where
  "record_auth_result dc r =
     (case r of Inr _ \<Rightarrow> set_auth (device_name dc) True | Inl e \<Rightarrow> record_auth_failure dc e)"

definition sanitized_reason :: "transport_error \<Rightarrow> string" where
  "sanitized_reason e =
     (if te_connect e then ''connection or TLS handshake failed''
      else if te_body e \<or> te_decode e then ''response body transfer failed''
      else if te_builder e then ''request construction failed''
      else if te_request e then ''request transmission failed''
      else ''HTTP client failure'')"

definition classify_transport :: "transport_error \<Rightarrow> string \<Rightarrow> panos_error" where
  "classify_transport e dev =
     (if te_timeout e then Timeout ''panos_api'' else Transport dev (sanitized_reason e))"

text \<open>The body loop of \<open>send\<close>.\<close>

fun read_chunks ::
  "device_config \<Rightarrow> bool \<Rightarrow> string \<Rightarrow> (transport_error + string) list \<Rightarrow> (string \<times> bool) res" where
  "read_chunks dc trunc bytes [] = Inr (bytes, False)"
| "read_chunks dc trunc bytes (Inl e # chunks) = Inl (classify_transport e (device_name dc))"
| "read_chunks dc trunc bytes (Inr chunk # chunks) =
     (if dc_max_response_bytes dc < saturating_add (length bytes) (length chunk) then
        (if trunc then Inr (bytes @ take (dc_max_response_bytes dc - length bytes) chunk, True)
         else Inl (ResponseTooLarge (device_name dc) (dc_max_response_bytes dc)))
      else read_chunks dc trunc (bytes @ chunk) chunks)"

definition read_response :: "device_config \<Rightarrow> bool \<Rightarrow> net_reply \<Rightarrow> (string \<times> bool) res" where
  "read_response dc trunc reply =
     (case reply of
        NetClosed \<Rightarrow> Inl Cancelled
      | NetTimeout \<Rightarrow> Inl (Timeout ''panos_api'')
      | NetError e \<Rightarrow> Inl (classify_transport e (device_name dc))
      | NetResponse status content_length chunks \<Rightarrow>
          if \<not> (200 \<le> status \<and> status < 300) then Inl (HttpStatus (device_name dc) status)
          else if \<not> trunc \<and> (case content_length of None \<Rightarrow> False | Some n \<Rightarrow> dc_max_response_bytes dc < n)
          then Inl (ResponseTooLarge (device_name dc) (dc_max_response_bytes dc))
          else read_chunks dc trunc [] chunks)"

definition with_vsys :: "device_config \<Rightarrow> fields \<Rightarrow> fields" where
  "with_vsys dc fs =
     (case dm_vsys (dc_metadata dc) of None \<Rightarrow> fs | Some vsys \<Rightarrow> fs @ [(''vsys'', vsys)])"

text \<open>The request itself, raced against the caller's token.  An API key that is not a header
  value is refused before anything is sent.\<close>

definition transmit :: "env \<Rightarrow> device_config \<Rightarrow> fields \<Rightarrow> token \<Rightarrow> bool \<Rightarrow> (string \<times> bool) res act" where
  "transmit env dc fs tok trunc =
     (if \<not> e_header_ok env (dc_api_key dc)
      then ret (Inl (Secret ''PAN-OS API key is not a valid header value''))
      else ask (\<lambda>log. if tok = Caller \<and> e_fired env log then Inl Cancelled
                 else read_response dc trunc (e_net env log (device_name dc) fs))
               (\<lambda>_. Sent (device_name dc) fs))"

definition send :: "env \<Rightarrow> device_config \<Rightarrow> fields \<Rightarrow> token \<Rightarrow> bool \<Rightarrow> (string \<times> bool) res act" where
  "send env dc fs tok trunc =
     bind_act (transmit env dc (with_vsys dc fs) tok trunc) (\<lambda>outcome.
     bind_act (case outcome of Inl e \<Rightarrow> record_auth_failure dc e | Inr _ \<Rightarrow> ret ()) (\<lambda>_.
       ret outcome))"

definition parse_body :: "env \<Rightarrow> device_config \<Rightarrow> string \<Rightarrow> panos_response res" where
  "parse_body env dc bytes =
     and_then (parse_panos_response (e_lib env) bytes
       \<lparr>max_bytes = dc_max_response_bytes dc, max_depth = 64\<rparr>) (ensure_success (e_lib env) (device_name dc))"

definition post :: "env \<Rightarrow> device_config \<Rightarrow> fields \<Rightarrow> token \<Rightarrow> panos_response res act" where
  "post env dc fs tok =
     bind_act (tryS (send env dc fs tok False) (\<lambda>(bytes, _). lift_res (parse_body env dc bytes))) (\<lambda>outcome.
     bind_act (record_auth_result dc outcome) (\<lambda>_. ret outcome))"

definition post_fields :: "env \<Rightarrow> device_config \<Rightarrow> fields \<Rightarrow> token \<Rightarrow> panos_response res act" where
  "post_fields env dc fs tok = post env dc fs tok"

section \<open>Reads\<close>

definition op_fields :: "string \<Rightarrow> fields" where
  "op_fields command = [(''type'', ''op''), (''cmd'', command)]"

definition operational :: "env \<Rightarrow> device_config \<Rightarrow> string \<Rightarrow> token \<Rightarrow> panos_response res act" where
  "operational env dc command tok =
     tryS (lift_res (validate_read_only_op_command (e_lib env) command)) (\<lambda>_.
       post env dc (op_fields command) tok)"

definition config_fields :: "bool \<Rightarrow> string \<Rightarrow> fields" where
  "config_fields candidate xpath =
     [(''type'', ''config''), (''action'', if candidate then ''get'' else ''show''), (''xpath'', xpath)]"

definition configuration :: "env \<Rightarrow> device_config \<Rightarrow> bool \<Rightarrow> string \<Rightarrow> token \<Rightarrow> panos_response res act" where
  "configuration env dc candidate xpath tok =
     tryS (lift_res (validate_read_xpath xpath)) (\<lambda>_. post env dc (config_fields candidate xpath) tok)"

definition configuration_entries ::
  "env \<Rightarrow> device_config \<Rightarrow> bool \<Rightarrow> string \<Rightarrow> token \<Rightarrow> (string \<times> bool) res act" where
  "configuration_entries env dc candidate xpath tok =
     tryS (lift_res (validate_read_xpath xpath)) (\<lambda>_. send env dc (config_fields candidate xpath) tok True)"

definition check_pending_changes :: "env \<Rightarrow> device_config \<Rightarrow> token \<Rightarrow> bool res act" where
  "check_pending_changes env dc tok =
     tryS (post env dc (op_fields ''<check><pending-changes></pending-changes></check>'') tok) (\<lambda>r.
       lift_res (parse_pending_changes (e_lib env) r))"

definition fixed_op :: "env \<Rightarrow> device_config \<Rightarrow> string \<Rightarrow> token \<Rightarrow> panos_response res act" where
  "fixed_op env dc command tok = post env dc (op_fields command) tok"

definition jobs_command :: "string \<Rightarrow> string" where
  "jobs_command job_id = ''<show><jobs><id>'' @ job_id @ ''</id></jobs></show>''"

definition job_response :: "env \<Rightarrow> device_config \<Rightarrow> string \<Rightarrow> token \<Rightarrow> panos_response res act" where
  "job_response env dc job_id tok =
     tryS (lift_res (validate_job_id job_id)) (\<lambda>_. operational env dc (jobs_command job_id) tok)"

section \<open>Polling\<close>

definition next_backoff :: "nat \<Rightarrow> nat" where
  "next_backoff ms = min (ms * 2) 3000"

text \<open>The wait between polls, raced against the token.\<close>

definition poll_wait :: "env \<Rightarrow> token \<Rightarrow> nat \<Rightarrow> unit res act" where
  "poll_wait env tok ms =
     ask (\<lambda>log. if tok = Caller \<and> e_fired env log then Inl Cancelled else Inr ()) (\<lambda>_. Slept ms)"

text \<open>
  A polling loop under \<open>time::timeout\<close>.  How many rounds fit before the deadline is up to the
  environment; the deadline may also strike while a request is in flight, which then has been
  sent and its answer is lost.
\<close>

fun poll_loop ::
  "env \<Rightarrow> device_config \<Rightarrow> fields \<Rightarrow> token \<Rightarrow> string \<Rightarrow> 'a res act \<Rightarrow> ('a \<Rightarrow> 'b option res) \<Rightarrow> nat \<Rightarrow> bool \<Rightarrow> nat \<Rightarrow> 'b res act" where
  "poll_loop env dc fs tok label request done 0 midflight ms =
     bind_act (if midflight then emit (Sent (device_name dc) (with_vsys dc fs)) else ret ()) (\<lambda>_.
       ret (Inl (Timeout label)))"
| "poll_loop env dc fs tok label request done (Suc n) midflight ms =
     tryS request (\<lambda>response.
     tryS (lift_res (done response)) (\<lambda>finished.
       case finished of Some result \<Rightarrow> ret (Inr result)
       | None \<Rightarrow> tryS (poll_wait env tok ms) (\<lambda>_.
           poll_loop env dc fs tok label request done n midflight (next_backoff ms))))"

definition poll_job :: "env \<Rightarrow> device_config \<Rightarrow> string \<Rightarrow> token \<Rightarrow> job_status res act" where
  "poll_job env dc job_id tok =
     tryS (lift_res (validate_job_id job_id)) (\<lambda>_.
     bind_act (peek (e_rounds env)) (\<lambda>(n, midflight).
       poll_loop env dc (op_fields (jobs_command job_id)) tok ''poll_job''
         (operational env dc (jobs_command job_id) tok)
         (\<lambda>r. and_then (parse_job_status (e_lib env) r) (\<lambda>s. Inr (if is_finished s then Some s else None)))
         n midflight 200))"

definition log_fields :: "string \<Rightarrow> string \<Rightarrow> fields" where
  "log_fields action job_id = [(''type'', ''log''), (''action'', action), (''job-id'', job_id)]"

definition best_effort_finish_log_job :: "env \<Rightarrow> device_config \<Rightarrow> string \<Rightarrow> unit act" where
  "best_effort_finish_log_job env dc job_id =
     bind_act (post env dc (log_fields ''finish'' job_id) Fresh) (\<lambda>_. ret ())"

definition poll_log_job :: "env \<Rightarrow> device_config \<Rightarrow> string \<Rightarrow> token \<Rightarrow> panos_response res act" where
  "poll_log_job env dc job_id tok =
     tryS (lift_res (validate_job_id job_id)) (\<lambda>_.
     bind_act (peek (e_rounds env)) (\<lambda>(n, midflight).
     bind_act (poll_loop env dc (log_fields ''get'' job_id) tok ''poll_log_job''
         (post env dc (log_fields ''get'' job_id) tok)
         (\<lambda>r. and_then (log_job_is_finished (e_lib env) r) (\<lambda>b. Inr (if b then Some r else None)))
         n midflight 200) (\<lambda>result.
     bind_act (case result of
         Inl Cancelled \<Rightarrow> best_effort_finish_log_job env dc job_id
       | Inl (Timeout label) \<Rightarrow>
           (if label = ''poll_log_job'' then best_effort_finish_log_job env dc job_id else ret ())
       | _ \<Rightarrow> ret ()) (\<lambda>_. ret result))))"

end
