(* ===== verification/Samples.thy ===== *)
theory Samples
  imports Client
begin

text \<open>
  A concrete device and a scripted environment, at which theorems about every device and every
  environment are instantiated.  The device answers each request with a one-word body, and the
  XML reader of \<open>script_lib\<close> gives each word the events of a PAN-OS response.
\<close>

definition sample_url :: url where
  "sample_url = \<lparr>url_scheme = ''https'', url_host = Some ''fw1'', url_username = [], url_password = None,
     url_query = None, url_fragment = None, url_path = ''/'', url_text = ''https://fw1/'',
     url_origin = ''https://fw1''\<rparr>"

definition sample_policy :: mutation_policy where
  "sample_policy = \<lparr>pol_admin = ''svc'', pol_roots = [''/config/shared''], pol_allow_delete = False,
     pol_require_lock = True\<rparr>"

definition sample_device :: device_config where
  "sample_device = \<lparr>dc_metadata = \<lparr>dm_name = ''fw1'', dm_endpoint = ''https://fw1'', dm_vsys = None, dm_tags = []\<rparr>,
     dc_endpoint = sample_url, dc_api_key = ''key'', dc_tls = TlsSystem, dc_connect_timeout = 10,
     dc_request_timeout = 30, dc_max_concurrency = 4, dc_max_response_bytes = 2048,
     dc_mutation = Some sample_policy, dc_blocklist = None, dc_authority = AuthLocal\<rparr>"

text \<open>\<open>o\<close> is an empty success, \<open>n\<close> says there is no pending change, \<open>j\<close> starts job 7, \<open>f\<close>
  reports a job that finished well.\<close>

definition response_items :: "xitem list \<Rightarrow> xitem list" where
  "response_items body =
     [(XStart ''response'' [AttrKV ''status'' (Inr ''success'')], 0, 1)] @ body @ [(XEnd ''response'', 2, 3)]"

definition text_items :: "string \<Rightarrow> string \<Rightarrow> xitem list" where
  "text_items tag text = [(XStart tag [], 0, 1), (XText text, 1, 2), (XEnd tag, 2, 3)]"

definition script_items :: "string \<Rightarrow> xitem list" where
  "script_items s =
     (if s = ''o'' then response_items []
      else if s = ''n'' then response_items (text_items ''result'' ''no'')
      else if s = ''j'' then response_items (text_items ''job'' ''7'')
      else if s = ''f'' then response_items ([(XStart ''job'' [], 1, 1)] @ text_items ''status'' ''FIN'' @ text_items ''result'' ''OK'' @ [(XEnd ''job'', 1, 1)])
      else if s = ''<entry/>'' then [(XEmpty ''entry'' [], 0, 8)]
      else if starts_with ''<show>'' s then [(XStart ''show'' [], 0, 6), (XEnd ''show'', 6, length s)]
      else [])"

definition script_lib :: lib where
  "script_lib = null_lib\<lparr>read_events := \<lambda>_ s. (script_items s, XEof (length s) (length s)),
     sha256 := \<lambda>_. replicate 32 (CHR ''a'')\<rparr>"

text \<open>With a constant hash every fingerprint, digest and policy signature is this one.\<close>

definition script_hash :: string where
  "script_hash = ''sha256:'' @ hex_digest (replicate 32 (CHR ''a''))"

lemma script_hash_text [code]: "script_hash = ''sha256:6161616161616161616161616161616161616161616161616161616161616161''"
  by code_simp

text \<open>A peaceful environment: the device answers \<open>n\<close> to the pending-changes check, \<open>j\<close> to a
  commit or a validation, \<open>f\<close> to a job query and \<open>o\<close> otherwise; everything else succeeds.\<close>

definition script_reply :: "fields \<Rightarrow> net_reply" where
  "script_reply fs =
     (let cmd = (case map_of fs ''cmd'' of None \<Rightarrow> [] | Some c \<Rightarrow> c) in
      NetResponse 200 None
        [Inr (if starts_with ''<check>'' cmd then ''n''
              else if starts_with ''<commit>'' cmd \<or> starts_with ''<validate>'' cmd then ''j''
              else if starts_with ''<show><jobs>'' cmd then ''f'' else ''o'')])"

definition script_op :: op_record where
  "script_op = \<lparr>op_id = ''op'', op_owner = ''alice'', op_device = ''fw1'', op_endpoint = ''https://fw1'',
     op_action = ''set'', op_xpath = Some ''/config/shared/address'', op_actions = [], op_change_set = None,
     op_current = script_hash, op_state = Staged, op_job = None, op_details = None, op_lock_held = True,
     op_policy_signature = script_hash, op_authority = Some ''local''\<rparr>"

definition script_cs :: cs_record where
  "script_cs = \<lparr>cs_id = ''cs'', cs_owner = ''alice'', cs_device = ''fw1'', cs_expected = script_hash, cs_actions = [''set''],
     cs_digest = script_hash, cs_state = Approved, cs_approver = Some ''bob'',
     cs_approval = Some \<lparr>ap_approver = Some ''bob'', ap_waived = None\<rparr>, cs_expires = 100, cs_operation = None,
     cs_policy_signature = [], cs_targets = [], cs_without_handle = False, cs_task = None\<rparr>"

definition script_action :: cs_action where
  "script_action = \<lparr>ca_action = StageSet, ca_xpath = ''/config/shared/address'', ca_element = Some ''<entry/>'',
     ca_confirmation = None, ca_position = None, ca_destination = None\<rparr>"

definition script_env :: env where
  "script_env = \<lparr>e_lib = script_lib, e_net = \<lambda>_ _. script_reply, e_fired = \<lambda>_. False, e_header_ok = \<lambda>_. True,
     e_rounds = \<lambda>_. (3, False), e_clock = \<lambda>_. Some 10, e_random = \<lambda>_. Some ''r'',
     e_coord_insert = \<lambda>_ _. None, e_coord_update = \<lambda>_ _. None, e_coord_record = \<lambda>_ _ _ _. Inr script_op,
     e_coord_cs_insert = \<lambda>_ _. None, e_coord_cs_update = \<lambda>_ _. None, e_coord_change_set = \<lambda>_ _ _. Inr script_cs,
     e_coord_claim = \<lambda>_ _ _. Inr (script_cs\<lparr>cs_state := Applying\<rparr>), e_coord_waive = \<lambda>_ _ _ _ _. Inr Approved,
     e_coord_approve = \<lambda>_ _ _ _ _ _. Inl (''approval'', ''refused''), e_coord_guard = \<lambda>_ _. None,
     e_lab_mode = False, e_approval_ttl = 900, e_cs_digest_of = \<lambda>_ _ _ _. Inr ''d'',
     e_encode_stage = \<lambda>_. Inr ''set'', e_decode_stage = \<lambda>_. Inr StageSet,
     e_encode_action = \<lambda>_. Inr ''set'', e_decode_action = \<lambda>_. Inr script_action,
     e_encode_actions = \<lambda>_. Inr ''sets'', e_cs_state_text = \<lambda>_. ''state'', e_cs_state_debug = \<lambda>_. ''State'',
     e_op_state_text = \<lambda>_. ''state'', e_xml_escape = id, e_evidence_on = True,
     e_intent_result = \<lambda>_. None, e_receipt_result = \<lambda>_. None, e_with_change_set = \<lambda>a _ _. a,
     e_require_policy = \<lambda>_ _. None, e_require_fingerprint = \<lambda>_ _ _. None, e_detached = \<lambda>_. False\<rparr>"

definition start_world :: world where
  "start_world = \<lparr>wlog = [], wauth = \<lambda>_. True\<rparr>"

definition sample_attribution :: attribution where
  "sample_attribution = \<lparr>at_principal = ''alice'', at_on_behalf = None, at_request_id = ''1'', at_change_set = None,
     at_approver = None\<rparr>"

text \<open>The same environment when the device stops answering reads of the candidate once a change was
  sent, and one in which the evidence or the device guard is refused.\<close>

definition mute_after_change :: env where
  "mute_after_change = script_env\<lparr>e_net := \<lambda>log _ fs.
     if map_of fs ''action'' = Some ''get'' \<and> list_ex (\<lambda>e. case e of Sent d gs \<Rightarrow> map_of gs ''action'' = Some ''set'' | _ \<Rightarrow> False) log
     then NetTimeout else script_reply fs\<rparr>"

definition timeout_on_change :: env where
  "timeout_on_change = script_env\<lparr>e_net := \<lambda>_ _ fs.
     if map_of fs ''action'' = Some ''set'' then NetTimeout else script_reply fs\<rparr>"

definition guard_refused :: env where
  "guard_refused = script_env\<lparr>e_coord_guard := \<lambda>_ _. Some (''operation'', ''cancelled''),
     e_coord_record := \<lambda>_ _ _ _. Inr (script_op\<lparr>op_state := Validated, op_change_set := Some ''cs''\<rparr>)\<rparr>"

end
