(* ===== verification/ClientSpec.thy ===== *)
theory ClientSpec
  imports Samples
begin

text \<open>
  What the API client promises: the body bound, the readiness flag, what reads put on the wire,
  and polling.
\<close>

section \<open>The body bound\<close>

text \<open>The bytes a stream delivers before it ends or fails, and the failure.\<close>

fun stream_body :: "(transport_error + string) list \<Rightarrow> string \<times> transport_error option" where
  "stream_body [] = ([], None)"
| "stream_body (Inl e # chunks) = ([], Some e)"
| "stream_body (Inr c # chunks) = (let (b, e) = stream_body chunks in (c @ b, e))"

definition limited_body ::
  "device_config \<Rightarrow> bool \<Rightarrow> string \<times> transport_error option \<Rightarrow> (string \<times> bool) res" where
  "limited_body dc trunc = (\<lambda>(b, e).
     if dc_max_response_bytes dc < length b
     then (if trunc then Inr (take (dc_max_response_bytes dc) b, True)
           else Inl (ResponseTooLarge (device_name dc) (dc_max_response_bytes dc)))
     else case e of None \<Rightarrow> Inr (b, False) | Some err \<Rightarrow> Inl (classify_transport err (device_name dc)))"

lemma saturating_add_less: "m < usize_max \<Longrightarrow> m < saturating_add a b \<longleftrightarrow> m < a + b"
  by (auto simp: saturating_add_def)

lemma read_chunks_limited:
  assumes "dc_max_response_bytes dc < usize_max" and "length bytes \<le> dc_max_response_bytes dc"
  shows "read_chunks dc trunc bytes chunks =
    limited_body dc trunc (case stream_body chunks of (b, e) \<Rightarrow> (bytes @ b, e))"
  using assms(2)
proof (induction chunks arbitrary: bytes)
  case (Cons x chunks)
  show ?case
  proof (cases x)
    case (Inr chunk)
    obtain b e where st: "stream_body chunks = (b, e)" by fastforce
    show ?thesis
    proof (cases "dc_max_response_bytes dc < length bytes + length chunk")
      case True
      then show ?thesis using Inr st Cons.prems
        by (auto simp: limited_body_def saturating_add_less [OF assms(1)])
    next
      case False
      with Cons.IH [of "bytes @ chunk"] show ?thesis using Inr st
        by (simp add: limited_body_def saturating_add_less [OF assms(1)])
    qed
  qed (use Cons.prems in \<open>simp add: limited_body_def\<close>)
qed (auto simp: limited_body_def)

text \<open>C39. The chunked body reader of a response equals its specification, a function of the whole
  stream: at most the device's byte limit is ever returned; a longer body is an error, or, for
  the entry lists, exactly its first limit bytes marked as cut.  A limit is below the largest
  \<open>usize\<close>.\<close>

theorem body_limit:
  assumes "dc_max_response_bytes dc < usize_max"
  shows "read_chunks dc trunc [] chunks = limited_body dc trunc (stream_body chunks)"
  using read_chunks_limited [of dc "[]" trunc chunks] assms by (simp add: split_beta)

theorem body_limit_witness:
  "dc_max_response_bytes (sample_device\<lparr>dc_max_response_bytes := 4\<rparr>) < usize_max
   \<and> read_chunks (sample_device\<lparr>dc_max_response_bytes := 4\<rparr>) True [] [Inr ''abc'', Inr ''def''] = Inr (''abcd'', True)"
proof -
  have "dc_max_response_bytes (sample_device\<lparr>dc_max_response_bytes := 4\<rparr>) < usize_max"
    by (simp add: usize_max_def)
  then show ?thesis
    by (simp add: body_limit [of "sample_device\<lparr>dc_max_response_bytes := 4\<rparr>"] limited_body_def del: read_chunks.simps)
qed

section \<open>The readiness flag\<close>

lemma send_auth:
  "run_state (send env dc fs tok trunc) w = (r, w') \<Longrightarrow>
   wauth w' = (wauth w)(device_name dc := (case r of Inl e \<Rightarrow> wauth w (device_name dc) \<and> \<not> is_auth_failure e
                                           | Inr _ \<Rightarrow> wauth w (device_name dc)))"
  by (auto simp: send_def transmit_def record_auth_failure_def run_simps Let_def fun_upd_idem
      split: if_splits sum.splits)

definition auth_after :: "'a res \<Rightarrow> bool \<Rightarrow> bool" where
  "auth_after r b = (case r of Inr _ \<Rightarrow> True | Inl e \<Rightarrow> b \<and> \<not> is_auth_failure e)"

text \<open>A request's outcome alone decides the device's readiness flag: a success sets it, an
  unauthorized HTTP status or a timed-out session clears it, any other error leaves it, and no
  other device's flag changes.\<close>

theorem post_auth_flag:
  "wauth (snd (run_state (post env dc fs tok) w)) =
     (wauth w)(device_name dc := auth_after (fst (run_state (post env dc fs tok) w)) (wauth w (device_name dc)))"
proof -
  obtain r1 w1 where s: "run_state (send env dc fs tok False) w = (r1, w1)" by fastforce
  show ?thesis using s send_auth [OF s]
    by (auto simp: post_def run_simps Let_def record_auth_result_def record_auth_failure_def auth_after_def
        split: sum.splits prod.splits)
qed

section \<open>What is sent\<close>

definition sent_to :: "device_config \<Rightarrow> fields set \<Rightarrow> event set" where
  "sent_to dc F = {Sent (device_name dc) (with_vsys dc fs) | fs. fs \<in> F}"

lemma emits_send [emits_intro]: "fs \<in> F \<Longrightarrow> sent_to dc F \<subseteq> S \<Longrightarrow> emits S (send env dc fs tok trunc)"
  unfolding send_def transmit_def record_auth_failure_def
  by (intro emits_intro) (auto simp: sent_to_def)

lemma emits_post [emits_intro]:
  assumes "fs \<in> F" and "sent_to dc F \<subseteq> S"
  shows "emits S (post env dc fs tok)"
  unfolding post_def record_auth_result_def record_auth_failure_def
  by (intro emits_intro emits_send [OF assms])

definition read_fields :: "lib \<Rightarrow> fields set" where
  "read_fields lb =
     {op_fields c | c. validate_read_only_op_command lb c = Inr ()}
     \<union> {config_fields b x | b x. validate_read_xpath x = Inr ()}"

lemma emits_tryS_lift: "(\<And>x. r = Inr x \<Longrightarrow> emits S (k x)) \<Longrightarrow> emits S (tryS (lift_res r) k)"
  by (cases r) (auto simp: tryS_def lift_res_def emits_def run_simps)

lemma emits_operational [emits_intro]:
  "sent_to dc (read_fields (e_lib env)) \<subseteq> S \<Longrightarrow> emits S (operational env dc c tok)"
  unfolding operational_def
  by (rule emits_tryS_lift, rule emits_post [where F = "read_fields (e_lib env)"]) (auto simp: read_fields_def)

lemma emits_configuration [emits_intro]:
  "sent_to dc (read_fields (e_lib env)) \<subseteq> S \<Longrightarrow> emits S (configuration env dc b x tok)"
  unfolding configuration_def
  by (rule emits_tryS_lift, rule emits_post [where F = "read_fields (e_lib env)"]) (auto simp: read_fields_def)

lemma emits_configuration_entries [emits_intro]:
  "sent_to dc (read_fields (e_lib env)) \<subseteq> S \<Longrightarrow> emits S (configuration_entries env dc b x tok)"
  unfolding configuration_entries_def
  by (rule emits_tryS_lift, rule emits_send [where F = "read_fields (e_lib env)"]) (auto simp: read_fields_def)

lemma emits_job_response [emits_intro]:
  "sent_to dc (read_fields (e_lib env)) \<subseteq> S \<Longrightarrow> emits S (job_response env dc j tok)"
  unfolding job_response_def by (intro emits_tryS_lift emits_operational)

section \<open>Polling\<close>

definition is_sent :: "event \<Rightarrow> bool" where
  "is_sent e = (case e of Sent _ _ \<Rightarrow> True | _ \<Rightarrow> False)"

definition requests :: "event list \<Rightarrow> nat" where
  "requests es = length (filter is_sent es)"

text \<open>A run appends at most \<open>n\<close> requests.\<close>

definition asks_at_most :: "nat \<Rightarrow> 'a act \<Rightarrow> bool" where
  "asks_at_most n m \<longleftrightarrow> (\<forall>w. \<exists>es. wlog (snd (run_state m w)) = es @ wlog w \<and> requests es \<le> n)"

lemma asks_return: "asks_at_most n (ret x)"
  by (auto simp: asks_at_most_def requests_def)

lemma asks_bind:
  assumes "asks_at_most m a" and "\<And>x. asks_at_most n (k x)"
  shows "asks_at_most (m + n) (bind_act a k)"
  unfolding asks_at_most_def
proof
  fix w
  obtain r w1 where a: "run_state a w = (r, w1)" by fastforce
  obtain es where es: "wlog w1 = es @ wlog w" "requests es \<le> m" using assms(1) a unfolding asks_at_most_def by (metis snd_conv)
  obtain r' w2 where k: "run_state (k r) w1 = (r', w2)" by fastforce
  obtain fs where fs: "wlog w2 = fs @ wlog w1" "requests fs \<le> n" using assms(2) [of r] k unfolding asks_at_most_def by (metis snd_conv)
  show "\<exists>es. wlog (snd (run_state (bind_act a k) w)) = es @ wlog w \<and> requests es \<le> m + n"
    using a k es fs by (intro exI [of _ "fs @ es"]) (auto simp: run_bind requests_def)
qed

lemma asks_tryS:
  assumes "asks_at_most m a" and "\<And>x. asks_at_most n (k x)"
  shows "asks_at_most (m + n) (tryS a k)"
  unfolding tryS_def by (intro asks_bind assms) (auto intro: asks_return assms split: sum.splits)

lemma asks_mono: "asks_at_most m a \<Longrightarrow> m \<le> n \<Longrightarrow> asks_at_most n a"
  unfolding asks_at_most_def by (meson order_trans)

lemma asks_option: "asks_at_most n f \<Longrightarrow> (\<And>x. asks_at_most n (g x)) \<Longrightarrow> asks_at_most n (case_option f g r)"
  by (cases r) auto

lemma asks_lift: "asks_at_most n (lift_res x)"
  by (simp add: lift_res_def asks_return)

lemma asks_set_auth: "asks_at_most n (set_auth d b)"
  by (simp add: asks_at_most_def requests_def run_set_auth)

lemma asks_send: "asks_at_most 1 (send env dc fs tok trunc)"
proof -
  have t: "asks_at_most 1 (transmit env dc (with_vsys dc fs) tok trunc)"
    unfolding transmit_def by (auto simp: asks_at_most_def run_simps requests_def is_sent_def)
  have "asks_at_most (1 + (0 + 0)) (send env dc fs tok trunc)"
    unfolding send_def record_auth_failure_def
    by (intro asks_bind t asks_return) (auto intro: asks_return asks_set_auth split: sum.splits)
  then show ?thesis by simp
qed

lemma asks_post: "asks_at_most 1 (post env dc fs tok)"
proof -
  have "asks_at_most ((1 + 0) + (0 + 0)) (post env dc fs tok)"
    unfolding post_def record_auth_result_def record_auth_failure_def
    by (intro asks_bind asks_tryS asks_send asks_return)
       (auto intro: asks_return asks_set_auth asks_lift split: sum.splits)
  then show ?thesis by simp
qed

lemma asks_operational: "asks_at_most 1 (operational env dc c tok)"
proof -
  have "asks_at_most (0 + 1) (operational env dc c tok)"
    unfolding operational_def by (intro asks_tryS asks_lift asks_post)
  then show ?thesis by simp
qed

lemma asks_poll_loop:
  assumes "asks_at_most 1 request"
  shows "asks_at_most (n + (if midflight then 1 else 0)) (poll_loop env dc fs tok label request done n midflight ms)"
proof (induction n arbitrary: ms)
  case 0
  then show ?case by (auto simp: asks_at_most_def run_simps requests_def is_sent_def)
next
  case (Suc n)
  have w: "asks_at_most 0 (poll_wait env tok ms)" for ms
    by (auto simp: poll_wait_def asks_at_most_def run_simps requests_def is_sent_def)
  let ?k = "n + (if midflight then 1 else 0)"
  have rest: "asks_at_most (0 + ?k) (tryS (poll_wait env tok ms) (\<lambda>_.
      poll_loop env dc fs tok label request done n midflight (next_backoff ms)))"
    by (intro asks_tryS w Suc)
  have "asks_at_most (1 + (0 + (0 + ?k))) (poll_loop env dc fs tok label request done (Suc n) midflight ms)"
    unfolding poll_loop.simps
    by (intro asks_tryS assms asks_lift asks_option rest asks_return)
  then show ?case by simp
qed

text \<open>A finished poll: what the loop returns passed the test.\<close>

lemma poll_loop_result:
  "run_state (poll_loop env dc fs tok label request done n midflight ms) w = (Inr x, w') \<Longrightarrow>
   \<exists>response. done response = Inr (Some x)"
proof (induction n arbitrary: ms w)
  case (Suc n)
  then show ?case
    by (auto simp: run_simps Let_def split: sum.splits prod.splits option.splits)
qed (auto simp: run_simps split: prod.splits)

lemma emits_poll_loop:
  assumes "emits S request" and "Sent (device_name dc) (with_vsys dc fs) \<in> S" and "\<And>ms. Slept ms \<in> S"
  shows "emits S (poll_loop env dc fs tok label request done n midflight ms)"
proof (induction n arbitrary: ms)
  case 0
  show ?case unfolding poll_loop.simps by (intro emits_intro assms)
next
  case (Suc n)
  show ?case unfolding poll_loop.simps poll_wait_def by (intro emits_intro assms Suc)
qed

lemma parse_job_finished:
  "and_then (parse_job_status lb r) (\<lambda>s. Inr (if is_finished s then Some s else None)) = Inr (Some s) \<Longrightarrow> is_finished s"
  by (auto simp: and_then_Inr split: if_splits)

definition job_request :: "device_config \<Rightarrow> string \<Rightarrow> event" where
  "job_request dc j = Sent (device_name dc) (with_vsys dc (op_fields (jobs_command j)))"

lemma emits_job_operational: "emits {job_request dc j} (operational env dc (jobs_command j) tok)"
  unfolding operational_def
  by (rule emits_tryS_lift, rule emits_post [where F = "{op_fields (jobs_command j)}"])
     (auto simp: sent_to_def job_request_def)

text \<open>C40. Polling a job is bounded and trustworthy: it sends at most one request per round that fits
  before the deadline plus one that the deadline cuts off, every request is the status
  query for that job on this device, and a status it returns is a finished job's.\<close>

theorem poll_job_bounded:
  "\<exists>es. wlog (snd (run_state (poll_job env dc j tok) w)) = es @ wlog w
     \<and> requests es \<le> fst (e_rounds env (wlog w)) + 1
     \<and> filter is_sent es = replicate (requests es) (job_request dc j)
     \<and> (case fst (run_state (poll_job env dc j tok) w) of Inl _ \<Rightarrow> True | Inr s \<Rightarrow> is_finished s)"
proof (cases "validate_job_id j")
  case (Inl e)
  then show ?thesis by (simp add: poll_job_def run_simps requests_def)
next
  case (Inr u)
  obtain n mid where nm: "e_rounds env (wlog w) = (n, mid)" by fastforce
  define m where "m = poll_loop env dc (op_fields (jobs_command j)) tok ''poll_job''
         (operational env dc (jobs_command j) tok)
         (\<lambda>r. and_then (parse_job_status (e_lib env) r) (\<lambda>s. Inr (if is_finished s then Some s else None)))
         n mid 200"
  have run: "run_state (poll_job env dc j tok) w = run_state m w"
    using Inr by (simp add: poll_job_def run_simps nm m_def)
  have "asks_at_most (n + (if mid then 1 else 0)) m"
    unfolding m_def by (rule asks_poll_loop [OF asks_operational])
  then obtain es where es: "wlog (snd (run_state m w)) = es @ wlog w" "requests es \<le> n + (if mid then 1 else 0)"
    unfolding asks_at_most_def by blast
  have "emits ({job_request dc j} \<union> range Slept) m"
    unfolding m_def
    by (rule emits_poll_loop) (auto intro: emits_mono [OF emits_job_operational] simp: job_request_def)
  then have "set es \<subseteq> {job_request dc j} \<union> range Slept"
    using es(1) unfolding emits_def by (metis append_same_eq)
  then have "\<forall>e \<in> set (filter is_sent es). e = job_request dc j" by (auto simp: is_sent_def)
  then have only: "filter is_sent es = replicate (requests es) (job_request dc j)"
    by (metis replicate_length_same requests_def)
  obtain r w' where mw: "run_state m w = (r, w')" by fastforce
  have "case r of Inl _ \<Rightarrow> True | Inr s \<Rightarrow> is_finished s"
    using mw poll_loop_result unfolding m_def by (fastforce dest: parse_job_finished split: sum.splits)
  with es mw run only show ?thesis by (intro exI [of _ es]) (auto simp: nm split: if_splits)
qed

end
