(* ===== verification/Mutation.thy ===== *)
theory Mutation
  imports Client
begin

text \<open>
  The checks of the candidate lifecycle: \<^verbatim>\<open>rust-panosmcp-core/src/mutation.rs\<close>,
  input shapes, payload rules, digests, fingerprints and move targets.  Nothing here changes
  the device; \<open>Lifecycle\<close> and \<open>ChangeSets\<close> run these checks around their requests.
\<close>

definition "max_change_set_actions = (64 :: nat)"
definition "max_change_set_bytes = (1024 * 1024 :: nat)"
definition "max_diff_bytes = (256 * 1024 :: nat)"
definition "max_move_sibling_entries = (20000 :: nat)"
definition "list_container_entry_depth = (3 :: nat)"

section \<open>Errors and names\<close>

definition coord_error :: "coord_err \<Rightarrow> panos_error" where
  "coord_error e =
     (let (field, message) = e in
      if field = ''device'' \<and> message = ''operation cancelled'' then Cancelled
      else if field = ''state''
      then Configuration (''changeset state persistence failed: '' @ message)
      else Policy field message)"

fun api_name :: "stage_action \<Rightarrow> string" where
  "api_name StageSet = ''set''"
| "api_name StageDelete = ''delete''"
| "api_name StageMove = ''move''"

fun to_mutation_action :: "stage_action \<Rightarrow> mutation_action" where
  "to_mutation_action StageSet = MSet"
| "to_mutation_action StageDelete = MDelete"
| "to_mutation_action StageMove = MMove"

fun position_name :: "move_position \<Rightarrow> string" where
  "position_name MoveBefore = ''before''"
| "position_name MoveAfter = ''after''"
| "position_name MoveTop = ''top''"
| "position_name MoveBottom = ''bottom''"

definition requires_destination :: "move_position \<Rightarrow> bool" where
  "requires_destination p \<longleftrightarrow> p = MoveBefore \<or> p = MoveAfter"

section \<open>Digests and fingerprints\<close>

definition sha256_hex64 :: "string \<Rightarrow> bool" where
  "sha256_hex64 d \<longleftrightarrow> length d = 64 \<and> list_all is_lower_hex d"

definition validate_digest :: "string \<Rightarrow> string \<Rightarrow> unit res" where
  "validate_digest value field =
     (case strip_prefix ''sha256:'' value of
        None \<Rightarrow> Inl (Policy field ''value must use sha256:<64 lowercase hex> format'')
      | Some digest \<Rightarrow>
          if sha256_hex64 digest then Inr ()
          else Inl (Policy field ''value must use sha256:<64 lowercase hex> format''))"

definition validate_fingerprint :: "string \<Rightarrow> unit res" where
  "validate_fingerprint value =
     (let bad = Policy ''expected_candidate_fingerprint'' ''value must use the sha256:<64 lowercase hex> format'' in
      case strip_prefix ''sha256:'' value of
        None \<Rightarrow> Inl bad
      | Some digest \<Rightarrow> if sha256_hex64 digest then Inr () else Inl bad)"

definition require_fingerprint :: "string \<Rightarrow> string \<Rightarrow> unit res" where
  "require_fingerprint expected actual =
     and_then (validate_fingerprint expected) (\<lambda>_.
       if expected = actual then Inr ()
       else Inl (Policy ''expected_candidate_fingerprint'' ''candidate changed since the caller observed it''))"

definition require_operation_fingerprint :: "string \<Rightarrow> op_record \<Rightarrow> string \<Rightarrow> unit res" where
  "require_operation_fingerprint expected record actual =
     and_then (require_fingerprint expected actual) (\<lambda>_.
       if op_current record = actual then Inr ()
       else Inl (Policy ''operation_id'' ''candidate changed after this operation staged''))"

text \<open>\<open>u64::to_be_bytes\<close>.\<close>

definition be_bytes64 :: "nat \<Rightarrow> string" where
  "be_bytes64 n = map (\<lambda>i. char_of (n div 256 ^ (7 - i))) [0..<8]"

definition sha256_text :: "lib \<Rightarrow> string \<Rightarrow> string" where
  "sha256_text lb bytes = ''sha256:'' @ hex_digest (sha256 lb bytes)"

definition bool_byte :: "bool \<Rightarrow> char" where
  "bool_byte b = (if b then CHR 0x01 else CHR 0x00)"

text \<open>The bytes fed to the hasher.\<close>

definition policy_bytes :: "mutation_policy \<Rightarrow> string" where
  "policy_bytes p = pol_admin p @ [bool_byte (pol_allow_delete p), bool_byte (pol_require_lock p)]
     @ concat (map (\<lambda>root. be_bytes64 (length root) @ root) (pol_roots p))"

definition policy_signature :: "lib \<Rightarrow> mutation_policy \<Rightarrow> string" where
  "policy_signature lb p = sha256_text lb (policy_bytes p)"

definition require_policy :: "device_config \<Rightarrow> mutation_policy res" where
  "require_policy dc = ok_or (Policy ''device'' ''candidate mutation is disabled by inventory policy'') (dc_mutation dc)"

definition require_operation_policy :: "lib \<Rightarrow> op_record \<Rightarrow> device_config \<Rightarrow> unit res" where
  "require_operation_policy lb record dc =
     and_then (require_policy dc) (\<lambda>p.
       if op_policy_signature record = policy_signature lb p then Inr ()
       else Inl (Policy ''operation_id''
         ''inventory mutation policy changed after this operation staged; discard or recover manually''))"

definition truncate_utf8 :: "string \<Rightarrow> nat \<Rightarrow> string \<times> bool" where
  "truncate_utf8 value limit =
     (if length value \<le> limit then (value, False) else (take (floor_boundary value limit) value, True))"

section \<open>Payload rules\<close>

definition split_container_and_entry_name :: "string \<Rightarrow> (string \<times> string) option" where
  "split_container_and_entry_name xpath =
     (case find_pos (\<lambda>c. c = CHR ''/'') (rev xpath) of None \<Rightarrow> None
      | Some back \<Rightarrow>
        (let slash = length xpath - back - 1;
             container = take slash xpath; last_step = drop (slash + 1) xpath in
         case strip_prefix ''entry[@name='' last_step of None \<Rightarrow> None
         | Some rest \<Rightarrow>
           (case strip_suffix '']'' rest of None \<Rightarrow> None
            | Some rest \<Rightarrow>
              (case rest of [] \<Rightarrow> None
               | quote # _ \<Rightarrow>
                 if (quote \<noteq> CHR 0x27 \<and> quote \<noteq> CHR 0x22) \<or> last rest \<noteq> quote \<or> length rest < 2 then None
                 else
                  (let name = take (length rest - 2) (drop 1 rest) in
                   if name = [] then None else Some (container, name))))))"

definition extract_move_target :: "string \<Rightarrow> (string \<times> string) res" where
  "extract_move_target xpath =
     ok_or (Policy ''xpath'' (''move requires an xpath ending in entry[@name='' @ [CHR 0x27] @ ''...'' @ [CHR 0x27] @ '']''))
       (split_container_and_entry_name xpath)"

definition validate_move_destination_name :: "string \<Rightarrow> unit res" where
  "validate_move_destination_name name =
     (if name = [] \<or> 63 < length name then Inl (Policy ''move_destination'' ''value must be 1-63 characters'')
      else if \<not> list_all (\<lambda>c. \<not> is_ascii_control c) name
      then Inl (Policy ''move_destination'' ''value must not contain control characters'')
      else Inr ())"

definition require_no_move_fields :: "cs_action \<Rightarrow> string \<Rightarrow> unit res" where
  "require_no_move_fields a name =
     (if ca_position a \<noteq> None \<or> ca_destination a \<noteq> None
      then Inl (Policy ''move_position'' (name @ '' must not carry move_position or move_destination''))
      else Inr ())"

definition validate_set_payload :: "lib \<Rightarrow> cs_action \<Rightarrow> unit res" where
  "validate_set_payload lb a =
     and_then (ok_or (Policy ''element'' ''set requires one XML element'') (ca_element a)) (\<lambda>element.
     and_then (validate_config_element lb element) (\<lambda>_.
     if ca_confirmation a \<noteq> None
     then Inl (Policy ''destructive_confirmation'' ''set must not carry delete confirmation'')
     else require_no_move_fields a ''set''))"

definition validate_delete_payload :: "cs_action \<Rightarrow> bool \<Rightarrow> unit res" where
  "validate_delete_payload a allow_delete =
     (if \<not> allow_delete then Inl (Policy ''action'' ''delete is disabled by inventory policy'')
      else if ca_element a \<noteq> None then Inl (Policy ''element'' ''delete must not carry an XML element'')
      else if ca_confirmation a \<noteq> Some (''DELETE '' @ ca_xpath a)
      then Inl (Policy ''destructive_confirmation''
        (''delete requires exact '' @ [CHR 0x27] @ ''DELETE <xpath>'' @ [CHR 0x27] @ '' confirmation''))
      else require_no_move_fields a ''delete'')"

definition validate_move_payload :: "cs_action \<Rightarrow> unit res" where
  "validate_move_payload a =
     (if ca_element a \<noteq> None then Inl (Policy ''element'' ''move must not carry an XML element'')
      else if ca_confirmation a \<noteq> None
      then Inl (Policy ''destructive_confirmation'' ''move must not carry delete confirmation'')
      else
        and_then (ok_or (Policy ''move_position'' ''move requires a position'') (ca_position a)) (\<lambda>position.
        if requires_destination position \<and> ca_destination a = None
        then Inl (Policy ''move_destination'' ''before/after requires a sibling entry name'')
        else if \<not> requires_destination position \<and> ca_destination a \<noteq> None
        then Inl (Policy ''move_destination'' ''top/bottom must not carry a sibling entry name'')
        else
          and_then (extract_move_target (ca_xpath a)) (\<lambda>(_, moved_name).
          case ca_destination a of None \<Rightarrow> Inr ()
          | Some destination \<Rightarrow>
            and_then (validate_move_destination_name destination) (\<lambda>_.
              if destination = moved_name
              then Inl (Policy ''move_destination'' ''a rule cannot be moved relative to itself'')
              else Inr ()))))"

definition validate_stage_payload :: "lib \<Rightarrow> cs_action \<Rightarrow> bool \<Rightarrow> unit res" where
  "validate_stage_payload lb a allow_delete =
     (case ca_action a of
        StageSet \<Rightarrow> validate_set_payload lb a
      | StageDelete \<Rightarrow> validate_delete_payload a allow_delete
      | StageMove \<Rightarrow> validate_move_payload a)"

definition check_grant :: "lib \<Rightarrow> mutation_grant option \<Rightarrow> stage_action \<Rightarrow> string \<Rightarrow> unit res" where
  "check_grant lb grant sa xpath =
     (case grant of None \<Rightarrow> Inr ()
      | Some g \<Rightarrow>
        if \<not> grant_allows_action g (to_mutation_action sa)
        then Inl (Policy ''action'' (''action is outside this token'' @ [CHR 0x27] @ ''s mutation grant''))
        else if \<not> grant_allows_xpath (unicode_alphanumeric lb) g xpath
        then Inl (Policy ''xpath'' (''XPath is outside this token'' @ [CHR 0x27] @ ''s mutation grant''))
        else Inr ())"

definition validate_action :: "lib \<Rightarrow> mutation_policy \<Rightarrow> mutation_grant option \<Rightarrow> cs_action \<Rightarrow> unit res" where
  "validate_action lb p grant a =
     and_then (validate_write_xpath lb (ca_xpath a) (pol_roots p)) (\<lambda>_.
     and_then (validate_stage_payload lb a (pol_allow_delete p)) (\<lambda>_.
       check_grant lb grant (ca_action a) (ca_xpath a)))"

definition validate_change_set_actions ::
  "env \<Rightarrow> cs_action list \<Rightarrow> mutation_policy \<Rightarrow> mutation_grant option \<Rightarrow> unit res" where
  "validate_change_set_actions env as p grant =
     (if as = [] \<or> max_change_set_actions < length as
      then Inl (Policy ''actions'' (''change set must contain 1-'' @ show_nat max_change_set_actions @ '' actions''))
      else
        and_then (map_err (\<lambda>e. Configuration (''could not encode change set: '' @ e)) (e_encode_actions env as)) (\<lambda>encoded.
        if max_change_set_bytes < length encoded
        then Inl (Policy ''actions'' (''serialized change set exceeds '' @ show_nat max_change_set_bytes @ '' bytes''))
        else check_all (validate_action (e_lib env) p grant) as))"

section \<open>Move targets\<close>

record container_entries =
  ce_names :: "string list"
  ce_truncated :: bool

definition read_siblings :: "env \<Rightarrow> device_config \<Rightarrow> string \<Rightarrow> token \<Rightarrow> container_entries res act" where
  "read_siblings env dc container tok =
     tryS (configuration_entries env dc False container tok) (\<lambda>(bytes, response_truncated).
     tryS (lift_res (scan_config_entries (e_lib env) bytes 0 max_move_sibling_entries list_container_entry_depth)) (\<lambda>scan.
       ret (Inr \<lparr>ce_names = map entry_name (scan_entries scan),
         ce_truncated = response_truncated \<or> truncated scan \<or> length (scan_entries scan) < total_seen scan\<rparr>)))"

definition check_siblings :: "container_entries \<Rightarrow> string \<Rightarrow> string option \<Rightarrow> unit res" where
  "check_siblings st name destination =
     (if name \<notin> set (ce_names st)
      then Inl (Policy ''xpath''
        (if ce_truncated st
         then ''the rule to move could not be confirmed to exist: the live rulebase is too large to verify in full''
         else ''the rule to move does not exist in the live rulebase''))
      else case destination of None \<Rightarrow> Inr ()
      | Some d \<Rightarrow>
        if d \<notin> set (ce_names st)
        then Inl (Policy ''move_destination''
          (if ce_truncated st
           then ''the destination sibling rule could not be confirmed to exist: the live rulebase is too large to verify in full''
           else ''the destination sibling rule does not exist in the live rulebase''))
        else Inr ())"

definition require_move_target_exists ::
  "env \<Rightarrow> device_config \<Rightarrow> string \<Rightarrow> string \<Rightarrow> string option \<Rightarrow> token \<Rightarrow> unit res act" where
  "require_move_target_exists env dc container moved_name destination tok =
     tryS (read_siblings env dc container tok) (\<lambda>st. lift_res (check_siblings st moved_name destination))"

text \<open>The first loop fetches every container that some move names, once.\<close>

fun fetch_containers ::
  "env \<Rightarrow> device_config \<Rightarrow> token \<Rightarrow> cs_action list \<Rightarrow> (string \<times> container_entries) list \<Rightarrow> (string \<times> container_entries) list res act" where
  "fetch_containers env dc tok [] containers = ret (Inr containers)"
| "fetch_containers env dc tok (a # as) containers =
     (if ca_action a \<noteq> StageMove then fetch_containers env dc tok as containers
      else tryS (lift_res (extract_move_target (ca_xpath a))) (\<lambda>(container, _).
        if container \<in> fst ` set containers then fetch_containers env dc tok as containers
        else tryS (read_siblings env dc container tok) (\<lambda>st.
          fetch_containers env dc tok as ((container, st) # containers))))"

text \<open>The second loop simulates the plan on the fetched containers.\<close>

fun simulate_moves :: "cs_action list \<Rightarrow> (string \<Rightarrow> container_entries option) \<Rightarrow> unit res" where
  "simulate_moves [] containers = Inr ()"
| "simulate_moves (a # as) containers =
     (case split_container_and_entry_name (ca_xpath a) of
        None \<Rightarrow> simulate_moves as containers
      | Some (container, name) \<Rightarrow>
        (case ca_action a of
           StageSet \<Rightarrow>
             simulate_moves as (case containers container of None \<Rightarrow> containers
               | Some st \<Rightarrow> containers(container \<mapsto> st\<lparr>ce_names := name # ce_names st\<rparr>))
         | StageDelete \<Rightarrow>
             simulate_moves as (case containers container of None \<Rightarrow> containers
               | Some st \<Rightarrow> containers(container \<mapsto> st\<lparr>ce_names := removeAll name (ce_names st)\<rparr>))
         | StageMove \<Rightarrow>
             (case containers container of None \<Rightarrow> Inl (Configuration ''unreachable'')
              | Some st \<Rightarrow> and_then (check_siblings st name (ca_destination a)) (\<lambda>_. simulate_moves as containers))))"

definition require_move_targets_exist :: "env \<Rightarrow> device_config \<Rightarrow> cs_action list \<Rightarrow> token \<Rightarrow> unit res act" where
  "require_move_targets_exist env dc as tok =
     tryS (fetch_containers env dc tok as []) (\<lambda>containers. lift_res (simulate_moves as (map_of containers)))"

end
