(* ===== verification/Lifecycle.thy ===== *)
theory Lifecycle
  imports Mutation Redact
begin

text \<open>
  The candidate lifecycle: \<^verbatim>\<open>rust-panosmcp-core/src/mutation.rs\<close>, from
  fingerprint and configuration lock through stage, diff, validate, commit with its detached
  worker, discard and status.  A handler is one \<open>act\<close>; a local \<open>record\<close> variable that the code
  mutates is threaded.  The device guard is held between a \<open>Guard\<close> event without error
  and the \<open>Unguard\<close> that its drop leaves.
\<close>

section \<open>The service and the coordinator\<close>

record service =
  sv_clients :: "(string \<times> device_config) list"
  sv_direct_commit :: "string option"
  sv_allow_plane :: bool

text \<open>\<open>sv_direct_commit\<close> is the refusal text of \<open>DirectCommitPolicy::check\<close>, \<open>None\<close> when direct
  commits are allowed.\<close>

definition find_client :: "service \<Rightarrow> string \<Rightarrow> device_config res" where
  "find_client sv name = ok_or (UnknownDevice name) (map_of (sv_clients sv) name)"

definition coord_unit :: "coord_err option \<Rightarrow> unit res" where
  "coord_unit e = (case e of None \<Rightarrow> Inr () | Some err \<Rightarrow> Inl (coord_error err))"

definition op_insert :: "env \<Rightarrow> op_record \<Rightarrow> unit res act" where
  "op_insert env r = bind_act (ask (\<lambda>log. e_coord_insert env log r) (OpInsert r)) (\<lambda>e. ret (coord_unit e))"

definition op_update :: "env \<Rightarrow> op_record \<Rightarrow> unit res act" where
  "op_update env r = bind_act (ask (\<lambda>log. e_coord_update env log r) (OpUpdate r)) (\<lambda>e. ret (coord_unit e))"

definition op_remove :: "string \<Rightarrow> unit act" where
  "op_remove oid = emit (OpRemove oid)"

definition op_read :: "env \<Rightarrow> string \<Rightarrow> string \<Rightarrow> string \<Rightarrow> op_record res act" where
  "op_read env oid owner dev =
     bind_act (ask (\<lambda>log. e_coord_record env log oid owner dev) (OpRead oid owner dev))
       (\<lambda>r. ret (map_err coord_error r))"

definition cs_read :: "env \<Rightarrow> string \<Rightarrow> string \<Rightarrow> cs_record res act" where
  "cs_read env oid dev =
     bind_act (ask (\<lambda>log. e_coord_change_set env log oid dev) (CsRead oid dev)) (\<lambda>r. ret (map_err coord_error r))"

definition cs_update :: "env \<Rightarrow> cs_record \<Rightarrow> unit res act" where
  "cs_update env r = bind_act (ask (\<lambda>log. e_coord_cs_update env log r) (CsUpdate r)) (\<lambda>e. ret (coord_unit e))"

definition with_guard :: "env \<Rightarrow> device_config \<Rightarrow> 'a res act \<Rightarrow> 'a res act" where
  "with_guard env dc m =
     bind_act (ask (\<lambda>log. e_coord_guard env log (mutation_lock_key dc)) (Guard (mutation_lock_key dc))) (\<lambda>e.
       case e of Some err \<Rightarrow> ret (Inl (coord_error err))
       | None \<Rightarrow> bind_act m (\<lambda>r. bind_act (emit (Unguard (mutation_lock_key dc))) (\<lambda>_. ret r)))"

definition is_cancelled :: "env \<Rightarrow> token \<Rightarrow> bool act" where
  "is_cancelled env tok = ask (\<lambda>log. tok = Caller \<and> e_fired env log) TokenChecked"

definition now_unix :: "env \<Rightarrow> nat res act" where
  "now_unix env = bind_act (ask (e_clock env) Clock)
     (\<lambda>t. ret (ok_or (Configuration ''system clock is before Unix epoch'') t))"

definition new_operation_id :: "env \<Rightarrow> string res act" where
  "new_operation_id env = bind_act (ask (e_random env) Random) (\<lambda>r. ret (case r of
     None \<Rightarrow> Inl (Configuration ''operating-system random source failed'')
   | Some bytes \<Rightarrow> Inr (hex_digest (sha256 (e_lib env) bytes))))"

section \<open>Fingerprint, clean candidate, lock, revert\<close>

definition fingerprint_entry :: "string \<Rightarrow> string \<Rightarrow> string" where
  "fingerprint_entry root xml = be_bytes64 (length root) @ root @ be_bytes64 (length xml) @ xml"

fun fingerprint_loop :: "env \<Rightarrow> device_config \<Rightarrow> token \<Rightarrow> string \<Rightarrow> string list \<Rightarrow> string res act" where
  "fingerprint_loop env dc tok digest [] = ret (Inr digest)"
| "fingerprint_loop env dc tok digest (root # roots) =
     bind_act (is_cancelled env tok) (\<lambda>c.
       if c then ret (Inl Cancelled)
       else tryS (configuration env dc True root tok) (\<lambda>response.
         fingerprint_loop env dc tok (digest @ fingerprint_entry root (resp_xml response)) roots))"

definition candidate_fingerprint :: "env \<Rightarrow> device_config \<Rightarrow> token \<Rightarrow> string res act" where
  "candidate_fingerprint env dc tok =
     tryS (lift_res (require_policy dc)) (\<lambda>p.
     tryS (fingerprint_loop env dc tok [] (pol_roots p)) (\<lambda>bytes.
       ret (Inr (sha256_text (e_lib env) bytes))))"

definition require_clean_candidate :: "env \<Rightarrow> device_config \<Rightarrow> token \<Rightarrow> unit res act" where
  "require_clean_candidate env dc tok =
     tryS (check_pending_changes env dc tok) (\<lambda>dirty. ret (
       if dirty then Inl (Policy ''candidate''
         ''candidate configuration already has pending changes outside this operation; commit or discard them before staging a new change'')
       else Inr ()))"

definition lock_command :: "env \<Rightarrow> string \<Rightarrow> string" where
  "lock_command env operation_id = ''<request><config-lock><add><comment>rust-panosmcp ''
     @ e_xml_escape env operation_id @ ''</comment></add></config-lock></request>''"

definition acquire_config_lock :: "env \<Rightarrow> device_config \<Rightarrow> string \<Rightarrow> unit res act" where
  "acquire_config_lock env dc operation_id =
     tryS (post_fields env dc (op_fields (lock_command env operation_id)) Fresh)
       (\<lambda>_. ret (Inr ()))"

fun is_already_unlocked :: "panos_error \<Rightarrow> bool" where
  "is_already_unlocked (Api d c n message) = contains ''not currently locked'' (map to_ascii_lower message)"
| "is_already_unlocked _ = False"

definition unlock_fields :: fields where
  "unlock_fields = op_fields ''<request><config-lock><remove></remove></config-lock></request>''"

definition release_config_lock :: "env \<Rightarrow> device_config \<Rightarrow> unit res act" where
  "release_config_lock env dc =
     bind_act (post_fields env dc unlock_fields Fresh) (\<lambda>outcome. ret (case outcome of
         Inr _ \<Rightarrow> Inr ()
       | Inl e \<Rightarrow> if is_already_unlocked e then Inr () else Inl e))"

definition release_config_lock_best_effort :: "env \<Rightarrow> device_config \<Rightarrow> unit act" where
  "release_config_lock_best_effort env dc = bind_act (release_config_lock env dc) (\<lambda>_. ret ())"

definition revert_command :: "env \<Rightarrow> string \<Rightarrow> string" where
  "revert_command env admin = ''<revert><config><partial><admin><member>'' @ e_xml_escape env admin
     @ ''</member></admin></partial></config></revert>''"

definition revert_admin_candidate :: "env \<Rightarrow> device_config \<Rightarrow> string \<Rightarrow> unit res act" where
  "revert_admin_candidate env dc admin =
     tryS (post_fields env dc (op_fields (revert_command env admin)) Fresh) (\<lambda>_. ret (Inr ()))"

text \<open>The form fields of one candidate change.\<close>

definition change_fields :: "cs_action \<Rightarrow> fields" where
  "change_fields a =
     [(''type'', ''config''), (''action'', api_name (ca_action a)), (''xpath'', ca_xpath a)]
     @ (case ca_element a of None \<Rightarrow> [] | Some e \<Rightarrow> [(''element'', e)])
     @ (case ca_position a of None \<Rightarrow> [] | Some p \<Rightarrow> [(''where'', position_name p)])
     @ (case ca_destination a of None \<Rightarrow> [] | Some d \<Rightarrow> [(''dst'', d)])"

section \<open>Stage\<close>

record stage_input =
  si_device :: string
  si_expected :: string
  si_action :: cs_action

record stage_output =
  so_operation :: string
  so_device :: string
  so_before :: string
  so_after :: string
  so_lock_held :: bool

definition stage_checks ::
  "env \<Rightarrow> service \<Rightarrow> stage_input \<Rightarrow> mutation_grant option \<Rightarrow> token \<Rightarrow> (device_config \<times> mutation_policy) res act" where
  "stage_checks env sv input grant tok =
     (let a = si_action input; lb = e_lib env in
      tryS (lift_res (find_client sv (si_device input))) (\<lambda>dc.
      tryS (lift_res (require_policy dc)) (\<lambda>p.
      tryS (lift_res (validate_fingerprint (si_expected input))) (\<lambda>_.
      tryS (lift_res (validate_write_xpath lb (ca_xpath a) (pol_roots p))) (\<lambda>_.
      tryS (lift_res (validate_stage_payload lb a (pol_allow_delete p))) (\<lambda>_.
      tryS (lift_res (check_grant lb grant (ca_action a) (ca_xpath a))) (\<lambda>_.
      tryS (if ca_action a = StageMove then
              tryS (lift_res (extract_move_target (ca_xpath a))) (\<lambda>(container, moved_name).
                require_move_target_exists env dc container moved_name (ca_destination a) tok)
            else ret (Inr ())) (\<lambda>_.
        ret (Inr (dc, p))))))))))"

definition initial_record ::
  "env \<Rightarrow> device_config \<Rightarrow> mutation_policy \<Rightarrow> string \<Rightarrow> string \<Rightarrow> string \<Rightarrow> json \<Rightarrow> string \<Rightarrow> json list \<Rightarrow> string option \<Rightarrow> string \<Rightarrow> op_record" where
  "initial_record env dc p oid owner dev action xpath actions cs expected =
     \<lparr>op_id = oid, op_owner = owner, op_device = dev, op_endpoint = mutation_lock_key dc,
      op_action = action, op_xpath = Some xpath, op_actions = actions, op_change_set = cs,
      op_current = expected, op_state = Staging, op_job = None, op_details = None,
      op_lock_held = False, op_policy_signature = policy_signature (e_lib env) p,
      op_authority = Some (authority_str (dc_authority dc))\<rparr>"

text \<open>The block between the lock and the cleanup: nothing is sent until the candidate is the
  one the caller saw and is clean.\<close>

definition stage_mutate ::
  "env \<Rightarrow> device_config \<Rightarrow> stage_input \<Rightarrow> op_record \<Rightarrow> stage_output res act" where
  "stage_mutate env dc input record =
     tryS (candidate_fingerprint env dc Fresh) (\<lambda>prior.
     tryS (lift_res (require_fingerprint (si_expected input) prior)) (\<lambda>_.
     tryS (require_clean_candidate env dc Fresh) (\<lambda>_.
     tryS (post_fields env dc (change_fields (si_action input)) Fresh) (\<lambda>_.
     tryS (candidate_fingerprint env dc Fresh) (\<lambda>after.
     tryS (op_update env (record\<lparr>op_current := after, op_state := Staged\<rparr>)) (\<lambda>_.
       ret (Inr \<lparr>so_operation = op_id record, so_device = si_device input, so_before = prior,
                so_after = after, so_lock_held = op_lock_held record\<rparr>)))))))"

definition stage_guarded ::
  "env \<Rightarrow> device_config \<Rightarrow> mutation_policy \<Rightarrow> stage_input \<Rightarrow> string \<Rightarrow> token \<Rightarrow> stage_output res act" where
  "stage_guarded env dc p input owner tok =
     bind_act (is_cancelled env tok) (\<lambda>c.
     if c then ret (Inl Cancelled)
     else
      tryS (new_operation_id env) (\<lambda>oid.
      tryS (lift_res (map_err (\<lambda>e. Configuration (''could not serialize action: '' @ e))
        (e_encode_stage env (ca_action (si_action input))))) (\<lambda>action_json.
      tryS (lift_res (map_err (\<lambda>e. Configuration (''could not serialize action: '' @ e))
        (e_encode_action env (si_action input)))) (\<lambda>action_value.
      let record = initial_record env dc p oid owner (si_device input) action_json
            (ca_xpath (si_action input)) [action_value] None (si_expected input) in
      tryS (op_insert env record) (\<lambda>_.
      bind_act (if pol_require_lock p then acquire_config_lock env dc oid else ret (Inr ())) (\<lambda>locked.
      case locked of
        Inl e \<Rightarrow> bind_act (op_remove oid) (\<lambda>_. ret (Inl e))
      | Inr _ \<Rightarrow>
        bind_act (stage_mutate env dc input (record\<lparr>op_lock_held := pol_require_lock p\<rparr>)) (\<lambda>result.
        bind_act (if \<not> is_ok result \<and> pol_require_lock p
                  then release_config_lock_best_effort env dc else ret ()) (\<lambda>_.
        bind_act (if \<not> is_ok result then op_remove oid else ret ()) (\<lambda>_.
          ret result)))))))))"

definition stage_config ::
  "env \<Rightarrow> service \<Rightarrow> stage_input \<Rightarrow> string \<Rightarrow> mutation_grant option \<Rightarrow> token \<Rightarrow> stage_output res act" where
  "stage_config env sv input owner grant tok =
     tryS (stage_checks env sv input grant tok) (\<lambda>(dc, p).
       with_guard env dc (stage_guarded env dc p input owner tok))"

section \<open>Diff, validate\<close>

record operation_input =
  oi_device :: string
  oi_operation :: string
  oi_expected :: string

record diff_output =
  do_operation :: string
  do_device :: string
  do_action :: stage_action
  do_xpath :: string
  do_fingerprint :: string
  do_summary :: string
  do_truncated :: bool

definition coord_policy :: "coord_err option \<Rightarrow> unit res" where
  "coord_policy e = (case e of None \<Rightarrow> Inr () | Some (field, message) \<Rightarrow> Inl (Policy field message))"

definition change_summary_fields :: fields where
  "change_summary_fields = op_fields ''<show><config><list><change-summary/></list></config></show>''"

definition diff_candidate :: "env \<Rightarrow> service \<Rightarrow> operation_input \<Rightarrow> string \<Rightarrow> token \<Rightarrow> diff_output res act" where
  "diff_candidate env sv input owner tok =
     tryS (lift_res (validate_fingerprint (oi_expected input))) (\<lambda>_.
     tryS (op_read env (oi_operation input) owner (oi_device input)) (\<lambda>record.
     tryS (lift_res (find_client sv (oi_device input))) (\<lambda>dc.
     tryS (lift_res (require_policy dc)) (\<lambda>p.
     tryS (lift_res (coord_policy (e_require_policy env record (policy_signature (e_lib env) p)))) (\<lambda>_.
     tryS (candidate_fingerprint env dc tok) (\<lambda>current.
     tryS (lift_res (coord_policy (e_require_fingerprint env record (oi_expected input) current))) (\<lambda>_.
     tryS (post_fields env dc change_summary_fields tok) (\<lambda>response.
     let (summary, truncated) = truncate_utf8 (redact_device_xml (e_lib env) (resp_xml response)) max_diff_bytes in
     tryS (lift_res (map_err (\<lambda>e. Configuration (''could not deserialize action: '' @ e))
       (e_decode_stage env (op_action record)))) (\<lambda>action.
     tryS (lift_res (ok_or (Configuration ''operation record missing xpath'') (op_xpath record))) (\<lambda>xpath.
       ret (Inr \<lparr>do_operation = op_id record, do_device = op_device record, do_action = action,
         do_xpath = xpath, do_fingerprint = current, do_summary = summary, do_truncated = truncated\<rparr>)))))))))))"

record validation_output =
  vo_operation :: string
  vo_job :: string
  vo_succeeded :: bool
  vo_details :: "string option"
  vo_fingerprint :: string

definition validate_fields :: fields where
  "validate_fields = op_fields ''<validate><full></full></validate>''"

definition validate_guarded ::
  "env \<Rightarrow> device_config \<Rightarrow> operation_input \<Rightarrow> op_record \<Rightarrow> validation_output res act" where
  "validate_guarded env dc input record =
     tryS (candidate_fingerprint env dc Fresh) (\<lambda>current.
     tryS (lift_res (require_operation_fingerprint (oi_expected input) record current)) (\<lambda>_.
     tryS (post_fields env dc validate_fields Fresh) (\<lambda>response.
     tryS (lift_res (parse_job_id (e_lib env) response)) (\<lambda>job_id.
     let record = record\<lparr>op_job := Some job_id, op_state := Validating\<rparr> in
     tryS (op_update env record) (\<lambda>_.
     bind_act (poll_job env dc job_id Fresh) (\<lambda>polled.
     case polled of
       Inl e \<Rightarrow>
         tryS (op_update env (record\<lparr>op_state := Failed, op_details := Some (error_text e)\<rparr>)) (\<lambda>_. ret (Inl e))
     | Inr status \<Rightarrow>
         tryS (op_update env (record\<lparr>op_details := job_details status,
                 op_state := (if succeeded status then Validated else Failed)\<rparr>)) (\<lambda>_.
           ret (Inr \<lparr>vo_operation = op_id record, vo_job = job_id, vo_succeeded = succeeded status,
             vo_details = job_details status, vo_fingerprint = current\<rparr>))))))))"

definition validate_candidate ::
  "env \<Rightarrow> service \<Rightarrow> operation_input \<Rightarrow> string \<Rightarrow> token \<Rightarrow> validation_output res act" where
  "validate_candidate env sv input owner tok =
     tryS (lift_res (validate_fingerprint (oi_expected input))) (\<lambda>_.
     tryS (op_read env (oi_operation input) owner (oi_device input)) (\<lambda>record.
     if op_state record \<noteq> Staged then ret (Inl (Policy ''operation_id'' ''operation is not in staged state''))
     else
       tryS (lift_res (find_client sv (oi_device input))) (\<lambda>dc.
       tryS (lift_res (require_operation_policy (e_lib env) record dc)) (\<lambda>_.
         with_guard env dc (validate_guarded env dc input record)))))"

section \<open>Commit\<close>

datatype disposition = Reconciled | Detached

record commit_output =
  co_operation :: string
  co_disposition :: disposition
  co_job :: "string option"
  co_succeeded :: "bool option"
  co_details :: "string option"

definition max_name_in_description :: nat where "max_name_in_description = 64"
definition change_set_id_prefix :: nat where "change_set_id_prefix = 16"

text \<open>The length test counts bytes, the truncation characters.\<close>

definition bounded_name :: "string \<Rightarrow> string" where
  "bounded_name name =
     (if length name > max_name_in_description
      then concat (take max_name_in_description (utf8_chars name)) @ ''...''
      else name)"

definition commit_description :: "op_record \<Rightarrow> attribution \<Rightarrow> string" where
  "commit_description r a =
     ''rust-panosmcp '' @ op_id r @ '' by '' @ bounded_name (at_principal a)
     @ '' on-behalf-of='' @ (case at_on_behalf a of None \<Rightarrow> ''self'' | Some n \<Rightarrow> bounded_name n)
     @ '' request.id='' @ at_request_id a
     @ (case at_approver a of None \<Rightarrow> '''' | Some n \<Rightarrow> '' approved-by='' @ bounded_name n)
     @ (case at_change_set a of None \<Rightarrow> ''''
        | Some i \<Rightarrow> '' change-set='' @ concat (take change_set_id_prefix (utf8_chars i)))"

definition commit_command :: "env \<Rightarrow> op_record \<Rightarrow> attribution \<Rightarrow> string \<Rightarrow> string" where
  "commit_command env r a admin =
     ''<commit><description>'' @ e_xml_escape env (commit_description r a)
     @ ''</description><partial><admin><member>'' @ e_xml_escape env admin
     @ ''</member></admin></partial></commit>''"

definition commit_fields :: "string \<Rightarrow> fields" where
  "commit_fields command = [(''type'', ''commit''), (''action'', ''partial''), (''cmd'', command)]"

text \<open>The worker's block mutates \<open>record\<close> and may stop with an error: it returns both.\<close>

definition try_with :: "op_record \<Rightarrow> 'a res act \<Rightarrow> ('a \<Rightarrow> (op_record \<times> 'b res) act) \<Rightarrow> (op_record \<times> 'b res) act" where
  "try_with r m k = bind_act m (\<lambda>x. case x of Inl e \<Rightarrow> ret (r, Inl e) | Inr v \<Rightarrow> k v)"

definition worker_body :: "env \<Rightarrow> device_config \<Rightarrow> string \<Rightarrow> op_record \<Rightarrow> (op_record \<times> commit_output res) act" where
  "worker_body env dc command r =
     try_with r (post_fields env dc (commit_fields command) Fresh) (\<lambda>response.
     try_with r (lift_res (parse_job_id (e_lib env) response)) (\<lambda>job_id.
     let r = r\<lparr>op_job := Some job_id\<rparr> in
     try_with r (op_update env r) (\<lambda>_.
     try_with r (poll_job env dc job_id Fresh) (\<lambda>status.
     try_with r (candidate_fingerprint env dc Fresh) (\<lambda>current.
     let r = r\<lparr>op_current := current, op_details := job_details status,
               op_state := (if succeeded status then Committing else Failed)\<rparr> in
     try_with r (op_update env r) (\<lambda>_.
       ret (r, Inr \<lparr>co_operation = op_id r, co_disposition = Reconciled, co_job = Some job_id,
                   co_succeeded = Some (succeeded status), co_details = job_details status\<rparr>)))))))"

definition commit_ok :: "commit_output res \<Rightarrow> bool" where
  "commit_ok result = (case result of Inl _ \<Rightarrow> False | Inr out \<Rightarrow> co_succeeded out = Some True)"

definition lock_release_failed :: "string \<Rightarrow> panos_error \<Rightarrow> string" where
  "lock_release_failed step e = step @ '' succeeded but PAN-OS configuration lock release failed: ''
     @ error_text e @ ''; manual job/candidate/lock reconciliation required''"

text \<open>The state after the block: the lock is released only when the job succeeded.\<close>

definition worker_settle ::
  "env \<Rightarrow> device_config \<Rightarrow> op_record \<Rightarrow> commit_output res \<Rightarrow> (op_record \<times> commit_output res) act" where
  "worker_settle env dc r result =
     (if commit_ok result \<and> op_lock_held r then
        bind_act (release_config_lock env dc) (\<lambda>released. ret (case released of
            Inr _ \<Rightarrow> (r\<lparr>op_lock_held := False, op_state := Committed\<rparr>, result)
          | Inl e \<Rightarrow> let details = lock_release_failed ''commit'' e in
              (r\<lparr>op_state := Indeterminate, op_details := Some details\<rparr>, Inl (Configuration details))))
      else if commit_ok result then ret (r\<lparr>op_state := Committed\<rparr>, result)
      else (case result of
          Inl e \<Rightarrow> ret (r\<lparr>op_state := Indeterminate, op_details := Some (error_text e)\<rparr>, result)
        | Inr _ \<Rightarrow> ret (r, result)))"

definition opt_text :: "string option \<Rightarrow> string" where
  "opt_text x = (case x of None \<Rightarrow> [] | Some s \<Rightarrow> s)"

definition worker_receipt ::
  "env \<Rightarrow> attribution \<Rightarrow> string \<Rightarrow> op_record \<Rightarrow> bool \<Rightarrow> commit_output res \<Rightarrow> unit act" where
  "worker_receipt env a evidence_id r commit_succeeded result =
     (if e_evidence_on env \<and> (commit_succeeded \<or> is_ok result) then
        bind_act (ask (e_receipt_result env) (Receipt (at_request_id a) evidence_id (op_device r) (at_principal a)
            commit_succeeded (if commit_succeeded then [] else opt_text (op_details r)))) (\<lambda>_. ret ())
      else ret ())"

definition evidence_key :: "op_record \<Rightarrow> string" where
  "evidence_key r = (case op_change_set r of None \<Rightarrow> op_id r | Some i \<Rightarrow> i)"

text \<open>The intent record; \<open>None\<close> when it is kept or no recorder is configured.\<close>

definition worker_intent :: "env \<Rightarrow> attribution \<Rightarrow> op_record \<Rightarrow> string option act" where
  "worker_intent env a r =
     (if e_evidence_on env then
        ask (e_intent_result env) (Intent (at_request_id a) (evidence_key r) (op_device r) (at_principal a))
      else ret None)"

definition worker_refused :: "env \<Rightarrow> op_record \<Rightarrow> string \<Rightarrow> commit_output res act" where
  "worker_refused env r error =
     bind_act (op_update env (r\<lparr>op_state := Validated,
         op_details := Some (''apply-intent evidence not persisted: '' @ error)\<rparr>)) (\<lambda>restored.
       ret (Inl (Configuration (
         ''commit refused: the apply-intent evidence record could not be persisted ('' @ error
         @ (case restored of
              Inr _ \<Rightarrow> ''); the operation is still staged and can be retried''
            | Inl e \<Rightarrow> ''), and the operation could not be returned to a retryable state ('' @ error_text e
                @ ''); it is stranded in `committing` with ''
                @ (if op_lock_held r then ''its candidate and configuration lock held'' else ''its candidate held'')
                @ '', and needs manual reconciliation'')))))"

definition commit_worker ::
  "env \<Rightarrow> device_config \<Rightarrow> string \<Rightarrow> op_record \<Rightarrow> attribution \<Rightarrow> commit_output res act" where
  "commit_worker env dc admin r a =
     (let key = mutation_lock_key dc; drop_guard = emit (Unguard key) in
      bind_act (ask (\<lambda>log. e_coord_guard env log key) (Guard key)) (\<lambda>g.
      case g of Some err \<Rightarrow> ret (Inl (coord_error err))
      | None \<Rightarrow>
        bind_act (worker_intent env a r) (\<lambda>refusal.
        case refusal of
          Some error \<Rightarrow> bind_act (worker_refused env r error) (\<lambda>x. bind_act drop_guard (\<lambda>_. ret x))
        | None \<Rightarrow>
          bind_act (worker_body env dc (commit_command env r a admin) r) (\<lambda>(r1, outcome).
          bind_act drop_guard (\<lambda>_.
          bind_act (worker_settle env dc r1 outcome) (\<lambda>(r2, result).
          bind_act (worker_receipt env a (evidence_key r) r2 (commit_ok outcome) result) (\<lambda>_.
          tryS (op_update env r2) (\<lambda>_. ret result))))))))"

text \<open>The checks on the record, the direct-commit policy and the plane that owns the device.\<close>

definition commit_gate :: "service \<Rightarrow> string \<Rightarrow> op_record \<Rightarrow> device_config res" where
  "commit_gate sv dev r =
     (if op_state r \<noteq> Validated
      then Inl (Policy ''operation_id'' ''operation must validate successfully before commit'')
      else case (op_change_set r, sv_direct_commit sv) of
        (None, Some refusal) \<Rightarrow> Inl (Policy ''operation_id'' refusal)
      | _ \<Rightarrow> and_then (find_client sv dev) (\<lambda>dc.
          if \<not> is_local (dc_authority dc) \<and> \<not> sv_allow_plane sv
          then Inl (Policy ''device'' (''commits to '' @ authority_str (dc_authority dc)
                 @ '' devices are refused; local changes would be overwritten at next push''))
          else Inr dc))"

text \<open>The approver of the change set the operation came from; a failed lookup is no error.\<close>

definition commit_attribution :: "env \<Rightarrow> string \<Rightarrow> op_record \<Rightarrow> attribution \<Rightarrow> attribution act" where
  "commit_attribution env dev r a =
     (case op_change_set r of
        None \<Rightarrow> ret a
      | Some i \<Rightarrow> bind_act (cs_read env i dev) (\<lambda>found.
          ret (e_with_change_set env a i (case found of
              Inl _ \<Rightarrow> None
            | Inr cs \<Rightarrow> Option.bind (cs_approval cs) ap_approver))))"

text \<open>
  The handler spawns the worker and races its reply against the token.  The worker runs to its
  end either way; \<open>e_detached\<close> says which side won, and is asked only of a token that can fire.
\<close>

definition commit_record ::
  "env \<Rightarrow> service \<Rightarrow> operation_input \<Rightarrow> attribution \<Rightarrow> token \<Rightarrow> op_record \<Rightarrow> commit_output res act" where
  "commit_record env sv input a tok record =
     tryS (lift_res (commit_gate sv (oi_device input) record)) (\<lambda>dc.
     tryS (lift_res (require_policy dc)) (\<lambda>p.
     tryS (lift_res (require_operation_policy (e_lib env) record dc)) (\<lambda>_.
     tryS (candidate_fingerprint env dc Fresh) (\<lambda>current.
     tryS (lift_res (require_operation_fingerprint (oi_expected input) record current)) (\<lambda>_.
     let r = record\<lparr>op_state := Committing\<rparr> in
     tryS (op_update env r) (\<lambda>_.
     bind_act (commit_attribution env (oi_device input) r a) (\<lambda>a'.
     bind_act (commit_worker env dc (pol_admin p) r a') (\<lambda>result.
     bind_act (ask (\<lambda>log. tok = Caller \<and> e_detached env log) TokenChecked) (\<lambda>detached.
       ret (if detached
            then Inr \<lparr>co_operation = op_id r, co_disposition = Detached, co_job = None, co_succeeded = None,
                   co_details = Some ''commit continues in a detached reconciliation worker; poll operation status''\<rparr>
            else result))))))))))"

definition commit_candidate ::
  "env \<Rightarrow> service \<Rightarrow> operation_input \<Rightarrow> string \<Rightarrow> attribution \<Rightarrow> token \<Rightarrow> commit_output res act" where
  "commit_candidate env sv input owner a tok =
     tryS (lift_res (validate_fingerprint (oi_expected input))) (\<lambda>_.
     tryS (op_read env (oi_operation input) owner (oi_device input)) (\<lambda>record.
       commit_record env sv input a tok record))"

section \<open>Discard, status\<close>

record discard_output =
  dso_operation :: string
  dso_fingerprint :: string

definition discard_refused :: "lifecycle_state \<Rightarrow> bool" where
  "discard_refused s \<longleftrightarrow> s \<in> {Validating, Committing, Committed, Discarded, Indeterminate}"

definition discard_settle ::
  "env \<Rightarrow> device_config \<Rightarrow> op_record \<Rightarrow> string \<Rightarrow> discard_output res act" where
  "discard_settle env dc r after =
     bind_act (if op_lock_held r then release_config_lock env dc else ret (Inr ())) (\<lambda>released.
     case released of
       Inl e \<Rightarrow>
         let details = lock_release_failed ''discard'' e in
         tryS (op_update env (r\<lparr>op_state := Indeterminate, op_details := Some details\<rparr>)) (\<lambda>_.
           ret (Inl (Configuration details)))
     | Inr _ \<Rightarrow>
         tryS (op_update env (r\<lparr>op_lock_held := False, op_state := Discarded, op_details := None\<rparr>)) (\<lambda>_.
           ret (Inr \<lparr>dso_operation = op_id r, dso_fingerprint = after\<rparr>)))"

definition discard_guarded ::
  "env \<Rightarrow> device_config \<Rightarrow> string \<Rightarrow> operation_input \<Rightarrow> op_record \<Rightarrow> discard_output res act" where
  "discard_guarded env dc admin input record =
     tryS (candidate_fingerprint env dc Fresh) (\<lambda>current.
     tryS (lift_res (require_operation_fingerprint (oi_expected input) record current)) (\<lambda>_.
     tryS (post_fields env dc (op_fields (revert_command env admin)) Fresh) (\<lambda>_.
     tryS (candidate_fingerprint env dc Fresh) (\<lambda>after.
       discard_settle env dc (record\<lparr>op_current := after\<rparr>) after))))"

definition discard_candidate ::
  "env \<Rightarrow> service \<Rightarrow> operation_input \<Rightarrow> string \<Rightarrow> discard_output res act" where
  "discard_candidate env sv input owner =
     tryS (lift_res (validate_fingerprint (oi_expected input))) (\<lambda>_.
     tryS (op_read env (oi_operation input) owner (oi_device input)) (\<lambda>record.
     if discard_refused (op_state record)
     then ret (Inl (Policy ''operation_id'' ''operation cannot be discarded in its current state''))
     else
       tryS (lift_res (find_client sv (oi_device input))) (\<lambda>dc.
       tryS (lift_res (require_policy dc)) (\<lambda>p.
       tryS (lift_res (require_operation_policy (e_lib env) record dc)) (\<lambda>_.
         with_guard env dc (discard_guarded env dc (pol_admin p) input record))))))"

record status_output =
  sto_operation :: string
  sto_device :: string
  sto_state :: string
  sto_job :: "string option"
  sto_fingerprint :: string
  sto_details :: "string option"

definition operation_status :: "env \<Rightarrow> string \<Rightarrow> string \<Rightarrow> string \<Rightarrow> status_output res act" where
  "operation_status env oid owner dev =
     tryS (op_read env oid owner dev) (\<lambda>r.
       ret (Inr \<lparr>sto_operation = op_id r, sto_device = op_device r, sto_state = e_op_state_text env (op_state r),
         sto_job = op_job r, sto_fingerprint = op_current r, sto_details = op_details r\<rparr>))"

end
