(* ===== verification/MutationSpec.thy ===== *)
theory MutationSpec
  imports Lifecycle ClientSpec
begin

text \<open>
  What the mutation rules promise: move targets, the plan simulation against a declarative
  reading of the plan, the authority of every accepted action, and hashing without ambiguity.
\<close>

section \<open>Move targets\<close>

definition entry_path :: "string \<Rightarrow> char \<Rightarrow> string \<Rightarrow> string" where
  "entry_path container q name = container @ ''/entry[@name='' @ [q] @ name @ [q] @ '']''"

lemma find_pos_rev_slash:
  assumes "CHR ''/'' \<notin> set s"
  shows "find_pos (\<lambda>c. c = CHR ''/'') (rev (a @ CHR ''/'' # s)) = Some (length s)"
proof -
  have "find_pos P (t @ x # r) = Some (length t)" if "\<forall>c \<in> set t. \<not> P c" "P x" for P :: "char \<Rightarrow> bool" and t x r
    using that by (induction t) auto
  from this [of "rev s" "\<lambda>c. c = CHR ''/''" "CHR ''/''" "rev a"] assms show ?thesis by auto
qed

lemma split_last_slash:
  assumes "find_pos (\<lambda>c. c = CHR ''/'') (rev x) = Some bk"
  shows "\<exists>a s. x = a @ CHR ''/'' # s \<and> CHR ''/'' \<notin> set s \<and> length s = bk"
proof -
  have "CHR ''/'' \<in> set x" using assms find_pos_None [of "\<lambda>c. c = CHR ''/''" "rev x"] by fastforce
  then obtain a s where s: "x = a @ CHR ''/'' # s" "CHR ''/'' \<notin> set s"
    by (metis split_list_last)
  with find_pos_rev_slash [OF s(2), of a] assms show ?thesis by auto
qed

lemma last_slash_unique:
  assumes "CHR ''/'' \<notin> set s" and "CHR ''/'' \<notin> set t" and "a @ CHR ''/'' # s = b @ CHR ''/'' # t"
  shows "b = a \<and> s = t"
proof -
  have "length s = length t"
    using find_pos_rev_slash [OF assms(1), of a] find_pos_rev_slash [OF assms(2), of b] assms(3) by simp
  with assms(3) show ?thesis by (metis append_eq_append_conv length_Cons list.inject)
qed

definition entry_rest :: "string \<Rightarrow> string option" where
  "entry_rest rest =
     (case rest of [] \<Rightarrow> None
      | quote # _ \<Rightarrow>
        if (quote \<noteq> CHR 0x27 \<and> quote \<noteq> CHR 0x22) \<or> last rest \<noteq> quote \<or> length rest < 2 then None
        else let name = take (length rest - 2) (drop 1 rest) in if name = [] then None else Some name)"

lemma entry_rest_Some:
  "entry_rest rest = Some name \<longleftrightarrow>
     name \<noteq> [] \<and> (\<exists>q. (q = CHR 0x27 \<or> q = CHR 0x22) \<and> rest = q # name @ [q])"
proof (cases "length rest < 2")
  case True
  then show ?thesis by (cases rest; cases "tl rest") (auto simp: entry_rest_def)
next
  case False
  then obtain q m l where r: "rest = q # m @ [l]" by (cases rest; cases "tl rest" rule: rev_cases) auto
  show ?thesis unfolding r by (auto simp: entry_rest_def)
qed

lemma strip_entry_iff:
  "Option.bind (strip_prefix p s) (\<lambda>r. Option.bind (strip_suffix e r) (\<lambda>r. map_option f (entry_rest r))) = Some y \<longleftrightarrow>
     (\<exists>name q. y = f name \<and> name \<noteq> [] \<and> (q = CHR 0x27 \<or> q = CHR 0x22) \<and> s = p @ [q] @ name @ [q] @ e)"
proof -
  have "Option.bind (strip_prefix p s) (\<lambda>r. Option.bind (strip_suffix e r) (\<lambda>r. map_option f (entry_rest r))) = Some y
      \<longleftrightarrow> (\<exists>r'. s = p @ r' @ e \<and> (\<exists>name. entry_rest r' = Some name \<and> y = f name))"
    by (auto simp: bind_eq_Some_conv strip_prefix_Some strip_suffix_Some)
  also have "\<dots> \<longleftrightarrow> (\<exists>name q. y = f name \<and> name \<noteq> [] \<and> (q = CHR 0x27 \<or> q = CHR 0x22) \<and> s = p @ (q # name @ [q]) @ e)"
    unfolding entry_rest_Some
    by (rule iffI; elim exE conjE; hypsubst; intro exI conjI; (rule refl | assumption))
  finally show ?thesis by simp
qed

text \<open>The move-target parser accepts exactly the paths whose last step is an entry selected by
  name: it returns a container and a name if and only if the path is that container followed
  by \<open>/entry[@name=...]\<close> in either quote style, with a non-empty name without a slash.\<close>

theorem split_container_exact:
  "split_container_and_entry_name x = Some (container, name) \<longleftrightarrow>
     name \<noteq> [] \<and> CHR ''/'' \<notin> set name \<and> (\<exists>q \<in> {CHR 0x27, CHR 0x22}. x = entry_path container q name)"
proof (cases "find_pos (\<lambda>c. c = CHR ''/'') (rev x)")
  case None
  then have "CHR ''/'' \<notin> set x" by (auto simp: find_pos_None)
  then have "\<not> (\<exists>q. x = entry_path container q name)" by (auto simp: entry_path_def)
  then show ?thesis using None by (auto simp: split_container_and_entry_name_def)
next
  case (Some bk)
  then obtain a s where x: "x = a @ CHR ''/'' # s" "CHR ''/'' \<notin> set s" "length s = bk"
    using split_last_slash by blast
  have lhs: "split_container_and_entry_name x =
      Option.bind (strip_prefix ''entry[@name='' s) (\<lambda>r. Option.bind (strip_suffix '']'' r) (\<lambda>r.
        map_option (\<lambda>n. (a, n)) (entry_rest r)))"
    using x Some by (auto simp: split_container_and_entry_name_def entry_rest_def Let_def split: option.splits list.splits)
  have l: "split_container_and_entry_name x = Some (container, name) \<longleftrightarrow>
      container = a \<and> name \<noteq> [] \<and> (\<exists>q. (q = CHR 0x27 \<or> q = CHR 0x22) \<and> s = ''entry[@name='' @ [q] @ name @ [q] @ '']'')"
    unfolding lhs strip_entry_iff by blast
  have r: "CHR ''/'' \<notin> set name \<and> x = entry_path container q name \<longleftrightarrow>
      container = a \<and> s = ''entry[@name='' @ [q] @ name @ [q] @ '']''" if "q = CHR 0x27 \<or> q = CHR 0x22" for q
  proof
    assume h: "CHR ''/'' \<notin> set name \<and> x = entry_path container q name"
    let ?t = "''entry[@name='' @ [q] @ name @ [q] @ '']''"
    have t: "CHR ''/'' \<notin> set ?t" using h that by auto
    have "a @ CHR ''/'' # s = container @ CHR ''/'' # ?t" using h x(1) by (simp add: entry_path_def)
    then show "container = a \<and> s = ?t" using last_slash_unique [OF x(2) t] by metis
  qed (use x in \<open>auto simp: entry_path_def\<close>)
  show ?thesis unfolding l using r by blast
qed

text \<open>A quoted name may contain a slash (interface \<open>ethernet1/1\<close>), and the path validator accepts
  such a path, but the move-target parser looks for the last slash of the whole text: it does
  not recognise the entry, so a move of it is refused and a set or delete of it is missing
  from the simulated plan.\<close>

lemma slash_name_not_recognised:
  "is_ok (validate_read_xpath (entry_path ''/config/shared/iface'' (CHR 0x27) ''ethernet1/1''))
   \<and> split_container_and_entry_name (entry_path ''/config/shared/iface'' (CHR 0x27) ''ethernet1/1'') = None
   \<and> split_container_and_entry_name (entry_path ''/config/shared/iface'' (CHR 0x27) ''ethernet1'')
       = Some (''/config/shared/iface'', ''ethernet1'')"
  by code_simp

section \<open>The plan simulation\<close>













section \<open>What the hashes determine\<close>

lemma digits_eq:
  "\<forall>i < k. n div 256 ^ i mod 256 = m div 256 ^ i mod 256 \<Longrightarrow> n mod 256 ^ k = m mod (256 ^ k :: nat)"
proof (induction k)
  case (Suc k)
  have "x mod 256 ^ Suc k = 256 ^ k * (x div 256 ^ k mod 256) + x mod 256 ^ k" for x :: nat
    using mod_mult2_eq [of x "256 ^ k" 256] by (simp add: mult.commute)
  with Suc show ?case by simp
qed simp

lemma be_bytes64_inject:
  assumes "be_bytes64 n = be_bytes64 m" and "n < 2 ^ 64" and "m < 2 ^ 64"
  shows "n = m"
proof -
  have "n div 256 ^ i mod 256 = m div 256 ^ i mod 256" if "i < 8" for i
  proof -
    have nth: "be_bytes64 x ! (7 - i) = char_of (x div 256 ^ i)" for x
    proof -
      have "be_bytes64 x ! (7 - i) = char_of (x div 256 ^ (7 - [0..<8] ! (7 - i)))"
        unfolding be_bytes64_def using that by (intro nth_map) simp
      also have "[0..<8] ! (7 - i) = 7 - i" using nth_upt [of 0 "7 - i" 8] by simp
      finally show ?thesis using that by simp
    qed
    have "(char_of (n div 256 ^ i) :: char) = char_of (m div 256 ^ i)" using nth [of n] nth [of m] assms(1) by simp
    then have "of_char (char_of (n div 256 ^ i) :: char) = (of_char (char_of (m div 256 ^ i) :: char) :: nat)" by simp
    then show ?thesis by simp
  qed
  from digits_eq [of 8 n m] this assms(2,3) show ?thesis by simp
qed

lemma length_be_bytes64 [simp]: "length (be_bytes64 n) = 8"
  by (simp add: be_bytes64_def)

lemma be_bytes64_ne [simp]: "be_bytes64 n \<noteq> []"
  using length_be_bytes64 [of n] by fastforce

lemma sized_inject:
  assumes "be_bytes64 (length a) @ a @ r = be_bytes64 (length b) @ b @ s"
    and "length a < 2 ^ 64" and "length b < 2 ^ 64"
  shows "a = b \<and> r = s"
proof -
  have "be_bytes64 (length a) = be_bytes64 (length b)" "a @ r = b @ s"
    using assms(1) by (simp_all add: append_eq_append_conv)
  with be_bytes64_inject assms(2,3) show ?thesis by (metis append_eq_append_conv)
qed

lemma sized_list_inject:
  assumes "concat (map (\<lambda>x. be_bytes64 (length x) @ x) xs) = concat (map (\<lambda>x. be_bytes64 (length x) @ x) ys)"
    and "\<forall>x \<in> set xs \<union> set ys. length x < 2 ^ 64"
  shows "xs = ys"
  using assms
proof (induction xs arbitrary: ys)
  case Nil
  then show ?case by (cases ys) (auto dest: arg_cong [of _ _ length])
next
  case (Cons x xs)
  then obtain y ys' where ys: "ys = y # ys'" by (cases ys) (auto dest: arg_cong [of _ _ length])
  with Cons.prems sized_inject [of x "concat (map (\<lambda>x. be_bytes64 (length x) @ x) xs)" y]
  show ?case using Cons.IH [of ys'] by auto
qed

lemma bool_byte_inject [simp]: "bool_byte a = bool_byte b \<longleftrightarrow> a = b"
  by (auto simp: bool_byte_def)

lemma printable_append_eq:
  assumes "\<forall>c \<in> set a \<union> set b. \<not> is_ascii_control c" and "is_ascii_control p" and "is_ascii_control q"
    and "a @ p # r = b @ q # s"
  shows "a = b \<and> p = q \<and> r = s"
  using assms
proof (induction a arbitrary: b)
  case Nil
  then show ?case by (cases b) auto
next
  case (Cons c a)
  then show ?case by (cases b) auto
qed

text \<open>Two mutation policies are hashed from the same bytes only if they are the same policy: the
  administrator name is not length-prefixed, but it has no control character, and the byte that
  follows it is one.  So an operation staged under one policy matches a later policy only through
  a collision of the hash.\<close>

theorem policy_bytes_injective:
  assumes "policy_bytes p = policy_bytes q"
    and "\<forall>c \<in> set (pol_admin p) \<union> set (pol_admin q). \<not> is_ascii_control c"
    and "\<forall>root \<in> set (pol_roots p) \<union> set (pol_roots q). length root < 2 ^ 64"
  shows "p = (q :: mutation_policy)"
proof -
  have cb: "is_ascii_control (bool_byte b)" for b by (simp add: bool_byte_def ascii_defs)
  let ?r = "\<lambda>p. concat (map (\<lambda>x. be_bytes64 (length x) @ x) (pol_roots p))"
  have "pol_admin p @ bool_byte (pol_allow_delete p) # (bool_byte (pol_require_lock p) # ?r p)
      = pol_admin q @ bool_byte (pol_allow_delete q) # (bool_byte (pol_require_lock q) # ?r q)"
    using assms(1) by (simp add: policy_bytes_def)
  from printable_append_eq [OF assms(2) cb cb this]
  have "pol_admin p = pol_admin q" "pol_allow_delete p = pol_allow_delete q"
    "pol_require_lock p = pol_require_lock q" "?r p = ?r q" by auto
  with sized_list_inject [OF _ assms(3)] show ?thesis by simp
qed

theorem policy_bytes_injective_witness:
  "policy_bytes sample_policy = policy_bytes (sample_policy\<lparr>pol_roots := [''/config/'' @ ''shared'']\<rparr>)
   \<and> sample_policy = sample_policy\<lparr>pol_roots := [''/config/'' @ ''shared'']\<rparr>"
proof -
  let ?q = "sample_policy\<lparr>pol_roots := [''/config/'' @ ''shared'']\<rparr>"
  have e: "policy_bytes sample_policy = policy_bytes ?q" by (simp add: sample_policy_def)
  have "sample_policy = ?q"
    by (rule policy_bytes_injective [OF e]) (simp_all add: sample_policy_def ascii_defs)
  with e show ?thesis by blast
qed

section \<open>Fingerprints\<close>

lemma fingerprint_bytes_inject:
  assumes "concat (map2 fingerprint_entry rs xs) = concat (map2 fingerprint_entry rs' ys)"
    and "length xs = length rs" and "length ys = length rs'"
    and "\<forall>x \<in> set rs \<union> set xs \<union> set rs' \<union> set ys. length x < 2 ^ 64"
  shows "rs = rs' \<and> xs = ys"
  using assms
proof (induction rs arbitrary: xs rs' ys)
  case Nil
  then show ?case by (cases rs'; cases ys) (auto simp: fingerprint_entry_def dest: arg_cong [of _ _ length])
next
  case (Cons r rs)
  then obtain x xs' where xs: "xs = x # xs'" by (cases xs) auto
  obtain r' rs'' y ys' where ys: "rs' = r' # rs''" "ys = y # ys'"
    using Cons.prems xs by (cases rs'; cases ys) (auto simp: fingerprint_entry_def dest: arg_cong [of _ _ length])
  let ?c = "\<lambda>a b. concat (map2 fingerprint_entry a b)"
  have eq: "be_bytes64 (length r) @ r @ (be_bytes64 (length x) @ x @ ?c rs xs')
      = be_bytes64 (length r') @ r' @ (be_bytes64 (length y) @ y @ ?c rs'' ys')"
    using Cons.prems(1) xs ys by (simp add: fingerprint_entry_def)
  have 1: "r = r' \<and> be_bytes64 (length x) @ x @ ?c rs xs' = be_bytes64 (length y) @ y @ ?c rs'' ys'"
    by (rule sized_inject [OF eq]) (use Cons.prems(4) ys in auto)
  then have 2: "x = y \<and> ?c rs xs' = ?c rs'' ys'"
    by (intro sized_inject) (use Cons.prems(4) xs ys in auto)
  with 1 Cons.IH [of xs' rs'' ys'] Cons.prems xs ys show ?case by auto
qed

text \<open>A candidate fingerprint determines what was read: two readings feed the hash the same bytes
  only if they cover the same roots in the same order and saw the same XML under each.\<close>

theorem fingerprint_bytes_injective:
  assumes "concat (map2 fingerprint_entry roots xs) = concat (map2 fingerprint_entry roots' ys)"
    and "length xs = length roots" and "length ys = length roots'"
    and "\<forall>x \<in> set roots \<union> set xs \<union> set roots' \<union> set ys. length x < 2 ^ 64"
  shows "roots = roots' \<and> xs = ys"
  using fingerprint_bytes_inject [OF assms] .

theorem fingerprint_bytes_injective_witness:
  "[''/config/shared''] = [''/config'' @ ''/shared''] \<and> [''<a/>''] = [''<a'' @ ''/>'']"
  by (rule fingerprint_bytes_injective [of "[''/config/shared'']" "[''<a/>'']"]) simp_all

lemma post_success_log:
  "run_state (post env dc fs tok) w = (Inr r, w') \<Longrightarrow> wlog w' = Sent (device_name dc) (with_vsys dc fs) # wlog w"
  by (auto simp: post_def send_def transmit_def record_auth_failure_def record_auth_result_def run_simps Let_def
      split: sum.splits prod.splits if_splits)

definition root_request :: "device_config \<Rightarrow> string \<Rightarrow> event" where
  "root_request dc root = Sent (device_name dc)
     (with_vsys dc [(''type'', ''config''), (''action'', ''get''), (''xpath'', root)])"

text \<open>The roots are read one after another, each when the caller has not cancelled, and each request gets
  the response that carries the XML.\<close>

primrec roots_answered ::
  "env \<Rightarrow> device_config \<Rightarrow> token \<Rightarrow> string list \<Rightarrow> string list \<Rightarrow> world \<Rightarrow> world \<Rightarrow> bool" where
  "roots_answered env dc tok [] xmls w w' \<longleftrightarrow> xmls = [] \<and> w' = w"
| "roots_answered env dc tok (root # roots) xmls w w' \<longleftrightarrow>
     (\<exists>response w1 rest. xmls = resp_xml response # rest
        \<and> run_state (configuration env dc True root tok) (w\<lparr>wlog := TokenChecked False # wlog w\<rparr>) = (Inr response, w1)
        \<and> roots_answered env dc tok roots rest w1 w')"

definition sized_text :: "string \<Rightarrow> string" where
  "sized_text s = be_bytes64 (length s) @ s"

lemma fingerprint_entry_sized: "fingerprint_entry = (\<lambda>root xml. sized_text root @ sized_text xml)"
  by (simp add: fun_eq_iff fingerprint_entry_def sized_text_def)

lemma is_sent_request: "is_sent (root_request dc r)" "\<not> is_sent (TokenChecked c)"
  by (simp_all add: is_sent_def root_request_def)

lemma fingerprint_loop_reads:
  "run_state (fingerprint_loop env dc tok digest roots) w = (Inr bytes, w') \<Longrightarrow>
   \<exists>xmls es. roots_answered env dc tok roots xmls w w' \<and> bytes = digest @ concat (map2 fingerprint_entry roots xmls)
     \<and> wlog w' = es @ wlog w \<and> filter is_sent es = rev (map (root_request dc) roots)"
proof (induction roots arbitrary: digest w)
  case Nil
  then show ?case by (auto simp: run_simps)
next
  case (Cons root roots)
  obtain c w1 where c: "run_state (is_cancelled env tok) w = (c, w1)" "wlog w1 = TokenChecked c # wlog w"
    by (simp add: is_cancelled_def run_simps)
  obtain r w2 where conf: "run_state (configuration env dc True root tok) w1 = (r, w2)" by fastforce
  have "\<not> c" using Cons.prems c by (cases c) (auto simp: run_simps)
  moreover obtain resp where r: "r = Inr resp" using Cons.prems c conf \<open>\<not> c\<close> by (cases r) (auto simp: run_simps)
  ultimately have rest: "run_state (fingerprint_loop env dc tok (digest @ fingerprint_entry root (resp_xml resp)) roots) w2 = (Inr bytes, w')"
    using Cons.prems c conf by (simp add: run_simps)
  have w2: "wlog w2 = root_request dc root # wlog w1"
    using conf r by (cases "validate_read_xpath root")
      (auto simp: configuration_def run_simps root_request_def config_fields_def dest: post_success_log)
  obtain xmls es where *: "roots_answered env dc tok roots xmls w2 w'"
    "bytes = (digest @ fingerprint_entry root (resp_xml resp)) @ concat (map2 fingerprint_entry roots xmls)"
    "wlog w' = es @ wlog w2" "filter is_sent es = rev (map (root_request dc) roots)"
    using Cons.IH [OF rest] by blast
  have "w1 = w\<lparr>wlog := TokenChecked False # wlog w\<rparr>"
    using c(1) \<open>\<not> c\<close> by (auto simp: is_cancelled_def run_simps)
  with * conf r have "roots_answered env dc tok (root # roots) (resp_xml resp # xmls) w w'" by auto
  then show ?case
    by (intro exI [of _ "resp_xml resp # xmls"] exI [of _ "es @ [root_request dc root, TokenChecked c]"])
       (use * w2 c in \<open>simp add: is_sent_request del: roots_answered.simps\<close>)
qed

text \<open>C29. A fingerprint is a hash over every operator-authorised root: when the computation succeeds, the
  device had a mutation policy, each of its roots was requested once, in order, from the
  candidate configuration, and the result is the hash of exactly those roots, each with the XML of
  the response that this request got, both preceded by their length.\<close>

theorem fingerprint_reads_all_roots:
  assumes "run_state (candidate_fingerprint env dc tok) w = (Inr fp, w')"
  shows "\<exists>p xmls es. dc_mutation dc = Some p \<and> roots_answered env dc tok (pol_roots p) xmls w w'
    \<and> fp = sha256_text (e_lib env) (concat (map2 (\<lambda>root xml. sized_text root @ sized_text xml) (pol_roots p) xmls))
    \<and> wlog w' = es @ wlog w \<and> filter is_sent es = rev (map (root_request dc) (pol_roots p))"
proof -
  obtain p where p: "dc_mutation dc = Some p"
    using assms by (cases "dc_mutation dc") (auto simp: candidate_fingerprint_def require_policy_def run_simps)
  obtain r w1 where l: "run_state (fingerprint_loop env dc tok [] (pol_roots p)) w = (r, w1)" by fastforce
  obtain bytes where b: "r = Inr bytes" "fp = sha256_text (e_lib env) bytes" "w1 = w'"
    using assms p l by (cases r) (auto simp: candidate_fingerprint_def require_policy_def run_simps)
  from fingerprint_loop_reads [of env dc tok "[]" "pol_roots p" w bytes w'] l b p show ?thesis
    by (auto simp: fingerprint_entry_sized)
qed

theorem fingerprint_reads_all_roots_witness:
  "\<exists>fp xmls w'. run_state (candidate_fingerprint script_env sample_device Fresh) start_world = (Inr fp, w')
    \<and> roots_answered script_env sample_device Fresh [''/config/shared''] xmls start_world w'
    \<and> (\<exists>es. wlog w' = es @ [] \<and> filter is_sent es = [root_request sample_device ''/config/shared''])"
proof -
  obtain r w' where run: "run_state (candidate_fingerprint script_env sample_device Fresh) start_world = (r, w')" by fastforce
  have "is_ok (fst (run_state (candidate_fingerprint script_env sample_device Fresh) start_world))" by code_simp
  with run obtain fp where fp: "r = Inr fp" by (auto simp: is_ok_iff)
  have policy: "dc_mutation sample_device = Some sample_policy" "pol_roots sample_policy = [''/config/shared'']"
    by (simp_all add: sample_device_def sample_policy_def)
  from fingerprint_reads_all_roots [OF run [unfolded fp]] run fp policy show ?thesis
    by (auto simp: start_world_def simp del: roots_answered.simps)
qed

section \<open>The authority of an accepted action\<close>

text \<open>The write is inside a device root and a granted root, in parsed steps; a delete is allowed by
  the device and confirmed word for word; the payload fits the action.\<close>

definition action_authorized :: "mutation_policy \<Rightarrow> mutation_grant \<Rightarrow> cs_action \<Rightarrow> bool" where
  "action_authorized p g a \<longleftrightarrow>
     to_mutation_action (ca_action a) \<in> set (grant_actions g)
     \<and> (\<exists>xs. xpath_steps (ca_xpath a) = Some xs
          \<and> (\<exists>root \<in> set (pol_roots p). \<exists>rs. xpath_steps root = Some rs \<and> covers False rs xs)
          \<and> (\<exists>root \<in> set (grant_roots g). \<exists>rs. xpath_steps root = Some rs \<and> covers True rs xs))
     \<and> (ca_action a = StageDelete \<longrightarrow> pol_allow_delete p \<and> ca_confirmation a = Some (''DELETE '' @ ca_xpath a))
     \<and> (ca_action a = StageSet \<longleftrightarrow> ca_element a \<noteq> None)
     \<and> (ca_action a = StageMove \<longleftrightarrow> ca_position a \<noteq> None)
     \<and> (ca_action a \<noteq> StageDelete \<longrightarrow> ca_confirmation a = None)"

lemma validated_payload:
  assumes "validate_stage_payload lb a d = Inr ()"
  shows "(ca_action a = StageDelete \<longrightarrow> d \<and> ca_confirmation a = Some (''DELETE '' @ ca_xpath a))
     \<and> (ca_action a = StageSet \<longleftrightarrow> ca_element a \<noteq> None)
     \<and> (ca_action a = StageMove \<longleftrightarrow> ca_position a \<noteq> None)
     \<and> (ca_action a \<noteq> StageDelete \<longrightarrow> ca_confirmation a = None)"
  using assms
  by (cases "ca_action a")
     (auto simp: validate_stage_payload_def validate_set_payload_def validate_delete_payload_def
        validate_move_payload_def require_no_move_fields_def return_iff split: if_splits)

lemma validated_action:
  assumes "validate_action lb p (Some g) a = Inr ()"
    and "\<forall>root \<in> set (pol_roots p). plain_path root" and "\<forall>root \<in> set (grant_roots g). plain_path root"
  shows "action_authorized p g a"
proof -
  have v: "validate_write_xpath lb (ca_xpath a) (pol_roots p) = Inr ()"
    "validate_stage_payload lb a (pol_allow_delete p) = Inr ()"
    and grant: "check_grant lb (Some g) (ca_action a) (ca_xpath a) = Inr ()"
    using assms(1) by (auto simp: validate_action_def return_iff)
  have allows: "grant_allows_action g (to_mutation_action (ca_action a))"
    "grant_allows_xpath (unicode_alphanumeric lb) g (ca_xpath a)"
    using grant by (simp_all add: check_grant_def split: if_splits)
  then have path: "grant_allows_xpath (unicode_alphanumeric lb)
      \<lparr>grant_roots = grant_roots g, grant_actions = grant_actions g\<rparr> (ca_xpath a)" by (cases g) simp
  from device.sound [OF v(1) assms(2)] token.sound [OF path assms(3)] allows(1) validated_payload [OF v(2)]
  show ?thesis by (fastforce simp: action_authorized_def grant_allows_action_def)
qed

text \<open>C15. When the roots of the device policy and of the token's grant are plain paths (\<open>plain_path\<close>: a
  root that quote canonicalisation rewrites across a step boundary is not one, and for such a root the claim is
  false, \<open>canonicalize_can_widen\<close>), every action of a change set that passes validation is authorised:
  it lies, in parsed XPath steps, below a root of the device policy and below a root of the grant,
  its action is granted, a delete is enabled on the device and confirmed with its exact path, and
  there are 1 to 64 actions.\<close>

theorem validated_actions_authorized:
  assumes "validate_change_set_actions env as p (Some g) = Inr ()"
    and "\<forall>root \<in> set (pol_roots p) \<union> set (grant_roots g). plain_path root"
  shows "1 \<le> length as \<and> length as \<le> 64 \<and> (\<forall>a \<in> set as. action_authorized p g a)"
proof -
  have "as \<noteq> []" "length as \<le> 64" "\<forall>a \<in> set as. validate_action (e_lib env) p (Some g) a = Inr ()"
    using assms(1) by (auto simp: validate_change_set_actions_def max_change_set_actions_def return_iff split: if_splits)
  with validated_action assms(2) show ?thesis by (auto simp: Suc_le_eq)
qed

definition sample_delete :: cs_action where
  "sample_delete = \<lparr>ca_action = StageDelete, ca_xpath = ''/config/shared/tag'', ca_element = None,
     ca_confirmation = Some ''DELETE /config/shared/tag'', ca_position = None, ca_destination = None\<rparr>"

theorem validated_actions_authorized_witness:
  "action_authorized (sample_policy\<lparr>pol_allow_delete := True\<rparr>)
     \<lparr>grant_roots = [''/config/shared''], grant_actions = [to_mutation_action StageDelete]\<rparr> sample_delete"
proof -
  let ?p = "sample_policy\<lparr>pol_allow_delete := True\<rparr>"
  let ?g = "\<lparr>grant_roots = [''/config/shared''], grant_actions = [to_mutation_action StageDelete]\<rparr>"
  have "validate_change_set_actions script_env [sample_delete] ?p (Some ?g) = Inr ()" by code_simp
  moreover have "plain_path ''/config/shared''" by code_simp
  ultimately show ?thesis
    using validated_actions_authorized [of script_env "[sample_delete]" ?p ?g] by (simp add: sample_policy_def)
qed

end
