(* ===== verification/ChangeSets.thy ===== *)
theory ChangeSets
  imports Lifecycle
begin

text \<open>
  Change sets: \<^verbatim>\<open>rust-panosmcp-core/src/mutation.rs\<close>, \<open>candidate_fingerprint\<close>,
  \<open>create_change_set\<close>, \<open>approve_change_set\<close>, \<open>change_set_status\<close> and \<open>apply_change_set\<close>.  Stored
  actions are JSON values; encoding and decoding them is a parameter.
\<close>

section \<open>Output\<close>

record change_set_output =
  cso_id :: string
  cso_device :: string
  cso_owner :: string
  cso_digest :: string
  cso_expected :: string
  cso_actions :: "cs_action list"
  cso_state :: string
  cso_waiver :: "string option"
  cso_approver :: "string option"
  cso_expires :: nat
  cso_operation :: "string option"

definition changeset_record_to_output :: "env \<Rightarrow> cs_record \<Rightarrow> change_set_output res" where
  "changeset_record_to_output env r =
     and_then (map_err (\<lambda>e. Configuration (''could not deserialize change-set action: '' @ e))
       (collect_results (e_decode_action env) (cs_actions r))) (\<lambda>actions.
     Inr \<lparr>cso_id = cs_id r, cso_device = cs_device r, cso_owner = cs_owner r, cso_digest = cs_digest r,
       cso_expected = cs_expected r, cso_actions = actions, cso_state = e_cs_state_text env (cs_state r),
       cso_waiver = Option.bind (cs_approval r) ap_waived,
       cso_approver = (case Option.bind (cs_approval r) ap_approver of Some n \<Rightarrow> Some n | None \<Rightarrow> cs_approver r),
       cso_expires = cs_expires r, cso_operation = cs_operation r\<rparr>)"

definition candidate_fingerprint_tool :: "env \<Rightarrow> service \<Rightarrow> string \<Rightarrow> token \<Rightarrow> (string \<times> string) res act" where
  "candidate_fingerprint_tool env sv dev tok =
     tryS (lift_res (find_client sv dev)) (\<lambda>dc.
     tryS (lift_res (require_policy dc)) (\<lambda>_.
     tryS (candidate_fingerprint env dc tok) (\<lambda>candidate. ret (Inr (dev, candidate)))))"

section \<open>Plan\<close>

record create_input =
  ci_device :: string
  ci_expected :: string
  ci_actions :: "cs_action list"

definition planned_record ::
  "env \<Rightarrow> create_input \<Rightarrow> string \<Rightarrow> string \<Rightarrow> json list \<Rightarrow> string \<Rightarrow> nat \<Rightarrow> cs_record" where
  "planned_record env input oid owner actions digest now =
     \<lparr>cs_id = oid, cs_owner = owner, cs_device = ci_device input, cs_expected = ci_expected input,
      cs_actions = actions, cs_digest = digest, cs_state = Planned, cs_approver = None, cs_approval = None,
      cs_expires = saturating_add now (e_approval_ttl env), cs_operation = None, cs_policy_signature = [],
      cs_targets = [], cs_without_handle = False, cs_task = None\<rparr>"

definition cs_insert :: "env \<Rightarrow> cs_record \<Rightarrow> unit res act" where
  "cs_insert env r = bind_act (ask (\<lambda>log. e_coord_cs_insert env log r) (CsInsert r)) (\<lambda>e. ret (coord_unit e))"

definition waive_approval :: "env \<Rightarrow> cs_record \<Rightarrow> change_set_state res act" where
  "waive_approval env r =
     bind_act (ask (\<lambda>log. e_coord_waive env log (cs_id r) (cs_device r) (cs_owner r) (cs_digest r))
       (CsWaive (cs_id r) (cs_device r) (cs_owner r) (cs_digest r))) (\<lambda>x. ret (map_err coord_error x))"

definition create_checks ::
  "env \<Rightarrow> service \<Rightarrow> create_input \<Rightarrow> mutation_grant option \<Rightarrow> token \<Rightarrow> unit res act" where
  "create_checks env sv input grant tok =
     tryS (lift_res (validate_fingerprint (ci_expected input))) (\<lambda>_.
     tryS (lift_res (find_client sv (ci_device input))) (\<lambda>dc.
     tryS (lift_res (require_policy dc)) (\<lambda>p.
     tryS (lift_res (validate_change_set_actions env (ci_actions input) p grant)) (\<lambda>_.
     tryS (require_move_targets_exist env dc (ci_actions input) tok) (\<lambda>_.
     tryS (candidate_fingerprint env dc tok) (\<lambda>current.
     tryS (lift_res (require_fingerprint (ci_expected input) current)) (\<lambda>_.
       require_clean_candidate env dc tok)))))))"

text \<open>Everything before the record is stored.\<close>

definition create_plan ::
  "env \<Rightarrow> service \<Rightarrow> create_input \<Rightarrow> string \<Rightarrow> mutation_grant option \<Rightarrow> token \<Rightarrow> cs_record res act" where
  "create_plan env sv input owner grant tok =
     tryS (create_checks env sv input grant tok) (\<lambda>_.
     tryS (now_unix env) (\<lambda>now.
     tryS (new_operation_id env) (\<lambda>oid.
     tryS (lift_res (map_err (\<lambda>e. Configuration (''could not serialize actions: '' @ e))
       (collect_results (e_encode_action env) (ci_actions input)))) (\<lambda>actions.
     tryS (lift_res (map_err (\<lambda>e. Configuration (''could not compute digest: '' @ e))
       (e_cs_digest_of env owner (ci_device input) (ci_expected input) actions))) (\<lambda>digest.
       ret (Inr (planned_record env input oid owner actions digest now)))))))"

text \<open>In lab mode the approval is waived at once; the output shows the waiver and no approver.\<close>

definition waived_output :: "env \<Rightarrow> cs_record \<Rightarrow> change_set_state \<Rightarrow> change_set_output res" where
  "waived_output env r state =
     and_then (changeset_record_to_output env r) (\<lambda>out.
       Inr (out\<lparr>cso_state := map to_ascii_lower (e_cs_state_debug env state),
                cso_approver := None, cso_waiver := Some ''lab-mode''\<rparr>))"

definition create_change_set ::
  "env \<Rightarrow> service \<Rightarrow> create_input \<Rightarrow> string \<Rightarrow> mutation_grant option \<Rightarrow> token \<Rightarrow> change_set_output res act" where
  "create_change_set env sv input owner grant tok =
     tryS (create_plan env sv input owner grant tok) (\<lambda>r.
     tryS (cs_insert env r) (\<lambda>_.
       if e_lab_mode env then tryS (waive_approval env r) (\<lambda>state. lift_res (waived_output env r state))
       else lift_res (changeset_record_to_output env r)))"

section \<open>Review\<close>

text \<open>Without a caller context (stdio) the actor type is unknown.\<close>

definition request_approval ::
  "env \<Rightarrow> string \<Rightarrow> string \<Rightarrow> string \<Rightarrow> string \<Rightarrow> actor option \<Rightarrow> approve_output res act" where
  "request_approval env oid dev approver digest ctx =
     (let actor = (case ctx of None \<Rightarrow> UnknownActor | Some a \<Rightarrow> a) in
      bind_act (ask (\<lambda>log. e_coord_approve env log oid dev approver digest actor)
        (CsApprove oid dev approver digest actor)) (\<lambda>r. ret (map_err coord_error r)))"

definition approved_output :: "env \<Rightarrow> approve_output \<Rightarrow> change_set_output res act" where
  "approved_output env out =
     tryS (cs_read env (ao_id out) (ao_device out)) (\<lambda>full. lift_res (changeset_record_to_output env full))"

definition approve_change_set ::
  "env \<Rightarrow> string \<Rightarrow> string \<Rightarrow> string \<Rightarrow> string \<Rightarrow> actor option \<Rightarrow> change_set_output res act" where
  "approve_change_set env oid dev approver digest ctx =
     tryS (request_approval env oid dev approver digest ctx) (approved_output env)"

definition change_set_status :: "env \<Rightarrow> string \<Rightarrow> string \<Rightarrow> change_set_output res act" where
  "change_set_status env oid dev =
     tryS (cs_read env oid dev) (\<lambda>r.
     tryS (if cs_state r = Planned \<or> cs_state r = Approved
           then tryS (now_unix env) (\<lambda>now. ret (Inr (cs_expires r \<le> now)))
           else ret (Inr False)) (\<lambda>expired.
     if expired
     then tryS (cs_update env (r\<lparr>cs_state := Expired\<rparr>)) (\<lambda>_.
            lift_res (changeset_record_to_output env (r\<lparr>cs_state := Expired\<rparr>)))
     else lift_res (changeset_record_to_output env r)))"

section \<open>Apply: the checks\<close>

record apply_input =
  ai_device :: string
  ai_change_set :: string
  ai_digest :: string
  ai_expected :: string

definition exact_plan :: "cs_record \<Rightarrow> apply_input \<Rightarrow> bool" where
  "exact_plan cs input \<longleftrightarrow> cs_digest cs = ai_digest input \<and> cs_expected cs = ai_expected input"

definition apply_checks ::
  "env \<Rightarrow> service \<Rightarrow> apply_input \<Rightarrow> string \<Rightarrow> mutation_grant option \<Rightarrow> (device_config \<times> mutation_policy) res act" where
  "apply_checks env sv input owner grant =
     tryS (lift_res (validate_digest (ai_digest input) ''expected_digest'')) (\<lambda>_.
     tryS (lift_res (validate_fingerprint (ai_expected input))) (\<lambda>_.
     tryS (cs_read env (ai_change_set input) (ai_device input)) (\<lambda>cs.
     if cs_owner cs \<noteq> owner
     then ret (Inl (Policy ''change_set_id'' ''only the principal that created the change set may apply it''))
     else if cs_state cs \<noteq> Approved \<or> cs_approver cs = None
     then ret (Inl (Policy ''change_set_id'' ''change set requires independent approval before apply''))
     else
       tryS (now_unix env) (\<lambda>now.
       if cs_expires cs \<le> now
       then tryS (cs_update env (cs\<lparr>cs_state := Expired\<rparr>)) (\<lambda>_.
              ret (Inl (Policy ''change_set_id'' ''approved change set expired'')))
       else if \<not> exact_plan cs input
       then ret (Inl (Policy ''expected_digest'' ''apply input does not match the exact approved plan''))
       else
         tryS (lift_res (find_client sv (ai_device input))) (\<lambda>dc.
         tryS (lift_res (require_policy dc)) (\<lambda>p.
         tryS (lift_res (map_err (\<lambda>e. Configuration (''stored change-set action is unreadable: '' @ e))
           (collect_results (e_decode_action env) (cs_actions cs)))) (\<lambda>typed.
         tryS (lift_res (validate_change_set_actions env typed p grant)) (\<lambda>_.
           ret (Inr (dc, p))))))))))"

text \<open>The second look, under the device guard.  The clock is read only when the rest holds.\<close>

definition apply_recheck :: "env \<Rightarrow> apply_input \<Rightarrow> string \<Rightarrow> cs_record res act" where
  "apply_recheck env input owner =
     (let stale = Policy ''change_set_id'' ''change set is no longer the exact unexpired approved plan'' in
      tryS (cs_read env (ai_change_set input) (ai_device input)) (\<lambda>cs.
      if cs_owner cs \<noteq> owner \<or> cs_state cs \<noteq> Approved \<or> cs_approver cs = None \<or> \<not> exact_plan cs input
      then ret (Inl stale)
      else tryS (now_unix env) (\<lambda>now. ret (if cs_expires cs \<le> now then Inl stale else Inr cs))))"

section \<open>Apply: record, lock, clean candidate, claim\<close>

definition abandon :: "env \<Rightarrow> device_config \<Rightarrow> bool \<Rightarrow> string \<Rightarrow> unit act" where
  "abandon env dc locked oid =
     bind_act (if locked then release_config_lock_best_effort env dc else ret ()) (\<lambda>_. op_remove oid)"

definition or_abandon :: "env \<Rightarrow> device_config \<Rightarrow> bool \<Rightarrow> string \<Rightarrow> 'a res act \<Rightarrow> 'a res act" where
  "or_abandon env dc locked oid m =
     bind_act m (\<lambda>x. case x of
         Inl e \<Rightarrow> bind_act (abandon env dc locked oid) (\<lambda>_. ret (Inl e))
       | Inr v \<Rightarrow> ret (Inr v))"

text \<open>An empty stored list is the panic of \<open>expect\<close>, kept as an error value.\<close>

definition apply_record ::
  "env \<Rightarrow> device_config \<Rightarrow> mutation_policy \<Rightarrow> apply_input \<Rightarrow> string \<Rightarrow> string \<Rightarrow> cs_record \<Rightarrow> op_record res" where
  "apply_record env dc p input owner oid cs =
     (case cs_actions cs of
        [] \<Rightarrow> Inl (Configuration ''panic: validated change set is non-empty'')
      | v # _ \<Rightarrow>
        and_then (map_err (\<lambda>e. Configuration (''could not deserialize first action: '' @ e)) (e_decode_action env v)) (\<lambda>first.
        and_then (map_err (\<lambda>e. Configuration (''could not serialize action: '' @ e)) (e_encode_stage env (ca_action first))) (\<lambda>action_json.
          Inr (initial_record env dc p oid owner (ai_device input) action_json (ca_xpath first) (cs_actions cs)
                 (Some (cs_id cs)) (ai_expected input)))))"

definition apply_lock :: "env \<Rightarrow> device_config \<Rightarrow> mutation_policy \<Rightarrow> op_record \<Rightarrow> op_record res act" where
  "apply_lock env dc p r =
     (if \<not> pol_require_lock p then ret (Inr r)
      else
        tryS (or_abandon env dc False (op_id r) (acquire_config_lock env dc (op_id r))) (\<lambda>_.
        let r = r\<lparr>op_lock_held := True\<rparr> in
        tryS (or_abandon env dc True (op_id r) (op_update env r)) (\<lambda>_. ret (Inr r))))"

definition apply_ready :: "env \<Rightarrow> device_config \<Rightarrow> apply_input \<Rightarrow> string res act" where
  "apply_ready env dc input =
     tryS (candidate_fingerprint env dc Fresh) (\<lambda>prior.
     tryS (lift_res (require_fingerprint (ai_expected input) prior)) (\<lambda>_.
     tryS (require_clean_candidate env dc Fresh) (\<lambda>_. ret (Inr prior))))"

definition claim_for_apply :: "env \<Rightarrow> cs_record \<Rightarrow> cs_record res act" where
  "claim_for_apply env cs =
     bind_act (ask (\<lambda>log. e_coord_claim env log (cs_id cs) (cs_device cs)) (CsClaim (cs_id cs) (cs_device cs)))
       (\<lambda>x. ret (map_err coord_error x))"

text \<open>A claim whose operation id cannot be stored is settled as failed: nothing was pushed.\<close>

definition apply_claim :: "env \<Rightarrow> cs_record \<Rightarrow> string \<Rightarrow> cs_record res act" where
  "apply_claim env cs oid =
     tryS (claim_for_apply env cs) (\<lambda>claimed.
     let cs = claimed\<lparr>cs_operation := Some oid\<rparr> in
     bind_act (cs_update env cs) (\<lambda>stored. case stored of
         Inr _ \<Rightarrow> ret (Inr cs)
       | Inl e \<Rightarrow> bind_act (cs_update env (cs\<lparr>cs_state := CsFailed, cs_operation := None\<rparr>)) (\<lambda>_. ret (Inl e))))"

section \<open>Apply: push and settle\<close>

text \<open>The actions are pushed in order until one fails; the count of accepted ones is kept.\<close>

fun push_actions :: "env \<Rightarrow> device_config \<Rightarrow> json list \<Rightarrow> nat \<Rightarrow> (nat \<times> unit res) act" where
  "push_actions env dc [] applied = ret (applied, Inr ())"
| "push_actions env dc (v # vs) applied =
     (case e_decode_action env v of
        Inl e \<Rightarrow> ret (applied, Inl (Configuration (''could not deserialize action: '' @ e)))
      | Inr a \<Rightarrow> bind_act (post_fields env dc (change_fields a) Fresh) (\<lambda>x. case x of
          Inl e \<Rightarrow> ret (applied, Inl e)
        | Inr _ \<Rightarrow> push_actions env dc vs (applied + 1)))"

definition failed_details :: "nat \<Rightarrow> panos_error \<Rightarrow> unit res \<Rightarrow> string" where
  "failed_details applied e reverted =
     (case reverted of
        Inr _ \<Rightarrow> ''apply failed after '' @ show_nat applied @ '' actions and was reverted: '' @ error_text e
      | Inl r \<Rightarrow> ''apply failed after '' @ show_nat applied @ '' actions: '' @ error_text e
          @ ''; automatic revert failed: '' @ error_text r)"

definition apply_failed ::
  "env \<Rightarrow> device_config \<Rightarrow> mutation_policy \<Rightarrow> op_record \<Rightarrow> cs_record \<Rightarrow> nat \<Rightarrow> panos_error \<Rightarrow> stage_output res act" where
  "apply_failed env dc p r cs applied e =
     bind_act (if applied > 0 then revert_admin_candidate env dc (pol_admin p) else ret (Inr ())) (\<lambda>reverted.
     let r = r\<lparr>op_state := (if is_ok reverted then Discarded else Indeterminate),
               op_details := Some (failed_details applied e reverted)\<rparr> in
     bind_act (candidate_fingerprint env dc Fresh) (\<lambda>fp.
     let r = (case fp of Inr c \<Rightarrow> r\<lparr>op_current := c\<rparr> | Inl _ \<Rightarrow> r) in
     tryS (op_update env r) (\<lambda>_.
     tryS (cs_update env (cs\<lparr>cs_state := CsFailed, cs_operation := Some (op_id r)\<rparr>)) (\<lambda>_.
     bind_act (if op_lock_held r then release_config_lock_best_effort env dc else ret ()) (\<lambda>_.
       ret (Inl (case reverted of
           Inr _ \<Rightarrow> e
         | Inl v \<Rightarrow> Configuration (''change-set apply and automatic revert failed: '' @ error_text e
             @ ''; '' @ error_text v))))))))"

definition apply_finished ::
  "env \<Rightarrow> device_config \<Rightarrow> apply_input \<Rightarrow> op_record \<Rightarrow> cs_record \<Rightarrow> string \<Rightarrow> stage_output res act" where
  "apply_finished env dc input r cs prior =
     bind_act (candidate_fingerprint env dc Fresh) (\<lambda>fp. case fp of
       Inl e \<Rightarrow>
         tryS (op_update env (r\<lparr>op_state := Indeterminate, op_details := Some
           (''all actions were accepted but the resulting fingerprint could not be read: '' @ error_text e)\<rparr>)) (\<lambda>_.
         tryS (cs_update env (cs\<lparr>cs_state := CsFailed, cs_operation := Some (op_id r)\<rparr>)) (\<lambda>_. ret (Inl e)))
     | Inr after \<Rightarrow>
         tryS (op_update env (r\<lparr>op_current := after, op_state := Staged\<rparr>)) (\<lambda>_.
         tryS (cs_update env (cs\<lparr>cs_state := Applied, cs_operation := Some (op_id r)\<rparr>)) (\<lambda>_.
           ret (Inr \<lparr>so_operation = op_id r, so_device = ai_device input, so_before = prior,
                    so_after = after, so_lock_held = op_lock_held r\<rparr>))))"

definition apply_push ::
  "env \<Rightarrow> device_config \<Rightarrow> mutation_policy \<Rightarrow> apply_input \<Rightarrow> op_record \<Rightarrow> cs_record \<Rightarrow> string \<Rightarrow> stage_output res act" where
  "apply_push env dc p input r cs prior =
     bind_act (push_actions env dc (cs_actions cs) 0) (\<lambda>(applied, outcome). case outcome of
         Inl e \<Rightarrow> apply_failed env dc p r cs applied e
       | Inr _ \<Rightarrow> apply_finished env dc input r cs prior)"

definition apply_guarded ::
  "env \<Rightarrow> device_config \<Rightarrow> mutation_policy \<Rightarrow> apply_input \<Rightarrow> string \<Rightarrow> token \<Rightarrow> stage_output res act" where
  "apply_guarded env dc p input owner tok =
     bind_act (is_cancelled env tok) (\<lambda>c.
     if c then ret (Inl Cancelled)
     else
       tryS (apply_recheck env input owner) (\<lambda>cs.
       tryS (new_operation_id env) (\<lambda>oid.
       tryS (lift_res (apply_record env dc p input owner oid cs)) (\<lambda>r.
       tryS (op_insert env r) (\<lambda>_.
       tryS (apply_lock env dc p r) (\<lambda>r.
       tryS (or_abandon env dc (op_lock_held r) oid (apply_ready env dc input)) (\<lambda>prior.
       tryS (or_abandon env dc (op_lock_held r) oid (apply_claim env cs oid)) (\<lambda>cs.
         apply_push env dc p input r cs prior))))))))"

definition apply_change_set ::
  "env \<Rightarrow> service \<Rightarrow> apply_input \<Rightarrow> string \<Rightarrow> mutation_grant option \<Rightarrow> token \<Rightarrow> stage_output res act" where
  "apply_change_set env sv input owner grant tok =
     tryS (apply_checks env sv input owner grant) (\<lambda>(dc, p).
       with_guard env dc (apply_guarded env dc p input owner tok))"

end
