(* ===== verification/Monitor.thy ===== *)
theory Monitor
  imports ClientSpec ChangeSets
begin

text \<open>
  Discipline of a run as a monitor: a partial transition function over the events a handler
  appends, oldest first.  \<open>obeys\<close> is a total-correctness triple: from monitor state \<open>p\<close> the
  run is accepted, and its result and final monitor state satisfy \<open>Q\<close>.  The locale \<open>monitor\<close>
  adds which requests a monitor ignores, and proves once what the client, the coordinator and
  the shared helpers do under any such monitor.
\<close>

section \<open>Runs under a monitor\<close>

primrec accept :: "('p \<Rightarrow> event \<Rightarrow> 'p option) \<Rightarrow> 'p \<Rightarrow> event list \<Rightarrow> 'p option" where
  "accept delta p [] = Some p"
| "accept delta p (e # es) = (case delta p e of None \<Rightarrow> None | Some q \<Rightarrow> accept delta q es)"

lemma accept_append:
  "accept delta p (es @ fs) = (case accept delta p es of None \<Rightarrow> None | Some q \<Rightarrow> accept delta q fs)"
  by (induction es arbitrary: p) (auto split: option.splits)

definition obeys :: "('p \<Rightarrow> event \<Rightarrow> 'p option) \<Rightarrow> 'p \<Rightarrow> 'a act \<Rightarrow> ('a \<Rightarrow> 'p \<Rightarrow> bool) \<Rightarrow> bool" where
  "obeys delta p m Q \<longleftrightarrow>
     (\<forall>w. \<exists>es q. wlog (snd (run_state m w)) = es @ wlog w \<and> accept delta p (rev es) = Some q
        \<and> Q (fst (run_state m w)) q)"

lemma obeys_return: "Q x p \<Longrightarrow> obeys delta p (ret x) Q"
  by (auto simp: obeys_def)

lemma obeys_ask: "(\<And>r. \<exists>q. delta p (ev r) = Some q \<and> Q r q) \<Longrightarrow> obeys delta p (ask f ev) Q"
  unfolding obeys_def
proof (intro allI)
  fix w :: world
  assume a: "\<And>r. \<exists>q. delta p (ev r) = Some q \<and> Q r q"
  obtain q where "delta p (ev (f (wlog w))) = Some q" "Q (f (wlog w)) q" using a by blast
  then show "\<exists>es q. wlog (snd (run_state (ask f ev) w)) = es @ wlog w \<and> accept delta p (rev es) = Some q
      \<and> Q (fst (run_state (ask f ev) w)) q"
    by (intro exI [of _ "[ev (f (wlog w))]"] exI [of _ q]) (simp add: run_ask)
qed

lemma obeys_emit: "delta p e = Some q \<Longrightarrow> Q () q \<Longrightarrow> obeys delta p (emit e) Q"
  unfolding emit_def by (rule obeys_ask) auto

lemma obeys_peek: "(\<And>r. Q r p) \<Longrightarrow> obeys delta p (peek f) Q"
  by (auto simp: obeys_def run_peek)

lemma obeys_bind:
  assumes "obeys delta p m R" and "\<And>x q. R x q \<Longrightarrow> obeys delta q (k x) Q"
  shows "obeys delta p (bind_act m k) Q"
  unfolding obeys_def
proof
  fix w
  obtain x w1 where m: "run_state m w = (x, w1)" by fastforce
  obtain es q where es: "wlog w1 = es @ wlog w" "accept delta p (rev es) = Some q" "R x q"
    using assms(1) m unfolding obeys_def by (metis fst_conv snd_conv)
  obtain y w2 where k: "run_state (k x) w1 = (y, w2)" by fastforce
  obtain fs q' where fs: "wlog w2 = fs @ wlog w1" "accept delta q (rev fs) = Some q'" "Q y q'"
    using assms(2) [OF es(3)] k unfolding obeys_def by (metis fst_conv snd_conv)
  show "\<exists>es q. wlog (snd (run_state (bind_act m k) w)) = es @ wlog w \<and> accept delta p (rev es) = Some q
      \<and> Q (fst (run_state (bind_act m k) w)) q"
    using m k es fs by (intro exI [of _ "fs @ es"] exI [of _ q']) (simp add: run_bind accept_append)
qed

lemma obeys_mono: "obeys delta p m R \<Longrightarrow> (\<And>x q. R x q \<Longrightarrow> Q x q) \<Longrightarrow> obeys delta p m Q"
  unfolding obeys_def by meson

lemma obeys_tryS:
  assumes "obeys delta p m (\<lambda>x q. case x of Inl e \<Rightarrow> Q (Inl e) q | Inr v \<Rightarrow> obeys delta q (k v) Q)"
  shows "obeys delta p (tryS m k) Q"
  unfolding tryS_def by (rule obeys_bind [OF assms]) (auto intro: obeys_return split: sum.splits)

lemma obeys_emit_bind:
  "delta p e = Some q \<Longrightarrow> obeys delta q (k ()) Q \<Longrightarrow> obeys delta p (bind_act (emit e) k) Q"
  by (rule obeys_bind [OF obeys_emit [where Q = "\<lambda>_ q'. q' = q"]]) auto

lemma obeys_ask_bind:
  assumes "\<And>r. \<exists>q. delta p (ev r) = Some q \<and> obeys delta q (k r) Q"
  shows "obeys delta p (bind_act (ask f ev) k) Q"
proof (rule obeys_bind)
  show "obeys delta p (ask f ev) (\<lambda>r q. delta p (ev r) = Some q)"
    by (rule obeys_ask) (use assms in blast)
  show "obeys delta q (k x) Q" if "delta p (ev x) = Some q" for x q using assms [of x] that by auto
qed

lemma obeys_if: "(b \<Longrightarrow> obeys delta p m Q) \<Longrightarrow> (\<not> b \<Longrightarrow> obeys delta p n Q) \<Longrightarrow> obeys delta p (if b then m else n) Q"
  by simp

text \<open>A fallible pure step.\<close>

lemma obeys_lift:
  "(\<And>e. r = Inl e \<Longrightarrow> Q (Inl e) p) \<Longrightarrow> (\<And>x. r = Inr x \<Longrightarrow> obeys delta p (k x) Q) \<Longrightarrow>
   obeys delta p (tryS (lift_res r) k) Q"
  by (cases r) (auto simp: tryS_def lift_res_def obeys_def run_simps)

lemma obeys_emits:
  assumes "emits S m" and "\<And>e. e \<in> S \<Longrightarrow> delta p e = Some p"
  shows "obeys delta p m (\<lambda>_ q. q = p)"
  unfolding obeys_def
proof
  fix w
  obtain es where es: "wlog (snd (run_state m w)) = es @ wlog w" "set es \<subseteq> S"
    using assms(1) unfolding emits_def by blast
  have "accept delta p fs = Some p" if "set fs \<subseteq> S" for fs
    using that assms(2) by (induction fs) auto
  then have "accept delta p (rev es) = Some p" using es(2) by simp
  with es(1) show "\<exists>es q. wlog (snd (run_state m w)) = es @ wlog w \<and> accept delta p (rev es) = Some q \<and> q = p"
    by blast
qed

text \<open>A step that keeps the monitor state, followed by any continuation.\<close>

lemma obeys_quiet_bind:
  "obeys delta p m (\<lambda>_ q. q = p) \<Longrightarrow> (\<And>x. obeys delta p (k x) Q) \<Longrightarrow> obeys delta p (bind_act m k) Q"
  by (erule obeys_bind) simp

lemma obeys_quiet_tryS:
  assumes "obeys delta p m (\<lambda>_ q. q = p)" and "\<And>e. Q (Inl e) p" and "\<And>x. obeys delta p (k x) Q"
  shows "obeys delta p (tryS m k) Q"
  by (rule obeys_tryS, rule obeys_mono [OF assms(1)]) (use assms in \<open>auto split: sum.splits\<close>)

text \<open>What acceptance says about one run.\<close>

lemma obeys_run:
  assumes "obeys delta p m Q" and "run_state m w = (r, w')"
  obtains es q where "wlog w' = es @ wlog w" "accept delta p (rev es) = Some q" "Q r q"
  using assms unfolding obeys_def by (metis fst_conv snd_conv)

section \<open>Kinds of requests\<close>

text \<open>What a request does, read off its form fields.\<close>

datatype request_kind = Read | Lock | Unlock | Change | Revert | Commit | Validate

definition kind_of :: "fields \<Rightarrow> request_kind" where
  "kind_of fs =
     (let get = (\<lambda>k. case map_of fs k of None \<Rightarrow> [] | Some v \<Rightarrow> v) in
      if get ''type'' = ''commit'' then Commit
      else if get ''type'' = ''config'' then
        (if get ''action'' = ''get'' \<or> get ''action'' = ''show'' then Read else Change)
      else if starts_with ''<request><config-lock><add>'' (get ''cmd'') then Lock
      else if starts_with ''<request><config-lock><remove>'' (get ''cmd'') then Unlock
      else if starts_with ''<revert>'' (get ''cmd'') then Revert
      else if starts_with ''<validate>'' (get ''cmd'') then Validate
      else Read)"

lemma map_of_vsys: "k \<noteq> ''vsys'' \<Longrightarrow> map_of (with_vsys dc fs) k = map_of fs k"
  by (auto simp: with_vsys_def map_add_def split: option.splits)

lemma kind_vsys [simp]: "kind_of (with_vsys dc fs) = kind_of fs"
proof -
  have "map_of (with_vsys dc fs) ''type'' = map_of fs ''type''"
    "map_of (with_vsys dc fs) ''action'' = map_of fs ''action''"
    "map_of (with_vsys dc fs) ''cmd'' = map_of fs ''cmd''"
    by (simp_all add: map_of_vsys)
  then show ?thesis by (simp only: kind_of_def Let_def)
qed

lemma kind_config_read [simp]: "kind_of (config_fields b x) = Read"
  by (simp add: kind_of_def config_fields_def)

lemma kind_op: "kind_of (op_fields c) =
    (if starts_with ''<request><config-lock><add>'' c then Lock
     else if starts_with ''<request><config-lock><remove>'' c then Unlock
     else if starts_with ''<revert>'' c then Revert
     else if starts_with ''<validate>'' c then Validate else Read)"
  by (simp add: kind_of_def op_fields_def)

lemma kind_change [simp]: "kind_of (change_fields a) = Change"
  by (cases "ca_action a") (simp_all add: kind_of_def change_fields_def)

lemma kind_commit [simp]: "kind_of (commit_fields c) = Commit"
  by (simp add: kind_of_def commit_fields_def)

lemma kind_unlock [simp]: "kind_of unlock_fields = Unlock"
  by (simp add: kind_op unlock_fields_def starts_with_def)

lemma kind_validate [simp]: "kind_of validate_fields = Validate"
  by (simp add: kind_op validate_fields_def starts_with_def)

lemma kind_summary [simp]: "kind_of change_summary_fields = Read"
  by (simp add: kind_op change_summary_fields_def starts_with_def)

lemma kind_lock [simp]:
  "kind_of (op_fields (lock_command env i)) = Lock"
  by (simp add: kind_op lock_command_def starts_with_def)

lemma kind_revert [simp]: "kind_of (op_fields (revert_command env admin)) = Revert"
  by (simp add: kind_op revert_command_def starts_with_def)

lemma kind_jobs [simp]: "kind_of (op_fields (jobs_command j)) = Read"
  by (simp add: kind_op jobs_command_def starts_with_def)

lemma kind_pending [simp]:
  "kind_of (op_fields ''<check><pending-changes></pending-changes></check>'') = Read"
  by (simp add: kind_op starts_with_def)

section \<open>Monitors that ignore reads\<close>

locale monitor =
  fixes delta :: "'p \<Rightarrow> event \<Rightarrow> 'p option"
  assumes read_ignored: "kind_of fs = Read \<Longrightarrow> delta p (Sent d fs) = Some p"
    and tick_ignored: "delta p (Slept ms) = Some p" "delta p (TokenChecked c) = Some p"
begin

text \<open>A request is sent, or refused before it is sent.\<close>

lemma post_sends:
  assumes "\<exists>q. delta p (Sent (device_name dc) (with_vsys dc fs)) = Some q"
  shows "obeys delta p (post env dc fs tok)
     (\<lambda>r q. if e_header_ok env (dc_api_key dc) then delta p (Sent (device_name dc) (with_vsys dc fs)) = Some q
             else (\<exists>m. r = Inl (Secret m)) \<and> q = p)"
  unfolding obeys_def
proof
  fix w
  obtain q where q: "delta p (Sent (device_name dc) (with_vsys dc fs)) = Some q" using assms by blast
  obtain r w' where r: "run_state (post env dc fs tok) w = (r, w')" by fastforce
  have "if e_header_ok env (dc_api_key dc) then wlog w' = [Sent (device_name dc) (with_vsys dc fs)] @ wlog w
      else wlog w' = wlog w \<and> (\<exists>m. r = Inl (Secret m))"
    using r by (auto simp: post_def send_def transmit_def record_auth_failure_def record_auth_result_def run_simps
        Let_def split: sum.splits prod.splits if_splits)
  with r q show "\<exists>es q. wlog (snd (run_state (post env dc fs tok) w)) = es @ wlog w \<and> accept delta p (rev es) = Some q
      \<and> (if e_header_ok env (dc_api_key dc) then delta p (Sent (device_name dc) (with_vsys dc fs)) = Some q
         else (\<exists>m. fst (run_state (post env dc fs tok) w) = Inl (Secret m)) \<and> q = p)"
    by (cases "e_header_ok env (dc_api_key dc)")
       (auto intro: exI [of _ "[Sent (device_name dc) (with_vsys dc fs)]"] exI [of _ "[]"])
qed

text \<open>After a helper that sends one request: \<open>q\<close> when the API key can be sent, else an error and \<open>p\<close>.\<close>

abbreviation sent_or_refused :: "env \<Rightarrow> device_config \<Rightarrow> 'p \<Rightarrow> 'p \<Rightarrow> 'a res \<Rightarrow> 'p \<Rightarrow> bool" where
  "sent_or_refused env dc p q r q' \<equiv>
     (if e_header_ok env (dc_api_key dc) then q' = q else \<not> is_ok r \<and> q' = p)"

lemma quiet_post: "kind_of fs = Read \<Longrightarrow> obeys delta p (post env dc fs tok) (\<lambda>_ q. q = p)"
  by (rule obeys_mono [OF post_sends]) (auto simp: read_ignored split: if_splits)

lemma quiet_lift: "obeys delta p (lift_res r) (\<lambda>_ q. q = p)"
  by (simp add: lift_res_def obeys_return)

lemma quiet_tryS:
  "obeys delta p m (\<lambda>_ q. q = p) \<Longrightarrow> (\<And>x. obeys delta p (k x) (\<lambda>_ q. q = p)) \<Longrightarrow>
   obeys delta p (tryS m k) (\<lambda>_ q. q = p)"
  by (rule obeys_quiet_tryS) auto

lemma quiet_cancelled: "obeys delta p (is_cancelled env tok) (\<lambda>_ q. q = p)"
  unfolding is_cancelled_def by (rule obeys_ask) (simp add: tick_ignored)

lemma quiet_configuration: "obeys delta p (configuration env dc b x tok) (\<lambda>_ q. q = p)"
  unfolding configuration_def by (intro quiet_tryS quiet_lift quiet_post) simp

lemma quiet_entries: "obeys delta p (configuration_entries env dc b x tok) (\<lambda>_ q. q = p)"
proof (rule obeys_emits)
  show "emits (sent_to dc {config_fields b x}) (configuration_entries env dc b x tok)"
    unfolding configuration_entries_def by (intro emits_tryS emits_lift emits_send) auto
qed (auto simp: sent_to_def read_ignored)

lemma quiet_siblings: "obeys delta p (read_siblings env dc c tok) (\<lambda>_ q. q = p)"
  unfolding read_siblings_def split_beta by (intro quiet_tryS quiet_entries quiet_lift obeys_return refl)

lemma quiet_move_target: "obeys delta p (require_move_target_exists env dc c n d tok) (\<lambda>_ q. q = p)"
  unfolding require_move_target_exists_def by (intro quiet_tryS quiet_siblings quiet_lift)

lemma quiet_fingerprint_loop: "obeys delta p (fingerprint_loop env dc tok digest roots) (\<lambda>_ q. q = p)"
proof (induction roots arbitrary: digest)
  case (Cons root roots)
  have "obeys delta p (if c then ret (Inl Cancelled)
       else tryS (configuration env dc True root tok) (\<lambda>response.
         fingerprint_loop env dc tok (digest @ fingerprint_entry root (resp_xml response)) roots)) (\<lambda>_ q. q = p)" for c
    by (simp add: obeys_return quiet_tryS quiet_configuration Cons)
  then show ?case unfolding fingerprint_loop.simps by (intro obeys_quiet_bind quiet_cancelled)
qed (simp add: obeys_return)

lemma quiet_fingerprint: "obeys delta p (candidate_fingerprint env dc tok) (\<lambda>_ q. q = p)"
  unfolding candidate_fingerprint_def
  by (intro quiet_tryS quiet_lift quiet_fingerprint_loop obeys_return refl)

lemma quiet_clean: "obeys delta p (require_clean_candidate env dc tok) (\<lambda>_ q. q = p)"
  unfolding require_clean_candidate_def check_pending_changes_def
  by (intro quiet_tryS quiet_lift quiet_post obeys_return refl) simp

lemma quiet_poll_job: "obeys delta p (poll_job env dc j tok) (\<lambda>_ q. q = p)"
proof (rule obeys_emits)
  show "emits ({Sent (device_name dc) (with_vsys dc (op_fields (jobs_command j)))} \<union> range Slept) (poll_job env dc j tok)"
    unfolding poll_job_def
    by (intro emits_tryS emits_lift emits_bind emits_peek emits_prod emits_poll_loop
        emits_mono [OF emits_job_operational]) (auto simp: job_request_def)
qed (auto simp: read_ignored tick_ignored)

text \<open>Helpers that send one request of another kind.\<close>

lemma lock_sends:
  assumes "\<And>fs. kind_of fs = Lock \<Longrightarrow> delta p (Sent (device_name dc) fs) = Some q"
  shows "obeys delta p (acquire_config_lock env dc i) (sent_or_refused env dc p q)"
  unfolding acquire_config_lock_def post_fields_def
  by (rule obeys_tryS, rule obeys_mono [OF post_sends])
     (auto simp: assms intro!: obeys_return split: sum.splits if_splits)

lemma unlock_sends:
  assumes "\<And>fs. kind_of fs = Unlock \<Longrightarrow> delta p (Sent (device_name dc) fs) = Some q"
  shows "obeys delta p (release_config_lock env dc) (sent_or_refused env dc p q)"
  unfolding release_config_lock_def post_fields_def
  by (rule obeys_bind [OF post_sends]) (auto simp: assms intro!: obeys_return split: sum.splits if_splits)

lemma revert_sends:
  assumes "\<And>fs. kind_of fs = Revert \<Longrightarrow> delta p (Sent (device_name dc) fs) = Some q"
  shows "obeys delta p (revert_admin_candidate env dc admin) (sent_or_refused env dc p q)"
  unfolding revert_admin_candidate_def post_fields_def
  by (rule obeys_tryS, rule obeys_mono [OF post_sends])
     (auto simp: assms intro!: obeys_return split: sum.splits if_splits)

lemma change_sends:
  assumes "delta p (Sent (device_name dc) (with_vsys dc (change_fields a))) = Some q"
  shows "obeys delta p (post_fields env dc (change_fields a) tok) (sent_or_refused env dc p q)"
  unfolding post_fields_def by (rule obeys_mono [OF post_sends]) (auto simp: assms split: if_splits)

text \<open>The checks of a stage.\<close>

lemma quiet_move_check: "obeys delta p (if ca_action a = StageMove then
        tryS (lift_res (extract_move_target (ca_xpath a))) (\<lambda>(container, moved_name).
          require_move_target_exists env dc container moved_name (ca_destination a) tok)
      else ret (Inr ())) (\<lambda>_ q. q = p)"
  unfolding split_beta by (intro obeys_if quiet_tryS quiet_lift quiet_move_target obeys_return refl)

lemma quiet_stage_checks: "obeys delta p (stage_checks env sv input grant tok) (\<lambda>_ q. q = p)"
  unfolding stage_checks_def Let_def by (intro quiet_tryS quiet_lift quiet_move_check obeys_return refl)

end

end
