(* ===== verification/Locked.thy ===== *)
theory Locked
  imports Monitor
begin

text \<open>
  The order of the configuration lock and the changes.  A monitor sees requests and not replies, so it
  cannot tell a lock that was asked for from a lock that was granted; this theory looks at the
  worlds of a run: before its first change, \<open>acquire_config_lock\<close> has returned successfully.
\<close>

section \<open>Runs without a change\<close>

definition is_change :: "event \<Rightarrow> bool" where
  "is_change e = (case e of Sent d fs \<Rightarrow> kind_of fs = Change | _ \<Rightarrow> False)"

text \<open>The monitor that forbids changes.\<close>

definition unchanged :: "unit \<Rightarrow> event \<Rightarrow> unit option" where
  "unchanged p e = (if is_change e then None else Some ())"

interpretation unchanged: monitor unchanged
  by unfold_locales (auto simp: unchanged_def is_change_def)

lemma accept_unchanged: "accept unchanged () es = Some () \<longleftrightarrow> list_all (\<lambda>e. \<not> is_change e) es"
  by (induction es) (auto simp: unchanged_def)

lemma quiet_no_change:
  assumes "obeys unchanged () m Q" and "run_state m w = (r, w')"
  shows "\<exists>es. wlog w' = es @ wlog w \<and> list_all (\<lambda>e. \<not> is_change e) es"
  using obeys_run [OF assms] accept_unchanged by (metis list_all_rev old.unit.exhaust)

text \<open>The second world continues the first; it does so without a change.\<close>

definition later_world :: "world \<Rightarrow> world \<Rightarrow> bool" where
  "later_world w w' \<longleftrightarrow> (\<exists>es. wlog w' = es @ wlog w)"

definition unaltered :: "world \<Rightarrow> world \<Rightarrow> bool" where
  "unaltered w w' \<longleftrightarrow> (\<exists>es. wlog w' = es @ wlog w \<and> list_all (\<lambda>e. \<not> is_change e) es)"

lemma unaltered_trans: "unaltered w w1 \<Longrightarrow> unaltered w1 w2 \<Longrightarrow> unaltered w w2"
  unfolding unaltered_def by (metis append.assoc list_all_append)

lemma later_world_trans: "later_world w w1 \<Longrightarrow> later_world w1 w2 \<Longrightarrow> later_world w w2"
  unfolding later_world_def by (metis append.assoc)

lemma obeys_later: "obeys delta p m Q \<Longrightarrow> later_world w (snd (run_state m w))"
  unfolding obeys_def later_world_def by blast

text \<open>Every step continues its world, whatever it does.\<close>

definition grows :: "'a act \<Rightarrow> bool" where
  "grows m \<longleftrightarrow> (\<forall>w. later_world w (snd (run_state m w)))"

lemma grows_obeys: "obeys delta p m Q \<Longrightarrow> grows m"
  by (simp add: grows_def obeys_later)

lemma grows_return: "grows (ret x)"
  by (rule grows_obeys [where delta = unchanged and p = "()" and Q = "\<lambda>_ _. True"], rule obeys_return, rule TrueI)

lemma grows_bind: "grows m \<Longrightarrow> (\<And>x. grows (k x)) \<Longrightarrow> grows (bind_act m k)"
  unfolding grows_def run_bind by (metis (no_types, lifting) case_prod_beta later_world_trans)

lemma grows_ask: "grows (ask f ev)"
  by (simp add: grows_def later_world_def run_ask)

lemma grows_sum: "(\<And>e. grows (f e)) \<Longrightarrow> (\<And>x. grows (g x)) \<Longrightarrow> grows (case_sum f g r)"
  by (cases r) simp_all

lemma grows_tryS: "grows m \<Longrightarrow> (\<And>x. grows (k x)) \<Longrightarrow> grows (tryS m k)"
  unfolding tryS_def by (intro grows_bind grows_sum grows_return)

lemma grows_lift: "grows (lift_res r)"
  unfolding lift_res_def by (rule grows_return)

lemma grows_if: "grows m \<Longrightarrow> grows n \<Longrightarrow> grows (if b then m else n)"
  by simp

lemma grows_case_prod: "(\<And>a b. grows (f a b)) \<Longrightarrow> grows (case_prod f r)"
  by (cases r) simp

interpretation all_events: monitor "\<lambda>(_ :: unit) (_ :: event). Some ()"
  by unfold_locales simp_all

lemma grows_post: "grows (post_fields env dc fs tok)"
proof -
  have "obeys (\<lambda>_ _. Some ()) () (post env dc fs tok) (\<lambda>_ _. True)"
    by (rule obeys_mono [OF all_events.post_sends]) simp_all
  then show ?thesis unfolding post_fields_def by (rule grows_obeys)
qed

lemmas grows_fingerprint = grows_obeys [OF unchanged.quiet_fingerprint]

lemmas grows_clean = grows_obeys [OF unchanged.quiet_clean]

lemmas grows_rules = grows_bind grows_tryS grows_return grows_ask grows_sum grows_lift grows_if grows_case_prod
  grows_post grows_fingerprint grows_clean

lemma quiet_unaltered: "obeys unchanged () m Q \<Longrightarrow> unaltered w (snd (run_state m w))"
  using quiet_no_change [of m Q w] unfolding unaltered_def by (metis surjective_pairing)

section \<open>The lock comes first\<close>

text \<open>Nothing is changed in a run, or nothing until the device has granted the configuration lock.\<close>

definition lock_first :: "env \<Rightarrow> device_config \<Rightarrow> world \<Rightarrow> world \<Rightarrow> bool" where
  "lock_first env dc w w' \<longleftrightarrow> unaltered w w'
     \<or> (\<exists>oid w1 w2. unaltered w w1 \<and> run_state (acquire_config_lock env dc oid) w1 = (Inr (), w2) \<and> later_world w2 w')"

definition locks :: "env \<Rightarrow> device_config \<Rightarrow> 'a act \<Rightarrow> bool" where
  "locks env dc m \<longleftrightarrow> (\<forall>w. lock_first env dc w (snd (run_state m w)))"

lemma locks_quiet: "obeys unchanged () m Q \<Longrightarrow> locks env dc m"
  by (simp add: locks_def lock_first_def quiet_unaltered)

lemma quiet_asks:
  "obeys unchanged () (new_operation_id env) (\<lambda>_ q. q = ())" "obeys unchanged () (op_insert env r) (\<lambda>_ q. q = ())"
  "obeys unchanged () (op_remove i) (\<lambda>_ q. q = ())" "obeys unchanged () (now_unix env) (\<lambda>_ q. q = ())"
  "obeys unchanged () (cs_read env i d) (\<lambda>_ q. q = ())" "obeys unchanged () (cs_update env c) (\<lambda>_ q. q = ())"
  unfolding new_operation_id_def op_insert_def op_remove_def now_unix_def cs_read_def cs_update_def emit_def
  by (intro obeys_quiet_bind obeys_return refl obeys_ask; simp add: unchanged_def is_change_def)+

lemma locks_return: "locks env dc (ret x)"
  by (rule locks_quiet [OF obeys_return]) (rule TrueI)

lemma unaltered_lock_first: "unaltered w w1 \<Longrightarrow> lock_first env dc w1 w2 \<Longrightarrow> lock_first env dc w w2"
  unfolding lock_first_def using unaltered_trans by blast

lemma locks_bind:
  assumes "obeys unchanged () m Q" and "\<And>x. locks env dc (k x)"
  shows "locks env dc (bind_act m k)"
  unfolding locks_def
proof
  fix w
  obtain x w1 where m: "run_state m w = (x, w1)" by fastforce
  have "unaltered w w1" using quiet_unaltered [OF assms(1), of w] m by simp
  moreover have "lock_first env dc w1 (snd (run_state (k x) w1))" using assms(2) unfolding locks_def by blast
  ultimately show "lock_first env dc w (snd (run_state (bind_act m k) w))"
    using m by (simp add: run_bind unaltered_lock_first)
qed

lemma locks_tryS:
  assumes "obeys unchanged () m Q" and "\<And>x. locks env dc (k x)"
  shows "locks env dc (tryS m k)"
  unfolding tryS_def by (rule locks_bind [OF assms(1)]) (auto intro: locks_return assms(2) split: sum.splits)

lemma locks_tryS_when:
  assumes "obeys unchanged () m Q" and "\<And>x w w1. run_state m w = (Inr x, w1) \<Longrightarrow> locks env dc (k x)"
  shows "locks env dc (tryS m k)"
  unfolding locks_def
proof
  fix w
  obtain r w1 where m: "run_state m w = (r, w1)" by fastforce
  have u: "unaltered w w1" using quiet_unaltered [OF assms(1), of w] m by simp
  show "lock_first env dc w (snd (run_state (tryS m k) w))"
  proof (cases r)
    case (Inl e)
    with m u show ?thesis by (simp add: tryS_def run_simps lock_first_def)
  next
    case (Inr x)
    with assms(2) m have "lock_first env dc w1 (snd (run_state (k x) w1))" unfolding locks_def by blast
    with m Inr u show ?thesis by (simp add: tryS_def run_simps unaltered_lock_first)
  qed
qed

lemma locks_lift: "(\<And>x. r = Inr x \<Longrightarrow> locks env dc (k x)) \<Longrightarrow> locks env dc (tryS (lift_res r) k)"
  by (cases r) (auto simp: tryS_def lift_res_def locks_def run_simps lock_first_def unaltered_def)

lemma locks_if: "(b \<Longrightarrow> locks env dc m) \<Longrightarrow> (\<not> b \<Longrightarrow> locks env dc n) \<Longrightarrow> locks env dc (if b then m else n)"
  by simp

text \<open>The lock itself: after a refusal nothing may be changed, after a grant anything goes.\<close>

lemma quiet_acquire: "obeys unchanged () (acquire_config_lock env dc oid) (\<lambda>_ _. True)"
  by (rule obeys_mono [OF unchanged.lock_sends [where q = "()"]]) (auto simp: unchanged_def is_change_def)

lemma locks_acquire:
  assumes "\<And>e. obeys unchanged () (k (Inl e)) (R e)" and "grows (k (Inr ()))"
  shows "locks env dc (bind_act (acquire_config_lock env dc oid) k)"
  unfolding locks_def
proof
  fix w
  obtain x w1 where m: "run_state (acquire_config_lock env dc oid) w = (x, w1)" by fastforce
  have "unaltered w w1" using quiet_unaltered [OF quiet_acquire, of w] m by (metis snd_conv)
  moreover have "unaltered w w" by (simp add: unaltered_def)
  ultimately show "lock_first env dc w (snd (run_state (bind_act (acquire_config_lock env dc oid) k) w))"
  proof (cases x)
    case (Inl e)
    with m quiet_unaltered [OF assms(1), of w1 e] \<open>unaltered w w1\<close> show ?thesis
      unfolding lock_first_def by (auto simp: run_bind intro: unaltered_trans)
  next
    case (Inr u)
    have "later_world w1 (snd (run_state (bind_act (acquire_config_lock env dc oid) k) w))"
      using m Inr assms(2) by (simp add: run_bind grows_def)
    then show ?thesis using m Inr \<open>unaltered w w\<close> unfolding lock_first_def by (metis old.unit.exhaust)
  qed
qed

text \<open>Under the device guard.\<close>

lemma locks_with_guard:
  assumes "locks env dc m"
  shows "locks env dc (with_guard env dc m)"
  unfolding with_guard_def
proof (rule locks_bind)
  show "obeys unchanged () (ask (\<lambda>log. e_coord_guard env log (mutation_lock_key dc)) (Guard (mutation_lock_key dc))) (\<lambda>_ _. True)"
    by (rule obeys_ask) (simp add: unchanged_def is_change_def)
next
  fix g :: "coord_err option"
  have "lock_first env dc w (snd (run_state (bind_act m (\<lambda>r. bind_act (emit (Unguard (mutation_lock_key dc))) (\<lambda>_. ret r))) w))" for w
  proof -
    obtain r w1 where m: "run_state m w = (r, w1)" by fastforce
    let ?e = "Unguard (mutation_lock_key dc)"
    have first: "lock_first env dc w w1" using assms m unfolding locks_def by (metis snd_conv)
    have "unaltered w1 (w1\<lparr>wlog := ?e # wlog w1\<rparr>)" "later_world w1 (w1\<lparr>wlog := ?e # wlog w1\<rparr>)"
      by (auto simp: unaltered_def later_world_def is_change_def)
    with first have "lock_first env dc w (w1\<lparr>wlog := ?e # wlog w1\<rparr>)"
      unfolding lock_first_def using unaltered_trans later_world_trans by blast
    then show ?thesis using m by (simp add: run_simps)
  qed
  then show "locks env dc (case g of Some err \<Rightarrow> ret (Inl (coord_error err))
      | None \<Rightarrow> bind_act m (\<lambda>r. bind_act (emit (Unguard (mutation_lock_key dc))) (\<lambda>_. ret r)))"
    by (cases g) (auto simp: locks_return locks_def [of env dc "bind_act m k" for k])
qed

section \<open>Devices whose policy asks for the lock\<close>

text \<open>Whether the policy of the named device asks for the configuration lock.\<close>

definition needs_lock :: "service \<Rightarrow> string \<Rightarrow> bool" where
  "needs_lock sv dev = (case map_of (sv_clients sv) dev of None \<Rightarrow> False
     | Some dc \<Rightarrow> (case dc_mutation dc of None \<Rightarrow> False | Some p \<Rightarrow> pol_require_lock p))"

text \<open>Where it does, the run changes nothing before the lock of that device has been granted.\<close>

definition granted_before_change :: "env \<Rightarrow> service \<Rightarrow> string \<Rightarrow> 'a act \<Rightarrow> bool" where
  "granted_before_change env sv dev m =
     (case map_of (sv_clients sv) dev of None \<Rightarrow> True | Some dc \<Rightarrow> needs_lock sv dev \<longrightarrow> locks env dc m)"

end
