(* ===== verification/LifecycleSpec.thy ===== *)
theory LifecycleSpec
  imports Locked MutationSpec
begin

text \<open>
  What the candidate lifecycle promises: the discipline of a stage (guard, record, lock, change,
  cleanup), what must hold before anything is written, the commit gate, the commit worker's
  evidence and final states, and the lifecycle state machine as a step relation.
\<close>

section \<open>The discipline of a stage\<close>

record stage_mon =
  sm_guard :: bool
  sm_rec :: "string option"
  sm_lock :: bool
  sm_changed :: bool

text \<open>What may happen when.  A record is stored and the lock taken only under the guard, the one
  change is sent only with the record stored and the lock as the policy asks, and only the
  stored record is updated or removed.  Commits, reverts and validations never occur.\<close>

fun stage_request :: "bool \<Rightarrow> stage_mon \<Rightarrow> request_kind \<Rightarrow> stage_mon option" where
  "stage_request need s Read = Some s"
| "stage_request need s Lock =
     (if sm_guard s \<and> sm_rec s \<noteq> None \<and> \<not> sm_lock s \<and> \<not> sm_changed s then Some (s\<lparr>sm_lock := True\<rparr>) else None)"
| "stage_request need s Unlock = (if sm_lock s then Some (s\<lparr>sm_lock := False\<rparr>) else None)"
| "stage_request need s Change =
     (if sm_guard s \<and> sm_rec s \<noteq> None \<and> sm_lock s = need \<and> \<not> sm_changed s then Some (s\<lparr>sm_changed := True\<rparr>) else None)"
| "stage_request need s _ = None"

fun stage_delta :: "bool \<Rightarrow> stage_mon \<Rightarrow> event \<Rightarrow> stage_mon option" where
  "stage_delta need s (Sent d fs) = stage_request need s (kind_of fs)"
| "stage_delta need s (Slept ms) = Some s"
| "stage_delta need s (TokenChecked c) = Some s"
| "stage_delta need s (Random x) = Some s"
| "stage_delta need s (Guard k e) =
     (case e of Some _ \<Rightarrow> Some s | None \<Rightarrow> if sm_guard s then None else Some (s\<lparr>sm_guard := True\<rparr>))"
| "stage_delta need s (Unguard k) = (if sm_guard s then Some (s\<lparr>sm_guard := False\<rparr>) else None)"
| "stage_delta need s (OpInsert r e) =
     (if \<not> sm_guard s \<or> sm_rec s \<noteq> None then None
      else case e of Some _ \<Rightarrow> Some s | None \<Rightarrow> Some (s\<lparr>sm_rec := Some (op_id r)\<rparr>))"
| "stage_delta need s (OpUpdate r e) = (if sm_rec s = Some (op_id r) \<and> sm_changed s then Some s else None)"
| "stage_delta need s (OpRemove i) = (if sm_rec s = Some i then Some (s\<lparr>sm_rec := None\<rparr>) else None)"
| "stage_delta need s _ = None"

definition idle :: stage_mon where
  "idle = \<lparr>sm_guard = False, sm_rec = None, sm_lock = False, sm_changed = False\<rparr>"

text \<open>How a stage may end: with its operation stored, or with nothing stored and no lock left behind
  a change.\<close>

fun stage_end :: "bool \<Rightarrow> stage_output res \<Rightarrow> stage_mon \<Rightarrow> bool" where
  "stage_end need (Inl e) s = (\<not> sm_guard s \<and> sm_rec s = None \<and> \<not> (sm_changed s \<and> sm_lock s))"
| "stage_end need (Inr out) s =
     (\<not> sm_guard s \<and> sm_rec s = Some (so_operation out) \<and> sm_changed s \<and> sm_lock s = need \<and> so_lock_held out = need)"

interpretation stage: monitor "stage_delta need" for need
  by unfold_locales simp_all

text \<open>The state inside the guarded block.\<close>

abbreviation working :: "string \<Rightarrow> bool \<Rightarrow> bool \<Rightarrow> stage_mon" where
  "working oid locked changed \<equiv> \<lparr>sm_guard = True, sm_rec = Some oid, sm_lock = locked, sm_changed = changed\<rparr>"

fun mutate_end :: "bool \<Rightarrow> string \<Rightarrow> stage_output res \<Rightarrow> stage_mon \<Rightarrow> bool" where
  "mutate_end need oid (Inl e) q = (q = working oid need False \<or> q = working oid need True)"
| "mutate_end need oid (Inr out) q = (q = working oid need True \<and> so_operation out = oid \<and> so_lock_held out = need)"

lemma stage_mutate_obeys:
  assumes "op_id r = oid" and "op_lock_held r = need"
  shows "obeys (stage_delta need) (working oid need False) (stage_mutate env dc input r) (mutate_end need oid)"
proof -
  have last: "obeys (stage_delta need) (working oid need True)
      (tryS (op_update env (r\<lparr>op_current := after, op_state := Staged\<rparr>)) (\<lambda>_.
         ret (Inr \<lparr>so_operation = op_id r, so_device = si_device input, so_before = before,
                so_after = after, so_lock_held = op_lock_held r\<rparr>))) (mutate_end need oid)" for after before
    unfolding op_update_def
    by (rule obeys_tryS, rule obeys_bind [where R = "\<lambda>x q. q = working oid need True"], rule obeys_ask)
       (auto intro!: obeys_return simp: assms coord_unit_def split: option.splits)
  have step: "stage_delta need (working oid need False)
      (Sent (device_name dc) (with_vsys dc (change_fields (si_action input)))) = Some (working oid need True)"
    by simp
  have change: "obeys (stage_delta need) (working oid need False)
      (tryS (post_fields env dc (change_fields (si_action input)) Fresh) (\<lambda>_.
       tryS (candidate_fingerprint env dc Fresh) (\<lambda>after.
       tryS (op_update env (r\<lparr>op_current := after, op_state := Staged\<rparr>)) (\<lambda>_.
         ret (Inr \<lparr>so_operation = op_id r, so_device = si_device input, so_before = before,
                so_after = after, so_lock_held = op_lock_held r\<rparr>))))) (mutate_end need oid)" for before
    by (rule obeys_tryS, rule obeys_mono [OF stage.change_sends [OF step]])
       (auto split: sum.splits if_splits intro!: obeys_quiet_tryS [OF stage.quiet_fingerprint] last)
  show ?thesis unfolding stage_mutate_def
    by (intro obeys_quiet_tryS stage.quiet_fingerprint stage.quiet_lift stage.quiet_clean change) auto
qed

text \<open>The cleanup after the block.\<close>

definition stage_cleanup :: "env \<Rightarrow> device_config \<Rightarrow> bool \<Rightarrow> string \<Rightarrow> stage_output res \<Rightarrow> stage_output res act" where
  "stage_cleanup env dc need oid result =
     bind_act (if \<not> is_ok result \<and> need then release_config_lock_best_effort env dc else ret ()) (\<lambda>_.
     bind_act (if \<not> is_ok result then op_remove oid else ret ()) (\<lambda>_. ret result))"

lemma stage_cleanup_obeys:
  assumes "mutate_end need oid x q" and "need \<longrightarrow> e_header_ok env (dc_api_key dc)"
  shows "obeys (stage_delta need) q (stage_cleanup env dc need oid x)
    (\<lambda>x q. sm_guard q \<and> stage_end need x (q\<lparr>sm_guard := False\<rparr>))"
proof (cases x)
  case (Inr out)
  then show ?thesis using assms(1)
    by (auto simp: stage_cleanup_def intro!: obeys_quiet_bind obeys_return)
next
  case (Inl e)
  obtain ch where q: "q = working oid need ch" using assms(1) Inl by auto
  have rm: "obeys (stage_delta need) (working oid False ch) (bind_act (op_remove oid) (\<lambda>_. ret x))
      (\<lambda>x q. sm_guard q \<and> stage_end need x (q\<lparr>sm_guard := False\<rparr>))"
    unfolding op_remove_def by (rule obeys_bind, rule obeys_emit) (auto simp: Inl intro!: obeys_return)
  show ?thesis
  proof (cases need)
    case True
    then have h: "e_header_ok env (dc_api_key dc)" using assms(2) by blast
    have "obeys (stage_delta need) q (release_config_lock_best_effort env dc) (\<lambda>_ q'. q' = working oid False ch)"
      unfolding release_config_lock_best_effort_def
      by (rule obeys_bind, rule stage.unlock_sends [where q = "working oid False ch"])
         (auto simp: q True h intro!: obeys_return split: if_splits)
    then show ?thesis using rm True unfolding stage_cleanup_def
      by (auto simp: Inl intro: obeys_bind)
  qed (use rm q in \<open>auto simp: stage_cleanup_def Inl intro!: obeys_quiet_bind obeys_return\<close>)
qed

lemma stage_locked_obeys:
  assumes "op_id r = oid" and "op_lock_held r = False"
  shows "obeys (stage_delta (pol_require_lock p)) (working oid False False)
     (bind_act (if pol_require_lock p then acquire_config_lock env dc oid else ret (Inr ())) (\<lambda>locked.
      case locked of
        Inl e \<Rightarrow> bind_act (op_remove oid) (\<lambda>_. ret (Inl e))
      | Inr _ \<Rightarrow>
        bind_act (stage_mutate env dc input (r\<lparr>op_lock_held := pol_require_lock p\<rparr>)) (\<lambda>result.
          stage_cleanup env dc (pol_require_lock p) oid result)))
     (\<lambda>x q. sm_guard q \<and> stage_end (pol_require_lock p) x (q\<lparr>sm_guard := False\<rparr>))"
proof -
  let ?need = "pol_require_lock p" and ?Q = "\<lambda>x q. sm_guard q \<and> stage_end (pol_require_lock p) x (q\<lparr>sm_guard := False\<rparr>)"
  let ?R = "\<lambda>x q. case x of Inl _ \<Rightarrow> \<exists>l. q = working oid l False
      | Inr _ \<Rightarrow> q = working oid ?need False \<and> (?need \<longrightarrow> e_header_ok env (dc_api_key dc))"
  have lock: "obeys (stage_delta ?need) (working oid False False)
      (if ?need then acquire_config_lock env dc oid else ret (Inr ())) ?R"
  proof (cases ?need)
    case True
    show ?thesis unfolding if_P [OF True]
      by (rule obeys_mono [OF stage.lock_sends [where q = "working oid True False"]])
         (auto simp: True split: sum.splits if_splits)
  qed (simp add: obeys_return)
  show ?thesis
  proof (rule obeys_bind [OF lock])
    fix x :: "unit res" and q assume R: "?R x q"
    show "obeys (stage_delta ?need) q (case x of
        Inl e \<Rightarrow> bind_act (op_remove oid) (\<lambda>_. ret (Inl e))
      | Inr _ \<Rightarrow> bind_act (stage_mutate env dc input (r\<lparr>op_lock_held := ?need\<rparr>)) (\<lambda>result.
          stage_cleanup env dc ?need oid result)) ?Q"
    proof (cases x)
      case (Inl e)
      with R show ?thesis unfolding op_remove_def
        by (auto intro!: obeys_emit_bind obeys_return)
    next
      case (Inr u)
      with R have q: "q = working oid ?need False" and h: "?need \<longrightarrow> e_header_ok env (dc_api_key dc)" by auto
      have m: "obeys (stage_delta ?need) (working oid ?need False)
          (stage_mutate env dc input (r\<lparr>op_lock_held := ?need\<rparr>)) (mutate_end ?need oid)"
        using assms by (intro stage_mutate_obeys) simp_all
      show ?thesis unfolding Inr q sum.case by (rule obeys_bind [OF m]) (rule stage_cleanup_obeys [OF _ h])
    qed
  qed
qed

lemma stage_guarded_obeys:
  "obeys (stage_delta (pol_require_lock p)) (idle\<lparr>sm_guard := True\<rparr>) (stage_guarded env dc p input owner tok)
     (\<lambda>x q. sm_guard q \<and> stage_end (pol_require_lock p) x (q\<lparr>sm_guard := False\<rparr>))"
  (is "obeys ?d ?s _ ?Q")
proof -
  have stop: "?Q (Inl e) ?s" for e by (simp add: idle_def)
  have id: "obeys ?d ?s (new_operation_id env) (\<lambda>_ q. q = ?s)"
    unfolding new_operation_id_def by (rule obeys_bind, rule obeys_ask) (auto intro: obeys_return)
  have ins: "obeys ?d ?s (op_insert env r) (\<lambda>x q. case x of Inl _ \<Rightarrow> q = ?s | Inr _ \<Rightarrow> q = working (op_id r) False False)" for r
    unfolding op_insert_def
    by (rule obeys_bind [where R = "\<lambda>e q. case e of Some _ \<Rightarrow> q = ?s | None \<Rightarrow> q = working (op_id r) False False"], rule obeys_ask)
       (auto intro!: obeys_return simp: coord_unit_def idle_def split: option.splits)
  have tail: "obeys ?d ?s (tryS (op_insert env r) (\<lambda>_.
      bind_act (if pol_require_lock p then acquire_config_lock env dc oid else ret (Inr ())) (\<lambda>locked.
      case locked of
        Inl e \<Rightarrow> bind_act (op_remove oid) (\<lambda>_. ret (Inl e))
      | Inr _ \<Rightarrow>
        bind_act (stage_mutate env dc input (r\<lparr>op_lock_held := pol_require_lock p\<rparr>)) (\<lambda>result.
          stage_cleanup env dc (pol_require_lock p) oid result)))) ?Q"
    if r: "op_id r = oid" "op_lock_held r = False" for r oid
  proof (rule obeys_tryS, rule obeys_mono [OF ins])
    fix x :: "unit res" and q
    assume "case x of Inl _ \<Rightarrow> q = ?s | Inr _ \<Rightarrow> q = working (op_id r) False False"
    then show "case x of Inl e \<Rightarrow> ?Q (Inl e) q
      | Inr _ \<Rightarrow> obeys ?d q (bind_act (if pol_require_lock p then acquire_config_lock env dc oid else ret (Inr ())) (\<lambda>locked.
      case locked of
        Inl e \<Rightarrow> bind_act (op_remove oid) (\<lambda>_. ret (Inl e))
      | Inr _ \<Rightarrow>
        bind_act (stage_mutate env dc input (r\<lparr>op_lock_held := pol_require_lock p\<rparr>)) (\<lambda>result.
          stage_cleanup env dc (pol_require_lock p) oid result))) ?Q"
      using stage_locked_obeys [OF r] stop r(1) by (cases x) (simp_all only: sum.case)
  qed
  show ?thesis unfolding stage_guarded_def Let_def
    apply (rule obeys_quiet_bind [OF stage.quiet_cancelled])
    apply (rule obeys_if)
     apply (rule obeys_return, rule stop)
    apply (rule obeys_quiet_tryS, rule id, rule stop)
    apply (rule obeys_quiet_tryS, rule stage.quiet_lift, rule stop)
    apply (rule obeys_quiet_tryS, rule stage.quiet_lift, rule stop)
    apply (rule tail [unfolded stage_cleanup_def])
     apply (simp_all add: initial_record_def)
    done
qed

text \<open>The lock comes before the change.\<close>

lemma stage_locks:
  assumes "pol_require_lock p"
  shows "locks env dc (stage_guarded env dc p input owner tok)"
proof -
  let ?cleanup = "\<lambda>oid. stage_cleanup env dc True oid"
  have rest: "grows (bind_act (stage_mutate env dc input r) (?cleanup oid))" for r oid
    unfolding stage_mutate_def stage_cleanup_def op_update_def op_remove_def emit_def
      release_config_lock_best_effort_def release_config_lock_def
    by (intro grows_rules)
  have rm: "obeys unchanged () (bind_act (op_remove oid) (\<lambda>_. ret x)) (\<lambda>_ q. q = ())" for oid x
    by (intro obeys_quiet_bind quiet_asks obeys_return refl)
  show ?thesis unfolding stage_guarded_def Let_def if_P [OF assms]
    using rest [unfolded stage_cleanup_def] rm assms
    by (intro locks_bind [OF unchanged.quiet_cancelled] locks_if locks_return locks_tryS [OF quiet_asks(1)] locks_lift
        locks_tryS [OF quiet_asks(2)] locks_acquire) simp_all
qed

lemma stage_locks_first: "granted_before_change env sv (si_device input) (stage_config env sv input owner grant tok)"
proof (cases "map_of (sv_clients sv) (si_device input)")
  case (Some dc)
  have guarded: "locks env dc (with_guard env dc' (stage_guarded env dc' p input owner tok))"
    if "needs_lock sv (si_device input)" "run_state (stage_checks env sv input grant tok) w = (Inr (dc', p), w1)" for dc' p w w1
  proof -
    have "dc' = dc" "pol_require_lock p"
      using that Some by (auto simp: needs_lock_def stage_checks_def Let_def run_simps find_client_def require_policy_def ok_or_def
          split: option.splits sum.splits prod.splits)
    then show ?thesis using locks_with_guard stage_locks by blast
  qed
  then show ?thesis unfolding granted_before_change_def stage_config_def Some
    by (auto intro!: locks_tryS_when [OF unchanged.quiet_stage_checks])
qed (simp add: granted_before_change_def)

text \<open>C11. A stage is disciplined, whatever the device, the coordinator and the network do: the
  operation is recorded and the configuration lock requested only under the device guard, the one
  change is sent only with its record stored, and where the policy asks for the lock only after the
  device has granted it (\<open>acquire_config_lock\<close> returned successfully) and not released it since;
  no commit, revert or validation is sent.  On success the operation is stored under the returned
  id; on every error path the stored record has been removed, the guard dropped, and a lock
  taken for a change that was sent has been given back.\<close>

theorem stage_discipline:
  "obeys (stage_delta (needs_lock sv (si_device input))) idle (stage_config env sv input owner grant tok)
     (stage_end (needs_lock sv (si_device input)))
   \<and> granted_before_change env sv (si_device input) (stage_config env sv input owner grant tok)"
  (is "obeys (stage_delta ?need) _ _ _ \<and> _")
proof (rule conjI)
  let ?R = "\<lambda>x q. q = idle \<and> (case x of Inl e \<Rightarrow> True | Inr (dc, p) \<Rightarrow> pol_require_lock p = ?need)"
  have checks: "obeys (stage_delta ?need) idle (stage_checks env sv input grant tok) ?R"
    unfolding obeys_def
  proof
    fix w
    obtain x w' where x: "run_state (stage_checks env sv input grant tok) w = (x, w')" by fastforce
    obtain es where es: "wlog w' = es @ wlog w" "accept (stage_delta ?need) idle (rev es) = Some idle"
      using obeys_run [OF stage.quiet_stage_checks x] by metis
    have "case x of Inl e \<Rightarrow> True | Inr (dc, p) \<Rightarrow> pol_require_lock p = ?need"
      using x by (auto simp: needs_lock_def stage_checks_def Let_def run_simps find_client_def require_policy_def ok_or_def
          split: option.splits sum.splits prod.splits)
    with x es show "\<exists>es q. wlog (snd (run_state (stage_checks env sv input grant tok) w)) = es @ wlog w
        \<and> accept (stage_delta ?need) idle (rev es) = Some q \<and> ?R (fst (run_state (stage_checks env sv input grant tok) w)) q"
      by (intro exI [of _ es] exI [of _ idle]) simp
  qed
  have guarded: "obeys (stage_delta ?need) idle (with_guard env dc (stage_guarded env dc p input owner tok)) (stage_end ?need)"
    if "pol_require_lock p = ?need" for dc p
    unfolding with_guard_def
  proof (rule obeys_ask_bind)
    fix g :: "coord_err option"
    have body: "obeys (stage_delta ?need) (idle\<lparr>sm_guard := True\<rparr>)
        (bind_act (stage_guarded env dc p input owner tok) (\<lambda>r.
          bind_act (emit (Unguard (mutation_lock_key dc))) (\<lambda>_. ret r))) (stage_end ?need)"
      by (rule obeys_bind [OF stage_guarded_obeys [of p, unfolded that]])
         (auto intro!: obeys_emit_bind obeys_return)
    show "\<exists>q. stage_delta ?need idle (Guard (mutation_lock_key dc) g) = Some q \<and> obeys (stage_delta ?need) q
        (case g of Some err \<Rightarrow> ret (Inl (coord_error err))
         | None \<Rightarrow> bind_act (stage_guarded env dc p input owner tok) (\<lambda>r.
             bind_act (emit (Unguard (mutation_lock_key dc))) (\<lambda>_. ret r))) (stage_end ?need)"
      using body by (cases g) (simp_all add: idle_def obeys_return)
  qed
  show "obeys (stage_delta ?need) idle (stage_config env sv input owner grant tok) (stage_end ?need)" unfolding stage_config_def
    by (rule obeys_tryS, rule obeys_mono [OF checks])
       (auto simp: idle_def split: sum.splits intro!: guarded [unfolded idle_def])
qed (rule stage_locks_first)

section \<open>What must hold before the change is sent\<close>

text \<open>C17. The device's candidate is changed only if it is the one the caller saw and nobody else
  has touched it: either a stage sends no change at all, or it has just read a fingerprint equal to
  the expected one and then a clean candidate, and the very next event is the change.\<close>

theorem stage_change_is_checked:
  "case run_state (stage_mutate env dc input r) w of (x, w') \<Rightarrow>
     (\<exists>es. wlog w' = es @ wlog w \<and> list_all (\<lambda>e. \<not> is_change e) es)
     \<or> (\<exists>w1 w2 es. run_state (candidate_fingerprint env dc Fresh) w = (Inr (si_expected input), w1)
          \<and> run_state (require_clean_candidate env dc Fresh) w1 = (Inr (), w2)
          \<and> wlog w' = es @ [Sent (device_name dc) (with_vsys dc (change_fields (si_action input)))] @ wlog w2
          \<and> list_all (\<lambda>e. \<not> is_change e) es)"
proof -
  obtain x w' where run: "run_state (stage_mutate env dc input r) w = (x, w')" by fastforce
  obtain f w1 where f: "run_state (candidate_fingerprint env dc Fresh) w = (f, w1)" by fastforce
  obtain c w2 where c: "run_state (require_clean_candidate env dc Fresh) w1 = (c, w2)" by fastforce
  obtain a w3 where a: "run_state (post_fields env dc (change_fields (si_action input)) Fresh) w2 = (a, w3)" by fastforce
  obtain es1 where es1: "wlog w1 = es1 @ wlog w" "list_all (\<lambda>e. \<not> is_change e) es1"
    using quiet_no_change [OF unchanged.quiet_fingerprint f] by blast
  obtain es2 where es2: "wlog w2 = es2 @ wlog w1" "list_all (\<lambda>e. \<not> is_change e) es2"
    using quiet_no_change [OF unchanged.quiet_clean c] by blast
  have sent: "if e_header_ok env (dc_api_key dc)
      then wlog w3 = Sent (device_name dc) (with_vsys dc (change_fields (si_action input))) # wlog w2
      else wlog w3 = wlog w2 \<and> \<not> is_ok a"
    using a by (auto simp: post_fields_def post_def send_def transmit_def record_auth_failure_def record_auth_result_def
        run_simps Let_def split: sum.splits prod.splits if_splits)
  let ?rest = "tryS (candidate_fingerprint env dc Fresh) (\<lambda>after.
     tryS (op_update env (r\<lparr>op_current := after, op_state := Staged\<rparr>)) (\<lambda>_.
       ret (Inr \<lparr>so_operation = op_id r, so_device = si_device input, so_before = si_expected input,
                so_after = after, so_lock_held = op_lock_held r\<rparr>)))"
  have rest: "obeys unchanged () ?rest (\<lambda>_ q. q = ())"
    unfolding op_update_def
    by (intro unchanged.quiet_tryS unchanged.quiet_fingerprint obeys_ask_bind)
       (auto simp: unchanged_def is_change_def intro!: obeys_return obeys_ask_bind)
  show ?thesis
  proof (cases "f = Inr (si_expected input) \<and> c = Inr () \<and> e_header_ok env (dc_api_key dc) \<and> is_ok (validate_fingerprint (si_expected input))")
    case False
    have "wlog w' = wlog w1 \<or> wlog w' = wlog w2"
      using run f c a sent False
      by (auto simp: stage_mutate_def run_simps require_fingerprint_def and_then_def split: sum.splits if_splits)
    with es1 es2 show ?thesis unfolding run by (auto intro: exI [of _ "es2 @ es1"])
  next
    case True
    then have now: "wlog w3 = Sent (device_name dc) (with_vsys dc (change_fields (si_action input))) # wlog w2"
      using sent by simp
    have "\<exists>es. wlog w' = es @ wlog w3 \<and> list_all (\<lambda>e. \<not> is_change e) es"
    proof (cases a)
      case (Inl e)
      have "w' = w3"
        using run f c a True Inl by (auto simp: stage_mutate_def run_simps require_fingerprint_def and_then_def split: sum.splits)
      then show ?thesis by simp
    next
      case (Inr v)
      have "run_state ?rest w3 = (x, w')"
        using run f c a True Inr by (auto simp: stage_mutate_def run_simps require_fingerprint_def and_then_def is_ok_iff)
      then show ?thesis using quiet_no_change [OF rest] by blast
    qed
    then show ?thesis using True f c now unfolding run by auto
  qed
qed

section \<open>A stage can fail after the device accepted the change\<close>

definition sample_stage :: stage_input where
  "sample_stage = \<lparr>si_device = ''fw1'', si_expected = script_hash, si_action = script_action\<rparr>"

text \<open>A stage whose change the device accepted fails when the fingerprint cannot be read afterwards:
  the caller gets an error and the operation record is removed, but no revert is sent, so the
  change stays in the candidate with no operation to discard it by.\<close>

lemma stage_can_leave_change:
  "(\<lambda>(x, w). \<not> is_ok x \<and> list_ex is_change (wlog w)
     \<and> list_ex (\<lambda>e. case e of OpRemove _ \<Rightarrow> True | _ \<Rightarrow> False) (wlog w)
     \<and> list_all (\<lambda>e. case e of Sent d fs \<Rightarrow> kind_of fs \<noteq> Revert | _ \<Rightarrow> True) (wlog w))
   (run_state (stage_guarded mute_after_change sample_device sample_policy sample_stage ''alice'' Fresh) start_world)"
  by code_simp

end
