(* ===== verification/CommandPolicy.thy ===== *)
theory CommandPolicy
  imports Lifecycle
begin

text \<open>
  Building the service and the command and XPath policies: \<^verbatim>\<open>rust-panosmcp-core/src/tools.rs\<close>,
  \<open>build\<close>, \<open>reload\<close>, \<open>build_deny_policy\<close>, \<open>build_command_allowlists\<close>, \<open>check_command_policy\<close>,
  \<open>check_xpath_policy\<close>.  Compiling and matching rules is the policy crate's: the record
  \<open>policy_lib\<close>.
\<close>

section \<open>The policy crate\<close>

text \<open>A compiled rule list or allowlist, which the program only stores and passes on.\<close>

type_synonym rules = "string list"

record compiled_policy =
  cp_mode :: policy_mode
  cp_commands :: "(string \<times> rules) list"
  cp_allow :: rules
  cp_pipes :: rules
  cp_config :: "(string \<times> rules) list"

datatype decision = Allow | Deny string string | DenyAllowlist string string

text \<open>\<open>pl_check_command\<close> gives a \<open>Decision\<close>; \<open>pl_config_match\<close> is \<open>config_rules_for\<close> then
  \<open>evaluate\<close>: source and pattern of the matching deny rule.  A compile error has a scope, an
  entry and a message.\<close>

record policy_lib =
  pl_compile_rules :: "string list \<Rightarrow> string \<Rightarrow> (string \<times> string \<times> string) + rules"
  pl_compile_allow :: "string list \<Rightarrow> string \<Rightarrow> (string \<times> string \<times> string) + rules"
  pl_normalize :: "string \<Rightarrow> string"
  pl_check_command :: "compiled_policy \<Rightarrow> string \<Rightarrow> string \<Rightarrow> decision"
  pl_config_match :: "compiled_policy \<Rightarrow> string \<Rightarrow> string \<Rightarrow> (string \<times> string) option"

record tool_service = service +
  ts_inventory :: inventory
  ts_deny :: "compiled_policy option"
  ts_mode :: policy_mode
  ts_allow :: "(string \<times> compiled_policy) list"

section \<open>Deny rules\<close>

definition quoted :: "string \<Rightarrow> string" where
  "quoted s = [CHR 0x27] @ s @ [CHR 0x27]"

definition glob_special :: "char \<Rightarrow> bool" where
  "glob_special c \<longleftrightarrow> c = CHR ''['' \<or> c = CHR '']'' \<or> c = CHR ''?'' \<or> c = CHR 0x5C"

definition escape_xpath_glob_metacharacters :: "string \<Rightarrow> string" where
  "escape_xpath_glob_metacharacters pattern =
     concat (map (\<lambda>c. if glob_special c then [CHR 0x5C, c] else [c]) pattern)"

definition xpath_rule :: "lib \<Rightarrow> string \<Rightarrow> string \<Rightarrow> string res" where
  "xpath_rule lb device pattern =
     (if CHR 0x5C \<in> set pattern
      then Inl (Inventory (''device '' @ quoted device @ '' blocklist xpath pattern '' @ quoted pattern
             @ '' must not contain '' @ quoted [CHR 0x5C]))
      else Inr (escape_xpath_glob_metacharacters (canonicalize_xpath_quotes (unicode_alphanumeric lb) pattern)))"

definition compile_error :: "string \<Rightarrow> (string \<times> string \<times> string) \<Rightarrow> panos_error" where
  "compile_error what e = (case e of (scope, pattern, err) \<Rightarrow>
     Inventory (''device '' @ quoted scope @ what @ quoted pattern @ '' is invalid: '' @ err))"

definition command_rules :: "policy_lib \<Rightarrow> policy_mode \<Rightarrow> device_config \<Rightarrow> blocklist_rules \<Rightarrow> rules option res" where
  "command_rules pl mode dc bl =
     (if mode = Blocklist \<and> bl_commands bl \<noteq> []
      then and_then (map_err (compile_error '' blocklist command pattern '')
             (pl_compile_rules pl (bl_commands bl) (device_name dc))) (\<lambda>r. Inr (Some r))
      else Inr None)"

definition xpath_rules :: "lib \<Rightarrow> policy_lib \<Rightarrow> device_config \<Rightarrow> blocklist_rules \<Rightarrow> rules option res" where
  "xpath_rules lb pl dc bl =
     (if bl_xpath bl \<noteq> []
      then and_then (collect_results (xpath_rule lb (device_name dc)) (bl_xpath bl)) (\<lambda>patterns.
           and_then (map_err (compile_error '' blocklist xpath pattern '')
             (pl_compile_rules pl patterns (device_name dc))) (\<lambda>r. Inr (Some r)))
      else Inr None)"

definition add_rules :: "string \<Rightarrow> rules option \<Rightarrow> (string \<times> rules) list \<Rightarrow> (string \<times> rules) list" where
  "add_rules name r m = (case r of None \<Rightarrow> m | Some rs \<Rightarrow> (name, rs) # m)"

fun deny_domains ::
  "lib \<Rightarrow> policy_lib \<Rightarrow> policy_mode \<Rightarrow> device_config list \<Rightarrow> (string \<times> rules) list \<times> (string \<times> rules) list
     \<Rightarrow> ((string \<times> rules) list \<times> (string \<times> rules) list) res" where
  "deny_domains lb pl mode [] acc = Inr acc"
| "deny_domains lb pl mode (dc # dcs) (cmds, cfg) =
     (case dc_blocklist dc of
        None \<Rightarrow> deny_domains lb pl mode dcs (cmds, cfg)
      | Some bl \<Rightarrow>
          and_then (command_rules pl mode dc bl) (\<lambda>c.
          and_then (xpath_rules lb pl dc bl) (\<lambda>x.
            deny_domains lb pl mode dcs (add_rules (device_name dc) c cmds, add_rules (device_name dc) x cfg))))"

definition build_deny_policy :: "lib \<Rightarrow> policy_lib \<Rightarrow> device_config list \<Rightarrow> policy_mode \<Rightarrow> compiled_policy option res" where
  "build_deny_policy lb pl devices mode =
     and_then (deny_domains lb pl mode devices ([], [])) (\<lambda>(cmds, cfg).
       Inr (if cmds = [] \<and> cfg = [] then None
            else Some \<lparr>cp_mode = mode, cp_commands = cmds, cp_allow = [], cp_pipes = [], cp_config = cfg\<rparr>))"

section \<open>Allowlists\<close>

definition device_allowlist :: "policy_lib \<Rightarrow> inventory \<Rightarrow> device_config \<Rightarrow> (string \<times> compiled_policy) res" where
  "device_allowlist pl iv dc =
     (let (allow, pipes) = (case dc_blocklist dc of
            None \<Rightarrow> (inv_allow_defaults iv, inv_pipes_defaults iv)
          | Some bl \<Rightarrow> (inv_allow_defaults iv @ bl_allow bl, inv_pipes_defaults iv @ bl_allowed_pipes bl)) in
      and_then (map_err (compile_error '' policy.allow entry '') (pl_compile_allow pl allow (device_name dc))) (\<lambda>entries.
      and_then (map_err (compile_error '' policy.allowed_pipes entry '') (pl_compile_allow pl pipes (device_name dc))) (\<lambda>pipe_entries.
        Inr (device_name dc, \<lparr>cp_mode = Allowlist, cp_commands = [], cp_allow = entries,
                             cp_pipes = pipe_entries, cp_config = []\<rparr>))))"

definition build_command_allowlists ::
  "policy_lib \<Rightarrow> inventory \<Rightarrow> policy_mode \<Rightarrow> (string \<times> compiled_policy) list res" where
  "build_command_allowlists pl iv mode =
     (if mode \<noteq> Allowlist then Inr []
      else collect_results (device_allowlist pl iv) (map snd (inv_devices iv)))"

section \<open>The service\<close>

text \<open>\<open>connect\<close> is the construction of the HTTP client and the API URL of a device, by the HTTP
  crate.  \<open>refusal\<close> is the text of a refused direct commit.\<close>

definition build ::
  "lib \<Rightarrow> policy_lib \<Rightarrow> (device_config \<Rightarrow> unit res) \<Rightarrow> inventory \<Rightarrow> bool \<Rightarrow> string option \<Rightarrow> tool_service res" where
  "build lb pl connect iv allow_plane refusal =
     and_then (check_all connect (map snd (inv_devices iv))) (\<lambda>_.
     let mode = inv_policy_mode iv in
     and_then (build_deny_policy lb pl (map snd (inv_devices iv)) mode) (\<lambda>deny.
     and_then (build_command_allowlists pl iv mode) (\<lambda>allow.
       Inr \<lparr>sv_clients = map (\<lambda>dc. (device_name dc, dc)) (map snd (inv_devices iv)),
            sv_direct_commit = refusal, sv_allow_plane = allow_plane,
            ts_inventory = iv, ts_deny = deny, ts_mode = mode, ts_allow = allow\<rparr>)))"

definition reload_service ::
  "lib \<Rightarrow> policy_lib \<Rightarrow> (device_config \<Rightarrow> unit res) \<Rightarrow> inventory \<Rightarrow> tool_service \<Rightarrow> tool_service res" where
  "reload_service lb pl connect iv previous =
     build lb pl connect iv (sv_allow_plane previous) (sv_direct_commit previous)"

text \<open>The coordinator's client list of the service, and the readiness probe.\<close>

definition base_service :: "tool_service \<Rightarrow> service" where
  "base_service ts = service.truncate ts"

definition auth_health_check :: "tool_service \<Rightarrow> world \<Rightarrow> string + unit" where
  "auth_health_check ts w =
     (if list_all (\<lambda>(_, dc). is_auth_healthy w dc) (sv_clients ts) then Inr ()
      else Inl ''PAN-OS authentication failed for one or more devices'')"

section \<open>Checks\<close>

definition command_decision ::
  "lib \<Rightarrow> policy_lib \<Rightarrow> tool_service \<Rightarrow> string \<Rightarrow> string \<Rightarrow> decision option res" where
  "command_decision lb pl ts device command =
     (case ts_mode ts of
        Blocklist \<Rightarrow> Inr (map_option (\<lambda>p. pl_check_command pl p device (pl_normalize pl command)) (ts_deny ts))
      | Allowlist \<Rightarrow>
          and_then (ok_or (UnknownDevice device) (map_of (ts_allow ts) device)) (\<lambda>p.
          and_then (op_command_tag_path lb command) (\<lambda>path.
            Inr (Some (pl_check_command pl p device path)))))"

definition check_command_policy ::
  "lib \<Rightarrow> policy_lib \<Rightarrow> tool_service \<Rightarrow> string \<Rightarrow> string \<Rightarrow> unit res" where
  "check_command_policy lb pl ts device command =
     and_then (command_decision lb pl ts device command) (\<lambda>d.
       case d of
         Some (Deny source pattern) \<Rightarrow>
           Inl (Policy ''command'' (''blocked by '' @ source @ '' blocklist rule '' @ quoted pattern))
       | Some (DenyAllowlist reason normalized) \<Rightarrow>
           Inl (Policy ''command'' (''refused by allowlist ('' @ reason @ ''); normalized input: '' @ normalized))
       | _ \<Rightarrow> Inr ())"

definition check_xpath_policy :: "lib \<Rightarrow> policy_lib \<Rightarrow> tool_service \<Rightarrow> string \<Rightarrow> string \<Rightarrow> unit res" where
  "check_xpath_policy lb pl ts device xpath =
     (case ts_deny ts of None \<Rightarrow> Inr ()
      | Some p \<Rightarrow>
        (case pl_config_match pl p device (pl_normalize pl (canonicalize_xpath_quotes (unicode_alphanumeric lb) xpath)) of
           None \<Rightarrow> Inr ()
         | Some (source, pattern) \<Rightarrow>
             Inl (Policy ''xpath'' (''blocked by '' @ source @ '' blocklist rule '' @ quoted pattern))))"

end
