(* ===== verification/Advisory.thy ===== *)
theory Advisory
  imports Prelude
begin

text \<open>
  The version advisory: \<^verbatim>\<open>rust-panosmcp-core/src/version_advisory.rs\<close>.
\<close>

record panos_version =
  pv_major :: nat
  pv_minor :: nat
  pv_maintenance :: nat
  pv_hotfix :: nat

text \<open>The derived \<open>Ord\<close>: fields in declaration order.\<close>

definition version_less :: "panos_version \<Rightarrow> panos_version \<Rightarrow> bool" where
  "version_less a b \<longleftrightarrow>
     pv_major a < pv_major b \<or> pv_major a = pv_major b \<and>
     (pv_minor a < pv_minor b \<or> pv_minor a = pv_minor b \<and>
     (pv_maintenance a < pv_maintenance b \<or> pv_maintenance a = pv_maintenance b \<and> pv_hotfix a < pv_hotfix b))"

text \<open>\<open>str::split\<close> and \<open>split_once\<close> on a character.\<close>

fun split_on :: "char \<Rightarrow> string \<Rightarrow> string list" where
  "split_on c [] = [[]]"
| "split_on c (x # xs) =
     (if x = c then [] # split_on c xs
      else (case split_on c xs of [] \<Rightarrow> [[x]] | p # ps \<Rightarrow> (x # p) # ps))"

definition split_once :: "char \<Rightarrow> string \<Rightarrow> (string \<times> string) option" where
  "split_once c s = map_option (\<lambda>i. (take i s, drop (i + 1) s)) (find_pos (\<lambda>x. x = c) s)"

definition parse_hotfix :: "string option \<Rightarrow> nat option" where
  "parse_hotfix suffix =
     (case suffix of None \<Rightarrow> Some 0
      | Some s \<Rightarrow> Option.bind (strip_prefix ''h'' s) (parse_unsigned 32))"

definition parse_version :: "string \<Rightarrow> panos_version option" where
  "parse_version raw =
     (let (base, suffix) = (case split_once (CHR ''-'') raw of
            Some (b, s) \<Rightarrow> (b, Some s) | None \<Rightarrow> (raw, None)) in
      case split_on (CHR ''.'') base of
        [a, b, c] \<Rightarrow>
          Option.bind (parse_unsigned 32 a) (\<lambda>major.
          Option.bind (parse_unsigned 32 b) (\<lambda>minor.
          Option.bind (parse_unsigned 32 c) (\<lambda>maintenance.
          Option.bind (parse_hotfix suffix) (\<lambda>hotfix.
            Some \<lparr>pv_major = major, pv_minor = minor, pv_maintenance = maintenance, pv_hotfix = hotfix\<rparr>))))
      | _ \<Rightarrow> None)"

definition version_train :: "panos_version \<Rightarrow> nat \<times> nat" where
  "version_train v = (pv_major v, pv_minor v)"

definition fix_levels :: "((nat \<times> nat) \<times> string) list" where
  "fix_levels =
     [((10, 2), ''10.2.18-h10''), ((11, 1), ''11.1.16-h2''), ((11, 2), ''11.2.13-h2''),
      ((12, 1), ''12.1.10''), ((12, 2), ''12.2.3'')]"

text \<open>\<open>None\<close> also where a built-in level fails to parse, which \<open>expect\<close> makes a panic in the code.\<close>

definition cve_2026_0310_warning :: "string \<Rightarrow> string option" where
  "cve_2026_0310_warning sw =
     Option.bind (parse_version sw) (\<lambda>v.
     Option.bind (map_of fix_levels (version_train v)) (\<lambda>level.
     Option.bind (parse_version level) (\<lambda>fixed.
       if version_less v fixed
       then Some (''PAN-OS '' @ sw @ '' on the '' @ show_nat (pv_major v) @ ''.'' @ show_nat (pv_minor v)
         @ '' train is below '' @ level @ '', the fix level for CVE-2026-0310; upgrade to ''
         @ level @ '' or later.'')
       else None)))"

end
