(* ===== verification/Reads.thy ===== *)
theory Reads
  imports CommandPolicy Redact Advisory
begin

text \<open>
  The read tools: \<^verbatim>\<open>rust-panosmcp-core/src/tools.rs\<close>.  Each tool is one \<open>act\<close>; its checks come before
  the request, and the XML it hands out is redacted first.
\<close>

section \<open>Output bounds\<close>

definition "default_output_bytes = (512 * 1024 :: nat)"
definition "max_output_bytes = (5 * 1024 * 1024 :: nat)"
definition "default_output_lines = (10000 :: nat)"
definition "max_output_lines = (100000 :: nat)"
definition "default_list_limit = (100 :: nat)"
definition "max_list_limit = (500 :: nat)"
definition "default_log_limit = (100 :: nat)"
definition "max_log_limit = (1000 :: nat)"
definition "max_log_query_bytes = (4096 :: nat)"
definition "single_entry_depth = (2 :: nat)"
definition "max_template_variables = (4096 :: nat)"
definition "max_policy_match_field_bytes = (255 :: nat)"

definition or_default :: "'a \<Rightarrow> 'a option \<Rightarrow> 'a" where
  "or_default d x = (case x of None \<Rightarrow> d | Some v \<Rightarrow> v)"

record output_limits =
  ol_bytes :: nat
  ol_lines :: nat

definition range_error :: "string \<Rightarrow> nat \<Rightarrow> panos_error" where
  "range_error field cap = Policy field (''value must be between 1 and '' @ show_nat cap)"

definition resolve_limits :: "nat option \<Rightarrow> nat option \<Rightarrow> output_limits res" where
  "resolve_limits bytes lns =
     (let b = or_default default_output_bytes bytes; l = or_default default_output_lines lns in
      if \<not> (1 \<le> b \<and> b \<le> max_output_bytes) then Inl (range_error ''max_bytes'' max_output_bytes)
      else if \<not> (1 \<le> l \<and> l \<le> max_output_lines) then Inl (range_error ''max_lines'' max_output_lines)
      else Inr \<lparr>ol_bytes = b, ol_lines = l\<rparr>)"

definition newline :: char where "newline = CHR 0x0A"

text \<open>\<open>str::lines().count()\<close>: a final line without a terminator counts.\<close>

definition line_count :: "string \<Rightarrow> nat" where
  "line_count s = length (filter (\<lambda>c. c = newline) s) + (if s \<noteq> [] \<and> last s \<noteq> newline then 1 else 0)"

text \<open>\<open>match_indices\<close> on the newline, then \<open>nth\<close>.\<close>

fun nth_newline :: "nat \<Rightarrow> string \<Rightarrow> nat option" where
  "nth_newline n [] = None"
| "nth_newline n (c # cs) =
     (if c = newline then (case n of 0 \<Rightarrow> Some 0 | Suc m \<Rightarrow> map_option Suc (nth_newline m cs))
      else map_option Suc (nth_newline n cs))"

record bounded_text =
  bt_content :: string
  bt_original_bytes :: nat
  bt_original_lines :: nat
  bt_returned_bytes :: nat
  bt_returned_lines :: nat
  bt_truncated :: bool

definition text_boundary :: "string \<Rightarrow> output_limits \<Rightarrow> nat" where
  "text_boundary input limits =
     (let b = floor_boundary input (min (length input) (ol_bytes limits)) in
      if ol_lines limits < line_count input
      then (case nth_newline (ol_lines limits - 1) input of Some i \<Rightarrow> min b i | None \<Rightarrow> b)
      else b)"

definition bound_text :: "string \<Rightarrow> output_limits \<Rightarrow> bounded_text" where
  "bound_text input limits =
     (let b = text_boundary input limits; content = take b input in
      \<lparr>bt_content = content, bt_original_bytes = length input, bt_original_lines = line_count input,
       bt_returned_bytes = length content, bt_returned_lines = line_count content,
       bt_truncated = (b < length input)\<rparr>)"

section \<open>Commands\<close>

definition system_info_command :: string where
  "system_info_command = ''<show><system><info></info></system></show>''"
definition ha_state_command :: string where
  "ha_state_command = ''<show><high-availability><state></state></high-availability></show>''"
definition license_info_command :: string where
  "license_info_command = ''<request><license><info></info></license></request>''"
definition content_info_command :: string where
  "content_info_command = ''<request><content><upgrade><info></info></upgrade></content></request>''"
definition software_info_command :: string where
  "software_info_command = ''<request><system><software><info></info></software></system></request>''"
definition panorama_device_groups_op_command :: string where
  "panorama_device_groups_op_command = ''<show><devicegroups></devicegroups></show>''"
definition panorama_templates_op_command :: string where
  "panorama_templates_op_command = ''<show><templates></templates></show>''"
definition panorama_template_xpath :: string where
  "panorama_template_xpath = ''/config/devices/entry[@name='' @ quoted ''localhost.localdomain'' @ '']/template''"

section \<open>Operational reads\<close>

definition list_devices :: "tool_service \<Rightarrow> device_metadata list" where
  "list_devices ts = inventory_metadata (ts_inventory ts)"

definition client_of :: "tool_service \<Rightarrow> string \<Rightarrow> device_config res" where
  "client_of ts name = find_client (base_service ts) name"

record facts_output =
  fo_device :: string
  fo_facts :: device_facts
  fo_advisories :: "string list"

definition gather_device_facts :: "env \<Rightarrow> tool_service \<Rightarrow> string \<Rightarrow> token \<Rightarrow> facts_output res act" where
  "gather_device_facts env ts device tok =
     tryS (lift_res (client_of ts device)) (\<lambda>dc.
     tryS (operational env dc system_info_command tok) (\<lambda>response.
     tryS (lift_res (parse_device_facts (e_lib env) response)) (\<lambda>facts.
       ret (Inr \<lparr>fo_device = device, fo_facts = facts,
         fo_advisories = (case Option.bind (fact_software_version facts) cve_2026_0310_warning of
                            None \<Rightarrow> [] | Some t \<Rightarrow> [t])\<rparr>))))"

record xml_output =
  xo_device :: string
  xo_status :: string
  xo_code :: "int option"
  xo_output :: bounded_text

definition execute_panos_op ::
  "env \<Rightarrow> policy_lib \<Rightarrow> tool_service \<Rightarrow> string \<Rightarrow> string \<Rightarrow> nat option \<Rightarrow> nat option \<Rightarrow> token \<Rightarrow> xml_output res act" where
  "execute_panos_op env pl ts device command bytes lns tok =
     tryS (lift_res (validate_read_only_op_command (e_lib env) command)) (\<lambda>_.
     tryS (lift_res (check_command_policy (e_lib env) pl ts device command)) (\<lambda>_.
     tryS (lift_res (resolve_limits bytes lns)) (\<lambda>limits.
     tryS (lift_res (client_of ts device)) (\<lambda>dc.
     tryS (operational env dc command tok) (\<lambda>response.
       ret (Inr \<lparr>xo_device = device, xo_status = resp_status response, xo_code = resp_code response,
         xo_output = bound_text (redact_device_xml (e_lib env) (resp_xml response)) limits\<rparr>))))))"

definition get_panos_ha_state :: "env \<Rightarrow> tool_service \<Rightarrow> string \<Rightarrow> token \<Rightarrow> (string \<times> ha_state) res act" where
  "get_panos_ha_state env ts device tok =
     tryS (lift_res (client_of ts device)) (\<lambda>dc.
     tryS (operational env dc ha_state_command tok) (\<lambda>response.
     tryS (lift_res (parse_ha_state (e_lib env) response)) (\<lambda>st. ret (Inr (device, st)))))"

definition get_panos_license_info :: "env \<Rightarrow> tool_service \<Rightarrow> string \<Rightarrow> token \<Rightarrow> (string \<times> license_entry list) res act" where
  "get_panos_license_info env ts device tok =
     tryS (lift_res (client_of ts device)) (\<lambda>dc.
     tryS (fixed_op env dc license_info_command tok) (\<lambda>response.
     tryS (lift_res (parse_license_entries (e_lib env) response)) (\<lambda>l. ret (Inr (device, l)))))"

definition get_panos_content_status ::
  "env \<Rightarrow> tool_service \<Rightarrow> string \<Rightarrow> token \<Rightarrow> (string \<times> content_version_entry list) res act" where
  "get_panos_content_status env ts device tok =
     tryS (lift_res (client_of ts device)) (\<lambda>dc.
     tryS (fixed_op env dc content_info_command tok) (\<lambda>response.
     tryS (lift_res (parse_content_entries (e_lib env) response)) (\<lambda>l. ret (Inr (device, l)))))"

definition get_panos_software_status ::
  "env \<Rightarrow> tool_service \<Rightarrow> string \<Rightarrow> token \<Rightarrow> (string \<times> software_version_entry list) res act" where
  "get_panos_software_status env ts device tok =
     tryS (lift_res (client_of ts device)) (\<lambda>dc.
     tryS (fixed_op env dc software_info_command tok) (\<lambda>response.
     tryS (lift_res (parse_software_entries (e_lib env) response)) (\<lambda>l. ret (Inr (device, l)))))"

section \<open>Configuration reads\<close>

datatype config_source = Running | Candidate

definition redact_entry :: "lib \<Rightarrow> config_entry \<Rightarrow> config_entry" where
  "redact_entry lb e = e\<lparr>entry_xml := redact_device_xml lb (entry_xml e)\<rparr>"

record config_output =
  cfo_device :: string
  cfo_source :: config_source
  cfo_xpath :: string
  cfo_status :: string
  cfo_code :: "int option"
  cfo_output :: bounded_text

definition get_panos_config ::
  "env \<Rightarrow> policy_lib \<Rightarrow> tool_service \<Rightarrow> string \<Rightarrow> config_source \<Rightarrow> string option \<Rightarrow> nat option \<Rightarrow> nat option \<Rightarrow> token
     \<Rightarrow> config_output res act" where
  "get_panos_config env pl ts device source xpath_opt bytes lns tok =
     (let xpath = or_default ''/config'' xpath_opt in
      tryS (lift_res (validate_read_xpath xpath)) (\<lambda>_.
      tryS (lift_res (check_xpath_policy (e_lib env) pl ts device xpath)) (\<lambda>_.
      tryS (lift_res (resolve_limits bytes lns)) (\<lambda>limits.
      tryS (lift_res (client_of ts device)) (\<lambda>dc.
      tryS (configuration env dc (source = Candidate) xpath tok) (\<lambda>response.
        ret (Inr \<lparr>cfo_device = device, cfo_source = source, cfo_xpath = xpath,
          cfo_status = resp_status response, cfo_code = resp_code response,
          cfo_output = bound_text (redact_device_xml (e_lib env) (resp_xml response)) limits\<rparr>)))))))"

definition scan_is_success :: "entry_scan_result \<Rightarrow> bool" where
  "scan_is_success scan \<longleftrightarrow> eq_ignore_ascii_case (scan_status scan) ''success'' \<and>
     (case scan_code scan of None \<Rightarrow> True | Some c \<Rightarrow> \<not> ((1 \<le> c \<and> c \<le> 18) \<or> 21 \<le> c))"

definition ensure_scan_success :: "lib \<Rightarrow> string \<Rightarrow> string \<Rightarrow> entry_scan_result \<Rightarrow> unit res" where
  "ensure_scan_success lb device raw scan =
     (if scan_is_success scan then Inr ()
      else
       (let code = or_default (- 1) (scan_code scan);
            message = (case collect_text_for_elements lb raw [''msg'', ''line''] 1024 of
                Inr m \<Rightarrow> if m = [] then ''PAN-OS returned an error without a message'' else m
              | Inl _ \<Rightarrow> ''PAN-OS returned an error without a message'') in
        Inl (api_error (redact_text lb) device code (panos_api_code_name code) message)))"

record entries_output =
  eo_device :: string
  eo_source :: config_source
  eo_xpath :: string
  eo_entries :: "config_entry list"
  eo_offset :: nat
  eo_limit :: nat
  eo_returned :: nat
  eo_total :: nat
  eo_truncated :: bool

definition list_page ::
  "env \<Rightarrow> policy_lib \<Rightarrow> tool_service \<Rightarrow> string \<Rightarrow> config_source \<Rightarrow> string \<Rightarrow> nat option \<Rightarrow> nat option \<Rightarrow> token
     \<Rightarrow> entries_output res act" where
  "list_page env pl ts device source xpath offset_opt limit_opt tok =
     tryS (lift_res (validate_read_xpath xpath)) (\<lambda>_.
     tryS (lift_res (check_xpath_policy (e_lib env) pl ts device xpath)) (\<lambda>_.
     let offset = or_default 0 offset_opt; limit = or_default default_list_limit limit_opt in
     if limit = 0 \<or> max_list_limit < limit then ret (Inl (range_error ''limit'' max_list_limit))
     else
       tryS (lift_res (client_of ts device)) (\<lambda>dc.
       tryS (configuration_entries env dc (source = Candidate) xpath tok) (\<lambda>(bytes, response_truncated).
       tryS (lift_res (scan_config_entries (e_lib env) bytes offset limit list_container_entry_depth)) (\<lambda>scan.
       tryS (lift_res (ensure_scan_success (e_lib env) device bytes scan)) (\<lambda>_.
       let entries = map (redact_entry (e_lib env)) (scan_entries scan); returned = length entries in
         ret (Inr \<lparr>eo_device = device, eo_source = source, eo_xpath = xpath, eo_entries = entries,
           eo_offset = offset, eo_limit = limit, eo_returned = returned, eo_total = total_seen scan,
           eo_truncated = (response_truncated \<or> truncated scan \<or> offset + returned < total_seen scan)\<rparr>)))))))"

definition list_panos_entries ::
  "env \<Rightarrow> policy_lib \<Rightarrow> tool_service \<Rightarrow> string \<Rightarrow> config_source \<Rightarrow> string \<Rightarrow> nat option \<Rightarrow> nat option \<Rightarrow> token
     \<Rightarrow> entries_output res act" where
  "list_panos_entries env pl ts device source xpath offset limit tok =
     list_page env pl ts device source xpath offset limit tok"

datatype rulebase_kind = SecurityRules | NatRules | AddressObjects | ServiceObjects

fun xpath_suffix :: "rulebase_kind \<Rightarrow> string" where
  "xpath_suffix SecurityRules = ''rule-base/security/rules''"
| "xpath_suffix NatRules = ''rule-base/nat/rules''"
| "xpath_suffix AddressObjects = ''address''"
| "xpath_suffix ServiceObjects = ''service''"

definition vsys_char :: "char \<Rightarrow> bool" where
  "vsys_char c \<longleftrightarrow> is_ascii_alphanumeric c \<or> c = CHR ''-'' \<or> c = CHR ''_'' \<or> c = CHR ''.''"

definition validate_vsys_name :: "string \<Rightarrow> unit res" where
  "validate_vsys_name vsys =
     (if vsys = [] \<or> 63 < length vsys \<or> \<not> list_all vsys_char vsys
      then Inl (Policy ''vsys''
        (''value must be 1-63 ASCII alphanumeric, '' @ quoted ''-'' @ '', '' @ quoted ''_'' @ '', or ''
          @ quoted ''.'' @ '' characters''))
      else Inr ())"

definition rulebase_xpath :: "string \<Rightarrow> rulebase_kind \<Rightarrow> string" where
  "rulebase_xpath vsys kind =
     ''/config/devices/entry[@name='' @ quoted ''localhost.localdomain'' @ '']/vsys/entry[@name=''
       @ quoted vsys @ '']/'' @ xpath_suffix kind"

record rulebase_output =
  rbo_kind :: rulebase_kind
  rbo_vsys :: string
  rbo_entries :: entries_output

definition list_panos_rulebase_entries ::
  "env \<Rightarrow> policy_lib \<Rightarrow> tool_service \<Rightarrow> string \<Rightarrow> config_source \<Rightarrow> rulebase_kind \<Rightarrow> string \<Rightarrow> nat option \<Rightarrow> nat option \<Rightarrow> token
     \<Rightarrow> rulebase_output res act" where
  "list_panos_rulebase_entries env pl ts device source kind vsys offset limit tok =
     tryS (lift_res (validate_vsys_name vsys)) (\<lambda>_.
     tryS (list_page env pl ts device source (rulebase_xpath vsys kind) offset limit tok) (\<lambda>page.
       ret (Inr \<lparr>rbo_kind = kind, rbo_vsys = vsys, rbo_entries = page\<rparr>)))"

record digest_output =
  dgo_device :: string
  dgo_source :: config_source
  dgo_xpath :: string
  dgo_found :: bool
  dgo_name :: "string option"
  dgo_digest :: "string option"

definition get_panos_entry_digest ::
  "env \<Rightarrow> policy_lib \<Rightarrow> tool_service \<Rightarrow> string \<Rightarrow> config_source \<Rightarrow> string \<Rightarrow> token \<Rightarrow> digest_output res act" where
  "get_panos_entry_digest env pl ts device source xpath tok =
     tryS (lift_res (validate_read_xpath xpath)) (\<lambda>_.
     if \<not> ends_with '']'' xpath
     then ret (Inl (Policy ''xpath'' (''must select exactly one entry via a [@name='' @ quoted ''...'' @ ''] predicate'')))
     else
       tryS (lift_res (check_xpath_policy (e_lib env) pl ts device xpath)) (\<lambda>_.
       tryS (lift_res (client_of ts device)) (\<lambda>dc.
       tryS (configuration env dc (source = Candidate) xpath tok) (\<lambda>response.
       tryS (lift_res (scan_config_entries (e_lib env) (resp_xml response) 0 1 single_entry_depth)) (\<lambda>scan.
         ret (Inr (case scan_entries scan of
             e # _ \<Rightarrow> \<lparr>dgo_device = device, dgo_source = source, dgo_xpath = xpath, dgo_found = True,
                       dgo_name = Some (entry_name e), dgo_digest = Some (entry_digest e)\<rparr>
           | [] \<Rightarrow> \<lparr>dgo_device = device, dgo_source = source, dgo_xpath = xpath, dgo_found = False,
                     dgo_name = None, dgo_digest = None\<rparr>)))))))"

section \<open>Panorama\<close>

definition list_panorama_device_groups ::
  "env \<Rightarrow> tool_service \<Rightarrow> string \<Rightarrow> token \<Rightarrow> (string \<times> device_group_summary list) res act" where
  "list_panorama_device_groups env ts device tok =
     tryS (lift_res (client_of ts device)) (\<lambda>dc.
     tryS (operational env dc panorama_device_groups_op_command tok) (\<lambda>response.
     tryS (lift_res (parse_panorama_device_groups_op (e_lib env) response)) (\<lambda>gs. ret (Inr (device, gs)))))"

definition template_variable_xpath :: "string \<Rightarrow> string" where
  "template_variable_xpath name = panorama_template_xpath @ ''/entry[@name='' @ quoted name @ '']/variable''"

text \<open>\<open>None\<close> skips a name that does not fit an XPath predicate; "object not present" is an
  empty list.\<close>

definition read_panorama_template_variables ::
  "env \<Rightarrow> policy_lib \<Rightarrow> tool_service \<Rightarrow> string \<Rightarrow> string \<Rightarrow> token \<Rightarrow> string list option res act" where
  "read_panorama_template_variables env pl ts device name tok =
     (let xpath = template_variable_xpath name in
      if \<not> is_ok (validate_read_xpath xpath) then ret (Inr None)
      else
        tryS (lift_res (check_xpath_policy (e_lib env) pl ts device xpath)) (\<lambda>_.
        tryS (lift_res (client_of ts device)) (\<lambda>dc.
        bind_act (configuration env dc False xpath tok) (\<lambda>r. case r of
            Inl (Api d code n m) \<Rightarrow> if code = 7 \<or> code = 13 then ret (Inr (Some [])) else ret (Inl (Api d code n m))
          | Inl e \<Rightarrow> ret (Inl e)
          | Inr response \<Rightarrow>
              tryS (lift_res (scan_config_entries (e_lib env) (resp_xml response) 0 max_template_variables
                list_container_entry_depth)) (\<lambda>scan.
                ret (Inr (Some (map entry_name (scan_entries scan)))))))))"

record template_summary =
  tp_name :: string
  tp_variables :: "string list"

text \<open>The loop over the names: the templates read so far and the count of skipped names.\<close>

fun read_templates ::
  "env \<Rightarrow> policy_lib \<Rightarrow> tool_service \<Rightarrow> string \<Rightarrow> token \<Rightarrow> template_summary list \<times> nat \<Rightarrow> string list
     \<Rightarrow> (template_summary list \<times> nat) res act" where
  "read_templates env pl ts device tok acc [] = ret (Inr acc)"
| "read_templates env pl ts device tok acc (n # ns) =
     tryS (read_panorama_template_variables env pl ts device n tok) (\<lambda>vs.
       read_templates env pl ts device tok
         (case vs of None \<Rightarrow> (fst acc, snd acc + 1)
          | Some v \<Rightarrow> (fst acc @ [\<lparr>tp_name = n, tp_variables = v\<rparr>], snd acc)) ns)"

definition read_all_templates ::
  "env \<Rightarrow> policy_lib \<Rightarrow> tool_service \<Rightarrow> string \<Rightarrow> token \<Rightarrow> (template_summary list \<times> nat) res act" where
  "read_all_templates env pl ts device tok =
     tryS (lift_res (client_of ts device)) (\<lambda>dc.
     tryS (operational env dc panorama_templates_op_command tok) (\<lambda>response.
     tryS (lift_res (parse_panorama_templates_op (e_lib env) response)) (\<lambda>names.
       read_templates env pl ts device tok ([], 0) names)))"

definition list_panorama_templates ::
  "env \<Rightarrow> policy_lib \<Rightarrow> tool_service \<Rightarrow> string \<Rightarrow> token \<Rightarrow> (string \<times> template_summary list) res act" where
  "list_panorama_templates env pl ts device tok =
     tryS (read_all_templates env pl ts device tok) (\<lambda>(templates, skipped). ret (Inr (device, templates)))"

definition get_panorama_push_status ::
  "env \<Rightarrow> tool_service \<Rightarrow> string \<Rightarrow> string \<Rightarrow> token \<Rightarrow> (string \<times> string \<times> push_job_status) res act" where
  "get_panorama_push_status env ts device job_id tok =
     tryS (lift_res (client_of ts device)) (\<lambda>dc.
     tryS (job_response env dc job_id tok) (\<lambda>response.
     tryS (lift_res (parse_push_job_status (e_lib env) response)) (\<lambda>st. ret (Inr (device, job_id, st)))))"

section \<open>Security policy match\<close>

datatype ip_protocol = Tcp | Udp | Icmp

fun panos_number :: "ip_protocol \<Rightarrow> nat" where
  "panos_number Tcp = 6"
| "panos_number Udp = 17"
| "panos_number Icmp = 1"

text \<open>The addresses are the text of parsed \<open>IpAddr\<close> values.\<close>

record match_input =
  mi_device :: string
  mi_source :: string
  mi_destination :: string
  mi_port :: "nat option"
  mi_protocol :: ip_protocol
  mi_from :: "string option"
  mi_to :: "string option"
  mi_application :: "string option"
  mi_user :: "string option"
  mi_vsys :: "string option"

definition check_match_field :: "string \<times> string option \<Rightarrow> unit res" where
  "check_match_field = (\<lambda>(field, value). case value of None \<Rightarrow> Inr ()
     | Some v \<Rightarrow> if v = [] \<or> max_policy_match_field_bytes < length v
                 then Inl (Policy field (''value must be 1-'' @ show_nat max_policy_match_field_bytes @ '' bytes''))
                 else Inr ())"

definition element :: "env \<Rightarrow> string \<Rightarrow> string \<Rightarrow> string" where
  "element env tag value = ''<'' @ tag @ ''>'' @ e_xml_escape env value @ ''</'' @ tag @ ''>''"

definition optional_element :: "env \<Rightarrow> string \<Rightarrow> string option \<Rightarrow> string" where
  "optional_element env tag value = (case value of None \<Rightarrow> [] | Some v \<Rightarrow> element env tag v)"

definition build_security_policy_match_command :: "env \<Rightarrow> match_input \<Rightarrow> string res" where
  "build_security_policy_match_command env m =
     and_then (check_all check_match_field
       [(''from_zone'', mi_from m), (''to_zone'', mi_to m), (''application'', mi_application m),
        (''source_user'', mi_user m)]) (\<lambda>_.
     and_then (case mi_vsys m of None \<Rightarrow> Inr () | Some v \<Rightarrow> validate_vsys_name v) (\<lambda>_.
     if mi_protocol m \<noteq> Icmp \<and> mi_port m = None
     then Inl (Policy ''destination_port'' ''required unless protocol is icmp'')
     else Inr (
       ''<test><security-policy-match>''
       @ element env ''source'' (mi_source m) @ element env ''destination'' (mi_destination m)
       @ (case mi_port m of None \<Rightarrow> []
          | Some port \<Rightarrow> ''<destination-port>'' @ show_nat port @ ''</destination-port>'')
       @ ''<protocol>'' @ show_nat (panos_number (mi_protocol m)) @ ''</protocol>''
       @ optional_element env ''vsys'' (mi_vsys m) @ optional_element env ''from'' (mi_from m)
       @ optional_element env ''to'' (mi_to m) @ optional_element env ''application'' (mi_application m)
       @ optional_element env ''source-user'' (mi_user m)
       @ ''</security-policy-match></test>'')))"

record match_output =
  mo_device :: string
  mo_matched :: bool
  mo_rule_name :: "string option"
  mo_action :: "string option"
  mo_rules :: "config_entry list"

definition first_rule :: "lib \<Rightarrow> config_entry list \<Rightarrow> (string option \<times> string option) res" where
  "first_rule lb rules =
     (case rules of [] \<Rightarrow> Inr (None, None)
      | e # _ \<Rightarrow>
        if entry_name e = [] then Inl (Xml ''security-policy-match matched entry has no rule name'')
        else and_then (first_element_text lb (entry_xml e) ''action'') (\<lambda>a. Inr (Some (entry_name e), a)))"

definition test_panos_security_policy_match ::
  "env \<Rightarrow> policy_lib \<Rightarrow> tool_service \<Rightarrow> match_input \<Rightarrow> token \<Rightarrow> match_output res act" where
  "test_panos_security_policy_match env pl ts m tok =
     tryS (lift_res (build_security_policy_match_command env m)) (\<lambda>command.
     tryS (lift_res (check_command_policy (e_lib env) pl ts (mi_device m) command)) (\<lambda>_.
     tryS (lift_res (client_of ts (mi_device m))) (\<lambda>dc.
     tryS (post_fields env dc (op_fields command) tok) (\<lambda>response.
     tryS (lift_res (parse_security_policy_match (e_lib env) response)) (\<lambda>rules.
     tryS (lift_res (first_rule (e_lib env) rules)) (\<lambda>(name, action).
       ret (Inr \<lparr>mo_device = mi_device m, mo_matched = (rules \<noteq> []), mo_rule_name = name,
         mo_action = action, mo_rules = map (redact_entry (e_lib env)) rules\<rparr>)))))))"

section \<open>Logs\<close>

datatype panos_log_type = LogTraffic | LogThreat | LogSystem | LogConfig

fun panos_value :: "panos_log_type \<Rightarrow> string" where
  "panos_value LogTraffic = ''traffic''"
| "panos_value LogThreat = ''threat''"
| "panos_value LogSystem = ''system''"
| "panos_value LogConfig = ''config''"

record logs_output =
  lo_device :: string
  lo_type :: panos_log_type
  lo_max :: nat
  lo_entries :: "config_entry list"
  lo_returned :: nat

definition log_query_fields :: "panos_log_type \<Rightarrow> nat \<Rightarrow> string option \<Rightarrow> fields" where
  "log_query_fields t n query =
     [(''type'', ''log''), (''log-type'', panos_value t), (''nlogs'', show_nat n)]
     @ (case query of None \<Rightarrow> [] | Some q \<Rightarrow> [(''query'', q)])"

definition query_panos_logs ::
  "env \<Rightarrow> tool_service \<Rightarrow> string \<Rightarrow> panos_log_type \<Rightarrow> string option \<Rightarrow> nat option \<Rightarrow> token \<Rightarrow> logs_output res act" where
  "query_panos_logs env ts device t query max_opt tok =
     (let max_logs = or_default default_log_limit max_opt in
      if max_logs = 0 \<or> max_log_limit < max_logs then ret (Inl (range_error ''max_logs'' max_log_limit))
      else if (case query of None \<Rightarrow> False | Some q \<Rightarrow> q = [] \<or> max_log_query_bytes < length q)
      then ret (Inl (Policy ''query'' (''value must be 1-'' @ show_nat max_log_query_bytes @ '' bytes'')))
      else
        tryS (lift_res (client_of ts device)) (\<lambda>dc.
        tryS (post_fields env dc (log_query_fields t max_logs query) tok) (\<lambda>submitted.
        tryS (lift_res (parse_job_id (e_lib env) submitted)) (\<lambda>job_id.
        tryS (poll_log_job env dc job_id tok) (\<lambda>finished.
        tryS (lift_res (parse_log_entries (e_lib env) finished)) (\<lambda>entries.
          ret (Inr \<lparr>lo_device = device, lo_type = t, lo_max = max_logs,
            lo_entries = map (redact_entry (e_lib env)) entries, lo_returned = length entries\<rparr>)))))))"

end
