(* ===== verification/Bystander.thy ===== *)
theory Bystander
  imports Monitor Reads
begin

text \<open>
  Monitors that also ignore the clock, the random source, the change sets and the evidence recorder,
  and what the operations that touch nothing else do under any of them.
\<close>

fun free_event :: "event \<Rightarrow> bool" where
  "free_event (Clock t) = True"
| "free_event (Random b) = True"
| "free_event (CsInsert r e) = True"
| "free_event (CsUpdate r e) = True"
| "free_event (CsRead i d r) = True"
| "free_event (CsClaim i d r) = True"
| "free_event (CsWaive i d w g r) = True"
| "free_event (CsApprove i d w g a r) = True"
| "free_event (Intent q i d w e) = True"
| "free_event (Receipt q i d w b t e) = True"
| "free_event e = False"

lemma kind_log [simp]: "kind_of (log_fields a j) = Read" "kind_of (log_query_fields t n q) = Read"
  by (auto simp: kind_of_def log_fields_def log_query_fields_def starts_with_def split: option.split)

locale bystander = monitor delta for delta :: "'p \<Rightarrow> event \<Rightarrow> 'p option" +
  assumes free_ignored: "free_event e \<Longrightarrow> delta p e = Some p"
begin

lemma keeps_ask: "(\<And>r. free_event (ev r)) \<Longrightarrow> obeys delta p (ask f ev) (\<lambda>_ q. q = p)"
  by (rule obeys_ask) (simp add: free_ignored)

lemma keeps_id: "obeys delta p (new_operation_id env) (\<lambda>_ q. q = p)"
  unfolding new_operation_id_def by (intro obeys_quiet_bind keeps_ask obeys_return refl) simp

lemma keeps_now: "obeys delta p (now_unix env) (\<lambda>_ q. q = p)"
  unfolding now_unix_def by (intro obeys_quiet_bind keeps_ask obeys_return refl) simp

lemma keeps_cs_read: "obeys delta p (cs_read env i d) (\<lambda>_ q. q = p)"
  unfolding cs_read_def by (intro obeys_quiet_bind keeps_ask obeys_return refl) simp

lemma keeps_cs_update: "obeys delta p (cs_update env r) (\<lambda>_ q. q = p)"
  unfolding cs_update_def by (intro obeys_quiet_bind keeps_ask obeys_return refl) simp

lemmas keeps_rules = quiet_lift quiet_cancelled quiet_fingerprint quiet_clean quiet_poll_job quiet_move_target
  keeps_id keeps_now keeps_cs_read keeps_cs_update

text \<open>Reading the device.\<close>

lemma keeps_containers: "obeys delta p (fetch_containers env dc tok as cs) (\<lambda>_ q. q = p)"
proof (induction as arbitrary: cs)
  case (Cons a as)
  show ?case unfolding fetch_containers.simps split_beta
    by (intro obeys_if Cons quiet_tryS quiet_lift quiet_siblings)
qed (auto intro: obeys_return)

lemma keeps_moves: "obeys delta p (require_move_targets_exist env dc as tok) (\<lambda>_ q. q = p)"
  unfolding require_move_targets_exist_def by (intro quiet_tryS keeps_containers quiet_lift)

lemma keeps_log_job: "obeys delta p (poll_log_job env dc j tok) (\<lambda>_ q. q = p)"
proof (rule obeys_emits)
  let ?S = "{e. \<exists>d fs. e = Sent d fs \<and> kind_of fs = Read} \<union> range Slept"
  have request: "emits ?S (post env dc (log_fields a j) t)" for a t
    by (rule emits_post [where F = "{log_fields a j}"]) (auto simp: sent_to_def)
  have closing: "emits ?S (best_effort_finish_log_job env dc j)"
    unfolding best_effort_finish_log_job_def by (intro emits_bind request emits_return)
  show "emits ?S (poll_log_job env dc j tok)"
    unfolding poll_log_job_def
    by (intro emits_tryS emits_lift emits_bind emits_peek emits_prod emits_poll_loop emits_return request)
       (auto intro!: closing emits_return split: sum.splits panos_error.splits)
qed (auto simp: read_ignored tick_ignored)

lemma keeps_logs: "obeys delta p (query_panos_logs env ts device t query n tok) (\<lambda>_ q. q = p)"
  unfolding query_panos_logs_def Let_def post_fields_def
  by (intro quiet_tryS quiet_lift quiet_post keeps_log_job obeys_if obeys_return refl) simp

lemma keeps_fingerprint_tool: "obeys delta p (candidate_fingerprint_tool env sv dev tok) (\<lambda>_ q. q = p)"
  unfolding candidate_fingerprint_tool_def by (intro quiet_tryS keeps_rules obeys_return refl)

text \<open>Change sets, and the checks of a stage or an apply.\<close>

lemma keeps_create: "obeys delta p (create_change_set env sv input owner grant tok) (\<lambda>_ q. q = p)"
  unfolding create_change_set_def create_plan_def create_checks_def cs_insert_def waive_approval_def
  by (intro quiet_tryS keeps_rules keeps_moves obeys_if obeys_quiet_bind keeps_ask obeys_return refl) simp_all

lemma keeps_approve: "obeys delta p (approve_change_set env oid dev approver digest ctx) (\<lambda>_ q. q = p)"
  unfolding approve_change_set_def request_approval_def approved_output_def Let_def
  by (intro quiet_tryS keeps_rules obeys_quiet_bind keeps_ask obeys_return refl) simp_all

lemma keeps_cs_status: "obeys delta p (change_set_status env oid dev) (\<lambda>_ q. q = p)"
  unfolding change_set_status_def by (intro quiet_tryS keeps_rules obeys_if obeys_return refl)

lemma keeps_apply_checks: "obeys delta p (apply_checks env sv input owner grant) (\<lambda>_ q. q = p)"
  unfolding apply_checks_def by (intro quiet_tryS obeys_if keeps_rules obeys_return refl)

lemma keeps_recheck: "obeys delta p (apply_recheck env input owner) (\<lambda>_ q. q = p)"
  unfolding apply_recheck_def Let_def by (intro quiet_tryS obeys_if keeps_rules obeys_return refl)

lemma keeps_claim: "obeys delta p (apply_claim env cs i) (\<lambda>_ q. q = p)"
  unfolding apply_claim_def claim_for_apply_def Let_def
  by (intro quiet_tryS obeys_quiet_bind keeps_ask obeys_return refl keeps_cs_update)
     (auto split: sum.splits intro!: obeys_return obeys_quiet_bind [OF keeps_cs_update])

lemma keeps_ready: "obeys delta p (apply_ready env dc input) (\<lambda>_ q. q = p)"
  unfolding apply_ready_def by (intro quiet_tryS keeps_rules obeys_return refl)

text \<open>The evidence of a commit.\<close>

lemma keeps_attribution: "obeys delta p (commit_attribution env dev r a) (\<lambda>_ q. q = p)"
  unfolding commit_attribution_def
  by (cases "op_change_set r") (auto intro!: obeys_return obeys_quiet_bind [OF keeps_cs_read])

lemma keeps_receipt: "obeys delta p (worker_receipt env a i r b x) (\<lambda>_ q. q = p)"
  unfolding worker_receipt_def by (intro obeys_if obeys_quiet_bind keeps_ask obeys_return refl) simp

lemma keeps_intent: "obeys delta p (worker_intent env a r) (\<lambda>_ q. q = p)"
  unfolding worker_intent_def by (intro obeys_if keeps_ask obeys_return refl) simp

end

end
