(* ===== verification/StateMachine.thy ===== *)
theory StateMachine
  imports Bystander
begin

text \<open>
  The lifecycle of an operation as a step relation on its stored state, the theorem that every
  handler writes only steps of it, to the one record it works on, and what is reachable.
\<close>

section \<open>The steps\<close>

inductive lifecycle_step :: "lifecycle_state \<Rightarrow> lifecycle_state \<Rightarrow> bool" where
  locked: "lifecycle_step Staging Staging"
| staged: "lifecycle_step Staging Staged"
| validating: "lifecycle_step Staged Validating"
| validated: "lifecycle_step Validating Validated"
| invalid: "lifecycle_step Validating Failed"
| committing: "lifecycle_step Validated Committing"
| job_known: "lifecycle_step Committing Committing"
| intent_refused: "lifecycle_step Committing Validated"
| committed: "lifecycle_step Committing Committed"
| commit_failed: "lifecycle_step Committing Failed"
| failure_kept: "lifecycle_step Failed Failed"
| commit_unknown: "lifecycle_step Committing Indeterminate"
| discarded: "s \<in> {Staging, Staged, Validated, Failed} \<Longrightarrow> lifecycle_step s Discarded"
| discard_unknown: "s \<in> {Staging, Staged, Validated, Failed} \<Longrightarrow> lifecycle_step s Indeterminate"

inductive_simps step_from [simp]:
  "lifecycle_step Staging t" "lifecycle_step Staged t" "lifecycle_step Validating t"
  "lifecycle_step Validated t" "lifecycle_step Committing t" "lifecycle_step Committed t"
  "lifecycle_step Discarded t" "lifecycle_step Failed t" "lifecycle_step Indeterminate t"

text \<open>The monitor follows the one record a handler works on: its id, the state the store holds for it,
  and how far a commit of it has come in this run.  An update the store refused does not change it,
  but must have been a step all the same.  Only a commit that this run has opened may be sent, and
  sent once; only an opened and unsent one goes back to \<open>Validated\<close>; only a record still in
  \<open>Staging\<close> is removed.\<close>

datatype phase = Untouched | Opened | Posted

record focus =
  fc_id :: string
  fc_state :: lifecycle_state
  fc_phase :: phase

abbreviation fc :: "string \<Rightarrow> lifecycle_state \<Rightarrow> phase \<Rightarrow> focus" where
  "fc i st ph \<equiv> \<lparr>fc_id = i, fc_state = st, fc_phase = ph\<rparr>"

definition may_store :: "focus \<Rightarrow> op_record \<Rightarrow> bool" where
  "may_store f r \<longleftrightarrow> op_id r = fc_id f \<and> lifecycle_step (fc_state f) (op_state r)
     \<and> (fc_state f = Committing \<and> op_state r = Validated \<longrightarrow> fc_phase f = Opened)"

definition stored_as :: "focus \<Rightarrow> op_record \<Rightarrow> focus" where
  "stored_as f r = f\<lparr>fc_state := op_state r,
     fc_phase := (if fc_state f = Validated \<and> op_state r = Committing then Opened else fc_phase f)\<rparr>"

fun life_delta :: "focus option \<Rightarrow> event \<Rightarrow> focus option option" where
  "life_delta s (Sent d fs) =
     (if kind_of fs \<noteq> Commit then Some s
      else case s of None \<Rightarrow> None
      | Some f \<Rightarrow> if fc_state f = Committing \<and> fc_phase f = Opened then Some (Some (f\<lparr>fc_phase := Posted\<rparr>)) else None)"
| "life_delta s (OpRead i w d r) =
     (case r of Inl _ \<Rightarrow> Some s | Inr rec \<Rightarrow> Some (Some (fc (op_id rec) (op_state rec) Untouched)))"
| "life_delta s (OpInsert r e) =
     (if s = None \<and> op_state r = Staging
      then (case e of None \<Rightarrow> Some (Some (fc (op_id r) Staging Untouched)) | Some _ \<Rightarrow> Some s) else None)"
| "life_delta s (OpUpdate r e) =
     (case s of None \<Rightarrow> None
      | Some f \<Rightarrow> if may_store f r then (case e of None \<Rightarrow> Some (Some (stored_as f r)) | Some _ \<Rightarrow> Some s) else None)"
| "life_delta s (OpRemove i) =
     (case s of None \<Rightarrow> None
      | Some f \<Rightarrow> if fc_id f = i \<and> fc_state f = Staging then Some None else None)"
| "life_delta s e = Some s"

interpretation life: bystander life_delta
  by unfold_locales (auto elim: free_event.elims)

abbreviation lives :: "focus option \<Rightarrow> 'a act \<Rightarrow> bool" where
  "lives s m \<equiv> obeys life_delta s m (\<lambda>_ _. True)"

section \<open>What the helpers do\<close>

lemma life_post: "kind_of fs \<noteq> Commit \<Longrightarrow> obeys life_delta s (post env dc fs tok) (\<lambda>_ q. q = s)"
  by (rule obeys_mono [OF life.post_sends]) (auto split: if_splits)

lemma life_post_fields: "kind_of fs \<noteq> Commit \<Longrightarrow> obeys life_delta s (post_fields env dc fs tok) (\<lambda>_ q. q = s)"
  unfolding post_fields_def by (rule life_post)

lemma life_lock: "obeys life_delta s (acquire_config_lock env dc i) (\<lambda>_ q. q = s)"
  unfolding acquire_config_lock_def by (intro life.quiet_tryS life_post_fields obeys_return refl) simp

lemma life_unlock: "obeys life_delta s (release_config_lock env dc) (\<lambda>_ q. q = s)"
  unfolding release_config_lock_def by (intro obeys_quiet_bind life_post_fields obeys_return refl) simp

lemma life_unlock_best: "obeys life_delta s (release_config_lock_best_effort env dc) (\<lambda>_ q. q = s)"
  unfolding release_config_lock_best_effort_def by (intro obeys_quiet_bind life_unlock obeys_return refl)

lemma life_revert: "obeys life_delta s (revert_admin_candidate env dc a) (\<lambda>_ q. q = s)"
  unfolding revert_admin_candidate_def by (intro life.quiet_tryS life_post_fields obeys_return refl) simp

lemma life_event: "(\<And>r s. life_delta s (ev r) = Some s) \<Longrightarrow> obeys life_delta s (ask f ev) (\<lambda>_ q. q = s)"
  by (rule obeys_ask) auto

text \<open>Reading and writing the stored operation, with what follows.\<close>

lemma life_read_then:
  assumes "\<And>r. obeys life_delta (Some (fc (op_id r) (op_state r) Untouched)) (k r) Q" and "\<And>e. Q (Inl e) s"
  shows "obeys life_delta s (tryS (op_read env i w d) k) Q"
  unfolding op_read_def
  by (rule obeys_tryS, rule obeys_ask_bind)
     (use assms in \<open>auto simp: map_err_def intro!: obeys_return split: sum.splits\<close>)

lemma life_update:
  assumes "may_store f r"
  shows "obeys life_delta (Some f) (op_update env r)
    (\<lambda>x q. case x of Inl _ \<Rightarrow> q = Some f | Inr _ \<Rightarrow> q = Some (stored_as f r))"
  unfolding op_update_def
  by (rule obeys_ask_bind) (use assms in \<open>auto simp: coord_unit_def intro!: obeys_return split: option.splits\<close>)

lemma life_update_then:
  assumes "may_store f r" and "obeys life_delta (Some (stored_as f r)) (k ()) Q"
    and "\<And>e. Q (Inl e) (Some f)"
  shows "obeys life_delta (Some f) (tryS (op_update env r) k) Q"
  by (rule obeys_tryS, rule obeys_mono [OF life_update [OF assms(1)]])
     (use assms(2,3) in \<open>auto split: sum.splits\<close>)

lemma life_insert_then:
  assumes "op_state r = Staging" and "obeys life_delta (Some (fc (op_id r) Staging Untouched)) (k ()) Q"
    and "\<And>e. Q (Inl e) None"
  shows "obeys life_delta None (tryS (op_insert env r) k) Q"
  unfolding op_insert_def
  by (rule obeys_tryS, rule obeys_ask_bind)
     (use assms in \<open>auto simp: coord_unit_def intro!: obeys_return split: option.splits sum.splits\<close>)

lemma life_remove: "obeys life_delta (Some (fc i Staging ph)) (op_remove i) (\<lambda>_ q. q = None)"
  unfolding op_remove_def by (rule obeys_emit) auto

lemmas store_rules = may_store_def stored_as_def

lemma lives_bind: "lives s m \<Longrightarrow> (\<And>x q. lives q (k x)) \<Longrightarrow> lives s (bind_act m k)"
  by (rule obeys_bind) auto

lemma lives_quiet: "obeys life_delta s m (\<lambda>_ q. q = s) \<Longrightarrow> lives s m"
  by (rule obeys_mono) auto

lemma lives_guard: "lives s m \<Longrightarrow> lives s (with_guard env dc m)"
  unfolding with_guard_def
  by (rule obeys_ask_bind)
     (auto intro!: obeys_return lives_bind obeys_emit_bind split: option.splits)

lemmas life_quiet = life.keeps_rules life_post life_post_fields life_lock life_unlock life_unlock_best life_revert

section \<open>Stage, validate, discard\<close>

text \<open>A stage that fails leaves its record in \<open>Staging\<close>, so that it may be removed.\<close>

lemma life_stage_mutate:
  assumes "op_id r = i"
  shows "obeys life_delta (Some (fc i Staging Untouched)) (stage_mutate env dc input r)
    (\<lambda>x q. \<not> is_ok x \<longrightarrow> q = Some (fc i Staging Untouched))"
  unfolding stage_mutate_def
  by (intro obeys_quiet_tryS life_quiet life_update_then obeys_return) (simp_all add: store_rules assms)

lemma lives_stage_tail:
  assumes "\<not> is_ok x \<longrightarrow> q = Some (fc i Staging Untouched)"
  shows "lives q (bind_act (if \<not> is_ok x \<and> b then release_config_lock_best_effort env dc else ret ()) (\<lambda>_.
      bind_act (if \<not> is_ok x then op_remove i else ret ()) (\<lambda>_. ret (x :: stage_output res))))"
  using assms
  by (cases "is_ok x")
     (auto intro!: obeys_return obeys_quiet_bind [OF life_unlock_best] obeys_bind [OF life_remove] obeys_quiet_bind [OF obeys_return])

lemma lives_stage: "lives None (stage_config env sv input owner grant tok)"
proof -
  have lock_quiet: "obeys life_delta s (if b then acquire_config_lock env dc i else ret (Inr ())) (\<lambda>_ q. q = s)" for s b dc i
    by (auto intro: obeys_return life_lock)
  have guarded: "lives None (stage_guarded env dc p input owner tok)" for dc p
    unfolding stage_guarded_def Let_def
    apply (rule obeys_quiet_bind [OF life.quiet_cancelled])
    apply (rule obeys_if, rule obeys_return, rule TrueI)
    apply (rule obeys_quiet_tryS, rule life.keeps_id, rule TrueI)
    apply (rule obeys_quiet_tryS, rule life.quiet_lift, rule TrueI)
    apply (rule obeys_quiet_tryS, rule life.quiet_lift, rule TrueI)
    apply (rule life_insert_then)
      apply (simp add: initial_record_def)
     apply (rule obeys_quiet_bind [OF lock_quiet])
     apply (auto simp: initial_record_def split: sum.splits intro!: obeys_bind [OF life_remove] obeys_return
        obeys_bind [OF life_stage_mutate] lives_stage_tail)
    done
  show ?thesis unfolding stage_config_def split_beta
    by (intro obeys_quiet_tryS life.quiet_stage_checks lives_guard guarded TrueI)
qed

lemma lives_diff: "lives None (diff_candidate env sv input owner tok)"
  unfolding diff_candidate_def
  apply (rule obeys_quiet_tryS, rule life.quiet_lift, rule TrueI)
  apply (rule life_read_then)
   apply (intro obeys_quiet_tryS life_quiet TrueI)
   apply (auto simp: Let_def split: prod.splits intro!: obeys_quiet_tryS life_quiet obeys_return)
  done

lemma lives_status: "lives None (operation_status env oid owner dev)"
  unfolding operation_status_def by (intro life_read_then obeys_return TrueI)

lemma lives_validate: "lives None (validate_candidate env sv input owner tok)"
proof -
  have guarded: "lives (Some (fc (op_id r) Staged Untouched)) (validate_guarded env dc input r)" for dc r
    unfolding validate_guarded_def Let_def
    apply (rule obeys_quiet_tryS, rule life.quiet_fingerprint, rule TrueI)
    apply (rule obeys_quiet_tryS, rule life.quiet_lift, rule TrueI)
    apply (rule obeys_quiet_tryS, rule life_post_fields, simp, rule TrueI)
    apply (rule obeys_quiet_tryS, rule life.quiet_lift, rule TrueI)
    apply (rule life_update_then)
      apply (simp add: store_rules)
     apply (rule obeys_quiet_bind)
      apply (rule life.quiet_poll_job)
     apply (auto simp: store_rules split: sum.splits intro!: life_update_then obeys_return)
    done
  show ?thesis unfolding validate_candidate_def
    apply (rule obeys_quiet_tryS, rule life.quiet_lift, rule TrueI)
    apply (rule life_read_then)
     apply (rule obeys_if)
      apply (rule obeys_return, rule TrueI)
     apply (rule obeys_quiet_tryS, rule life.quiet_lift, rule TrueI)
     apply (rule obeys_quiet_tryS, rule life.quiet_lift, rule TrueI)
     apply (simp add: lives_guard guarded)
    apply (rule TrueI)
    done
qed

lemma lives_discard: "lives None (discard_candidate env sv input owner)"
proof -
  let ?open = "{Staging, Staged, Validated, Failed}"
  have settle: "lives (Some (fc (op_id r) st Untouched)) (discard_settle env dc r after)"
    if st: "st \<in> ?open" for st dc r after
  proof -
    have rel: "obeys life_delta q (if op_lock_held r then release_config_lock env dc else ret (Inr ())) (\<lambda>_ q'. q' = q)" for q
      by (auto intro: obeys_return life_unlock)
    have steps: "lifecycle_step st Discarded" "lifecycle_step st Indeterminate"
      using st by (auto intro: lifecycle_step.intros)
    show ?thesis unfolding discard_settle_def Let_def
      by (rule obeys_quiet_bind [OF rel])
         (auto split: sum.splits simp: steps store_rules intro!: life_update_then obeys_return)
  qed
  have guarded: "lives (Some (fc (op_id r) st Untouched)) (discard_guarded env dc admin input r)"
    if st: "st \<in> ?open" for st dc admin r
  proof -
    have end_of: "lives (Some (fc (op_id r) st Untouched)) (discard_settle env dc (r\<lparr>op_current := c\<rparr>) c)" for c
      using settle [OF st, of "r\<lparr>op_current := c\<rparr>" dc c] by simp
    show ?thesis unfolding discard_guarded_def
      by (intro obeys_quiet_tryS life_quiet end_of TrueI) simp
  qed
  have ok: "\<not> discard_refused st \<Longrightarrow> st \<in> ?open" for st
    by (cases st) (auto simp: discard_refused_def)
  show ?thesis unfolding discard_candidate_def
    apply (rule obeys_quiet_tryS, rule life.quiet_lift, rule TrueI)
    apply (rule life_read_then)
     apply (rule obeys_if)
      apply (rule obeys_return, rule TrueI)
     apply (intro obeys_quiet_tryS life.quiet_lift TrueI)
     apply (rule lives_guard, rule guarded, erule ok)
    apply (rule TrueI)
    done
qed

section \<open>Commit\<close>

text \<open>What the worker's block leaves: the state of the record it returns, and of the stored one.\<close>

fun body_end :: "string \<Rightarrow> op_record \<times> commit_output res \<Rightarrow> focus option \<Rightarrow> bool" where
  "body_end i (r, Inl e) q = (op_id r = i \<and> (\<exists>ph. q = Some (fc i Committing ph)))"
| "body_end i (r, Inr out) q =
     (op_id r = i \<and> (\<exists>ph. q = Some (fc i (op_state r) ph)) \<and> (co_succeeded out = Some True \<and> op_state r = Committing
        \<or> co_succeeded out = Some False \<and> op_state r = Failed))"

lemma obeys_option:
  "(r = None \<Longrightarrow> obeys delta p f Q) \<Longrightarrow> (\<And>x. r = Some x \<Longrightarrow> obeys delta p (g x) Q) \<Longrightarrow>
   obeys delta p (case_option f g r) Q"
  by (cases r) auto

lemma try_with_quiet:
  assumes "obeys delta p m (\<lambda>_ q. q = p)" and "\<And>e. Q (r, Inl e) p" and "\<And>x. obeys delta p (k x) Q"
  shows "obeys delta p (try_with r m k) Q"
  unfolding try_with_def
  by (rule obeys_bind [OF assms(1)]) (use assms(2,3) in \<open>auto intro: obeys_return split: sum.splits\<close>)

lemma life_try_update:
  assumes "may_store f r" and "\<And>e. Q (r, Inl e) (Some f)"
    and "\<And>x. obeys life_delta (Some (stored_as f r)) (k x) Q"
  shows "obeys life_delta (Some f) (try_with r (op_update env r) k) Q"
  unfolding try_with_def
  by (rule obeys_bind [OF life_update [OF assms(1)]]) (use assms(2,3) in \<open>auto intro: obeys_return split: sum.splits\<close>)

text \<open>The commit request: sent once, or refused before it is sent.\<close>

lemma life_post_commit:
  "obeys life_delta (Some (fc i Committing Opened)) (post_fields env dc (commit_fields c) tok)
     (\<lambda>x q. \<exists>ph. q = Some (fc i Committing ph))"
  unfolding post_fields_def
  by (rule obeys_mono [OF life.post_sends]) (auto split: if_splits)

lemma life_body:
  assumes "op_state r = Committing"
  shows "obeys life_delta (Some (fc (op_id r) Committing Opened)) (worker_body env dc command r) (body_end (op_id r))"
proof -
  let ?f = "\<lambda>ph. Some (fc (op_id r) Committing ph)"
  have last: "obeys life_delta (?f ph) (try_with r' (op_update env r') (\<lambda>_.
       ret (r', Inr \<lparr>co_operation = i, co_disposition = Reconciled, co_job = Some j,
                   co_succeeded = Some (succeeded st), co_details = d\<rparr>))) (body_end (op_id r))"
    if "op_state r' = (if succeeded st then Committing else Failed)" "op_id r' = op_id r" for r' i j st d ph
    by (rule life_try_update) (use that in \<open>auto simp: store_rules intro!: obeys_return\<close>)
  have kept: "stored_as (fc (op_id r) Committing ph) (r\<lparr>op_job := x\<rparr>) = fc (op_id r) Committing ph" for ph x
    by (simp add: store_rules assms)
  have after: "obeys life_delta (?f ph) (try_with r (lift_res (parse_job_id (e_lib env) response)) (\<lambda>job_id.
     let r1 = r\<lparr>op_job := Some job_id\<rparr> in
     try_with r1 (op_update env r1) (\<lambda>_.
     try_with r1 (poll_job env dc job_id Fresh) (\<lambda>status.
     try_with r1 (candidate_fingerprint env dc Fresh) (\<lambda>current.
     let r2 = r1\<lparr>op_current := current, op_details := job_details status,
               op_state := (if succeeded status then Committing else Failed)\<rparr> in
     try_with r2 (op_update env r2) (\<lambda>_.
       ret (r2, Inr \<lparr>co_operation = op_id r, co_disposition = Reconciled, co_job = Some job_id,
                   co_succeeded = Some (succeeded status), co_details = job_details status\<rparr>))))))) (body_end (op_id r))"
    for response ph
    unfolding Let_def
    apply (rule try_with_quiet, rule life.quiet_lift, simp)
    apply (rule life_try_update)
      apply (simp add: assms store_rules)
     apply simp
    apply (simp only: kept)
    apply (rule try_with_quiet, rule life.quiet_poll_job, simp)
    apply (rule try_with_quiet, rule life.quiet_fingerprint, simp)
    apply (rule last, simp, simp)
    done
  show ?thesis unfolding worker_body_def
    unfolding try_with_def [of _ "post_fields _ _ _ _"]
    by (rule obeys_bind, rule life_post_commit) (auto intro!: obeys_return after split: sum.splits)
qed

lemma life_settle:
  assumes "body_end i (r, out) q"
  shows "obeys life_delta q (worker_settle env dc r out)
    (\<lambda>(r', _) q'. q' = q \<and> (\<exists>f. q = Some f \<and> may_store f r'))"
proof (cases out)
  case (Inl e)
  with assms show ?thesis by (auto simp: worker_settle_def commit_ok_def store_rules intro!: obeys_return)
next
  case (Inr o')
  then show ?thesis using assms
    by (auto simp: worker_settle_def commit_ok_def Let_def store_rules split: sum.splits
        intro!: obeys_return obeys_quiet_bind [OF life_unlock])
qed

lemma lives_worker:
  assumes "op_state r = Committing"
  shows "lives (Some (fc (op_id r) Committing Opened)) (commit_worker env dc admin r a)"
proof -
  let ?f = "Some (fc (op_id r) Committing Opened)"
  have refused: "lives ?f (worker_refused env r e)" for e
    unfolding worker_refused_def
    by (rule obeys_bind [OF life_update]) (auto simp: store_rules intro!: obeys_return)
  have drop: "obeys life_delta s (emit (Unguard k)) (\<lambda>_ q. q = s)" for s k
    by (rule obeys_emit) auto
  have finish: "lives q (tryS (op_update env r') (\<lambda>_. ret x))"
    if "q = Some f" "may_store f r'" for q f r' and x :: "commit_output res"
    unfolding that(1) by (rule life_update_then [OF that(2)]) (auto intro: obeys_return)
  have rest: "lives q (bind_act (emit (Unguard k)) (\<lambda>_.
      bind_act (worker_settle env dc r1 out) (\<lambda>(r2, result).
      bind_act (worker_receipt env a i r2 b result) (\<lambda>_. tryS (op_update env r2) (\<lambda>_. ret result)))))"
    if "body_end j (r1, out) q" for r1 out q k i b j
    apply (rule obeys_quiet_bind, rule drop)
    apply (rule obeys_bind, rule life_settle, rule that)
    apply (auto intro!: obeys_quiet_bind [OF life.keeps_receipt] finish)
    done
  show ?thesis unfolding commit_worker_def Let_def
    apply (rule obeys_ask_bind)
    apply (rule exI, rule conjI, rule life_delta.simps)
    apply (rule obeys_option)
     apply (rule obeys_quiet_bind, rule life.keeps_intent)
     apply (rule obeys_option)
      apply (rule obeys_bind, rule life_body, rule assms)
      apply (clarify, rule rest, assumption)
     apply (rule lives_bind, rule refused)
     apply (rule lives_bind, rule lives_quiet, rule drop)
     apply (rule obeys_return, rule TrueI)
    apply (rule obeys_return, rule TrueI)
    done
qed

lemma lives_commit: "lives None (commit_candidate env sv input owner a tok)"
proof -
  have gate: "commit_gate sv dev r = Inr dc \<Longrightarrow> op_state r = Validated" for dev r dc
    by (auto simp: commit_gate_def split: if_splits)
  have worker: "lives (Some (stored_as (fc (op_id r) Validated Untouched) (r\<lparr>op_state := Committing\<rparr>)))
      (commit_worker env dc admin (r\<lparr>op_state := Committing\<rparr>) a)" for r dc admin a
    using lives_worker [of "r\<lparr>op_state := Committing\<rparr>" env dc admin a] by (simp add: store_rules)
  show ?thesis unfolding commit_candidate_def commit_record_def Let_def
    apply (rule obeys_quiet_tryS, rule life.quiet_lift, rule TrueI)
    apply (rule life_read_then)
     apply (rule obeys_lift, rule TrueI)
     apply (drule gate)
     apply (rule obeys_quiet_tryS, rule life.quiet_lift, rule TrueI)
     apply (rule obeys_quiet_tryS, rule life.quiet_lift, rule TrueI)
     apply (rule obeys_quiet_tryS, rule life.quiet_fingerprint, rule TrueI)
     apply (rule obeys_quiet_tryS, rule life.quiet_lift, rule TrueI)
     apply (simp only:)
     apply (rule life_update_then)
       apply (simp add: store_rules)
      apply (rule obeys_quiet_bind, rule life.keeps_attribution)
      apply (rule lives_bind, rule worker)
      apply (rule lives_bind, rule lives_quiet, rule life_event, simp)
      apply (rule obeys_return, rule TrueI)
     apply (rule TrueI)
    apply (rule TrueI)
    done
qed

section \<open>Apply\<close>

lemma life_push: "obeys life_delta s (push_actions env dc vs n) (\<lambda>_ q. q = s)"
proof (induction vs arbitrary: n)
  case (Cons v vs)
  then show ?case
    by (cases "e_decode_action env v")
       (auto intro!: obeys_return obeys_quiet_bind [OF life_post_fields] split: sum.splits)
qed (auto intro: obeys_return)

text \<open>A guarded step of an apply keeps the record in \<open>Staging\<close>, or has removed it.\<close>

lemma life_abandon: "obeys life_delta (Some (fc i Staging ph)) (abandon env dc l i) (\<lambda>_ q. q = None)"
proof -
  have "obeys life_delta s (if l then release_config_lock_best_effort env dc else ret ()) (\<lambda>_ q. q = s)" for s
    by (auto intro: obeys_return life_unlock_best)
  then show ?thesis unfolding abandon_def by (rule obeys_quiet_bind) (rule life_remove)
qed

lemma life_or_abandon:
  assumes "obeys life_delta (Some (fc i Staging ph)) m (\<lambda>_ q. q = Some (fc i Staging ph))"
  shows "obeys life_delta (Some (fc i Staging ph)) (or_abandon env dc l i m) (\<lambda>x q. is_ok x \<longrightarrow> q = Some (fc i Staging ph))"
  unfolding or_abandon_def
  by (rule obeys_bind [OF assms])
     (auto intro!: obeys_return obeys_bind [OF life_abandon] split: sum.splits)

lemma life_abandon_then:
  assumes "obeys life_delta (Some (fc i Staging ph)) m (\<lambda>_ q. q = Some (fc i Staging ph))"
    and "\<And>x. lives (Some (fc i Staging ph)) (k x)"
  shows "lives (Some (fc i Staging ph)) (tryS (or_abandon env dc l i m) k)"
  by (rule obeys_tryS, rule obeys_mono [OF life_or_abandon [OF assms(1)]])
     (use assms(2) in \<open>auto split: sum.splits\<close>)

abbreviation staging :: "string \<Rightarrow> focus option" where
  "staging i \<equiv> Some (fc i Staging Untouched)"

fun lock_end :: "string \<Rightarrow> op_record res \<Rightarrow> focus option \<Rightarrow> bool" where
  "lock_end i (Inl e) q = True"
| "lock_end i (Inr r) q = (q = staging i \<and> op_state r = Staging \<and> op_id r = i)"

lemma life_apply_lock:
  assumes "op_state r = Staging"
  shows "obeys life_delta (staging (op_id r)) (apply_lock env dc p r) (lock_end (op_id r))"
proof -
  let ?r = "r\<lparr>op_lock_held := True\<rparr>"
  have up: "obeys life_delta (staging (op_id r)) (op_update env ?r) (\<lambda>_ q. q = staging (op_id r))"
    by (rule obeys_mono [OF life_update]) (auto simp: assms store_rules split: sum.splits)
  have stored: "obeys life_delta (staging (op_id r)) (tryS (or_abandon env dc True (op_id r) (op_update env ?r)) (\<lambda>_. ret (Inr ?r)))
      (lock_end (op_id r))"
    by (rule obeys_tryS, rule obeys_mono [OF life_or_abandon [OF up]])
       (auto simp: assms intro!: obeys_return split: sum.splits)
  show ?thesis unfolding apply_lock_def Let_def
    by (rule obeys_if, rule obeys_return, simp add: assms,
        rule obeys_tryS, rule obeys_mono [OF life_or_abandon [OF life_lock]])
       (auto split: sum.splits intro!: stored)
qed

lemma lives_apply_failed:
  assumes "op_state r = Staging"
  shows "lives (staging (op_id r)) (apply_failed env dc p r cs n e)"
proof -
  have rev: "obeys life_delta s (if b then revert_admin_candidate env dc a else ret (Inr ())) (\<lambda>_ q. q = s)" for s b a
    by (auto intro: obeys_return life_revert)
  have rel: "lives q (bind_act (if b then release_config_lock_best_effort env dc else ret ()) (\<lambda>_. ret x))"
    for b q and x :: "stage_output res"
    by (auto intro!: lives_bind lives_quiet [OF life_unlock_best] obeys_return)
  show ?thesis unfolding apply_failed_def Let_def
    apply (rule obeys_quiet_bind, rule rev)
    apply (rule obeys_quiet_bind, rule life.quiet_fingerprint)
    apply (rule life_update_then)
      apply (simp add: assms store_rules split: sum.splits)
     apply (rule obeys_quiet_tryS, rule life.keeps_cs_update, rule TrueI, rule rel)
    apply (rule TrueI)
    done
qed

lemma lives_apply_push:
  assumes "op_state r = Staging"
  shows "lives (staging (op_id r)) (apply_push env dc p input r cs pr)"
proof -
  have finished: "lives (staging (op_id r)) (apply_finished env dc input r cs p)" for cs p
    unfolding apply_finished_def
    apply (rule obeys_quiet_bind, rule life.quiet_fingerprint)
    apply (auto simp: store_rules split: sum.splits intro!: life_update_then obeys_quiet_tryS [OF life.keeps_cs_update] obeys_return)
    done
  show ?thesis unfolding apply_push_def
    by (rule obeys_quiet_bind, rule life_push) (auto split: sum.splits intro!: lives_apply_failed finished assms)
qed

lemma lives_apply_locked:
  assumes "op_state r = Staging"
  shows "lives (staging (op_id r)) (tryS (apply_lock env dc p r) (\<lambda>r'.
     tryS (or_abandon env dc (op_lock_held r') (op_id r) (apply_ready env dc input)) (\<lambda>pr.
     tryS (or_abandon env dc (op_lock_held r') (op_id r) (apply_claim env cs (op_id r))) (\<lambda>cs.
       apply_push env dc p input r' cs pr))))"
proof -
  have push: "lives (staging (op_id r)) (apply_push env dc p input r' cs pr)"
    if "op_state r' = Staging" "op_id r' = op_id r" for r' cs pr
    using lives_apply_push [of r'] that by simp
  show ?thesis
    by (rule obeys_tryS, rule obeys_mono [OF life_apply_lock [OF assms]])
       (auto split: sum.splits intro!: life_abandon_then life.keeps_ready life.keeps_claim push)
qed

lemma apply_record_staging: "apply_record env dc p input owner oid cs = Inr r \<Longrightarrow> op_state r = Staging \<and> op_id r = oid"
  by (auto simp: apply_record_def initial_record_def return_iff split: list.splits)

lemma lives_apply: "lives None (apply_change_set env sv input owner grant tok)"
proof -
  have guarded: "lives None (apply_guarded env dc p input owner tok)" for dc p
    unfolding apply_guarded_def
    apply (rule obeys_quiet_bind [OF life.quiet_cancelled])
    apply (rule obeys_if, rule obeys_return, rule TrueI)
    apply (rule obeys_quiet_tryS, rule life.keeps_recheck, rule TrueI)
    apply (rule obeys_quiet_tryS, rule life.keeps_id, rule TrueI)
    apply (rule obeys_lift, rule TrueI)
    apply (drule apply_record_staging, clarify)
    apply (rule life_insert_then, assumption)
     apply (erule lives_apply_locked)
    apply (rule TrueI)
    done
  show ?thesis unfolding apply_change_set_def split_beta
    by (intro obeys_quiet_tryS life.keeps_apply_checks lives_guard guarded TrueI)
qed

section \<open>The state machine\<close>

text \<open>C4. Every handler moves an operation only along the lifecycle, and moves no other: whatever the
  device, the store and the clock answer, each update a handler writes is a step of the one record it
  read or inserted, from the state the store holds for it.  It sends a commit only for a record
  that it has itself moved from validated to committing, once, and does not make a record
  retryable again after that; it removes only a record it left in \<open>Staging\<close>.\<close>

theorem handlers_follow_lifecycle:
  "lives None (stage_config env sv stage_in owner grant tok)
   \<and> lives None (diff_candidate env sv input owner tok)
   \<and> lives None (validate_candidate env sv input owner tok)
   \<and> lives None (commit_candidate env sv input owner attr tok)
   \<and> lives None (discard_candidate env sv input owner)
   \<and> lives None (operation_status env oid owner dev)
   \<and> lives None (apply_change_set env sv apply_in owner grant tok)"
  by (intro conjI lives_stage lives_diff lives_validate lives_commit lives_discard lives_status lives_apply)

lemma terminal_stays: "lifecycle_step\<^sup>*\<^sup>* s t \<Longrightarrow> s \<in> {Committed, Discarded, Indeterminate} \<Longrightarrow> t = s"
  by (induction rule: rtranclp_induct) auto

text \<open>Steps that avoid a successful validation.\<close>

definition unvalidated_step :: "lifecycle_state \<Rightarrow> lifecycle_state \<Rightarrow> bool" where
  "unvalidated_step s t \<longleftrightarrow> lifecycle_step s t \<and> t \<noteq> Validated"

lemma unvalidated_reach:
  "unvalidated_step\<^sup>*\<^sup>* s t \<Longrightarrow> s \<in> {Staging, Staged, Validating, Failed} \<Longrightarrow>
   t \<in> {Staging, Staged, Validating, Failed, Discarded, Indeterminate}"
  by (induction rule: rtranclp_induct) (auto simp: unvalidated_step_def)

text \<open>Committed, discarded and indeterminate operations never change again, and no operation
  reaches a commit without a successful validation on the way.\<close>

theorem lifecycle_safe:
  "(\<forall>s \<in> {Committed, Discarded, Indeterminate}. {t. lifecycle_step\<^sup>*\<^sup>* s t} = {s})
   \<and> {t. unvalidated_step\<^sup>*\<^sup>* Staging t} \<inter> {Validated, Committing, Committed} = {}"
  using terminal_stays unvalidated_reach [of Staging] by fastforce

theorem lifecycle_safe_witness:
  "{t. lifecycle_step\<^sup>*\<^sup>* Committed t} = {Committed} \<and> lifecycle_step\<^sup>*\<^sup>* Staging Committed"
proof
  show "{t. lifecycle_step\<^sup>*\<^sup>* Committed t} = {Committed}" using lifecycle_safe by blast
  have "lifecycle_step Staging Staged" "lifecycle_step Staged Validating" "lifecycle_step Validating Validated"
    "lifecycle_step Validated Committing" "lifecycle_step Committing Committed" by simp_all
  then show "lifecycle_step\<^sup>*\<^sup>* Staging Committed" by (meson converse_rtranclp_into_rtranclp rtranclp.rtrancl_refl)
qed

end
