(* ===== verification/Tls.thy ===== *)
theory Tls
  imports Client
begin

text \<open>
  Building the HTTP client of a device: \<^verbatim>\<open>rust-panosmcp-core/src/client.rs\<close>, \<open>PanosClient::new\<close>,
  \<open>build_http_client\<close> and \<open>LeafPinVerifier\<close>.  The builder calls are recorded as the settings of
  the client; parsing a PEM bundle, accepting TLS versions, finishing the builder and checking
  handshake signatures are the TLS crates'.
\<close>

text \<open>Who a connection trusts.\<close>

datatype trust = SystemRoots | OnlyRoots "string list" | LeafPin "nat list"

record http_client =
  hc_https_only :: bool
  hc_no_proxy :: bool
  hc_follow_redirects :: bool
  hc_connect_timeout :: nat
  hc_pool_idle_timeout :: nat
  hc_pool_max_idle :: nat
  hc_http1_only :: bool
  hc_tls_minor_min :: nat
  hc_trust :: trust

record tls_lib =
  tl_pem_bundle :: "string \<Rightarrow> string list option"
  tl_versions :: "string + unit"
  tl_build :: "http_client \<Rightarrow> transport_error + unit"
  tl_join :: "url \<Rightarrow> string \<Rightarrow> string + url"
  tl_signature12 :: "string \<Rightarrow> string \<Rightarrow> string \<Rightarrow> bool"
  tl_signature13 :: "string \<Rightarrow> string \<Rightarrow> string \<Rightarrow> bool"

definition api_path :: string where
  "api_path = ''api/''"

definition base_client :: "device_config \<Rightarrow> trust \<Rightarrow> http_client" where
  "base_client dc t =
     \<lparr>hc_https_only = True, hc_no_proxy = True, hc_follow_redirects = False,
      hc_connect_timeout = dc_connect_timeout dc, hc_pool_idle_timeout = 300,
      hc_pool_max_idle = dc_max_concurrency dc, hc_http1_only = True, hc_tls_minor_min = 2, hc_trust = t\<rparr>"

fun client_trust :: "tls_lib \<Rightarrow> string \<Rightarrow> loaded_tls \<Rightarrow> trust res" where
  "client_trust tb device TlsSystem = Inr SystemRoots"
| "client_trust tb device (TlsCustomCa path pem) =
     (case tl_pem_bundle tb pem of
        None \<Rightarrow> Inl (Tls device ''custom CA bundle is not valid PEM certificate data'')
      | Some certificates \<Rightarrow>
          if certificates = [] then Inl (Tls device ''custom CA bundle contains no certificates'')
          else Inr (OnlyRoots certificates))"
| "client_trust tb device (TlsLeafSha256 expected) =
     and_then (map_err (\<lambda>e. Tls device (''failed to enable TLS 1.2/1.3: '' @ e)) (tl_versions tb)) (\<lambda>_.
       Inr (LeafPin expected))"

definition build_http_client :: "tls_lib \<Rightarrow> device_config \<Rightarrow> http_client res" where
  "build_http_client tb dc =
     and_then (client_trust tb (device_name dc) (dc_tls dc)) (\<lambda>t.
     and_then (map_err (\<lambda>e. Tls (device_name dc) (sanitized_reason e)) (tl_build tb (base_client dc t))) (\<lambda>_.
       Inr (base_client dc t)))"

text \<open>The client, its API URL, the semaphore's permits and the initial health flag.\<close>

record panos_client =
  pc_config :: device_config
  pc_client :: http_client
  pc_api_url :: url
  pc_permits :: nat
  pc_healthy :: bool

definition new_client :: "tls_lib \<Rightarrow> device_config \<Rightarrow> panos_client res" where
  "new_client tb dc =
     and_then (build_http_client tb dc) (\<lambda>client.
     and_then (map_err Configuration (tl_join tb (dc_endpoint dc) api_path)) (\<lambda>url.
       Inr \<lparr>pc_config = dc, pc_client = client, pc_api_url = url,
            pc_permits = dc_max_concurrency dc, pc_healthy = True\<rparr>))"

section \<open>The pinned certificate\<close>

text \<open>Intermediates, server name, OCSP response and time are not looked at.\<close>

definition verify_server_cert ::
  "lib \<Rightarrow> nat list \<Rightarrow> string \<Rightarrow> string list \<Rightarrow> string \<Rightarrow> string \<Rightarrow> nat \<Rightarrow> bool" where
  "verify_server_cert lb expected end_entity intermediates server_name ocsp now \<longleftrightarrow>
     map byte (sha256 lb end_entity) = expected"

definition verify_tls12_signature :: "tls_lib \<Rightarrow> string \<Rightarrow> string \<Rightarrow> string \<Rightarrow> bool" where
  "verify_tls12_signature tb message cert signature = tl_signature12 tb message cert signature"

definition verify_tls13_signature :: "tls_lib \<Rightarrow> string \<Rightarrow> string \<Rightarrow> string \<Rightarrow> bool" where
  "verify_tls13_signature tb message cert signature = tl_signature13 tb message cert signature"

end
