(* ===== verification/Json.thy ===== *)
theory Json
  imports Prelude
begin

text \<open>
  JSON values and the decoders that serde derives from a struct or enum declaration.  The text of a
  document is read by the JSON crate; here a value is given, and a decoder returns None when the
  derived one refuses, whatever its complaint.  An object keeps its members in order, repeated
  ones included.  A struct is an object or the list of its fields in order; its attributes say whether
  other members are refused and which fields may be absent.
\<close>

section \<open>Values and the standard types\<close>

datatype jvalue =
    JNull
  | JBool bool
  | JInt int
  | JReal string
  | JText string
  | JList "jvalue list"
  | JObject "(string \<times> jvalue) list"

type_synonym members = "(string \<times> jvalue) list"

fun read_text :: "jvalue \<Rightarrow> string option" where
  "read_text (JText s) = Some s"
| "read_text v = None"

text \<open>An unsigned integer of the given width.\<close>

fun read_unsigned :: "nat \<Rightarrow> jvalue \<Rightarrow> nat option" where
  "read_unsigned bits (JInt i) = (if 0 \<le> i \<and> i < 2 ^ bits then Some (nat i) else None)"
| "read_unsigned bits v = None"

fun read_bool :: "jvalue \<Rightarrow> bool option" where
  "read_bool (JBool b) = Some b"
| "read_bool v = None"

fun read_option :: "(jvalue \<Rightarrow> 'a option) \<Rightarrow> jvalue \<Rightarrow> 'a option option" where
  "read_option d JNull = Some None"
| "read_option d v = map_option Some (d v)"

fun read_list :: "(jvalue \<Rightarrow> 'a option) \<Rightarrow> jvalue \<Rightarrow> 'a list option" where
  "read_list d (JList vs) = those (map d vs)"
| "read_list d v = None"

text \<open>A unit variant is its name, or an object whose only member maps the name to null.\<close>

fun unit_variant :: "jvalue \<Rightarrow> string option" where
  "unit_variant (JText s) = Some s"
| "unit_variant (JObject [(s, JNull)]) = Some s"
| "unit_variant v = None"

definition read_variant :: "(string \<times> 'a) list \<Rightarrow> jvalue \<Rightarrow> 'a option" where
  "read_variant table v = Option.bind (unit_variant v) (map_of table)"

section \<open>Structs\<close>

text \<open>\<open>deny_unknown_fields\<close>, and no field twice.\<close>

definition closed :: "string list \<Rightarrow> members \<Rightarrow> bool" where
  "closed names ms \<longleftrightarrow> list_all (\<lambda>m. fst m \<in> set names) ms \<and> distinct (map fst ms)"

definition struct :: "string list \<Rightarrow> members \<Rightarrow> 'a option \<Rightarrow> 'a option" where
  "struct names ms body = (if closed names ms then body else None)"

definition required :: "members \<Rightarrow> string \<Rightarrow> (jvalue \<Rightarrow> 'a option) \<Rightarrow> 'a option" where
  "required ms name d = Option.bind (map_of ms name) d"

definition defaulted :: "members \<Rightarrow> string \<Rightarrow> (jvalue \<Rightarrow> 'a option) \<Rightarrow> 'a \<Rightarrow> 'a option" where
  "defaulted ms name d x = (case map_of ms name of None \<Rightarrow> Some x | Some v \<Rightarrow> d v)"

definition optional :: "members \<Rightarrow> string \<Rightarrow> (jvalue \<Rightarrow> 'a option) \<Rightarrow> 'a option option" where
  "optional ms name d = defaulted ms name (read_option d) None"

text \<open>A struct as a value: an object, or a list of the fields in their order.\<close>

fun struct_members :: "string list \<Rightarrow> jvalue \<Rightarrow> members option" where
  "struct_members names (JObject ms) = Some ms"
| "struct_members names (JList vs) = (if length vs \<le> length names then Some (zip names vs) else None)"
| "struct_members names v = None"

definition read_struct :: "string list \<Rightarrow> (members \<Rightarrow> 'a option) \<Rightarrow> jvalue \<Rightarrow> 'a option" where
  "read_struct names body v = Option.bind (struct_members names v) (\<lambda>ms. struct names ms (body ms))"

text \<open>Without \<open>deny_unknown_fields\<close>, other members are skipped.\<close>

definition read_open_struct :: "string list \<Rightarrow> (members \<Rightarrow> 'a option) \<Rightarrow> jvalue \<Rightarrow> 'a option" where
  "read_open_struct names body v =
     Option.bind (struct_members names v) (\<lambda>ms. struct names (filter (\<lambda>m. fst m \<in> set names) ms) (body ms))"

text \<open>An enum with the tag \<open>type\<close>: the member names the variant and the others are its fields.  A unit
  variant does not look at them.\<close>

datatype 'a variant = UnitVariant 'a | StructVariant "string list" "members \<Rightarrow> 'a option"

fun read_variant_members :: "'a variant \<Rightarrow> members \<Rightarrow> 'a option" where
  "read_variant_members (UnitVariant x) ms = Some x"
| "read_variant_members (StructVariant names body) ms = struct names ms (body ms)"

fun read_variant_list :: "'a variant \<Rightarrow> jvalue list \<Rightarrow> 'a option" where
  "read_variant_list (UnitVariant x) vs = (if vs = [] then Some x else None)"
| "read_variant_list (StructVariant names body) vs =
     (if length vs \<le> length names then body (zip names vs) else None)"

definition variant_at :: "(string \<times> 'a variant) list \<Rightarrow> jvalue \<Rightarrow> 'a variant option" where
  "variant_at variants tag = Option.bind (read_text tag) (map_of variants)"

fun read_tagged :: "(string \<times> 'a variant) list \<Rightarrow> jvalue \<Rightarrow> 'a option" where
  "read_tagged variants (JObject ms) =
     (case filter (\<lambda>m. fst m = ''type'') ms of
        [(_, tag)] \<Rightarrow> Option.bind (variant_at variants tag)
          (\<lambda>v. read_variant_members v (filter (\<lambda>m. fst m \<noteq> ''type'') ms))
      | _ \<Rightarrow> None)"
| "read_tagged variants (JList (tag # vs)) =
     Option.bind (variant_at variants tag) (\<lambda>v. read_variant_list v vs)"
| "read_tagged variants v = None"

end
