(* ===== verification/InventoryFile.thy ===== *)
theory InventoryFile
  imports Inventory Json
begin

text \<open>
  The inventory document: \<^verbatim>\<open>rust-panosmcp-core/src/inventory.rs\<close>, the raw structs with their
  defaults.  A device entry refuses unknown members; the document around the entries, and the
  device-names reader of the token commands, skip them.
\<close>

section \<open>Enums\<close>

definition authority_variants :: "(string \<times> config_authority) list" where
  "authority_variants =
     [(''local'', AuthLocal), (''panorama'', AuthPanorama), (''strata-cloud-manager'', AuthStrata),
      (''unknown'', AuthUnknown)]"

definition mode_variants :: "(string \<times> policy_mode) list" where
  "mode_variants = [(''allowlist'', Allowlist), (''blocklist'', Blocklist)]"

definition api_key_variants :: "(string \<times> api_key_source variant) list" where
  "api_key_variants =
     [(''env'', StructVariant [''name''] (\<lambda>ms. map_option KeyEnv (required ms ''name'' read_text))),
      (''file'', StructVariant [''path''] (\<lambda>ms. map_option KeyFile (required ms ''path'' read_text)))]"

definition tls_variants :: "(string \<times> tls_trust variant) list" where
  "tls_variants =
     [(''system'', UnitVariant TrustSystem),
      (''custom_ca'', StructVariant [''path''] (\<lambda>ms. map_option TrustCustomCa (required ms ''path'' read_text))),
      (''leaf_sha256'', StructVariant [''fingerprint'']
         (\<lambda>ms. map_option TrustLeafSha256 (required ms ''fingerprint'' read_text)))]"

section \<open>Entries\<close>

definition default_true :: bool where
  "default_true = True"

definition read_mutation_policy :: "jvalue \<Rightarrow> mutation_policy option" where
  "read_mutation_policy =
     read_struct [''admin'', ''allowed_xpath_roots'', ''allow_delete'', ''require_config_lock''] (\<lambda>ms.
       Option.bind (required ms ''admin'' read_text) (\<lambda>admin.
       Option.bind (required ms ''allowed_xpath_roots'' (read_list read_text)) (\<lambda>roots.
       Option.bind (defaulted ms ''allow_delete'' read_bool False) (\<lambda>allow_delete.
       Option.bind (defaulted ms ''require_config_lock'' read_bool default_true) (\<lambda>require_lock.
         Some \<lparr>pol_admin = admin, pol_roots = roots, pol_allow_delete = allow_delete,
           pol_require_lock = require_lock\<rparr>)))))"

definition read_texts :: "members \<Rightarrow> string \<Rightarrow> string list option" where
  "read_texts ms name = defaulted ms name (read_list read_text) []"

definition read_blocklist :: "jvalue \<Rightarrow> blocklist_rules option" where
  "read_blocklist =
     read_struct [''commands'', ''xpath'', ''allow'', ''allowed_pipes''] (\<lambda>ms.
       Option.bind (read_texts ms ''commands'') (\<lambda>commands.
       Option.bind (read_texts ms ''xpath'') (\<lambda>xpath.
       Option.bind (read_texts ms ''allow'') (\<lambda>allow.
       Option.bind (read_texts ms ''allowed_pipes'') (\<lambda>pipes.
         Some \<lparr>bl_commands = commands, bl_xpath = xpath, bl_allow = allow, bl_allowed_pipes = pipes\<rparr>)))))"

definition read_policy_config :: "jvalue \<Rightarrow> raw_policy option" where
  "read_policy_config =
     read_struct [''mode'', ''allow'', ''allowed_pipes''] (\<lambda>ms.
       Option.bind (optional ms ''mode'' (read_variant mode_variants)) (\<lambda>mode.
       Option.bind (read_texts ms ''allow'') (\<lambda>allow.
       Option.bind (read_texts ms ''allowed_pipes'') (\<lambda>pipes.
         Some \<lparr>rp_mode = mode, rp_allow = allow, rp_allowed_pipes = pipes\<rparr>))))"

definition device_fields :: "string list" where
  "device_fields =
     [''name'', ''endpoint'', ''vsys'', ''api_key'', ''tls'', ''tags'', ''connect_timeout_secs'',
      ''request_timeout_secs'', ''max_concurrency'', ''max_response_bytes'', ''mutation'', ''blocklist'',
      ''config_authority'']"

definition read_raw_device :: "jvalue \<Rightarrow> raw_device option" where
  "read_raw_device =
     read_struct device_fields (\<lambda>ms.
       Option.bind (required ms ''name'' read_text) (\<lambda>name.
       Option.bind (required ms ''endpoint'' read_text) (\<lambda>endpoint.
       Option.bind (optional ms ''vsys'' read_text) (\<lambda>vsys.
       Option.bind (required ms ''api_key'' (read_tagged api_key_variants)) (\<lambda>api_key.
       Option.bind (defaulted ms ''tls'' (read_tagged tls_variants) TrustSystem) (\<lambda>tls.
       Option.bind (read_texts ms ''tags'') (\<lambda>tags.
       Option.bind (defaulted ms ''connect_timeout_secs'' (read_unsigned 64) default_connect_timeout_secs) (\<lambda>connect.
       Option.bind (defaulted ms ''request_timeout_secs'' (read_unsigned 64) default_request_timeout_secs) (\<lambda>request.
       Option.bind (defaulted ms ''max_concurrency'' (read_unsigned 64) default_max_concurrency) (\<lambda>concurrency.
       Option.bind (defaulted ms ''max_response_bytes'' (read_unsigned 64) default_max_response_bytes) (\<lambda>bytes.
       Option.bind (optional ms ''mutation'' read_mutation_policy) (\<lambda>mutation.
       Option.bind (optional ms ''blocklist'' read_blocklist) (\<lambda>blocklist.
       Option.bind (defaulted ms ''config_authority'' (read_variant authority_variants) AuthUnknown) (\<lambda>authority.
         Some \<lparr>raw_name = name, raw_endpoint = endpoint, raw_vsys = vsys, raw_api_key = api_key, raw_tls = tls,
           raw_tags = tags, raw_connect_timeout = connect, raw_request_timeout = request,
           raw_max_concurrency = concurrency, raw_max_response_bytes = bytes, raw_mutation = mutation,
           raw_blocklist = blocklist, raw_authority = authority\<rparr>))))))))))))))"

section \<open>The document\<close>

definition read_inventory_file :: "jvalue \<Rightarrow> raw_inventory option" where
  "read_inventory_file =
     read_open_struct [''version'', ''devices'', ''policy''] (\<lambda>ms.
       Option.bind (required ms ''version'' (read_unsigned 32)) (\<lambda>version.
       Option.bind (required ms ''devices'' (read_list read_raw_device)) (\<lambda>devices.
       Option.bind (optional ms ''policy'' read_policy_config) (\<lambda>policy.
         Some \<lparr>ri_version = version, ri_devices = devices, ri_policy = policy\<rparr>))))"

text \<open>What the token commands read of it.\<close>

definition read_minimal_device :: "jvalue \<Rightarrow> string option" where
  "read_minimal_device = read_open_struct [''name''] (\<lambda>ms. required ms ''name'' read_text)"

definition read_minimal_envelope :: "jvalue \<Rightarrow> (nat \<times> string list) option" where
  "read_minimal_envelope =
     read_open_struct [''version'', ''devices''] (\<lambda>ms.
       Option.bind (required ms ''version'' (read_unsigned 32)) (\<lambda>version.
       Option.bind (required ms ''devices'' (read_list read_minimal_device)) (\<lambda>names.
         Some (version, names))))"

text \<open>A file as the JSON crate reads it: it cannot be read, it is not JSON, or it is a value, with the
  complaint a decoder makes when it refuses the value.\<close>

datatype json_file = Unreadable string | NotJson string | JsonFile jvalue string

fun read_json_file :: "(jvalue \<Rightarrow> 'a option) \<Rightarrow> json_file \<Rightarrow> 'a res" where
  "read_json_file d (Unreadable e) = Inl (Inventory (''failed to read inventory: '' @ e))"
| "read_json_file d (NotJson e) = Inl (Inventory (''invalid JSON: '' @ e))"
| "read_json_file d (JsonFile v e) = ok_or (Inventory (''invalid JSON: '' @ e)) (d v)"

definition load_document :: "lib \<Rightarrow> host \<Rightarrow> string \<Rightarrow> json_file \<Rightarrow> inventory res" where
  "load_document lb h path file =
     and_then (read_json_file read_inventory_file file) (\<lambda>parsed. load_with_environment lb h path parsed)"

definition device_names_document :: "host \<Rightarrow> json_file \<Rightarrow> string list res" where
  "device_names_document h file =
     and_then (read_json_file read_minimal_envelope file) (\<lambda>(version, names). device_names h version names)"

text \<open>The \<open>Debug\<close> text of the trust material; \<open>dbg\<close> is that of a path.\<close>

fun tls_debug :: "(string \<Rightarrow> string) \<Rightarrow> loaded_tls \<Rightarrow> string" where
  "tls_debug dbg TlsSystem = ''System''"
| "tls_debug dbg (TlsCustomCa source pem) =
     ''CustomCa { source: '' @ dbg source @ '', pem: '' @ [CHR 0x22] @ ''[CERTIFICATE DATA]'' @ [CHR 0x22] @ '' }''"
| "tls_debug dbg (TlsLeafSha256 fp) = ''LeafSha256([FINGERPRINT])''"

end
