(* ===== verification/Runtime.thy ===== *)
theory Runtime
  imports Tls Reads InventoryFile
begin

text \<open>
  Starting, reloading and sharing the service: \<^verbatim>\<open>rust-panosmcp-core/src/tools.rs\<close>,
  \<open>new_with_options\<close> and \<open>reload\<close>; \<^verbatim>\<open>rust-panosmcp/src/lib.rs\<close>, \<open>RuntimeState\<close>.  A snapshot
  is replaced as a whole; the type \<open>'t\<close> is the shared auth crate's token store.
\<close>

section \<open>The coordinator's settings\<close>

definition "max_operations = (1024 :: nat)"
definition "max_change_sets = (1024 :: nat)"
definition "max_state_bytes = (8 * 1024 * 1024 :: nat)"
definition "approval_ttl_secs = (15 * 60 :: nat)"

record operation_limits =
  lim_operations :: nat
  lim_change_sets :: nat
  lim_actions :: nat
  lim_change_set_bytes :: nat
  lim_state_bytes :: nat

record coord_settings =
  cos_state_path :: "string option"
  cos_limits :: operation_limits
  cos_approval_ttl :: nat
  cos_lab_mode :: bool
  cos_retain_staged :: bool
  cos_evidence :: "string option"

text \<open>What start-up reads from outside; a recorder is named by its writer.\<close>

record 't platform =
  pf_lib :: lib
  pf_policy :: policy_lib
  pf_tls :: tls_lib
  pf_host :: host
  pf_inventory :: "string \<Rightarrow> json_file"
  pf_tokens :: "string \<Rightarrow> string + 't"
  pf_coordinator :: "coord_settings \<Rightarrow> coord_err option"
  pf_direct_refusal :: string

section \<open>The service\<close>

record panos_service =
  ps_tools :: tool_service
  ps_coordinator :: coord_settings

definition connect_client :: "tls_lib \<Rightarrow> device_config \<Rightarrow> unit res" where
  "connect_client tb dc = and_then (new_client tb dc) (\<lambda>_. Inr ())"

text \<open>\<open>DirectCommitPolicy::new\<close>: the refusal text of a service that does not allow it.\<close>

definition direct_commit_policy :: "'t platform \<Rightarrow> bool \<Rightarrow> string option" where
  "direct_commit_policy pf allow = (if allow then None else Some (pf_direct_refusal pf))"

record start_options =
  so_state_path :: "string option"
  so_lab_mode :: bool
  so_approval_timeout :: "nat option"
  so_allow_plane :: bool
  so_allow_direct :: bool
  so_evidence :: "string option"

definition default_options :: start_options where
  "default_options = \<lparr>so_state_path = None, so_lab_mode = False, so_approval_timeout = None,
     so_allow_plane = False, so_allow_direct = False, so_evidence = None\<rparr>"

definition coordinator_settings :: "start_options \<Rightarrow> coord_settings" where
  "coordinator_settings opts =
     \<lparr>cos_state_path = so_state_path opts,
      cos_limits = \<lparr>lim_operations = max_operations, lim_change_sets = max_change_sets,
        lim_actions = max_change_set_actions, lim_change_set_bytes = max_change_set_bytes,
        lim_state_bytes = max_state_bytes\<rparr>,
      cos_approval_ttl = or_default approval_ttl_secs (so_approval_timeout opts),
      cos_lab_mode = so_lab_mode opts, cos_retain_staged = True, cos_evidence = so_evidence opts\<rparr>"

definition new_with_options :: "'t platform \<Rightarrow> inventory \<Rightarrow> start_options \<Rightarrow> panos_service res" where
  "new_with_options pf iv opts =
     (let settings = coordinator_settings opts in
      and_then (case pf_coordinator pf settings of None \<Rightarrow> Inr () | Some e \<Rightarrow> Inl (coord_error e)) (\<lambda>_.
      and_then (build (pf_lib pf) (pf_policy pf) (connect_client (pf_tls pf)) iv (so_allow_plane opts)
          (direct_commit_policy pf (so_allow_direct opts))) (\<lambda>ts.
        Inr \<lparr>ps_tools = ts, ps_coordinator = settings\<rparr>)))"

text \<open>A rebuilt service keeps the coordinator, the recorder and both break-glass settings.\<close>

definition rebuild :: "'t platform \<Rightarrow> inventory \<Rightarrow> panos_service \<Rightarrow> panos_service res" where
  "rebuild pf iv previous =
     and_then (reload_service (pf_lib pf) (pf_policy pf) (connect_client (pf_tls pf)) iv (ps_tools previous)) (\<lambda>ts.
       Inr \<lparr>ps_tools = ts, ps_coordinator = ps_coordinator previous\<rparr>)"

section \<open>Snapshots\<close>

datatype load_error = LoadCore panos_error | LoadTokens string | LoadConfiguration string

record 't snapshot =
  sn_service :: panos_service
  sn_tokens :: "'t option"

record 't runtime =
  rt_current :: "'t snapshot"
  rt_inventory_path :: string
  rt_token_path :: "string option"

definition load_inventory :: "'t platform \<Rightarrow> string \<Rightarrow> inventory res" where
  "load_inventory pf path = load_document (pf_lib pf) (pf_host pf) path (pf_inventory pf path)"

definition load_tokens :: "'t platform \<Rightarrow> string option \<Rightarrow> load_error + 't option" where
  "load_tokens pf path =
     (case path of None \<Rightarrow> Inr None
      | Some p \<Rightarrow> and_then (map_err LoadTokens (pf_tokens pf p)) (\<lambda>t. Inr (Some t)))"

definition load_snapshot ::
  "'t platform \<Rightarrow> string \<Rightarrow> string option \<Rightarrow> panos_service option \<Rightarrow> start_options \<Rightarrow> load_error + 't snapshot" where
  "load_snapshot pf inventory_path token_path previous opts =
     and_then (map_err LoadCore (load_inventory pf inventory_path)) (\<lambda>iv.
     and_then (map_err LoadCore (case previous of
         Some p \<Rightarrow> rebuild pf iv p
       | None \<Rightarrow> new_with_options pf iv opts)) (\<lambda>service.
     and_then (load_tokens pf token_path) (\<lambda>tokens.
       Inr \<lparr>sn_service = service, sn_tokens = tokens\<rparr>)))"

definition load_with_state ::
  "'t platform \<Rightarrow> string \<Rightarrow> string option \<Rightarrow> start_options \<Rightarrow> load_error + 't runtime" where
  "load_with_state pf inventory_path token_path opts =
     and_then (load_snapshot pf inventory_path token_path None opts) (\<lambda>sn.
       Inr \<lparr>rt_current = sn, rt_inventory_path = inventory_path, rt_token_path = token_path\<rparr>)"

definition load_runtime :: "'t platform \<Rightarrow> string \<Rightarrow> string option \<Rightarrow> load_error + 't runtime" where
  "load_runtime pf inventory_path token_path = load_with_state pf inventory_path token_path default_options"

definition from_parts :: "panos_service \<Rightarrow> 't option \<Rightarrow> 't runtime" where
  "from_parts service tokens =
     \<lparr>rt_current = \<lparr>sn_service = service, sn_tokens = tokens\<rparr>, rt_inventory_path = [], rt_token_path = None\<rparr>"

text \<open>The result of a reload and the runtime after it.\<close>

definition reload :: "'t platform \<Rightarrow> 't runtime \<Rightarrow> (load_error + unit) \<times> 't runtime" where
  "reload pf rt =
     (if rt_inventory_path rt = [] then (Inl (LoadConfiguration ''embedded runtime has no reload source''), rt)
      else
        (case load_snapshot pf (rt_inventory_path rt) (rt_token_path rt) (Some (sn_service (rt_current rt)))
                default_options of
           Inl e \<Rightarrow> (Inl e, rt)
         | Inr replacement \<Rightarrow> (Inr (), rt\<lparr>rt_current := replacement\<rparr>)))"

end
