(* ===== verification/Server.thy ===== *)
theory Server
  imports Runtime ChangeSets
begin

text \<open>
  The MCP handlers: \<^verbatim>\<open>rust-panosmcp/src/lib.rs\<close>, \<open>PanosMcpServer\<close>.  A request is the tool's parsed
  input and the extensions the transport attached.  Each handler authorises the caller, takes
  the current snapshot, runs one operation of the service and renders its result.
\<close>

section \<open>Requests and results\<close>

text \<open>The extensions of a request: over HTTP the request parts are present, with the caller the
  bearer boundary attached to them, if any.  Local stdio has none.\<close>

datatype extensions = StdioExt | HttpExt "caller_ctx option"

datatype call_result = CallSuccess string | CallError string

definition to_call_result :: "('a \<Rightarrow> string + string) \<Rightarrow> 'a res \<Rightarrow> call_result" where
  "to_call_result enc result =
     (case result of
        Inr value \<Rightarrow>
          (case enc value of
             Inr json \<Rightarrow> CallSuccess json
           | Inl e \<Rightarrow> CallError (''failed to serialize tool result: '' @ e))
      | Inl e \<Rightarrow> CallError (error_text e))"

definition is_http :: "extensions \<Rightarrow> bool" where
  "is_http ext = (case ext of StdioExt \<Rightarrow> False | HttpExt _ \<Rightarrow> True)"

definition caller :: "extensions \<Rightarrow> caller_ctx option" where
  "caller ext = (case ext of StdioExt \<Rightarrow> None | HttpExt c \<Rightarrow> c)"

definition not_authorized :: "string \<Rightarrow> string \<Rightarrow> string" where
  "not_authorized name what = ''token '' @ quoted name @ '' is not authorized for '' @ what"

definition authorize :: "scope_lib \<Rightarrow> extensions \<Rightarrow> string \<Rightarrow> string option \<Rightarrow> call_result option" where
  "authorize sl ext tool device =
     (case caller ext of
        None \<Rightarrow>
          if is_http ext then Some (CallError ''authenticated HTTP transport requires a valid bearer token'')
          else None
      | Some c \<Rightarrow>
          if \<not> sl_allows_tool sl (cc_tools c) tool mutation_tools
          then Some (CallError (not_authorized (cc_token c) (''tool '' @ quoted tool)))
          else
            (case device of
               Some d \<Rightarrow> if sl_allows sl (cc_devices c) d then None
                         else Some (CallError (not_authorized (cc_token c) ''the requested device''))
             | None \<Rightarrow> None))"

definition mutation_principal :: "extensions \<Rightarrow> call_result + string" where
  "mutation_principal ext =
     (case caller ext of
        Some c \<Rightarrow> Inr (cc_token c)
      | None \<Rightarrow>
          if is_http ext then Inl (CallError ''candidate mutation requires authenticated HTTP or local stdio'')
          else Inr ''local-stdio'')"

definition mutation_identity :: "extensions \<Rightarrow> call_result + string \<times> mutation_grant option" where
  "mutation_identity ext =
     and_then (mutation_principal ext) (\<lambda>who.
       case caller ext of
         None \<Rightarrow> Inr (who, None)
       | Some c \<Rightarrow>
           (case cc_grant c of
              None \<Rightarrow> Inl (CallError ''candidate mutations over HTTP require a token-specific mutation grant'')
            | Some g \<Rightarrow> Inr (who, Some g)))"

text \<open>What the server takes from the crates around it: scope membership, rule matching, the
  attribution of a caller, and the JSON encoding of each output.\<close>

record server_lib =
  sb_scope :: scope_lib
  sb_policy :: policy_lib
  sb_attribution :: "caller_ctx option \<Rightarrow> attribution"
  sb_change_set_json :: "change_set_output \<Rightarrow> string + string"
  sb_stage_json :: "stage_output \<Rightarrow> string + string"
  sb_fingerprint_json :: "string \<times> string \<Rightarrow> string + string"
  sb_diff_json :: "diff_output \<Rightarrow> string + string"
  sb_validation_json :: "validation_output \<Rightarrow> string + string"
  sb_commit_json :: "commit_output \<Rightarrow> string + string"
  sb_discard_json :: "discard_output \<Rightarrow> string + string"
  sb_status_json :: "status_output \<Rightarrow> string + string"
  sb_devices_json :: "device_metadata list \<Rightarrow> string + string"
  sb_facts_json :: "facts_output \<Rightarrow> string + string"
  sb_xml_json :: "xml_output \<Rightarrow> string + string"
  sb_config_json :: "config_output \<Rightarrow> string + string"
  sb_entries_json :: "entries_output \<Rightarrow> string + string"
  sb_rulebase_json :: "rulebase_output \<Rightarrow> string + string"
  sb_groups_json :: "string \<times> device_group_summary list \<Rightarrow> string + string"
  sb_templates_json :: "string \<times> template_summary list \<Rightarrow> string + string"
  sb_push_json :: "string \<times> string \<times> push_job_status \<Rightarrow> string + string"
  sb_ha_json :: "string \<times> ha_state \<Rightarrow> string + string"
  sb_licenses_json :: "string \<times> license_entry list \<Rightarrow> string + string"
  sb_content_json :: "string \<times> content_version_entry list \<Rightarrow> string + string"
  sb_software_json :: "string \<times> software_version_entry list \<Rightarrow> string + string"
  sb_match_json :: "match_output \<Rightarrow> string + string"
  sb_logs_json :: "logs_output \<Rightarrow> string + string"
  sb_digest_json :: "digest_output \<Rightarrow> string + string"

definition tools_of :: "'t runtime \<Rightarrow> tool_service" where
  "tools_of rt = ps_tools (sn_service (rt_current rt))"

definition service_of :: "'t runtime \<Rightarrow> service" where
  "service_of rt = base_service (tools_of rt)"

text \<open>The three openings of a handler: a denial ends it with nothing done.\<close>

definition when_authorized ::
  "server_lib \<Rightarrow> extensions \<Rightarrow> string \<Rightarrow> string option \<Rightarrow> call_result act \<Rightarrow> call_result act" where
  "when_authorized sb ext tool device k =
     (case authorize (sb_scope sb) ext tool device of Some denial \<Rightarrow> ret denial | None \<Rightarrow> k)"

definition with_principal :: "extensions \<Rightarrow> (string \<Rightarrow> call_result act) \<Rightarrow> call_result act" where
  "with_principal ext k = (case mutation_principal ext of Inl denial \<Rightarrow> ret denial | Inr who \<Rightarrow> k who)"

definition with_identity ::
  "extensions \<Rightarrow> (string \<Rightarrow> mutation_grant option \<Rightarrow> call_result act) \<Rightarrow> call_result act" where
  "with_identity ext k =
     (case mutation_identity ext of Inl denial \<Rightarrow> ret denial | Inr (who, grant) \<Rightarrow> k who grant)"

definition render :: "('a \<Rightarrow> string + string) \<Rightarrow> 'a res act \<Rightarrow> call_result act" where
  "render enc m = bind_act m (\<lambda>r. ret (to_call_result enc r))"

section \<open>Change sets\<close>

definition create_panos_change_set ::
  "server_lib \<Rightarrow> env \<Rightarrow> 't runtime \<Rightarrow> create_input \<Rightarrow> token \<Rightarrow> extensions \<Rightarrow> call_result act" where
  "create_panos_change_set sb env rt input tok ext =
     when_authorized sb ext ''create_panos_change_set'' (Some (ci_device input))
       (with_identity ext (\<lambda>who grant.
       render (sb_change_set_json sb) (create_change_set env (service_of rt) input who grant tok)))"

definition approve_panos_change_set ::
  "server_lib \<Rightarrow> env \<Rightarrow> 't runtime \<Rightarrow> string \<Rightarrow> string \<Rightarrow> string \<Rightarrow> extensions \<Rightarrow> call_result act" where
  "approve_panos_change_set sb env rt cs device digest ext =
     when_authorized sb ext ''approve_panos_change_set'' (Some device)
       (with_principal ext (\<lambda>who.
       render (sb_change_set_json sb) (approve_change_set env cs device who digest
         (map_option cc_actor (caller ext)))))"

definition get_panos_change_set ::
  "server_lib \<Rightarrow> env \<Rightarrow> 't runtime \<Rightarrow> string \<Rightarrow> string \<Rightarrow> extensions \<Rightarrow> call_result act" where
  "get_panos_change_set sb env rt cs device ext =
     when_authorized sb ext ''get_panos_change_set'' (Some device)
       (with_principal ext (\<lambda>who.
       render (sb_change_set_json sb) (change_set_status env cs device)))"

definition apply_panos_change_set ::
  "server_lib \<Rightarrow> env \<Rightarrow> 't runtime \<Rightarrow> apply_input \<Rightarrow> token \<Rightarrow> extensions \<Rightarrow> call_result act" where
  "apply_panos_change_set sb env rt input tok ext =
     when_authorized sb ext ''apply_panos_change_set'' (Some (ai_device input))
       (with_identity ext (\<lambda>who grant.
       render (sb_stage_json sb) (apply_change_set env (service_of rt) input who grant tok)))"

section \<open>The candidate lifecycle\<close>

definition get_candidate_fingerprint ::
  "server_lib \<Rightarrow> env \<Rightarrow> 't runtime \<Rightarrow> string \<Rightarrow> token \<Rightarrow> extensions \<Rightarrow> call_result act" where
  "get_candidate_fingerprint sb env rt device tok ext =
     when_authorized sb ext ''get_candidate_fingerprint'' (Some device)
       (render (sb_fingerprint_json sb) (candidate_fingerprint_tool env (service_of rt) device tok))"

definition stage_panos_config ::
  "server_lib \<Rightarrow> env \<Rightarrow> 't runtime \<Rightarrow> stage_input \<Rightarrow> token \<Rightarrow> extensions \<Rightarrow> call_result act" where
  "stage_panos_config sb env rt input tok ext =
     when_authorized sb ext ''stage_panos_config'' (Some (si_device input))
       (with_identity ext (\<lambda>who grant.
       render (sb_stage_json sb) (stage_config env (service_of rt) input who grant tok)))"

definition diff_panos_candidate ::
  "server_lib \<Rightarrow> env \<Rightarrow> 't runtime \<Rightarrow> operation_input \<Rightarrow> token \<Rightarrow> extensions \<Rightarrow> call_result act" where
  "diff_panos_candidate sb env rt input tok ext =
     when_authorized sb ext ''diff_panos_candidate'' (Some (oi_device input))
       (with_principal ext (\<lambda>who.
       render (sb_diff_json sb) (diff_candidate env (service_of rt) input who tok)))"

definition validate_panos_candidate ::
  "server_lib \<Rightarrow> env \<Rightarrow> 't runtime \<Rightarrow> operation_input \<Rightarrow> token \<Rightarrow> extensions \<Rightarrow> call_result act" where
  "validate_panos_candidate sb env rt input tok ext =
     when_authorized sb ext ''validate_panos_candidate'' (Some (oi_device input))
       (with_principal ext (\<lambda>who.
       render (sb_validation_json sb) (validate_candidate env (service_of rt) input who tok)))"

definition commit_panos_candidate ::
  "server_lib \<Rightarrow> env \<Rightarrow> 't runtime \<Rightarrow> operation_input \<Rightarrow> token \<Rightarrow> extensions \<Rightarrow> call_result act" where
  "commit_panos_candidate sb env rt input tok ext =
     when_authorized sb ext ''commit_panos_candidate'' (Some (oi_device input))
       (with_principal ext (\<lambda>who.
       render (sb_commit_json sb) (commit_candidate env (service_of rt) input who
         (sb_attribution sb (caller ext)) tok)))"

definition discard_panos_candidate ::
  "server_lib \<Rightarrow> env \<Rightarrow> 't runtime \<Rightarrow> operation_input \<Rightarrow> extensions \<Rightarrow> call_result act" where
  "discard_panos_candidate sb env rt input ext =
     when_authorized sb ext ''discard_panos_candidate'' (Some (oi_device input))
       (with_principal ext (\<lambda>who.
       render (sb_discard_json sb) (discard_candidate env (service_of rt) input who)))"

definition get_panos_operation ::
  "server_lib \<Rightarrow> env \<Rightarrow> 't runtime \<Rightarrow> string \<Rightarrow> string \<Rightarrow> extensions \<Rightarrow> call_result act" where
  "get_panos_operation sb env rt operation device ext =
     when_authorized sb ext ''get_panos_operation'' (Some device)
       (with_principal ext (\<lambda>who.
       render (sb_status_json sb) (operation_status env operation who device)))"

section \<open>Reads\<close>

definition list_devices_tool :: "server_lib \<Rightarrow> 't runtime \<Rightarrow> extensions \<Rightarrow> call_result act" where
  "list_devices_tool sb rt ext =
     when_authorized sb ext ''list_devices'' None
       (let output = list_devices (tools_of rt);
            shown = (case caller ext of None \<Rightarrow> output
              | Some c \<Rightarrow> filter (\<lambda>d. sl_allows (sb_scope sb) (cc_devices c) (dm_name d)) output) in
        ret (to_call_result (sb_devices_json sb) (Inr shown)))"

definition gather_device_facts_tool ::
  "server_lib \<Rightarrow> env \<Rightarrow> 't runtime \<Rightarrow> string \<Rightarrow> token \<Rightarrow> extensions \<Rightarrow> call_result act" where
  "gather_device_facts_tool sb env rt device tok ext =
     when_authorized sb ext ''gather_device_facts'' (Some device)
       (render (sb_facts_json sb) (gather_device_facts env (tools_of rt) device tok))"

definition execute_panos_op_tool ::
  "server_lib \<Rightarrow> env \<Rightarrow> 't runtime \<Rightarrow> string \<Rightarrow> string \<Rightarrow> nat option \<Rightarrow> nat option \<Rightarrow> token \<Rightarrow> extensions \<Rightarrow> call_result act" where
  "execute_panos_op_tool sb env rt device command bytes lns tok ext =
     when_authorized sb ext ''execute_panos_op'' (Some device)
       (render (sb_xml_json sb) (execute_panos_op env (sb_policy sb) (tools_of rt) device command bytes lns tok))"

definition get_panos_config_tool ::
  "server_lib \<Rightarrow> env \<Rightarrow> 't runtime \<Rightarrow> string \<Rightarrow> config_source \<Rightarrow> string option \<Rightarrow> nat option \<Rightarrow> nat option \<Rightarrow> token \<Rightarrow> extensions \<Rightarrow> call_result act" where
  "get_panos_config_tool sb env rt device source xpath bytes lns tok ext =
     when_authorized sb ext ''get_panos_config'' (Some device)
       (render (sb_config_json sb) (get_panos_config env (sb_policy sb) (tools_of rt) device source xpath bytes lns tok))"

definition list_panos_entries_tool ::
  "server_lib \<Rightarrow> env \<Rightarrow> 't runtime \<Rightarrow> string \<Rightarrow> config_source \<Rightarrow> string \<Rightarrow> nat option \<Rightarrow> nat option \<Rightarrow> token \<Rightarrow> extensions \<Rightarrow> call_result act" where
  "list_panos_entries_tool sb env rt device source xpath offset limit tok ext =
     when_authorized sb ext ''list_panos_entries'' (Some device)
       (render (sb_entries_json sb) (list_panos_entries env (sb_policy sb) (tools_of rt) device source xpath offset limit tok))"

definition list_panorama_device_groups_tool ::
  "server_lib \<Rightarrow> env \<Rightarrow> 't runtime \<Rightarrow> string \<Rightarrow> token \<Rightarrow> extensions \<Rightarrow> call_result act" where
  "list_panorama_device_groups_tool sb env rt device tok ext =
     when_authorized sb ext ''list_panorama_device_groups'' (Some device)
       (render (sb_groups_json sb) (list_panorama_device_groups env (tools_of rt) device tok))"

definition list_panorama_templates_tool ::
  "server_lib \<Rightarrow> env \<Rightarrow> 't runtime \<Rightarrow> string \<Rightarrow> token \<Rightarrow> extensions \<Rightarrow> call_result act" where
  "list_panorama_templates_tool sb env rt device tok ext =
     when_authorized sb ext ''list_panorama_templates'' (Some device)
       (render (sb_templates_json sb) (list_panorama_templates env (sb_policy sb) (tools_of rt) device tok))"

definition get_panorama_push_status_tool ::
  "server_lib \<Rightarrow> env \<Rightarrow> 't runtime \<Rightarrow> string \<Rightarrow> string \<Rightarrow> token \<Rightarrow> extensions \<Rightarrow> call_result act" where
  "get_panorama_push_status_tool sb env rt device job tok ext =
     when_authorized sb ext ''get_panorama_push_status'' (Some device)
       (render (sb_push_json sb) (get_panorama_push_status env (tools_of rt) device job tok))"

definition list_panos_rulebase_entries_tool ::
  "server_lib \<Rightarrow> env \<Rightarrow> 't runtime \<Rightarrow> string \<Rightarrow> config_source \<Rightarrow> rulebase_kind \<Rightarrow> string \<Rightarrow> nat option \<Rightarrow> nat option \<Rightarrow> token \<Rightarrow> extensions \<Rightarrow> call_result act" where
  "list_panos_rulebase_entries_tool sb env rt device source kind vsys offset limit tok ext =
     when_authorized sb ext ''list_panos_rulebase_entries'' (Some device)
       (render (sb_rulebase_json sb) (list_panos_rulebase_entries env (sb_policy sb) (tools_of rt) device source kind vsys offset limit tok))"

definition get_panos_ha_state_tool ::
  "server_lib \<Rightarrow> env \<Rightarrow> 't runtime \<Rightarrow> string \<Rightarrow> token \<Rightarrow> extensions \<Rightarrow> call_result act" where
  "get_panos_ha_state_tool sb env rt device tok ext =
     when_authorized sb ext ''get_panos_ha_state'' (Some device)
       (render (sb_ha_json sb) (get_panos_ha_state env (tools_of rt) device tok))"

definition get_panos_license_info_tool ::
  "server_lib \<Rightarrow> env \<Rightarrow> 't runtime \<Rightarrow> string \<Rightarrow> token \<Rightarrow> extensions \<Rightarrow> call_result act" where
  "get_panos_license_info_tool sb env rt device tok ext =
     when_authorized sb ext ''get_panos_license_info'' (Some device)
       (render (sb_licenses_json sb) (get_panos_license_info env (tools_of rt) device tok))"

definition get_panos_content_status_tool ::
  "server_lib \<Rightarrow> env \<Rightarrow> 't runtime \<Rightarrow> string \<Rightarrow> token \<Rightarrow> extensions \<Rightarrow> call_result act" where
  "get_panos_content_status_tool sb env rt device tok ext =
     when_authorized sb ext ''get_panos_content_status'' (Some device)
       (render (sb_content_json sb) (get_panos_content_status env (tools_of rt) device tok))"

definition get_panos_software_status_tool ::
  "server_lib \<Rightarrow> env \<Rightarrow> 't runtime \<Rightarrow> string \<Rightarrow> token \<Rightarrow> extensions \<Rightarrow> call_result act" where
  "get_panos_software_status_tool sb env rt device tok ext =
     when_authorized sb ext ''get_panos_software_status'' (Some device)
       (render (sb_software_json sb) (get_panos_software_status env (tools_of rt) device tok))"

definition test_panos_security_policy_match_tool ::
  "server_lib \<Rightarrow> env \<Rightarrow> 't runtime \<Rightarrow> match_input \<Rightarrow> token \<Rightarrow> extensions \<Rightarrow> call_result act" where
  "test_panos_security_policy_match_tool sb env rt m tok ext =
     when_authorized sb ext ''test_panos_security_policy_match'' (Some (mi_device m))
       (render (sb_match_json sb) (test_panos_security_policy_match env (sb_policy sb) (tools_of rt) m tok))"

definition query_panos_logs_tool ::
  "server_lib \<Rightarrow> env \<Rightarrow> 't runtime \<Rightarrow> string \<Rightarrow> panos_log_type \<Rightarrow> string option \<Rightarrow> nat option \<Rightarrow> token \<Rightarrow> extensions \<Rightarrow> call_result act" where
  "query_panos_logs_tool sb env rt device t query max_logs tok ext =
     when_authorized sb ext ''query_panos_logs'' (Some device)
       (render (sb_logs_json sb) (query_panos_logs env (tools_of rt) device t query max_logs tok))"

definition get_panos_entry_digest_tool ::
  "server_lib \<Rightarrow> env \<Rightarrow> 't runtime \<Rightarrow> string \<Rightarrow> config_source \<Rightarrow> string \<Rightarrow> token \<Rightarrow> extensions \<Rightarrow> call_result act" where
  "get_panos_entry_digest_tool sb env rt device source xpath tok ext =
     when_authorized sb ext ''get_panos_entry_digest'' (Some device)
       (render (sb_digest_json sb) (get_panos_entry_digest env (sb_policy sb) (tools_of rt) device source xpath tok))"

section \<open>All tools\<close>

text \<open>A request to the server, one constructor per registered tool.\<close>

datatype tool_call =
    CreateChangeSet create_input
  | ApproveChangeSet string string string
  | GetChangeSet string string
  | ApplyChangeSet apply_input
  | GetFingerprint string
  | StageConfig stage_input
  | DiffCandidate operation_input
  | ValidateCandidate operation_input
  | CommitCandidate operation_input
  | DiscardCandidate operation_input
  | GetOperation string string
  | ListDevices
  | GatherFacts string
  | ExecuteOp string string "nat option" "nat option"
  | GetConfig string config_source "string option" "nat option" "nat option"
  | ListEntries string config_source string "nat option" "nat option"
  | ListDeviceGroups string
  | ListTemplates string
  | GetPushStatus string string
  | ListRulebase string config_source rulebase_kind string "nat option" "nat option"
  | GetHaState string
  | GetLicenses string
  | GetContent string
  | GetSoftware string
  | TestPolicyMatch match_input
  | QueryLogs string panos_log_type "string option" "nat option"
  | GetEntryDigest string config_source string

fun call_name :: "tool_call \<Rightarrow> string" where
  "call_name (CreateChangeSet a) = ''create_panos_change_set''"
| "call_name (ApproveChangeSet a b c) = ''approve_panos_change_set''"
| "call_name (GetChangeSet a b) = ''get_panos_change_set''"
| "call_name (ApplyChangeSet a) = ''apply_panos_change_set''"
| "call_name (GetFingerprint a) = ''get_candidate_fingerprint''"
| "call_name (StageConfig a) = ''stage_panos_config''"
| "call_name (DiffCandidate a) = ''diff_panos_candidate''"
| "call_name (ValidateCandidate a) = ''validate_panos_candidate''"
| "call_name (CommitCandidate a) = ''commit_panos_candidate''"
| "call_name (DiscardCandidate a) = ''discard_panos_candidate''"
| "call_name (GetOperation a b) = ''get_panos_operation''"
| "call_name ListDevices = ''list_devices''"
| "call_name (GatherFacts a) = ''gather_device_facts''"
| "call_name (ExecuteOp a b c d) = ''execute_panos_op''"
| "call_name (GetConfig a b c d e) = ''get_panos_config''"
| "call_name (ListEntries a b c d e) = ''list_panos_entries''"
| "call_name (ListDeviceGroups a) = ''list_panorama_device_groups''"
| "call_name (ListTemplates a) = ''list_panorama_templates''"
| "call_name (GetPushStatus a b) = ''get_panorama_push_status''"
| "call_name (ListRulebase a b c d e f) = ''list_panos_rulebase_entries''"
| "call_name (GetHaState a) = ''get_panos_ha_state''"
| "call_name (GetLicenses a) = ''get_panos_license_info''"
| "call_name (GetContent a) = ''get_panos_content_status''"
| "call_name (GetSoftware a) = ''get_panos_software_status''"
| "call_name (TestPolicyMatch a) = ''test_panos_security_policy_match''"
| "call_name (QueryLogs a b c d) = ''query_panos_logs''"
| "call_name (GetEntryDigest a b c) = ''get_panos_entry_digest''"

fun call_device :: "tool_call \<Rightarrow> string option" where
  "call_device (CreateChangeSet a) = Some (ci_device a)"
| "call_device (ApproveChangeSet a b c) = Some (b)"
| "call_device (GetChangeSet a b) = Some (b)"
| "call_device (ApplyChangeSet a) = Some (ai_device a)"
| "call_device (GetFingerprint a) = Some (a)"
| "call_device (StageConfig a) = Some (si_device a)"
| "call_device (DiffCandidate a) = Some (oi_device a)"
| "call_device (ValidateCandidate a) = Some (oi_device a)"
| "call_device (CommitCandidate a) = Some (oi_device a)"
| "call_device (DiscardCandidate a) = Some (oi_device a)"
| "call_device (GetOperation a b) = Some (b)"
| "call_device ListDevices = None"
| "call_device (GatherFacts a) = Some (a)"
| "call_device (ExecuteOp a b c d) = Some (a)"
| "call_device (GetConfig a b c d e) = Some (a)"
| "call_device (ListEntries a b c d e) = Some (a)"
| "call_device (ListDeviceGroups a) = Some (a)"
| "call_device (ListTemplates a) = Some (a)"
| "call_device (GetPushStatus a b) = Some (a)"
| "call_device (ListRulebase a b c d e f) = Some (a)"
| "call_device (GetHaState a) = Some (a)"
| "call_device (GetLicenses a) = Some (a)"
| "call_device (GetContent a) = Some (a)"
| "call_device (GetSoftware a) = Some (a)"
| "call_device (TestPolicyMatch a) = Some (mi_device a)"
| "call_device (QueryLogs a b c d) = Some (a)"
| "call_device (GetEntryDigest a b c) = Some (a)"

text \<open>The generated router: the tool's name selects its handler.\<close>

fun call_tool :: "server_lib \<Rightarrow> env \<Rightarrow> 't runtime \<Rightarrow> token \<Rightarrow> extensions \<Rightarrow> tool_call \<Rightarrow> call_result act" where
  "call_tool sb env rt tok ext (CreateChangeSet a) = create_panos_change_set sb env rt a tok ext"
| "call_tool sb env rt tok ext (ApproveChangeSet a b c) = approve_panos_change_set sb env rt a b c ext"
| "call_tool sb env rt tok ext (GetChangeSet a b) = get_panos_change_set sb env rt a b ext"
| "call_tool sb env rt tok ext (ApplyChangeSet a) = apply_panos_change_set sb env rt a tok ext"
| "call_tool sb env rt tok ext (GetFingerprint a) = get_candidate_fingerprint sb env rt a tok ext"
| "call_tool sb env rt tok ext (StageConfig a) = stage_panos_config sb env rt a tok ext"
| "call_tool sb env rt tok ext (DiffCandidate a) = diff_panos_candidate sb env rt a tok ext"
| "call_tool sb env rt tok ext (ValidateCandidate a) = validate_panos_candidate sb env rt a tok ext"
| "call_tool sb env rt tok ext (CommitCandidate a) = commit_panos_candidate sb env rt a tok ext"
| "call_tool sb env rt tok ext (DiscardCandidate a) = discard_panos_candidate sb env rt a ext"
| "call_tool sb env rt tok ext (GetOperation a b) = get_panos_operation sb env rt a b ext"
| "call_tool sb env rt tok ext ListDevices = list_devices_tool sb rt  ext"
| "call_tool sb env rt tok ext (GatherFacts a) = gather_device_facts_tool sb env rt a tok ext"
| "call_tool sb env rt tok ext (ExecuteOp a b c d) = execute_panos_op_tool sb env rt a b c d tok ext"
| "call_tool sb env rt tok ext (GetConfig a b c d e) = get_panos_config_tool sb env rt a b c d e tok ext"
| "call_tool sb env rt tok ext (ListEntries a b c d e) = list_panos_entries_tool sb env rt a b c d e tok ext"
| "call_tool sb env rt tok ext (ListDeviceGroups a) = list_panorama_device_groups_tool sb env rt a tok ext"
| "call_tool sb env rt tok ext (ListTemplates a) = list_panorama_templates_tool sb env rt a tok ext"
| "call_tool sb env rt tok ext (GetPushStatus a b) = get_panorama_push_status_tool sb env rt a b tok ext"
| "call_tool sb env rt tok ext (ListRulebase a b c d e f) = list_panos_rulebase_entries_tool sb env rt a b c d e f tok ext"
| "call_tool sb env rt tok ext (GetHaState a) = get_panos_ha_state_tool sb env rt a tok ext"
| "call_tool sb env rt tok ext (GetLicenses a) = get_panos_license_info_tool sb env rt a tok ext"
| "call_tool sb env rt tok ext (GetContent a) = get_panos_content_status_tool sb env rt a tok ext"
| "call_tool sb env rt tok ext (GetSoftware a) = get_panos_software_status_tool sb env rt a tok ext"
| "call_tool sb env rt tok ext (TestPolicyMatch a) = test_panos_security_policy_match_tool sb env rt a tok ext"
| "call_tool sb env rt tok ext (QueryLogs a b c d) = query_panos_logs_tool sb env rt a b c d tok ext"
| "call_tool sb env rt tok ext (GetEntryDigest a b c) = get_panos_entry_digest_tool sb env rt a b c tok ext"

end
