(* ===== verification/Transport.thy ===== *)
theory Transport
  imports Server
begin

text \<open>
  The HTTP transport's settings: \<^verbatim>\<open>rust-panosmcp/src/http_transport.rs\<close>, \<open>build_router\<close>.  The router,
  the bearer boundary and the token buckets are the transport crate's; the plan below is what the
  program hands to it.  \<open>prepare_serve\<close> is what \<open>serve\<close> does before the listener runs.
\<close>

section \<open>Options and limits\<close>

record http_options =
  ho_port :: "16 word"
  ho_tls :: bool
  ho_allow_insecure :: bool
  ho_hosts :: "string list"
  ho_origins :: "string list"
  ho_ip_rate :: "32 word"
  ho_token_rate :: "32 word"
  ho_body_limit :: nat
  ho_inflight :: nat
  ho_inflight_token :: nat
  ho_inflight_target :: nat
  ho_sessions :: nat
  ho_sessions_token :: nat

text \<open>\<open>u64::div_ceil\<close> of a 32-bit value widened to 64 bits: a quotient and, unless it is exact, one
  more.\<close>

definition per_minute_to_per_second :: "32 word \<Rightarrow> 64 word" where
  "per_minute_to_per_second per_minute =
     (let n = ucast per_minute :: 64 word; q = n div 60 in if n mod 60 = 0 then q else q + 1)"

record limits_config =
  lc_body_bytes :: nat
  lc_ip_per_second :: "64 word"
  lc_ip_burst :: "64 word"
  lc_token_per_second :: "64 word"
  lc_token_burst :: "64 word"
  lc_sessions :: nat
  lc_sessions_token :: nat
  lc_inflight :: nat
  lc_inflight_token :: nat
  lc_inflight_device :: nat
  lc_trusted_proxies :: "string list"
  lc_idle_timeout :: nat
  lc_max_lifetime :: nat

definition router_limits :: "http_options \<Rightarrow> limits_config" where
  "router_limits opts =
     \<lparr>lc_body_bytes = ho_body_limit opts,
      lc_ip_per_second = per_minute_to_per_second (ho_ip_rate opts),
      lc_ip_burst = ucast (ho_ip_rate opts),
      lc_token_per_second = per_minute_to_per_second (ho_token_rate opts),
      lc_token_burst = ucast (ho_token_rate opts),
      lc_sessions = ho_sessions opts, lc_sessions_token = ho_sessions_token opts,
      lc_inflight = ho_inflight opts, lc_inflight_token = ho_inflight_token opts,
      lc_inflight_device = ho_inflight_target opts, lc_trusted_proxies = [],
      lc_idle_timeout = 300, lc_max_lifetime = 3600\<rparr>"

section \<open>Authentication\<close>

text \<open>An entry of the token store, and the store's lookup by credential.\<close>

record token_entry =
  tn_name :: string
  tn_devices :: scope_set
  tn_tools :: scope_set
  tn_grant :: "mutation_grant option"
  tn_provider :: "string option"
  tn_provider_tier :: "string option"
  tn_on_behalf :: "string option"
  tn_actor :: actor

definition caller_of_entry :: "token_entry \<Rightarrow> string \<Rightarrow> caller_ctx" where
  "caller_of_entry entry request_id =
     \<lparr>cc_token = tn_name entry, cc_devices = tn_devices entry, cc_tools = tn_tools entry,
      cc_grant = tn_grant entry, cc_provider = tn_provider entry,
      cc_provider_tier = tn_provider_tier entry, cc_on_behalf = tn_on_behalf entry,
      cc_actor = tn_actor entry, cc_client_name = None, cc_model = None, cc_session = None,
      cc_request_id = request_id\<rparr>"

text \<open>The closure given to the bearer boundary: it reads the snapshot current at the call.\<close>

definition authenticate_candidate ::
  "('t \<Rightarrow> string \<Rightarrow> token_entry option) \<Rightarrow> 't runtime \<Rightarrow> string \<Rightarrow> string \<Rightarrow> caller_ctx option" where
  "authenticate_candidate lookup rt candidate request_id =
     Option.bind (sn_tokens (rt_current rt)) (\<lambda>store.
     Option.bind (lookup store candidate) (\<lambda>entry.
       Some (caller_of_entry entry request_id)))"

section \<open>The plan\<close>

datatype malformed_arguments = DenyMalformed

record preflight =
  pr_mutation_tools :: "string list"
  pr_target_fields :: "string list"
  pr_malformed :: malformed_arguments

datatype auth_mode = Authenticated preflight | Unauthenticated

record serve_plan =
  sp_names :: "string list"
  sp_target_keys :: "string list"
  sp_limits :: limits_config
  sp_hosts :: "string list"
  sp_origins :: "string list"
  sp_auth :: auth_mode
  sp_metrics :: bool
  sp_insecure_bind :: bool
  sp_readiness :: string

text \<open>\<open>loopback\<close> is the transport crate's \<open>loopback_origins\<close>.\<close>

definition build_router ::
  "(16 word \<Rightarrow> bool \<Rightarrow> string list \<Rightarrow> string list) \<Rightarrow> 't runtime \<Rightarrow> http_options \<Rightarrow> bool \<Rightarrow> serve_plan" where
  "build_router loopback rt opts enable_metrics =
     \<lparr>sp_names = [''panosmcp'', ''panos'', ''rust-panosmcp''], sp_target_keys = [''device'', ''devices''],
      sp_limits = router_limits opts, sp_hosts = ho_hosts opts,
      sp_origins = loopback (ho_port opts) (ho_tls opts) (ho_origins opts),
      sp_auth = (if sn_tokens (rt_current rt) \<noteq> None
        then Authenticated \<lparr>pr_mutation_tools = mutation_tools, pr_target_fields = [''device''],
               pr_malformed = DenyMalformed\<rparr>
        else Unauthenticated),
      sp_metrics = enable_metrics, sp_insecure_bind = ho_allow_insecure opts, sp_readiness = ''panos_auth''\<rparr>"

text \<open>The readiness check asks the snapshot current at the probe.\<close>

definition readiness :: "'t runtime \<Rightarrow> world \<Rightarrow> string + unit" where
  "readiness rt w = auth_health_check (tools_of rt) w"

section \<open>Serving\<close>

text \<open>The signals that stop the server.  The first one of either kind fires the shutdown token.\<close>

datatype stop_signal = Terminate | Interrupt

text \<open>The operating system and the transport crate: installing a signal handler, building the router,
  and running the listener with a drain time in seconds.  \<open>vl_error\<close> prints \<open>HttpServeError::Serve\<close>.\<close>

record serve_lib =
  vl_loopback :: "16 word \<Rightarrow> bool \<Rightarrow> string list \<Rightarrow> string list"
  vl_signal :: "stop_signal \<Rightarrow> string + unit"
  vl_router :: "serve_plan \<Rightarrow> string + unit"
  vl_error :: "string \<Rightarrow> string"
  vl_run :: "serve_plan \<Rightarrow> bool \<Rightarrow> nat \<Rightarrow> string + unit"

definition shutdown_timeout_secs :: nat where "shutdown_timeout_secs = 10"

text \<open>Both handlers are installed before the router is built; any failure ends \<open>serve\<close>.\<close>

definition prepare_serve :: "serve_lib \<Rightarrow> 't runtime \<Rightarrow> http_options \<Rightarrow> bool \<Rightarrow> string + serve_plan" where
  "prepare_serve vl rt opts enable_metrics =
     (let plan = build_router (vl_loopback vl) rt opts enable_metrics in
      map_err (vl_error vl)
        (and_then (vl_signal vl Terminate) (\<lambda>_.
         and_then (vl_signal vl Interrupt) (\<lambda>_.
         and_then (vl_router vl plan) (\<lambda>_. Inr plan)))))"

definition shutdown_requested :: "stop_signal list \<Rightarrow> bool" where
  "shutdown_requested received \<longleftrightarrow> received \<noteq> []"

end
