(* ===== verification/Cli.thy ===== *)
theory Cli
  imports Libs "HOL-Library.Word"
begin

text \<open>
  Command-line arguments and their validation: \<^verbatim>\<open>rust-panosmcp/src/{cli,cli_validate}.rs\<close>.  Clap parses
  the arguments; \<open>default_cli\<close> is what it produces for none.  Parsing of addresses is that of the
  standard library; authorities and URIs are the \<open>http\<close> crate's.
\<close>

section \<open>Arguments\<close>

datatype transport = Stdio | StreamableHttp

datatype state_disposition = DispCommitted | DispDiscarded

datatype state_action = ResolveState string string state_disposition string

record add_args =
  aa_tokens_file :: string
  aa_name :: string
  aa_devices :: "string list"
  aa_tools :: "string list"
  aa_roots :: "string list"
  aa_actions :: "string list"
  aa_expires_at :: "nat option"
  aa_expires_in :: "nat option"
  aa_provider :: "string option"
  aa_provider_tier :: "string option"
  aa_on_behalf :: "string option"
  aa_actor :: "string option"
  aa_server_pid :: "int option"

record scope_args =
  sa_tokens_file :: string
  sa_name :: string
  sa_devices :: "string list option"
  sa_tools :: "string list option"
  sa_roots :: "string list"
  sa_actions :: "string list"
  sa_yes :: bool
  sa_server_pid :: "int option"

datatype token_action =
    AddToken add_args
  | ListTokens string
  | RevokeToken string string "int option"
  | RotateToken string string "int option"
  | SetScopes scope_args

datatype command = TokenCommand token_action | StateCommand state_action

record cli =
  cli_command :: "command option"
  cli_device_mapping :: string
  cli_transport :: transport
  cli_host :: string
  cli_port :: "16 word"
  cli_tokens_file :: "string option"
  cli_state_file :: "string option"
  cli_lab_mode :: bool
  cli_approval_timeout :: nat
  cli_allow_plane :: bool
  cli_allow_direct :: bool
  cli_tls_cert :: "string option"
  cli_tls_key :: "string option"
  cli_allow_no_auth :: bool
  cli_allow_insecure :: bool
  cli_allowed_host :: "string list"
  cli_allowed_origin :: "string list"
  cli_ip_rate :: "32 word"
  cli_token_rate :: "32 word"
  cli_body_limit :: nat
  cli_inflight :: nat
  cli_inflight_token :: nat
  cli_inflight_target :: nat
  cli_sessions :: nat
  cli_sessions_token :: nat
  cli_metrics :: bool
  cli_audit_format :: string
  cli_audit_log :: "string option"
  cli_audit_journald :: bool
  cli_audit_redact :: "string option"
  cli_audit_key :: "string option"

definition default_cli :: cli where
  "default_cli =
     \<lparr>cli_command = None, cli_device_mapping = ''devices.json'', cli_transport = Stdio,
      cli_host = ''127.0.0.1'', cli_port = 30031, cli_tokens_file = None, cli_state_file = None,
      cli_lab_mode = False, cli_approval_timeout = 900, cli_allow_plane = False,
      cli_allow_direct = False, cli_tls_cert = None, cli_tls_key = None, cli_allow_no_auth = False,
      cli_allow_insecure = False, cli_allowed_host = [], cli_allowed_origin = [], cli_ip_rate = 120,
      cli_token_rate = 240, cli_body_limit = 1024 * 1024, cli_inflight = 64, cli_inflight_token = 16,
      cli_inflight_target = 4, cli_sessions = 128, cli_sessions_token = 16, cli_metrics = False,
      cli_audit_format = ''text'', cli_audit_log = None, cli_audit_journald = False,
      cli_audit_redact = None, cli_audit_key = None\<rparr>"

section \<open>Addresses\<close>

text \<open>The standard library's parser: each reader returns a value and what is left.\<close>

datatype ip_addr = V4 "nat list" | V6 "nat list"

definition digit_of :: "nat \<Rightarrow> char \<Rightarrow> nat option" where
  "digit_of radix c =
     (let b = byte c;
          v = (if is_ascii_digit c then Some (b - 48)
               else if 97 \<le> b \<and> b \<le> 122 then Some (b - 87)
               else if 65 \<le> b \<and> b \<le> 90 then Some (b - 55)
               else None) in
      case v of Some d \<Rightarrow> if d < radix then Some d else None | None \<Rightarrow> None)"

text \<open>The digits at the front, at most \<open>cap\<close> of them, with a value below \<open>bound\<close>.\<close>

fun read_digits :: "nat \<Rightarrow> nat \<Rightarrow> nat \<Rightarrow> nat \<Rightarrow> nat \<Rightarrow> string \<Rightarrow> (nat \<times> nat \<times> string) option" where
  "read_digits radix bound cap n acc [] = Some (n, acc, [])"
| "read_digits radix bound cap n acc (c # s) =
     (case digit_of radix c of
        None \<Rightarrow> Some (n, acc, c # s)
      | Some d \<Rightarrow>
          if bound \<le> acc * radix + d \<or> cap < n + 1 then None
          else read_digits radix bound cap (n + 1) (acc * radix + d) s)"

definition read_number :: "nat \<Rightarrow> nat \<Rightarrow> nat \<Rightarrow> bool \<Rightarrow> string \<Rightarrow> (nat \<times> string) option" where
  "read_number radix bound cap zero_prefix s =
     (case read_digits radix bound cap 0 0 s of
        None \<Rightarrow> None
      | Some (n, v, rest) \<Rightarrow>
          if n = 0 \<or> (\<not> zero_prefix \<and> starts_with ''0'' s \<and> 1 < n) then None else Some (v, rest))"

definition read_separator :: "char \<Rightarrow> nat \<Rightarrow> (string \<Rightarrow> ('a \<times> string) option) \<Rightarrow> string \<Rightarrow> ('a \<times> string) option" where
  "read_separator sep i reader s =
     (if i = 0 then reader s
      else case s of [] \<Rightarrow> None | c # r \<Rightarrow> if c = sep then reader r else None)"

fun read_v4_groups :: "nat \<Rightarrow> nat \<Rightarrow> string \<Rightarrow> (nat list \<times> string) option" where
  "read_v4_groups i 0 s = Some ([], s)"
| "read_v4_groups i (Suc k) s =
     (case read_separator (CHR ''.'') i (read_number 10 256 3 False) s of
        None \<Rightarrow> None
      | Some (v, s) \<Rightarrow> map_option (\<lambda>(vs, s). (v # vs, s)) (read_v4_groups (i + 1) k s))"

definition read_v4 :: "string \<Rightarrow> (nat list \<times> string) option" where
  "read_v4 s = read_v4_groups 0 4 s"

text \<open>Up to \<open>k\<close> more groups of an IPv6 address, of which a trailing IPv4 address takes two;
  and whether there was one.\<close>

fun read_v6_groups :: "nat \<Rightarrow> nat \<Rightarrow> string \<Rightarrow> nat list \<times> bool \<times> string" where
  "read_v6_groups i 0 s = ([], False, s)"
| "read_v6_groups i (Suc k) s =
     (case (if k \<noteq> 0 then read_separator (CHR '':'') i read_v4 s else None) of
        Some ([a, b, c, d], s) \<Rightarrow> ([a * 256 + b, c * 256 + d], True, s)
      | _ \<Rightarrow>
          (case read_separator (CHR '':'') i (read_number 16 65536 4 True) s of
             None \<Rightarrow> ([], False, s)
           | Some (g, s) \<Rightarrow> (case read_v6_groups (i + 1) k s of (gs, v4, s) \<Rightarrow> (g # gs, v4, s))))"

definition read_v6 :: "string \<Rightarrow> (nat list \<times> string) option" where
  "read_v6 s =
     (case read_v6_groups 0 8 s of (head, head_v4, s) \<Rightarrow>
        if length head = 8 then Some (head, s)
        else if head_v4 then None
        else
          (case strip_prefix ''::'' s of
             None \<Rightarrow> None
           | Some s \<Rightarrow>
               (case read_v6_groups 0 (8 - (length head + 1)) s of (tail, _, s) \<Rightarrow>
                  Some (head @ replicate (8 - length head - length tail) 0 @ tail, s))))"

definition parse_ip :: "string \<Rightarrow> ip_addr option" where
  "parse_ip s =
     (case (case read_v4 s of Some (a, r) \<Rightarrow> Some (V4 a, r) | None \<Rightarrow> map_option (\<lambda>(a, r). (V6 a, r)) (read_v6 s)) of
        Some (a, []) \<Rightarrow> Some a
      | _ \<Rightarrow> None)"

fun is_loopback :: "ip_addr \<Rightarrow> bool" where
  "is_loopback (V4 a) = (hd a = 127)"
| "is_loopback (V6 a) = (a = [0, 0, 0, 0, 0, 0, 0, 1])"

section \<open>Refusals\<close>

datatype cli_refusal =
    AuthRequired
  | AuthConflict
  | NoAuthOffLoopback string
  | InsecureBindRequired string
  | TlsPairIncomplete
  | NonNumericHost string
  | AllowedHostRequired
  | AllowedOriginRequired
  | InvalidAllowedHost string
  | InvalidAllowedOrigin string
  | AbsolutePathRequired string
  | BodyLimit
  | RateLimit string

definition "min_body_bytes = (1024 :: nat)"
definition "max_body_bytes = (5 * 1024 * 1024 :: nat)"
definition "max_rate_per_minute = (100000 :: nat)"

text \<open>A parsed URI of the \<open>http\<close> crate.\<close>

record uri =
  uri_scheme :: "string option"
  uri_authority :: "string option"
  uri_path :: string
  uri_query :: "string option"

record http_lib =
  hl_authority :: "string \<Rightarrow> bool"
  hl_uri :: "string \<Rightarrow> uri option"

definition in_single_quotes :: "string \<Rightarrow> string" where
  "in_single_quotes s = [CHR 0x27] @ s @ [CHR 0x27]"

fun refusal_text :: "cli_refusal \<Rightarrow> string" where
  "refusal_text AuthRequired = ''Streamable HTTP requires --tokens-file, or --allow-no-auth on loopback''"
| "refusal_text AuthConflict = ''--tokens-file and --allow-no-auth are mutually exclusive''"
| "refusal_text (NoAuthOffLoopback h) = ''--allow-no-auth refuses non-loopback bind '' @ in_single_quotes h"
| "refusal_text (InsecureBindRequired h) =
     ''non-loopback plaintext bind '' @ in_single_quotes h @ '' requires --allow-insecure-bind or TLS''"
| "refusal_text TlsPairIncomplete = ''--tls-cert and --tls-key must be set together''"
| "refusal_text (NonNumericHost h) = ''--host must be a numeric IPv4 or IPv6 address, got '' @ in_single_quotes h"
| "refusal_text AllowedHostRequired = ''non-loopback Streamable HTTP requires at least one --allowed-host''"
| "refusal_text AllowedOriginRequired = ''non-loopback Streamable HTTP requires at least one --allowed-origin''"
| "refusal_text (InvalidAllowedHost v) = ''invalid --allowed-host authority '' @ in_single_quotes v"
| "refusal_text (InvalidAllowedOrigin v) = ''invalid --allowed-origin URL '' @ in_single_quotes v"
| "refusal_text (AbsolutePathRequired f) = f @ '' path must be absolute''"
| "refusal_text BodyLimit =
     ''--request-body-limit must be between '' @ show_nat min_body_bytes @ '' and '' @ show_nat max_body_bytes @ '' bytes''"
| "refusal_text (RateLimit f) = f @ '' must be between 1 and '' @ show_nat max_rate_per_minute"

section \<open>Validation\<close>

definition require_absolute :: "string \<Rightarrow> string \<Rightarrow> cli_refusal + unit" where
  "require_absolute path flag = (if starts_with ''/'' path then Inr () else Inl (AbsolutePathRequired flag))"

definition validate_allowed_host :: "lib \<Rightarrow> http_lib \<Rightarrow> string \<Rightarrow> cli_refusal + unit" where
  "validate_allowed_host lb hb value =
     (if value = [] \<or> 255 < length value \<or> trim_chars (char_whitespace lb) value \<noteq> value
         \<or> CHR ''@'' \<in> set value \<or> \<not> hl_authority hb value
      then Inl (InvalidAllowedHost value) else Inr ())"

definition origin_ok :: "uri \<Rightarrow> bool" where
  "origin_ok u \<longleftrightarrow>
     (uri_scheme u = Some ''http'' \<or> uri_scheme u = Some ''https'')
     \<and> (case uri_authority u of None \<Rightarrow> False | Some a \<Rightarrow> CHR ''@'' \<notin> set a)
     \<and> uri_query u = None \<and> (uri_path u = [] \<or> uri_path u = ''/'')"

definition validate_allowed_origin :: "http_lib \<Rightarrow> string \<Rightarrow> cli_refusal + unit" where
  "validate_allowed_origin hb value =
     (let valid = (case hl_uri hb value of None \<Rightarrow> False | Some u \<Rightarrow> origin_ok u) in
      if \<not> valid \<or> 2048 < length value then Inl (InvalidAllowedOrigin value) else Inr ())"

definition validate_rate :: "32 word \<Rightarrow> string \<Rightarrow> cli_refusal + unit" where
  "validate_rate value flag =
     (if 1 \<le> unat value \<and> unat value \<le> max_rate_per_minute then Inr () else Inl (RateLimit flag))"

definition validate_tls_pair :: "cli \<Rightarrow> cli_refusal + bool" where
  "validate_tls_pair c =
     (case (cli_tls_cert c, cli_tls_key c) of
        (Some cert, Some key) \<Rightarrow>
          and_then (require_absolute cert ''--tls-cert'') (\<lambda>_.
          and_then (require_absolute key ''--tls-key'') (\<lambda>_. Inr True))
      | (None, None) \<Rightarrow> Inr False
      | _ \<Rightarrow> Inl TlsPairIncomplete)"

definition validate_auth :: "cli \<Rightarrow> bool \<Rightarrow> cli_refusal + unit" where
  "validate_auth c loopback =
     (case (cli_tokens_file c, cli_allow_no_auth c) of
        (None, False) \<Rightarrow> Inl AuthRequired
      | (Some _, True) \<Rightarrow> Inl AuthConflict
      | (None, True) \<Rightarrow> if \<not> loopback then Inl (NoAuthOffLoopback (cli_host c)) else Inr ()
      | (Some path, False) \<Rightarrow> require_absolute path ''--tokens-file'')"

definition validate_exposure :: "cli \<Rightarrow> bool \<Rightarrow> bool \<Rightarrow> cli_refusal + unit" where
  "validate_exposure c loopback tls =
     (if \<not> loopback \<and> \<not> tls \<and> \<not> cli_allow_insecure c then Inl (InsecureBindRequired (cli_host c))
      else if \<not> loopback \<and> cli_allowed_host c = [] then Inl AllowedHostRequired
      else if \<not> loopback \<and> cli_allowed_origin c = [] then Inl AllowedOriginRequired
      else Inr ())"

definition validate_cli :: "lib \<Rightarrow> http_lib \<Rightarrow> cli \<Rightarrow> cli_refusal + unit" where
  "validate_cli lb hb c =
     and_then (case cli_state_file c of None \<Rightarrow> Inr () | Some path \<Rightarrow> require_absolute path ''--state-file'') (\<lambda>_.
     if cli_transport c = Stdio then Inr ()
     else
       and_then (ok_or (NonNumericHost (cli_host c)) (parse_ip (cli_host c))) (\<lambda>host.
       let loopback = is_loopback host in
       and_then (validate_tls_pair c) (\<lambda>tls.
       and_then (validate_auth c loopback) (\<lambda>_.
       and_then (validate_exposure c loopback tls) (\<lambda>_.
       and_then (check_all (validate_allowed_host lb hb) (cli_allowed_host c)) (\<lambda>_.
       and_then (check_all (validate_allowed_origin hb) (cli_allowed_origin c)) (\<lambda>_.
       if \<not> (min_body_bytes \<le> cli_body_limit c \<and> cli_body_limit c \<le> max_body_bytes) then Inl BodyLimit
       else
         and_then (validate_rate (cli_ip_rate c) ''--ip-rate-per-minute'') (\<lambda>_.
           validate_rate (cli_token_rate c) ''--token-rate-per-minute''))))))))"

end
