(* ===== verification/TokenCmd.thy ===== *)
theory TokenCmd
  imports Cli Auth
begin

text \<open>
  The token commands: \<^verbatim>\<open>rust-panosmcp/src/token_cmd.rs\<close>.  The token file, the parsing of a token's
  provenance, \<open>set-scopes\<close> and timestamps belong to the shared crates; they answer through
  \<open>token_env\<close>.  What a command did is the list of its effects, newest first.
\<close>

section \<open>The environment\<close>

record provenance =
  pv_provider :: "string option"
  pv_tier :: "string option"
  pv_on_behalf :: "string option"
  pv_actor :: actor

text \<open>Device names are checked against the known ones only when these are given.\<close>

record known_names =
  kn_devices :: "string list option"
  kn_tools :: "string list"

text \<open>What \<open>add_with_options\<close> is called with.\<close>

record mint_request =
  mr_file :: string
  mr_name :: string
  mr_devices :: scope_set
  mr_tools :: scope_set
  mr_expires :: "int option"
  mr_grant :: "mutation_grant option"
  mr_provenance :: provenance
  mr_known :: known_names

record listed_token =
  lt_name :: string
  lt_devices :: scope_set
  lt_tools :: scope_set
  lt_grant :: "mutation_grant option"
  lt_created :: int
  lt_expires :: "int option"

datatype token_effect =
    Minted mint_request
  | Revoked string string
  | Rotated string string
  | Rescoped scope_args "mutation_grant option"
  | Stdout string
  | Stderr string
  | Hangup int

datatype token_error = StoreError string | ScopeError string string | IoError_token string | SharedError string

type_synonym 'a token_act = "(token_effect list, token_error + 'a) state"

record token_env =
  te_now :: "64 word option"
  te_timestamp :: "int \<Rightarrow> int option"
  te_provenance :: "string option \<Rightarrow> string option \<Rightarrow> string option \<Rightarrow> string option \<Rightarrow> string + provenance"
  te_add :: "mint_request \<Rightarrow> string + string"
  te_load :: "string \<Rightarrow> string + listed_token list"
  te_revoke :: "string \<Rightarrow> string \<Rightarrow> known_names \<Rightarrow> string + bool"
  te_rotate :: "string \<Rightarrow> string \<Rightarrow> known_names \<Rightarrow> string + string"
  te_set_scopes :: "scope_args \<Rightarrow> string list \<Rightarrow> string list \<Rightarrow> mutation_grant option \<Rightarrow> string + unit"
  te_summary :: "scope_set \<Rightarrow> string"
  te_kill :: "int \<Rightarrow> string + unit"

definition effect :: "token_effect \<Rightarrow> unit token_act" where
  "effect e = State (\<lambda>es. (Inr (), e # es))"

text \<open>A change of the token file: its effect is there only when it succeeded.\<close>

definition store_step :: "(string + 'a) \<Rightarrow> token_effect \<Rightarrow> 'a token_act" where
  "store_step r e = (case r of Inl m \<Rightarrow> lift_res (Inl (StoreError m)) | Inr x \<Rightarrow> tryS (effect e) (\<lambda>_. lift_res (Inr x)))"

section \<open>Arguments\<close>

definition parse_scope :: "string list \<Rightarrow> string \<Rightarrow> token_error + scope_set" where
  "parse_scope values field =
     (if values = [] then Inl (ScopeError field (''at least one exact name or '' @ in_single_quotes ''*'' @ '' is required''))
      else if ''*'' \<in> set values then
        (if length values = 1 then Inr Wildcard
         else Inl (ScopeError field (in_single_quotes ''*'' @ '' cannot be mixed with exact names'')))
      else Inr (ScopeList values))"

definition parse_action :: "string \<Rightarrow> token_error + mutation_action" where
  "parse_action a =
     (if a = ''set'' then Inr MSet else if a = ''delete'' then Inr MDelete else if a = ''move'' then Inr MMove
      else Inl (ScopeError ''mutation_actions'' (''only '' @ in_single_quotes ''set'' @ '', ''
        @ in_single_quotes ''delete'' @ '', and '' @ in_single_quotes ''move'' @ '' are supported'')))"

definition parse_mutation_grant :: "string list \<Rightarrow> string list \<Rightarrow> token_error + mutation_grant option" where
  "parse_mutation_grant roots actions =
     (if roots = [] \<and> actions = [] then Inr None
      else if roots = [] \<or> actions = []
      then Inl (ScopeError ''mutation'' ''--mutation-root and --mutation-actions must be supplied together'')
      else and_then (collect_results parse_action actions) (\<lambda>as.
        Inr (Some \<lparr>grant_roots = roots, grant_actions = as\<rparr>)))"

text \<open>\<open>checked_add\<close> on \<open>u64\<close>.\<close>

definition checked_add64 :: "64 word \<Rightarrow> 64 word \<Rightarrow> 64 word option" where
  "checked_add64 a b = (if unat a + unat b < 2 ^ 64 then Some (a + b) else None)"

text \<open>Both arguments at once is the \<open>unreachable!\<close> branch, which clap excludes; it is an error
  value here.  \<open>as i64\<close> reinterprets the bits.\<close>

definition resolve_expiry :: "token_env \<Rightarrow> 64 word option \<Rightarrow> 64 word option \<Rightarrow> token_error + int option" where
  "resolve_expiry te absolute lifetime =
     and_then (ok_or (ScopeError ''expiry'' ''system clock is before Unix epoch'') (te_now te)) (\<lambda>now.
     and_then (case (absolute, lifetime) of
         (Some v, None) \<Rightarrow> Inr (Some v)
       | (None, Some v) \<Rightarrow>
           and_then (ok_or (ScopeError ''expiry'' ''expiry overflows Unix time'') (checked_add64 now v)) (\<lambda>t. Inr (Some t))
       | (None, None) \<Rightarrow> Inr None
       | (Some _, Some _) \<Rightarrow> Inl (ScopeError ''panic'' ''clap rejects conflicting expiry options'')) (\<lambda>expiry.
     case expiry of
       None \<Rightarrow> Inr None
     | Some v \<Rightarrow>
         if v \<le> now then Inl (ScopeError ''expiry'' ''token expiry must be in the future'')
         else Inr (te_timestamp te (sint v))))"

section \<open>Commands\<close>

definition signal_reload :: "token_env \<Rightarrow> int option \<Rightarrow> unit token_act" where
  "signal_reload te pid =
     (case pid of None \<Rightarrow> lift_res (Inr ())
      | Some raw \<Rightarrow>
          if raw \<le> 0 then lift_res (Inl (IoError_token ''server PID must be positive''))
          else
            (case te_kill te raw of
               Inl e \<Rightarrow> lift_res (Inl (IoError_token e))
             | Inr _ \<Rightarrow> effect (Hangup raw)))"

fun action_word :: "mutation_action \<Rightarrow> string" where
  "action_word MSet = ''set''"
| "action_word MDelete = ''delete''"
| "action_word MMove = ''move''"

definition tab :: string where "tab = [CHR 0x09]"

definition list_line :: "token_env \<Rightarrow> listed_token \<Rightarrow> string" where
  "list_line te t =
     join tab
       [lt_name t, te_summary te (lt_devices t), te_summary te (lt_tools t),
        (case lt_grant t of None \<Rightarrow> ''-''
         | Some g \<Rightarrow> join '','' (map action_word (grant_actions g)) @ '':'' @ join ''|'' (grant_roots g)),
        show_int (lt_created t), (case lt_expires t of None \<Rightarrow> ''-'' | Some v \<Rightarrow> show_int v)]"

definition add_token :: "token_env \<Rightarrow> string list \<Rightarrow> add_args \<Rightarrow> unit token_act" where
  "add_token te known_devices a =
     tryS (lift_res (parse_scope (aa_devices a) ''devices'')) (\<lambda>devices.
     tryS (lift_res (parse_scope (aa_tools a) ''tools'')) (\<lambda>tools.
     tryS (lift_res (parse_mutation_grant (aa_roots a) (aa_actions a))) (\<lambda>grant.
     tryS (lift_res (resolve_expiry te (map_option of_nat (aa_expires_at a)) (map_option of_nat (aa_expires_in a)))) (\<lambda>expires.
     tryS (lift_res (map_err SharedError
       (te_provenance te (aa_provider a) (aa_provider_tier a) (aa_on_behalf a) (aa_actor a)))) (\<lambda>pv.
     let request = \<lparr>mr_file = aa_tokens_file a, mr_name = aa_name a, mr_devices = devices, mr_tools = tools,
           mr_expires = expires, mr_grant = grant, mr_provenance = pv,
           mr_known = \<lparr>kn_devices = Some known_devices, kn_tools = known_tools\<rparr>\<rparr> in
     tryS (store_step (te_add te request) (Minted request)) (\<lambda>secret.
     tryS (effect (Stdout secret)) (\<lambda>_.
       signal_reload te (aa_server_pid a))))))))"

fun list_lines :: "token_env \<Rightarrow> listed_token list \<Rightarrow> unit token_act" where
  "list_lines te [] = lift_res (Inr ())"
| "list_lines te (t # ts) = tryS (effect (Stdout (list_line te t))) (\<lambda>_. list_lines te ts)"

definition list_tokens :: "token_env \<Rightarrow> string \<Rightarrow> unit token_act" where
  "list_tokens te path =
     tryS (lift_res (map_err StoreError (te_load te path))) (\<lambda>entries.
     tryS (effect (Stdout (join tab [''NAME'', ''DEVICES'', ''TOOLS'', ''MUTATION'', ''CREATED_UNIX'', ''EXPIRES_UNIX'']))) (\<lambda>_.
       list_lines te entries))"

text \<open>Revoking and rotating do not check device names.\<close>

definition known_tools_only :: known_names where
  "known_tools_only = \<lparr>kn_devices = None, kn_tools = known_tools\<rparr>"

definition revoke_token :: "token_env \<Rightarrow> string \<Rightarrow> string \<Rightarrow> int option \<Rightarrow> unit token_act" where
  "revoke_token te path name pid =
     tryS (lift_res (map_err StoreError (te_revoke te path name known_tools_only))) (\<lambda>removed.
     if removed
     then tryS (effect (Revoked path name)) (\<lambda>_.
          tryS (effect (Stderr (''revoked '' @ in_single_quotes name))) (\<lambda>_. signal_reload te pid))
     else effect (Stderr (''token '' @ in_single_quotes name @ '' did not exist'')))"

definition rotate_token :: "token_env \<Rightarrow> string \<Rightarrow> string \<Rightarrow> int option \<Rightarrow> unit token_act" where
  "rotate_token te path name pid =
     tryS (store_step (te_rotate te path name known_tools_only) (Rotated path name)) (\<lambda>secret.
     tryS (effect (Stdout secret)) (\<lambda>_. signal_reload te pid))"

definition set_scopes :: "token_env \<Rightarrow> string list \<Rightarrow> scope_args \<Rightarrow> unit token_act" where
  "set_scopes te known_devices a =
     tryS (lift_res (parse_mutation_grant (sa_roots a) (sa_actions a))) (\<lambda>grant.
     case te_set_scopes te a known_devices known_tools grant of
       Inl e \<Rightarrow> lift_res (Inl (SharedError e))
     | Inr _ \<Rightarrow> effect (Rescoped a grant))"

fun run_token :: "token_env \<Rightarrow> token_action \<Rightarrow> string list \<Rightarrow> unit token_act" where
  "run_token te (AddToken a) known = add_token te known a"
| "run_token te (ListTokens path) known = list_tokens te path"
| "run_token te (RevokeToken path name pid) known = revoke_token te path name pid"
| "run_token te (RotateToken path name pid) known = rotate_token te path name pid"
| "run_token te (SetScopes a) known = set_scopes te known a"

end
