(* ===== verification/Stale.thy ===== *)
theory Stale
  imports Cli
begin

text \<open>
  The scan for stale secret files at start: \<^verbatim>\<open>rust-panosmcp/src/main.rs\<close>, \<open>check_stale_secrets\<close>.
  Classifying the files of a directory is the shared auth crate's \<open>find_stale_secrets\<close>; the program
  chooses the directories and the names that are live, and warns.
\<close>

section \<open>Unix paths\<close>

text \<open>A reversed path without trailing slashes and \<open>.\<close> components, as \<open>Path::components\<close> skips them
  from the end.\<close>

fun drop_tail :: "string \<Rightarrow> string" where
  "drop_tail (x # y # r) =
     (if x = CHR ''/'' then drop_tail (y # r)
      else if x = CHR ''.'' \<and> y = CHR ''/'' then drop_tail (y # r)
      else x # y # r)"
| "drop_tail r = r"

definition not_slash :: "char \<Rightarrow> bool" where
  "not_slash c \<longleftrightarrow> c \<noteq> CHR ''/''"

text \<open>\<open>Path::parent\<close>: nothing for the root and the empty path, the empty path for a bare name.\<close>

definition path_parent :: "string \<Rightarrow> string option" where
  "path_parent p =
     (let r = drop_tail (rev p) in
      if r = [] \<or> r = ''/'' then None else Some (rev (drop_tail (dropWhile not_slash r))))"

text \<open>\<open>Path::file_name\<close>: the last component, when it is a name.\<close>

definition path_file_name :: "string \<Rightarrow> string option" where
  "path_file_name p =
     (let name = rev (takeWhile not_slash (drop_tail (rev p))) in
      if name = [] \<or> name = ''.'' \<or> name = ''..'' then None else Some name)"

section \<open>The scan\<close>

text \<open>A stale file: its path and the reason it was found.\<close>

type_synonym stale_secret = "string \<times> string"

definition config_live_files :: "string list" where
  "config_live_files = [''devices.json'', ''devices.json.example'', ''audit-hmac.key'', ''tokens.json'']"

definition state_live_files :: "string list" where
  "state_live_files = [''tokens.json'', ''mutation-state.json'', ''audit.jsonl'', ''evidence-outbox.ndjson'',
     ''evidence-ledger.ndjson'']"

definition legacy_tokens :: string where
  "legacy_tokens = ''/etc/rust-panosmcp/tokens.json''"

definition or_dir :: "string \<Rightarrow> string option \<Rightarrow> string" where
  "or_dir d x = (case x of None \<Rightarrow> d | Some v \<Rightarrow> v)"

definition config_dir :: "cli \<Rightarrow> string" where
  "config_dir c = or_dir ''/etc/rust-panosmcp'' (path_parent (cli_device_mapping c))"

definition state_dir :: "cli \<Rightarrow> string" where
  "state_dir c = or_dir ''/var/lib/rust-panosmcp'' (Option.bind (cli_state_file c) path_parent)"

text \<open>The directory of the TLS key, and the live names there: the key itself is one of them.\<close>

definition key_file_name :: "string \<Rightarrow> string" where
  "key_file_name path =
     (case path_file_name path of
        Some name \<Rightarrow> if utf8_valid name then name else ''server.key''
      | None \<Rightarrow> ''server.key'')"

definition tls_scan :: "cli \<Rightarrow> (string \<times> string list) option" where
  "tls_scan c =
     (case cli_tls_key c of
        None \<Rightarrow> None
      | Some key \<Rightarrow> map_option (\<lambda>d. (d, config_live_files @ [key_file_name key])) (path_parent key))"

definition stale_found :: "(string \<Rightarrow> string list \<Rightarrow> stale_secret list) \<Rightarrow> cli \<Rightarrow> stale_secret list" where
  "stale_found scan c =
     scan (config_dir c) config_live_files @ scan (state_dir c) state_live_files
     @ (case tls_scan c of None \<Rightarrow> [] | Some (d, live) \<Rightarrow> scan d live)"

text \<open>The old token store is reported only when it exists and is not the one in use.\<close>

definition legacy_present :: "(string \<Rightarrow> bool) \<Rightarrow> cli \<Rightarrow> bool" where
  "legacy_present is_file c \<longleftrightarrow> is_file legacy_tokens \<and> cli_tokens_file c \<noteq> Some legacy_tokens"

datatype stale_warning = LegacyTokens string | StaleFiles nat | StaleFile string string | StaleAdvice

definition check_stale_secrets ::
  "(string \<Rightarrow> string list \<Rightarrow> stale_secret list) \<Rightarrow> (string \<Rightarrow> bool) \<Rightarrow> cli \<Rightarrow> stale_warning list" where
  "check_stale_secrets scan is_file c =
     (let found = stale_found scan c in
      (if legacy_present is_file c then [LegacyTokens legacy_tokens] else [])
      @ (if 0 < length found
         then [StaleFiles (length found)] @ map (\<lambda>(path, reason). StaleFile path reason) found @ [StaleAdvice]
         else []))"

section \<open>What is scanned\<close>

text \<open>The store in use is never reported as the old one.\<close>

lemma live_store_not_reported:
  assumes "cli_tokens_file c = Some legacy_tokens"
  shows "LegacyTokens p \<notin> set (check_stale_secrets scan is_file c)"
  using assms by (auto simp: check_stale_secrets_def legacy_present_def Let_def)

text \<open>A bare file name has the empty path as its parent, so with the default device mapping the
  configuration directory that is scanned is the empty path and not \<^verbatim>\<open>/etc/rust-panosmcp\<close>.\<close>

lemma default_config_dir_empty: "config_dir default_cli = []"
  by code_simp

lemma absolute_parent: "path_parent ''/etc/rust-panosmcp/devices.json'' = Some ''/etc/rust-panosmcp''"
  by code_simp

end
