(* ===== verification/Startup.thy ===== *)
theory Startup
  imports Transport TokenCmd Stale
begin

text \<open>
  The process: \<^verbatim>\<open>rust-panosmcp/src/main.rs\<close>.  \<open>main\<close> is a list of steps that leaves its effects,
  newest first; everything it starts (tracing, the evidence pipeline, sockets, TLS loading, the
  token and state files) answers through \<open>main_env\<close>.
\<close>

section \<open>The environment\<close>

text \<open>The listener's TLS files, when the listener uses TLS.\<close>

datatype start_effect =
    KeyWritten string string
  | AuditStarted
  | TokenRan "token_effect list" "token_error + unit"
  | StateResolved string string state_disposition string
  | RefusedText string
  | EvidenceStarted
  | RuntimeLoaded start_options "string option"
  | StaleScanned "stale_warning list"
  | ReloadHandler
  | ServedStdio
  | ServedHttp ip_addr "16 word" http_options serve_plan
  | EvidenceFlushed

type_synonym 'a start_act = "(start_effect list, string + 'a) state"

record 't main_env =
  me_platform :: "'t platform"
  me_http :: http_lib
  me_token :: token_env
  me_names_file :: "string \<Rightarrow> json_file"
  me_file_size :: "string \<Rightarrow> nat option"
  me_random_key :: "string + string"
  me_key_open :: "string \<Rightarrow> string + unit"
  me_key_write :: "string \<Rightarrow> string \<Rightarrow> string + unit"
  me_redaction :: "string \<Rightarrow> string option \<Rightarrow> string + unit"
  me_audit :: "string \<Rightarrow> string option \<Rightarrow> bool \<Rightarrow> string + unit"
  me_resolve :: "string \<Rightarrow> string \<Rightarrow> state_disposition \<Rightarrow> string \<Rightarrow> string + unit"
  me_evidence :: "string + string option"
  me_evidence_start :: "string + unit"
  me_token_error_text :: "token_error \<Rightarrow> string"
  me_hangup_handler :: "string + unit"
  me_tls_load :: "string \<Rightarrow> string \<Rightarrow> string + unit"
  me_stdio :: "string + unit"
  me_serve :: serve_lib
  me_find_stale :: "string \<Rightarrow> string list \<Rightarrow> stale_secret list"
  me_is_file :: "string \<Rightarrow> bool"

definition did :: "start_effect \<Rightarrow> unit start_act" where
  "did e = State (\<lambda>es. (Inr (), e # es))"

text \<open>A step of the outside, recorded when it succeeded.\<close>

definition outside :: "string + 'a \<Rightarrow> start_effect \<Rightarrow> 'a start_act" where
  "outside r e = tryS (lift_res r) (\<lambda>x. tryS (did e) (\<lambda>_. lift_res (Inr x)))"

section \<open>The audit key\<close>

text \<open>A non-empty key file is kept; an absent or empty one gets 32 random bytes in hexadecimal.\<close>

definition ensure_audit_hmac_key :: "'t main_env \<Rightarrow> string \<Rightarrow> unit start_act" where
  "ensure_audit_hmac_key me path =
     (if (case me_file_size me path of None \<Rightarrow> False | Some n \<Rightarrow> 0 < n) then lift_res (Inr ())
      else
        tryS (lift_res (map_err (\<lambda>e. ''generating audit HMAC key: OS entropy source unavailable: '' @ e)
          (me_random_key me))) (\<lambda>key.
        tryS (lift_res (map_err (\<lambda>e. ''creating audit HMAC key file '' @ path @ '': '' @ e) (me_key_open me path))) (\<lambda>_.
          outside (map_err (\<lambda>e. ''writing audit HMAC key file '' @ path @ '': '' @ e)
            (me_key_write me path (hex_digest key))) (KeyWritten path (hex_digest key)))))"

section \<open>Subcommands\<close>

definition device_names_of :: "'t main_env \<Rightarrow> string \<Rightarrow> string + string list" where
  "device_names_of me path =
     map_err error_text (device_names_document (pf_host (me_platform me)) (me_names_file me path))"

text \<open>The device names are read before any token command runs.\<close>

definition run_token_command :: "'t main_env \<Rightarrow> cli \<Rightarrow> token_action \<Rightarrow> unit start_act" where
  "run_token_command me c action =
     tryS (lift_res (device_names_of me (cli_device_mapping c))) (\<lambda>known.
       (case run_state (run_token (me_token me) action known) [] of (r, effects) \<Rightarrow>
          tryS (did (TokenRan effects r)) (\<lambda>_. lift_res (map_err (me_token_error_text me) r))))"

fun run_command :: "'t main_env \<Rightarrow> cli \<Rightarrow> command \<Rightarrow> unit start_act" where
  "run_command me c (TokenCommand action) = run_token_command me c action"
| "run_command me c (StateCommand (ResolveState path operation disposition confirmation)) =
     outside (me_resolve me path operation disposition confirmation)
       (StateResolved path operation disposition confirmation)"

section \<open>Serving\<close>

definition http_options_of :: "cli \<Rightarrow> bool \<Rightarrow> http_options" where
  "http_options_of c tls =
     \<lparr>ho_port = cli_port c, ho_tls = tls, ho_allow_insecure = cli_allow_insecure c,
      ho_hosts = cli_allowed_host c, ho_origins = cli_allowed_origin c, ho_ip_rate = cli_ip_rate c,
      ho_token_rate = cli_token_rate c, ho_body_limit = cli_body_limit c, ho_inflight = cli_inflight c,
      ho_inflight_token = cli_inflight_token c, ho_inflight_target = cli_inflight_target c,
      ho_sessions = cli_sessions c, ho_sessions_token = cli_sessions_token c\<rparr>"

definition start_options_of :: "cli \<Rightarrow> string option \<Rightarrow> start_options" where
  "start_options_of c recorder =
     \<lparr>so_state_path = cli_state_file c, so_lab_mode = cli_lab_mode c,
      so_approval_timeout = Some (cli_approval_timeout c), so_allow_plane = cli_allow_plane c,
      so_allow_direct = cli_allow_direct c, so_evidence = recorder\<rparr>"

definition token_path_of :: "cli \<Rightarrow> string option" where
  "token_path_of c = (if cli_transport c = StreamableHttp then cli_tokens_file c else None)"

fun load_error_text :: "load_error \<Rightarrow> string" where
  "load_error_text (LoadCore e) = error_text e"
| "load_error_text (LoadTokens e) = e"
| "load_error_text (LoadConfiguration m) = ''runtime configuration error: '' @ m"

text \<open>An incomplete pair is the \<open>unreachable!\<close> branch.\<close>

definition listener_tls :: "'t main_env \<Rightarrow> cli \<Rightarrow> string + bool" where
  "listener_tls me c =
     (case (cli_tls_cert c, cli_tls_key c) of
        (Some cert, Some key) \<Rightarrow> and_then (me_tls_load me cert key) (\<lambda>_. Inr True)
      | (None, None) \<Rightarrow> Inr False
      | _ \<Rightarrow> Inl ''panic: CLI refusal matrix validated the TLS pair'')"

text \<open>\<open>http_transport::serve\<close>: the listener runs only on a prepared plan.\<close>

definition serve_http ::
  "serve_lib \<Rightarrow> 't runtime \<Rightarrow> ip_addr \<Rightarrow> 16 word \<Rightarrow> http_options \<Rightarrow> bool \<Rightarrow> bool \<Rightarrow> unit start_act" where
  "serve_http vl rt ip port opts enable_metrics tls =
     tryS (lift_res (prepare_serve vl rt opts enable_metrics)) (\<lambda>plan.
     tryS (did (ServedHttp ip port opts plan)) (\<lambda>_. lift_res (vl_run vl plan tls shutdown_timeout_secs)))"

definition serve_cli :: "'t main_env \<Rightarrow> 't runtime \<Rightarrow> cli \<Rightarrow> unit start_act" where
  "serve_cli me rt c =
     (case cli_transport c of
        Stdio \<Rightarrow> tryS (did ServedStdio) (\<lambda>_. lift_res (me_stdio me))
      | StreamableHttp \<Rightarrow>
          tryS (lift_res (ok_or ''invalid IP address syntax'' (parse_ip (cli_host c)))) (\<lambda>ip.
          tryS (lift_res (listener_tls me c)) (\<lambda>tls.
            serve_http (me_serve me) rt ip (cli_port c) (http_options_of c tls) (cli_metrics c) tls)))"

text \<open>The evidence pipeline is flushed however serving ended.\<close>

definition serve_and_flush :: "'t main_env \<Rightarrow> 't runtime \<Rightarrow> cli \<Rightarrow> bool \<Rightarrow> unit start_act" where
  "serve_and_flush me rt c evidence =
     State_Monad.bind (serve_cli me rt c) (\<lambda>served.
     State_Monad.bind (if evidence then did EvidenceFlushed else lift_res (Inr ())) (\<lambda>_.
       State_Monad.return served))"

definition start_server :: "'t main_env \<Rightarrow> cli \<Rightarrow> unit start_act" where
  "start_server me c =
     (case validate_cli (pf_lib (me_platform me)) (me_http me) c of
        Inl refusal \<Rightarrow> tryS (did (RefusedText (refusal_text refusal))) (\<lambda>_. lift_res (Inl (refusal_text refusal)))
      | Inr _ \<Rightarrow>
          tryS (lift_res (map_err (\<lambda>e. ''SSDF evidence configuration: '' @ e) (me_evidence me))) (\<lambda>recorder.
          tryS (if recorder = None then lift_res (Inr ()) else outside (me_evidence_start me) EvidenceStarted) (\<lambda>_.
          tryS (outside (map_err load_error_text (load_with_state (me_platform me) (cli_device_mapping c)
              (token_path_of c) (start_options_of c recorder)))
              (RuntimeLoaded (start_options_of c recorder) (token_path_of c))) (\<lambda>rt.
          tryS (did (StaleScanned (check_stale_secrets (me_find_stale me) (me_is_file me) c))) (\<lambda>_.
          tryS (outside (me_hangup_handler me) ReloadHandler) (\<lambda>_.
            serve_and_flush me rt c (recorder \<noteq> None)))))))"

definition main :: "'t main_env \<Rightarrow> cli \<Rightarrow> unit start_act" where
  "main me c =
     tryS (case cli_audit_key c of None \<Rightarrow> lift_res (Inr ()) | Some path \<Rightarrow> ensure_audit_hmac_key me path) (\<lambda>_.
     tryS (case cli_audit_redact c of None \<Rightarrow> lift_res (Inr ())
       | Some rules \<Rightarrow> lift_res (me_redaction me rules (cli_audit_key c))) (\<lambda>_.
     tryS (outside (me_audit me (cli_audit_format c) (cli_audit_log c) (cli_audit_journald c)) AuditStarted) (\<lambda>_.
       case cli_command c of
         Some command \<Rightarrow> run_command me c command
       | None \<Rightarrow> start_server me c)))"

section \<open>Hangup\<close>

text \<open>What one hangup logs.\<close>

datatype hangup_log = Reopened string | ReopenFailed string string | Reloaded | ReloadRefused load_error

text \<open>The audit file, if there is one, is reopened first; a failure is logged and does not stop the
  reload.  A refused reload keeps the runtime.\<close>

definition reopen_audit :: "(string \<times> (string + unit)) option \<Rightarrow> hangup_log list" where
  "reopen_audit sink =
     (case sink of
        None \<Rightarrow> []
      | Some (path, Inr _) \<Rightarrow> [Reopened path]
      | Some (path, Inl e) \<Rightarrow> [ReopenFailed path e])"

definition on_hangup ::
  "'t platform \<Rightarrow> (string \<times> (string + unit)) option \<Rightarrow> 't runtime \<Rightarrow> hangup_log list \<times> 't runtime" where
  "on_hangup pf sink rt =
     (let (result, rt') = reload pf rt in
      (reopen_audit sink @ [case result of Inr _ \<Rightarrow> Reloaded | Inl e \<Rightarrow> ReloadRefused e], rt'))"

text \<open>The handler's loop: one turn per hangup, each with what the platform holds at that time.\<close>

fun hangup_loop ::
  "('t platform \<times> (string \<times> (string + unit)) option) list \<Rightarrow> 't runtime \<Rightarrow> hangup_log list \<times> 't runtime" where
  "hangup_loop [] rt = ([], rt)"
| "hangup_loop ((pf, sink) # rest) rt =
     (let (logged, rt') = on_hangup pf sink rt; (later, rt'') = hangup_loop rest rt' in (logged @ later, rt''))"

end
