(* ===== verification/CommitSpec.thy ===== *)
theory CommitSpec
  imports Monitor MutationSpec
begin

text \<open>
  The commit: what must hold before a commit request is sent, and the discipline of the handler
  and its worker, from the stored intent to the stored verdict.
\<close>

section \<open>The monitor\<close>

record commit_mon =
  cm_guard :: bool
  cm_stored :: "lifecycle_state option"
  cm_intent :: bool
  cm_sent :: bool

text \<open>One commit, under the device guard, with the operation stored as committing and the intent
  kept when evidence is on.  The lock is released and a receipt left only after it.  Nothing else
  is sent to the device but reads.\<close>

fun commit_request :: "bool \<Rightarrow> commit_mon \<Rightarrow> request_kind \<Rightarrow> commit_mon option" where
  "commit_request ev s Read = Some s"
| "commit_request ev s Commit =
     (if cm_guard s \<and> cm_stored s = Some Committing \<and> (ev \<longrightarrow> cm_intent s) \<and> \<not> cm_sent s
      then Some (s\<lparr>cm_sent := True\<rparr>) else None)"
| "commit_request ev s Unlock = (if cm_sent s then Some s else None)"
| "commit_request ev s _ = None"

fun commit_delta :: "bool \<Rightarrow> commit_mon \<Rightarrow> event \<Rightarrow> commit_mon option" where
  "commit_delta ev s (Sent d fs) = commit_request ev s (kind_of fs)"
| "commit_delta ev s (Slept ms) = Some s"
| "commit_delta ev s (TokenChecked c) = Some s"
| "commit_delta ev s (Guard k e) =
     (case e of Some _ \<Rightarrow> Some s | None \<Rightarrow> if cm_guard s then None else Some (s\<lparr>cm_guard := True\<rparr>))"
| "commit_delta ev s (Unguard k) = (if cm_guard s then Some (s\<lparr>cm_guard := False\<rparr>) else None)"
| "commit_delta ev s (OpRead i w d r) = Some s"
| "commit_delta ev s (OpUpdate r e) =
     (case e of Some _ \<Rightarrow> Some s | None \<Rightarrow> Some (s\<lparr>cm_stored := Some (op_state r)\<rparr>))"
| "commit_delta ev s (CsRead i d r) = Some s"
| "commit_delta ev s (Intent q i d p e) = (case e of Some _ \<Rightarrow> Some s | None \<Rightarrow> Some (s\<lparr>cm_intent := True\<rparr>))"
| "commit_delta ev s (Receipt q i d p b t e) = (if cm_sent s then Some s else None)"
| "commit_delta ev s _ = None"

interpretation commit: monitor "commit_delta ev" for ev
  by unfold_locales simp_all

abbreviation cm :: "bool \<Rightarrow> lifecycle_state option \<Rightarrow> bool \<Rightarrow> bool \<Rightarrow> commit_mon" where
  "cm g st i s \<equiv> \<lparr>cm_guard = g, cm_stored = st, cm_intent = i, cm_sent = s\<rparr>"

text \<open>How a commit may end.  Once sent, the operation is never stored as retryable again; a verdict
  told to the caller is the one that is stored.\<close>

fun verdict_stored :: "commit_output res \<Rightarrow> lifecycle_state option \<Rightarrow> bool \<Rightarrow> bool" where
  "verdict_stored (Inl e) st sent = True"
| "verdict_stored (Inr out) st sent =
     (case co_disposition out of
        Detached \<Rightarrow> co_succeeded out = None
      | Reconciled \<Rightarrow> sent \<and> (co_succeeded out = Some True \<and> st = Some Committed
          \<or> co_succeeded out = Some False \<and> st = Some Failed))"

definition commit_end :: "commit_output res \<Rightarrow> commit_mon \<Rightarrow> bool" where
  "commit_end x q \<longleftrightarrow> \<not> cm_guard q \<and> verdict_stored x (cm_stored q) (cm_sent q)
     \<and> (cm_sent q \<longrightarrow> cm_stored q \<in> Some ` {Committing, Committed, Failed, Indeterminate})"

text \<open>A coordinator that stores every update and grants the guard; with it no commit is left in
  flight.\<close>

definition settles :: "env \<Rightarrow> bool" where
  "settles env \<longleftrightarrow> (\<forall>log r. e_coord_update env log r = None) \<and> (\<forall>log k. e_coord_guard env log k = None)"

definition commit_done :: "env \<Rightarrow> commit_output res \<Rightarrow> commit_mon \<Rightarrow> bool" where
  "commit_done env x q \<longleftrightarrow> commit_end x q \<and> (settles env \<longrightarrow> cm_stored q \<noteq> Some Committing)"

section \<open>The worker\<close>

lemma obeys_ask_at:
  assumes "\<And>log. \<exists>q. delta p (ev (f log)) = Some q \<and> obeys delta q (k (f log)) Q"
  shows "obeys delta p (bind_act (ask f ev) k) Q"
proof (rule obeys_bind)
  show "obeys delta p (ask f ev) (\<lambda>r q. delta p (ev r) = Some q \<and> obeys delta q (k r) Q)"
    unfolding obeys_def [of _ _ "ask f ev"]
  proof
    fix w :: world
    obtain q where "delta p (ev (f (wlog w))) = Some q" "obeys delta q (k (f (wlog w))) Q" using assms by blast
    then show "\<exists>es q. wlog (snd (run_state (ask f ev) w)) = es @ wlog w \<and> accept delta p (rev es) = Some q
        \<and> (delta p (ev (fst (run_state (ask f ev) w))) = Some q \<and> obeys delta q (k (fst (run_state (ask f ev) w))) Q)"
      by (intro exI [of _ "[ev (f (wlog w))]"] exI [of _ q]) (simp add: run_ask)
  qed
qed simp

lemma commit_update:
  "obeys (commit_delta ev) (cm g st i s) (op_update env r)
     (\<lambda>x q. case x of Inl _ \<Rightarrow> q = cm g st i s \<and> \<not> settles env | Inr _ \<Rightarrow> q = cm g (Some (op_state r)) i s)"
  unfolding op_update_def
  by (rule obeys_ask_at) (auto simp: coord_unit_def settles_def intro!: obeys_return split: option.splits, metis)

lemma commit_try_update:
  assumes "\<And>e. Q (r, Inl e) (cm g st i s)"
    and "\<And>x. obeys (commit_delta ev) (cm g (Some (op_state r)) i s) (k x) Q"
  shows "obeys (commit_delta ev) (cm g st i s) (try_with r (op_update env r) k) Q"
  unfolding try_with_def
  by (rule obeys_bind [OF commit_update]) (use assms in \<open>auto intro: obeys_return split: sum.splits\<close>)

lemma try_quiet:
  assumes "obeys delta p m (\<lambda>_ q. q = p)" and "\<And>e. Q (r, Inl e) p" and "\<And>x. obeys delta p (k x) Q"
  shows "obeys delta p (try_with r m k) Q"
  unfolding try_with_def
  by (rule obeys_bind [OF assms(1)]) (use assms(2,3) in \<open>auto intro: obeys_return split: sum.splits\<close>)

text \<open>What the worker's block leaves.\<close>

fun block_end :: "bool \<Rightarrow> op_record \<times> commit_output res \<Rightarrow> commit_mon \<Rightarrow> bool" where
  "block_end i (r, Inl e) q = (\<exists>s. q = cm True (Some Committing) i s)"
| "block_end i (r, Inr out) q =
     (q = cm True (Some (op_state r)) i True \<and> co_disposition out = Reconciled
        \<and> (co_succeeded out = Some True \<and> op_state r = Committing
           \<or> co_succeeded out = Some False \<and> op_state r = Failed))"

lemma worker_block:
  assumes "op_state r = Committing" and "ev \<longrightarrow> i"
  shows "obeys (commit_delta ev) (cm True (Some Committing) i False)
    (worker_body env dc (commit_command env r0 a admin) r) (block_end i)"
proof -
  let ?p = "cm True (Some Committing) i False" and ?q = "cm True (Some Committing) i True"
  have failed: "block_end i (r', Inl e) ?q" for r' e by auto
  have job: "op_state (r\<lparr>op_job := j\<rparr>) = Committing" for j using assms(1) by simp
  have last: "obeys (commit_delta ev) ?q (try_with r' (op_update env r') (\<lambda>_.
       ret (r', Inr \<lparr>co_operation = n, co_disposition = Reconciled, co_job = Some j,
                   co_succeeded = Some (succeeded st), co_details = d\<rparr>))) (block_end i)"
    if "op_state r' = (if succeeded st then Committing else Failed)" for r' n j st d
    by (rule commit_try_update) (use that in \<open>auto intro!: obeys_return\<close>)
  have after: "obeys (commit_delta ev) ?q (try_with r (lift_res (parse_job_id (e_lib env) response)) (\<lambda>job_id.
     let r1 = r\<lparr>op_job := Some job_id\<rparr> in
     try_with r1 (op_update env r1) (\<lambda>_.
     try_with r1 (poll_job env dc job_id Fresh) (\<lambda>status.
     try_with r1 (candidate_fingerprint env dc Fresh) (\<lambda>current.
     let r2 = r1\<lparr>op_current := current, op_details := job_details status,
               op_state := (if succeeded status then Committing else Failed)\<rparr> in
     try_with r2 (op_update env r2) (\<lambda>_.
       ret (r2, Inr \<lparr>co_operation = op_id r, co_disposition = Reconciled, co_job = Some job_id,
                   co_succeeded = Some (succeeded status), co_details = job_details status\<rparr>))))))) (block_end i)"
    for response
    unfolding Let_def
    apply (rule try_quiet, rule commit.quiet_lift, rule failed)
    apply (rule commit_try_update, rule failed)
    apply (simp only: job)
    apply (rule try_quiet, rule commit.quiet_poll_job, rule failed)
    apply (rule try_quiet, rule commit.quiet_fingerprint, rule failed)
    apply (rule last, simp)
    done
  have sent: "commit_delta ev ?p (Sent (device_name dc) (with_vsys dc (commit_fields c))) = Some ?q" for c
    using assms(2) by simp
  show ?thesis unfolding worker_body_def post_fields_def
    unfolding try_with_def [of _ "post _ _ _ _"]
    by (rule obeys_bind, rule commit.post_sends)
       (auto simp: sent assms intro!: obeys_return after split: sum.splits if_splits)
qed

lemma worker_settled:
  assumes "block_end i (r, out) p" and "p' = p\<lparr>cm_guard := False\<rparr>"
  shows "obeys (commit_delta ev) p' (worker_settle env dc r out)
    (\<lambda>(r2, result) q. q = p' \<and> (commit_ok out \<or> is_ok result \<longrightarrow> cm_sent q)
       \<and> (is_ok result \<longrightarrow> result = out)
       \<and> verdict_stored result (Some (op_state r2)) (cm_sent q)
       \<and> op_state r2 \<in> {Committed, Failed, Indeterminate})"
proof (cases out)
  case (Inl e)
  then show ?thesis using assms
    by (auto simp: worker_settle_def commit_ok_def intro!: obeys_return)
next
  case (Inr o')
  then have p: "p' = cm False (Some (op_state r)) i True" using assms by simp
  have rel: "obeys (commit_delta ev) p' (release_config_lock env dc) (\<lambda>_ q. q = p')"
    by (rule obeys_mono [OF commit.unlock_sends [where q = p']]) (auto simp: p split: if_splits)
  show ?thesis using assms Inr
    by (auto simp: worker_settle_def commit_ok_def Let_def p split: sum.splits
        intro!: obeys_return obeys_quiet_bind [OF rel [unfolded p]])
qed

lemma worker_finished:
  assumes "block_end i (r1, out) p" and "ev = e_evidence_on env"
  shows "obeys (commit_delta ev) p (bind_act (emit (Unguard k)) (\<lambda>_.
      bind_act (worker_settle env dc r1 out) (\<lambda>(r2, result).
      bind_act (worker_receipt env a n r2 (commit_ok out) result) (\<lambda>_.
        tryS (op_update env r2) (\<lambda>_. ret result))))) (commit_done env)"
proof -
  let ?p' = "p\<lparr>cm_guard := False\<rparr>"
  obtain st s where p: "p = cm True (Some st) i s" and st: "st \<in> {Committing, Failed}"
    using assms(1) by (cases out) (auto simp del: not_ex)
  have step: "commit_delta ev p (Unguard k) = Some ?p'" by (simp add: p)
  have receipt: "obeys (commit_delta ev) ?p' (worker_receipt env a n r2 (commit_ok out) result) (\<lambda>_ q. q = ?p')"
    if "commit_ok out \<or> is_ok result \<longrightarrow> cm_sent ?p'" for r2 result
  proof (cases "e_evidence_on env \<and> (commit_ok out \<or> is_ok result)")
    case True
    then have "cm_sent ?p'" using that by blast
    then show ?thesis unfolding worker_receipt_def
      by (intro obeys_if obeys_quiet_bind obeys_ask obeys_return) (auto simp: p)
  next
    case False
    then show ?thesis by (auto simp: worker_receipt_def intro: obeys_return)
  qed
  have finish: "obeys (commit_delta ev) ?p' (tryS (op_update env r2) (\<lambda>_. ret result)) (commit_done env)"
    if "verdict_stored result (Some (op_state r2)) (cm_sent ?p')"
      "op_state r2 \<in> {Committed, Failed, Indeterminate}" for r2 result
  proof (rule obeys_tryS, rule obeys_mono)
    show "obeys (commit_delta ev) ?p' (op_update env r2)
        (\<lambda>x q. case x of Inl _ \<Rightarrow> q = ?p' \<and> \<not> settles env | Inr _ \<Rightarrow> q = cm False (Some (op_state r2)) i s)"
      using commit_update [of ev False "Some st" i s env r2]
      by (simp add: p cong: sum.case_cong)
    show "case x of Inl e \<Rightarrow> commit_done env (Inl e) q
        | Inr _ \<Rightarrow> obeys (commit_delta ev) q (ret result) (commit_done env)"
      if "case x of Inl _ \<Rightarrow> q = ?p' \<and> \<not> settles env | Inr _ \<Rightarrow> q = cm False (Some (op_state r2)) i s" for x :: "unit res" and q
      using that \<open>verdict_stored _ _ _\<close> \<open>op_state r2 \<in> _\<close> st
      by (auto simp: p commit_end_def commit_done_def split: sum.splits intro!: obeys_return)
  qed
  show ?thesis
    by (rule obeys_emit_bind, rule step, rule obeys_bind, rule worker_settled [OF assms(1) refl])
       (auto intro!: obeys_quiet_bind [OF receipt] finish)
qed

lemma worker_obeys:
  assumes "op_state r = Committing"
  shows "obeys (commit_delta (e_evidence_on env)) (cm False (Some Committing) False False)
    (commit_worker env dc admin r a) (commit_done env)"
proof -
  let ?d = "commit_delta (e_evidence_on env)"
  let ?p = "\<lambda>i. cm True (Some Committing) i False"
  have intent: "obeys ?d (?p False) (worker_intent env a r)
      (\<lambda>x q. case x of Some _ \<Rightarrow> q = ?p False | None \<Rightarrow> q = ?p (e_evidence_on env))"
    unfolding worker_intent_def
    by (rule obeys_if) (auto intro!: obeys_ask obeys_return split: option.splits)
  have refused: "obeys ?d (?p False) (worker_refused env r e)
      (\<lambda>x q. \<not> is_ok x \<and> cm_guard q \<and> \<not> cm_sent q \<and> (settles env \<longrightarrow> cm_stored q \<noteq> Some Committing))" for e
    unfolding worker_refused_def
    by (rule obeys_bind [OF commit_update]) (auto intro!: obeys_return split: sum.splits)
  have stop: "obeys ?d q (bind_act (emit (Unguard k)) (\<lambda>_. ret x)) (commit_done env)"
    if "\<not> is_ok x \<and> cm_guard q \<and> \<not> cm_sent q \<and> (settles env \<longrightarrow> cm_stored q \<noteq> Some Committing)" for x :: "commit_output res" and q k
    using that by (cases x) (auto intro!: obeys_emit_bind obeys_return simp: commit_end_def commit_done_def)
  have go: "obeys ?d (?p (e_evidence_on env)) (worker_body env dc (commit_command env r a admin) r)
      (block_end (e_evidence_on env))"
    by (rule worker_block) (simp_all add: assms)
  show ?thesis
    unfolding commit_worker_def Let_def
    apply (rule obeys_ask_at)
    subgoal for log
    proof (cases "e_coord_guard env log (mutation_lock_key dc)")
      case None
      show ?thesis
        apply (simp add: None)
        apply (rule obeys_bind [OF intent])
        subgoal for x q
          by (cases x) (auto intro!: obeys_bind [OF refused] stop obeys_bind [OF go] worker_finished)
        done
    qed (auto intro!: obeys_return simp: commit_end_def commit_done_def settles_def)
    done
qed

section \<open>The handler\<close>

lemma commit_quiet_read: "obeys (commit_delta ev) p (op_read env i w d) (\<lambda>_ q. q = p)"
  unfolding op_read_def by (intro obeys_quiet_bind obeys_ask obeys_return) simp_all

lemma commit_quiet_attribution:
  "obeys (commit_delta ev) p (commit_attribution env dev r a) (\<lambda>_ q. q = p)"
  unfolding commit_attribution_def cs_read_def
  by (auto intro!: obeys_quiet_bind obeys_ask obeys_return split: option.splits)

lemma commit_done_early: "commit_done env (Inl e) (cm False None False False)"
  by (simp add: commit_done_def commit_end_def)

lemma commit_obeys:
  "obeys (commit_delta (e_evidence_on env)) (cm False None False False)
     (commit_candidate env sv input owner a tok) (commit_done env)"
proof -
  let ?d = "commit_delta (e_evidence_on env)"
  have finish: "obeys ?d q (bind_act (ask (\<lambda>log. c log) TokenChecked) (\<lambda>detached.
       ret (if detached then Inr \<lparr>co_operation = i, co_disposition = Detached, co_job = None,
              co_succeeded = None, co_details = t\<rparr> else x))) (commit_done env)"
    if "commit_done env x q" for x q c i t
    using that by (auto intro!: obeys_ask_bind obeys_return simp: commit_end_def commit_done_def)
  have body: "obeys ?d (cm False None False False)
      (tryS (op_update env (r\<lparr>op_state := Committing\<rparr>)) (\<lambda>_.
        bind_act (commit_attribution env dev (r\<lparr>op_state := Committing\<rparr>) a) (\<lambda>a'.
        bind_act (commit_worker env dc admin (r\<lparr>op_state := Committing\<rparr>) a') k))) (commit_done env)"
    if "\<And>x q. commit_done env x q \<Longrightarrow> obeys ?d q (k x) (commit_done env)" for r dev dc admin k
    by (rule obeys_tryS, rule obeys_mono [OF commit_update])
       (auto simp: commit_done_early intro!: that obeys_quiet_bind [OF commit_quiet_attribution]
         obeys_bind [OF worker_obeys] split: sum.splits)
  show ?thesis
    unfolding commit_candidate_def commit_record_def Let_def
    by (intro obeys_quiet_tryS [OF commit.quiet_lift] obeys_quiet_tryS [OF commit_quiet_read]
        obeys_quiet_tryS [OF commit.quiet_fingerprint] commit_done_early body finish)
qed

text \<open>
  C8. In every run of a commit, whatever the device, the coordinator, the evidence recorder and
  the token answer: at most one commit request is sent, under the device guard, after the
  operation has been stored as committing and, when evidence is on, after the intent record has
  been kept; before it the device is only read; the configuration lock is released and a receipt
  written only after it.  The guard is free at the end, a verdict told to the caller is the stored
  one, and an operation whose commit was sent is never left in a retryable state.
\<close>

theorem commit_discipline:
  "obeys (commit_delta (e_evidence_on env)) (cm False None False False)
     (commit_candidate env sv input owner a tok) commit_end"
  by (rule obeys_mono [OF commit_obeys]) (simp add: commit_done_def)

text \<open>
  C18. A commit always comes to rest: when the coordinator stores the updates and grants the guard, no
  answer of the device, no loss of the connection, no refusal of the evidence recorder and no
  cancellation leaves the operation stored as committing, and the device guard is free again.
\<close>

theorem commit_comes_to_rest:
  assumes "\<forall>log r. e_coord_update env log r = None" and "\<forall>log k. e_coord_guard env log k = None"
  shows "obeys (commit_delta (e_evidence_on env)) (cm False None False False)
     (commit_candidate env sv input owner a tok)
     (\<lambda>x q. \<not> cm_guard q \<and> cm_stored q \<noteq> Some Committing
        \<and> (cm_sent q \<longrightarrow> cm_stored q \<in> Some ` {Committed, Failed, Indeterminate}))"
proof (rule obeys_mono [OF commit_obeys])
  have "settles env" using assms by (simp add: settles_def)
  then show "\<not> cm_guard q \<and> cm_stored q \<noteq> Some Committing
      \<and> (cm_sent q \<longrightarrow> cm_stored q \<in> Some ` {Committed, Failed, Indeterminate})"
    if "commit_done env x q" for x q
    using that by (auto simp: commit_done_def commit_end_def)
qed

theorem commit_comes_to_rest_witness:
  "\<forall>sv input owner tok. obeys (commit_delta (e_evidence_on script_env)) (cm False None False False)
     (commit_candidate script_env sv input owner sample_attribution tok)
     (\<lambda>x q. \<not> cm_guard q \<and> cm_stored q \<noteq> Some Committing
        \<and> (cm_sent q \<longrightarrow> cm_stored q \<in> Some ` {Committed, Failed, Indeterminate}))"
  by (intro allI commit_comes_to_rest) (simp_all add: script_env_def)

section \<open>What must hold before a commit takes effect\<close>

text \<open>An event that is more than a look: a request other than a read, or a change of what the
  coordinator or the recorder keeps.\<close>

fun effectful :: "event \<Rightarrow> bool" where
  "effectful (Sent d fs) = (kind_of fs \<noteq> Read)"
| "effectful (Slept ms) = False"
| "effectful (TokenChecked c) = False"
| "effectful (OpRead i w d r) = False"
| "effectful (CsRead i d r) = False"
| "effectful (Clock t) = False"
| "effectful (Random b) = False"
| "effectful _ = True"

definition effects :: "world \<Rightarrow> event list" where
  "effects w = filter effectful (wlog w)"

definition idle_delta :: "unit \<Rightarrow> event \<Rightarrow> unit option" where
  "idle_delta p e = (if effectful e then None else Some p)"

interpretation idle: monitor idle_delta
  by unfold_locales (simp_all add: idle_delta_def)

lemma idle_accept: "accept idle_delta p es = Some q \<Longrightarrow> filter effectful es = []"
  by (induction es) (auto simp: idle_delta_def split: if_splits option.splits)

lemma idle_run:
  assumes "obeys idle_delta () m (\<lambda>_ q. q = ())" and "run_state m w = (r, w')"
  shows "effects w' = effects w"
proof -
  obtain es q where "wlog w' = es @ wlog w" "accept idle_delta () (rev es) = Some q"
    using obeys_run [OF assms] by blast
  moreover then have "filter effectful (rev es) = []" by (blast dest: idle_accept)
  ultimately show ?thesis by (simp add: effects_def rev_filter [symmetric])
qed

text \<open>A handler is gated by \<open>G\<close> at \<open>w\<close>: it has no effect there unless \<open>G\<close> holds.  Steps without
  effects leave the gate to what follows them.\<close>

definition gated :: "bool \<Rightarrow> 'a act \<Rightarrow> world \<Rightarrow> bool" where
  "gated G m w \<longleftrightarrow> effects (snd (run_state m w)) = effects w \<or> G"

lemma gated_holds: "G \<Longrightarrow> gated G m w"
  by (simp add: gated_def)

lemma gated_tryS:
  assumes quiet: "obeys idle_delta () m (\<lambda>_ q. q = ())"
    and rest: "\<And>v w1. run_state m w = (Inr v, w1) \<Longrightarrow> gated G (k v) w1"
  shows "gated G (tryS m k) w"
proof -
  obtain x w1 where run: "run_state m w = (x, w1)" by fastforce
  have same: "effects w1 = effects w" by (rule idle_run [OF quiet run])
  show ?thesis
  proof (cases x)
    case (Inl e)
    with run same show ?thesis by (simp add: gated_def tryS_def run_simps)
  next
    case (Inr v)
    with run same rest [of v w1] show ?thesis by (simp add: gated_def tryS_def run_simps)
  qed
qed

lemma gated_lift:
  "(\<And>v. r = Inr v \<Longrightarrow> gated G (k v) w) \<Longrightarrow> gated G (tryS (lift_res r) k) w"
  by (cases r) (auto simp: gated_def tryS_def lift_res_def run_simps)

lemma idle_read: "obeys idle_delta () (op_read env i wh d) (\<lambda>_ q. q = ())"
  unfolding op_read_def by (intro obeys_quiet_bind obeys_ask obeys_return) (simp_all add: idle_delta_def)

text \<open>Everything the handler has established when it first changes something.\<close>

definition commit_allowed ::
  "env \<Rightarrow> service \<Rightarrow> operation_input \<Rightarrow> string \<Rightarrow> world \<Rightarrow> op_record \<Rightarrow> device_config \<Rightarrow> mutation_policy \<Rightarrow> bool" where
  "commit_allowed env sv input owner w r dc p \<longleftrightarrow>
     (let (read, w1) = run_state (op_read env (oi_operation input) owner (oi_device input)) w in
      read = Inr r \<and> op_state r = Validated
      \<and> (sv_direct_commit sv = None \<or> op_change_set r \<noteq> None)
      \<and> map_of (sv_clients sv) (oi_device input) = Some dc
      \<and> (is_local (dc_authority dc) \<or> sv_allow_plane sv)
      \<and> dc_mutation dc = Some p \<and> op_policy_signature r = policy_signature (e_lib env) p
      \<and> fst (run_state (candidate_fingerprint env dc Fresh) w1) = Inr (oi_expected input)
      \<and> op_current r = oi_expected input)"

lemma commit_gate_ok:
  assumes "commit_gate sv dev r = Inr dc"
  shows "op_state r = Validated" "sv_direct_commit sv = None \<or> op_change_set r \<noteq> None"
    "map_of (sv_clients sv) dev = Some dc" "is_local (dc_authority dc) \<or> sv_allow_plane sv"
  using assms by (auto simp: commit_gate_def find_client_def ok_or_def and_then_def
      split: if_splits option.splits sum.splits)

lemma require_fingerprint_ok:
  "require_operation_fingerprint expected r actual = Inr u \<Longrightarrow> actual = expected \<and> op_current r = expected"
  by (auto simp: require_operation_fingerprint_def require_fingerprint_def and_then_def
      split: if_splits sum.splits)

lemma require_operation_policy_ok:
  "require_operation_policy lb r dc = Inr u \<Longrightarrow> dc_mutation dc = Some p \<Longrightarrow>
   op_policy_signature r = policy_signature lb p"
  by (auto simp: require_operation_policy_def require_policy_def ok_or_def and_then_def split: if_splits)

text \<open>
  C13. A commit has no effect at all - no request but reads, nothing stored, no guard, no evidence -
  unless the operation belongs to the caller and is validated, the direct-commit policy and the
  plane that owns the device allow it, mutation is enabled under the very policy the operation was
  staged with, and the live candidate, the caller and the operation record agree on the fingerprint.
\<close>

theorem commit_gate_sound:
  "effects (snd (run_state (commit_candidate env sv input owner a tok) w)) = effects w
   \<or> (\<exists>r dc p. commit_allowed env sv input owner w r dc p)"
  unfolding gated_def [symmetric] commit_candidate_def commit_record_def
proof (rule gated_lift, rule gated_tryS [OF idle_read], rule gated_lift, rule gated_lift, rule gated_lift,
    rule gated_tryS [OF idle.quiet_fingerprint], rule gated_lift, rule gated_holds)
  fix r w1 dc p current w2 and u u' :: unit
  assume "run_state (op_read env (oi_operation input) owner (oi_device input)) w = (Inr r, w1)"
    and g: "commit_gate sv (oi_device input) r = Inr dc" and p: "require_policy dc = Inr p"
    and s: "require_operation_policy (e_lib env) r dc = Inr u"
    and "run_state (candidate_fingerprint env dc Fresh) w1 = (Inr current, w2)"
    and "require_operation_fingerprint (oi_expected input) r current = Inr u'"
  moreover have "dc_mutation dc = Some p" using p by (simp add: require_policy_def ok_or_def split: option.splits)
  ultimately have "commit_allowed env sv input owner w r dc p"
    using commit_gate_ok [OF g] require_operation_policy_ok [OF s]
    by (auto simp: commit_allowed_def dest: require_fingerprint_ok)
  then show "\<exists>r dc p. commit_allowed env sv input owner w r dc p" by blast
qed

end
