(* ===== verification/ApplySpec.thy ===== *)
theory ApplySpec
  imports CommitSpec Locked
begin

text \<open>
  Applying an approved change set: what must hold before anything takes effect, and the
  discipline of the run - the second look under the guard, the record, the lock, the claim, the
  pushes in order, the revert and the settlement.
\<close>

section \<open>The monitor\<close>

record apply_mon =
  am_guard :: bool
  am_plan :: "cs_record option"
  am_fresh :: bool
  am_record :: bool
  am_lock :: bool
  am_left :: "json list option"
  am_sent :: nat
  am_reverted :: bool
  am_applied :: bool
  am_expired :: bool

definition approved_plan :: "apply_input \<Rightarrow> string \<Rightarrow> cs_record \<Rightarrow> bool" where
  "approved_plan input owner cs \<longleftrightarrow>
     cs_owner cs = owner \<and> cs_state cs = Approved \<and> cs_approver cs \<noteq> None \<and> exact_plan cs input"

text \<open>The caller's own approved change set whose time has passed: the apply marks it as expired.\<close>

definition expired_approval :: "string \<Rightarrow> cs_record \<Rightarrow> nat \<Rightarrow> bool" where
  "expired_approval owner cs now \<longleftrightarrow>
     cs_owner cs = owner \<and> cs_state cs = Approved \<and> cs_approver cs \<noteq> None \<and> cs_expires cs \<le> now"

text \<open>The device of the input and its policy.\<close>

definition target :: "service \<Rightarrow> apply_input \<Rightarrow> (device_config \<times> mutation_policy) option" where
  "target sv input = (case map_of (sv_clients sv) (ai_device input) of None \<Rightarrow> None
     | Some dc \<Rightarrow> (case dc_mutation dc of None \<Rightarrow> None | Some p \<Rightarrow> Some (dc, p)))"

text \<open>The next stored action, as it must be sent.\<close>

fun next_change :: "env \<Rightarrow> device_config \<Rightarrow> fields \<Rightarrow> json list \<Rightarrow> json list option" where
  "next_change env dc fs [] = None"
| "next_change env dc fs (v # vs) =
     (case e_decode_action env v of
        Inl e \<Rightarrow> None
      | Inr a \<Rightarrow> if fs = with_vsys dc (change_fields a) then Some vs else None)"

fun apply_request ::
  "env \<Rightarrow> (device_config \<times> mutation_policy) option \<Rightarrow> apply_mon \<Rightarrow> fields \<Rightarrow> request_kind \<Rightarrow> apply_mon option" where
  "apply_request env t s fs Read = Some s"
| "apply_request env t s fs Lock =
     (if am_guard s \<and> am_fresh s \<and> am_record s \<and> am_left s = None then Some (s\<lparr>am_lock := True\<rparr>) else None)"
| "apply_request env t s fs Unlock = (if am_guard s \<and> am_lock s then Some (s\<lparr>am_lock := False\<rparr>) else None)"
| "apply_request env t s fs Change =
     (case (t, am_left s) of
        (Some (dc, p), Some vs) \<Rightarrow>
          (if am_guard s \<and> am_fresh s \<and> am_record s \<and> (pol_require_lock p \<longrightarrow> am_lock s) \<and> \<not> am_reverted s
           then map_option (\<lambda>rest. s\<lparr>am_left := Some rest, am_sent := am_sent s + 1\<rparr>) (next_change env dc fs vs)
           else None)
      | _ \<Rightarrow> None)"
| "apply_request env t s fs Revert =
     (if am_guard s \<and> am_sent s > 0 \<and> \<not> am_reverted s then Some (s\<lparr>am_reverted := True\<rparr>) else None)"
| "apply_request env t s fs _ = None"

fun apply_delta ::
  "env \<Rightarrow> (device_config \<times> mutation_policy) option \<Rightarrow> apply_input \<Rightarrow> string \<Rightarrow> apply_mon \<Rightarrow> event \<Rightarrow> apply_mon option" where
  "apply_delta env t input owner s (Sent d fs) = apply_request env t s fs (kind_of fs)"
| "apply_delta env t input owner s (Slept ms) = Some s"
| "apply_delta env t input owner s (TokenChecked c) = Some s"
| "apply_delta env t input owner s (Random b) = Some s"
| "apply_delta env t input owner s (Clock now) =
     (case (am_plan s, now) of
        (Some cs, Some n) \<Rightarrow>
          Some (s\<lparr>am_fresh := am_guard s \<and> approved_plan input owner cs \<and> n < cs_expires cs,
                  am_expired := \<not> am_guard s \<and> expired_approval owner cs n\<rparr>)
      | _ \<Rightarrow> Some s)"
| "apply_delta env t input owner s (Guard k e) =
     (case e of Some _ \<Rightarrow> Some s
      | None \<Rightarrow> if am_guard s then None
               else Some (s\<lparr>am_guard := True, am_plan := None, am_fresh := False, am_expired := False\<rparr>))"
| "apply_delta env t input owner s (Unguard k) = (if am_guard s then Some (s\<lparr>am_guard := False\<rparr>) else None)"
| "apply_delta env t input owner s (CsRead i d r) =
     (if i = ai_change_set input \<and> d = ai_device input
      then Some (s\<lparr>am_fresh := False, am_expired := False, am_plan := (case r of Inl _ \<Rightarrow> None | Inr cs \<Rightarrow> Some cs)\<rparr>)
      else None)"
| "apply_delta env t input owner s (OpInsert r e) =
     (if am_guard s \<and> am_fresh s then Some (case e of Some _ \<Rightarrow> s | None \<Rightarrow> s\<lparr>am_record := True\<rparr>) else None)"
| "apply_delta env t input owner s (OpUpdate r e) = (if am_record s then Some s else None)"
| "apply_delta env t input owner s (OpRemove i) =
     (if am_record s \<and> am_sent s = 0 then Some (s\<lparr>am_record := False\<rparr>) else None)"
| "apply_delta env t input owner s (CsClaim i d r) =
     (if am_guard s \<and> am_fresh s \<and> am_record s \<and> am_left s = None
        \<and> map_option (\<lambda>cs. (cs_id cs, cs_device cs)) (am_plan s) = Some (i, d)
      then Some (case r of Inl _ \<Rightarrow> s | Inr cs \<Rightarrow> s\<lparr>am_left := Some (cs_actions cs)\<rparr>) else None)"
| "apply_delta env t input owner s (CsUpdate r e) =
     (if am_guard s
      then if am_left s = None then None
           else Some (case e of Some _ \<Rightarrow> s | None \<Rightarrow> s\<lparr>am_applied := (cs_state r = Applied)\<rparr>)
      else if am_expired s \<and> map_option (\<lambda>cs. cs\<lparr>cs_state := Expired\<rparr>) (am_plan s) = Some r then Some s else None)"
| "apply_delta env t input owner s _ = None"

interpretation apply_run: monitor "apply_delta env t input owner" for env t input owner
  by unfold_locales simp_all

abbreviation am ::
  "bool \<Rightarrow> cs_record option \<Rightarrow> bool \<Rightarrow> bool \<Rightarrow> bool \<Rightarrow> json list option \<Rightarrow> nat \<Rightarrow> bool \<Rightarrow> bool \<Rightarrow> apply_mon" where
  "am g pl fr rc lk lf n rv ap \<equiv> \<lparr>am_guard = g, am_plan = pl, am_fresh = fr, am_record = rc, am_lock = lk,
     am_left = lf, am_sent = n, am_reverted = rv, am_applied = ap, am_expired = False\<rparr>"

text \<open>How a run may end: the guard is free; success means that every action of the claimed plan
  was sent, none was reverted, and the change set is stored as applied; a failure after one
  accepted action either sent them all or asked for the revert.\<close>

definition apply_outcome :: "stage_output res \<Rightarrow> apply_mon \<Rightarrow> bool" where
  "apply_outcome x q \<longleftrightarrow> \<not> am_guard q \<and>
     (case x of
        Inr out \<Rightarrow> am_left q = Some [] \<and> \<not> am_reverted q \<and> am_record q \<and> am_applied q
      | Inl e \<Rightarrow> am_sent q < 2 \<or> am_left q = Some [] \<or> am_reverted q)"

section \<open>The steps\<close>

lemma apply_update:
  "obeys (apply_delta env t input owner) (am g pl fr True lk lf n rv ap) (op_update env r)
     (\<lambda>_ q. q = am g pl fr True lk lf n rv ap)"
  unfolding op_update_def by (rule obeys_ask_bind) (simp add: obeys_return)

lemma apply_cs_update:
  "obeys (apply_delta env t input owner) (am True pl fr rc lk (Some vs) n rv ap) (cs_update env r)
     (\<lambda>x q. q = am True pl fr rc lk (Some vs) n rv (if is_ok x then cs_state r = Applied else ap))"
  unfolding cs_update_def
  by (rule obeys_ask_bind) (auto simp: coord_unit_def intro!: obeys_return split: option.splits)

lemma apply_push_actions:
  assumes "t = Some (dc, p)" and "pol_require_lock p \<longrightarrow> lk"
  shows "obeys (apply_delta env t input owner) (am True pl True True lk (Some vs) n False ap)
    (push_actions env dc vs n)
    (\<lambda>(applied, outcome) q. \<exists>vs' n'. q = am True pl True True lk (Some vs') n' False ap
        \<and> (if is_ok outcome then vs' = [] else n' = applied \<or> n' = Suc applied)
        \<and> (applied > n \<longrightarrow> e_header_ok env (dc_api_key dc)))"
proof (induction vs arbitrary: n)
  case (Cons v vs)
  let ?p = "am True pl True True lk (Some (v # vs)) n False ap"
  let ?q = "am True pl True True lk (Some vs) (Suc n) False ap"
  show ?case
  proof (cases "e_decode_action env v")
    case (Inr a)
    have step: "apply_delta env t input owner ?p (Sent (device_name dc) (with_vsys dc (change_fields a))) = Some ?q"
      using assms Inr by simp
    show ?thesis
      apply (simp only: push_actions.simps Inr sum.case)
      apply (rule obeys_bind [OF apply_run.change_sends [OF step]])
      subgoal for x q
        by (cases x)
           (auto intro!: obeys_return obeys_mono [OF Cons.IH [of "Suc n"]] split: if_splits)
      done
  qed (auto intro!: obeys_return)
qed (auto intro!: obeys_return)

definition ends :: "stage_output res \<Rightarrow> apply_mon \<Rightarrow> bool" where
  "ends x q \<longleftrightarrow> am_guard q \<and> apply_outcome x (q\<lparr>am_guard := False\<rparr>)"

lemma apply_unlock:
  assumes "lk \<longrightarrow> e_header_ok env (dc_api_key dc)"
  shows "obeys (apply_delta env t input owner) (am True pl fr rc lk lf n rv ap)
     (if lk then release_config_lock_best_effort env dc else ret ()) (\<lambda>_ q. q = am True pl fr rc False lf n rv ap)"
proof (cases lk)
  case True
  with assms have h: "e_header_ok env (dc_api_key dc)" by blast
  show ?thesis unfolding if_P [OF True] release_config_lock_best_effort_def
    by (rule obeys_bind, rule apply_run.unlock_sends [where q = "am True pl fr rc False lf n rv ap"])
       (auto simp: True h intro!: obeys_return)
qed (simp add: obeys_return)

lemma apply_failed_obeys:
  assumes "n = applied \<or> n = Suc applied" and "applied > 0 \<longrightarrow> e_header_ok env (dc_api_key dc)"
    and "lk \<longrightarrow> e_header_ok env (dc_api_key dc)" and "op_lock_held r = lk"
  shows "obeys (apply_delta env t input owner) (am True pl fr True lk (Some vs) n False ap)
     (apply_failed env dc p r cs applied e) ends"
proof -
  let ?d = "apply_delta env t input owner" and ?s = "\<lambda>lk ap. am True pl fr True lk (Some vs) n (applied > 0) ap"
  have stop: "ends (Inl e) (?s l a)" for e l a
    using assms(1) by (auto simp: ends_def apply_outcome_def)
  have revert: "obeys ?d (am True pl fr True lk (Some vs) n False ap)
      (if applied > 0 then revert_admin_candidate env dc (pol_admin p) else ret (Inr ())) (\<lambda>_ q. q = ?s lk ap)"
  proof (cases "applied > 0")
    case True
    then have "n > 0" "e_header_ok env (dc_api_key dc)" using assms(1,2) by auto
    then show ?thesis unfolding if_P [OF True]
      by (intro obeys_mono [OF apply_run.revert_sends [where q = "?s lk ap"]]) (auto simp: True)
  qed (simp add: obeys_return)
  have settle: "obeys ?d (?s lk a) (bind_act (if lk then release_config_lock_best_effort env dc else ret ()) (\<lambda>_. ret (Inl x))) ends"
    for x a
    by (rule obeys_bind [OF apply_unlock [OF assms(3)]], hypsubst, rule obeys_return, rule stop)
  have keep: "op_lock_held (case fp of
        Inl _ \<Rightarrow> r\<lparr>op_state := st, op_details := d\<rparr>
      | Inr c \<Rightarrow> r\<lparr>op_state := st, op_details := d, op_current := c\<rparr>) = lk" for fp :: "string res" and st d
    using assms(4) by (cases fp) simp_all
  show ?thesis unfolding apply_failed_def Let_def
    apply (rule obeys_bind [OF revert])
    apply (simp only: keep)
    apply (rule obeys_quiet_bind [OF apply_run.quiet_fingerprint])
    apply (rule obeys_quiet_tryS [OF apply_update], rule stop)
    apply (rule obeys_tryS, rule obeys_mono [OF apply_cs_update])
    subgoal for rv q0 fp u x q
      by (cases x) (simp_all only: sum.case stop settle)
    done
qed

lemma apply_finished_obeys:
  "obeys (apply_delta env t input owner) (am True pl fr True lk (Some []) n False ap)
     (apply_finished env dc input r cs prior) ends"
proof -
  let ?s = "am True pl fr True lk (Some []) n False"
  have stop: "ends (Inl e) (?s a)" for e a by (simp add: ends_def apply_outcome_def)
  have upd: "obeys (apply_delta env t input owner) (?s ap) (tryS (cs_update env r') k) ends"
    if "\<And>u. obeys (apply_delta env t input owner) (?s (cs_state r' = Applied)) (k u) ends" for r' k
    by (rule obeys_tryS, rule obeys_mono [OF apply_cs_update]) (auto simp: stop that split: sum.splits)
  show ?thesis unfolding apply_finished_def
    apply (rule obeys_quiet_bind [OF apply_run.quiet_fingerprint])
    subgoal for fp
      by (cases fp) (auto intro!: obeys_quiet_tryS [OF apply_update] upd obeys_return simp: stop ends_def apply_outcome_def)
    done
qed

lemma apply_push_obeys:
  assumes "t = Some (dc, p)" and "lk = pol_require_lock p" and "lk \<longrightarrow> e_header_ok env (dc_api_key dc)"
    and "op_lock_held r = lk"
  shows "obeys (apply_delta env t input owner) (am True pl True True lk (Some (cs_actions cs)) 0 False ap)
     (apply_push env dc p input r cs prior) ends"
  unfolding apply_push_def
  apply (rule obeys_bind, rule apply_push_actions [OF assms(1), where n = 0])
  using assms(2) apply simp
  using assms(3,4)
  by (auto intro!: apply_failed_obeys apply_finished_obeys simp del: One_nat_def split: sum.splits)

section \<open>Up to the claim\<close>

text \<open>Under the guard, before the claim: nothing has been sent, and a given plan is the one read, and
  fresh.\<close>

definition unclaimed :: "cs_record option \<Rightarrow> bool \<Rightarrow> bool \<Rightarrow> apply_mon \<Rightarrow> bool" where
  "unclaimed plan rc lk q \<longleftrightarrow> am_guard q \<and> am_record q = rc \<and> am_lock q = lk \<and> am_left q = None
     \<and> am_sent q = 0 \<and> \<not> am_reverted q \<and> \<not> am_expired q \<and> (plan \<noteq> None \<longrightarrow> am_fresh q \<and> am_plan q = plan)"

lemma unclaimedE:
  assumes "unclaimed plan rc lk q"
  obtains pl fr ap where "q = am True pl fr rc lk None 0 False ap" "plan \<noteq> None \<longrightarrow> fr \<and> pl = plan"
  using assms by (cases q) (simp add: unclaimed_def)

lemma unclaimed_ends: "unclaimed plan rc lk q \<Longrightarrow> ends (Inl e) q"
  by (auto simp: unclaimed_def ends_def apply_outcome_def)

lemma apply_clock:
  "obeys (apply_delta env t input owner) q (now_unix env)
     (\<lambda>x q'. q' = (case (am_plan q, x) of
        (Some cs, Inr n) \<Rightarrow> q\<lparr>am_fresh := am_guard q \<and> approved_plan input owner cs \<and> n < cs_expires cs,
          am_expired := \<not> am_guard q \<and> expired_approval owner cs n\<rparr> | _ \<Rightarrow> q))"
  unfolding now_unix_def
  by (rule obeys_ask_bind) (auto simp: ok_or_def intro!: obeys_return split: option.splits)

lemma apply_recheck_obeys:
  assumes "unclaimed plan rc lk q"
  shows "obeys (apply_delta env t input owner) q (apply_recheck env input owner)
     (\<lambda>x q. unclaimed (case x of Inl _ \<Rightarrow> None | Inr cs \<Rightarrow> Some cs) rc lk q)"
proof -
  obtain pl fr ap where q: "q = am True pl fr rc lk None 0 False ap" using assms by (rule unclaimedE)
  let ?s = "\<lambda>cs. am True (Some cs) False rc lk None 0 False ap"
  have look: "obeys (apply_delta env t input owner) (?s cs)
      (if cs_owner cs \<noteq> owner \<or> cs_state cs \<noteq> Approved \<or> cs_approver cs = None \<or> \<not> exact_plan cs input
       then ret (Inl stale)
       else tryS (now_unix env) (\<lambda>now. ret (if cs_expires cs \<le> now then Inl stale else Inr cs)))
      (\<lambda>x q. unclaimed (case x of Inl _ \<Rightarrow> None | Inr cs \<Rightarrow> Some cs) rc lk q)" for cs stale
    apply (rule obeys_if)
     apply (rule obeys_return, simp add: unclaimed_def)
    apply (rule obeys_tryS, rule obeys_mono [OF apply_clock])
    subgoal for x q'
      by (cases x) (simp_all add: unclaimed_def approved_plan_def obeys_return)
    done
  show ?thesis unfolding apply_recheck_def cs_read_def Let_def q
    apply (rule obeys_tryS, rule obeys_ask_bind)
    subgoal for r
    proof (cases r)
      case (Inr cs)
      show ?thesis
        by (rule exI [of _ "?s cs"], rule conjI, simp add: Inr, rule obeys_return,
            simp only: Inr map_err_simps sum.case, rule look)
    qed (auto simp: unclaimed_def intro!: obeys_return)
    done
qed

text \<open>A recorded operation of which nothing has been sent can be abandoned.\<close>

definition abandonable :: "bool \<Rightarrow> apply_mon \<Rightarrow> bool" where
  "abandonable l q \<longleftrightarrow> am_guard q \<and> \<not> am_expired q \<and> am_record q \<and> am_sent q = 0 \<and> (l \<longrightarrow> am_lock q)"

lemma abandonable_unclaimed: "unclaimed plan True lk q \<Longrightarrow> (l \<longrightarrow> lk) \<Longrightarrow> abandonable l q"
  by (simp add: unclaimed_def abandonable_def)

definition stopped :: "apply_mon \<Rightarrow> bool" where
  "stopped q \<longleftrightarrow> (\<forall>e. ends (Inl e) q)"

lemma stopped_unsent: "am_guard q \<Longrightarrow> am_sent q = 0 \<Longrightarrow> stopped q"
  by (simp add: stopped_def ends_def apply_outcome_def)

lemma apply_abandon:
  assumes "abandonable l q" and "l \<longrightarrow> e_header_ok env (dc_api_key dc)"
  shows "obeys (apply_delta env t input owner) q (abandon env dc l oid) (\<lambda>_. stopped)"
proof -
  obtain pl fr lk lf rv ap where q: "q = am True pl fr True lk lf 0 rv ap" and l: "l \<longrightarrow> lk"
    using assms(1) by (cases q) (simp add: abandonable_def)
  have unlock: "obeys (apply_delta env t input owner) q
      (if l then release_config_lock_best_effort env dc else ret ()) (\<lambda>_ q. \<exists>lk. q = am True pl fr True lk lf 0 rv ap)"
    by (cases l) (use assms l apply_unlock [of True env dc t input owner pl fr True lf 0 rv ap] in
      \<open>auto simp: q intro: obeys_return obeys_mono\<close>)
  show ?thesis unfolding abandon_def op_remove_def
    by (rule obeys_bind [OF unlock]) (auto intro!: obeys_emit stopped_unsent)
qed

lemma apply_or_abandon:
  assumes "obeys (apply_delta env t input owner) q m
      (\<lambda>x q. case x of Inl _ \<Rightarrow> abandonable l q | Inr v \<Rightarrow> R v q)"
    and "l \<longrightarrow> e_header_ok env (dc_api_key dc)"
  shows "obeys (apply_delta env t input owner) q (or_abandon env dc l oid m)
      (\<lambda>x q. case x of Inl _ \<Rightarrow> stopped q | Inr v \<Rightarrow> R v q)"
  unfolding or_abandon_def
  by (rule obeys_bind [OF assms(1)])
     (auto intro!: obeys_return obeys_bind [OF apply_abandon] simp: assms(2) split: sum.splits)

lemma apply_lock_obeys:
  assumes "unclaimed (Some cs) True False q" and "op_lock_held r = False"
  shows "obeys (apply_delta env t input owner) q (apply_lock env dc p r)
     (\<lambda>x q. case x of Inl _ \<Rightarrow> stopped q
       | Inr r' \<Rightarrow> unclaimed (Some cs) True (pol_require_lock p) q \<and> op_lock_held r' = pol_require_lock p
           \<and> (pol_require_lock p \<longrightarrow> e_header_ok env (dc_api_key dc)))"
proof (cases "pol_require_lock p")
  case True
  let ?d = "apply_delta env t input owner"
  obtain ap where q: "q = am True (Some cs) True True False None 0 False ap" using assms(1) by (auto elim: unclaimedE)
  let ?q = "am True (Some cs) True True True None 0 False ap"
  have lock: "obeys ?d q (or_abandon env dc False oid (acquire_config_lock env dc oid))
      (\<lambda>x q. case x of Inl _ \<Rightarrow> stopped q | Inr _ \<Rightarrow> q = ?q \<and> e_header_ok env (dc_api_key dc))" for oid
    by (rule apply_or_abandon, rule obeys_mono, rule apply_run.lock_sends [where q = ?q])
       (auto simp: q abandonable_def split: sum.splits if_splits)
  have store: "obeys ?d ?q (or_abandon env dc True oid (op_update env r'))
      (\<lambda>x q. case x of Inl _ \<Rightarrow> stopped q | Inr _ \<Rightarrow> q = ?q)" if "e_header_ok env (dc_api_key dc)" for oid r'
    by (rule apply_or_abandon, rule obeys_mono, rule apply_update)
       (auto simp: that abandonable_def split: sum.splits)
  show ?thesis unfolding apply_lock_def Let_def
    apply (simp only: True not_True_eq_False if_False)
    apply (rule obeys_tryS, rule obeys_mono [OF lock])
    apply (auto simp: unclaimed_def intro!: obeys_tryS obeys_mono [OF store] obeys_return split: sum.splits)
    done
next
  case False
  then show ?thesis using assms by (simp add: apply_lock_def obeys_return)
qed

lemma apply_claim_obeys:
  assumes "unclaimed (Some cs) True lk q"
  shows "obeys (apply_delta env t input owner) q (apply_claim env cs oid)
     (\<lambda>x q. case x of Inl _ \<Rightarrow> abandonable lk q
       | Inr cs' \<Rightarrow> \<exists>pl ap. q = am True pl True True lk (Some (cs_actions cs')) 0 False ap)"
proof -
  let ?d = "apply_delta env t input owner"
  obtain ap where q: "q = am True (Some cs) True True lk None 0 False ap" using assms by (auto elim: unclaimedE)
  have claim: "obeys ?d q (claim_for_apply env cs)
      (\<lambda>x q'. case x of Inl _ \<Rightarrow> q' = q | Inr c \<Rightarrow> q' = am True (Some cs) True True lk (Some (cs_actions c)) 0 False ap)"
    unfolding claim_for_apply_def
    by (rule obeys_ask_bind) (auto simp: q intro!: obeys_return split: sum.splits)
  show ?thesis unfolding apply_claim_def Let_def
    apply (rule obeys_tryS, rule obeys_mono [OF claim])
    subgoal for x q'
      apply (cases x)
       apply (simp add: q abandonable_def)
      apply (simp only: sum.case)
      apply (rule obeys_bind [OF apply_cs_update])
      subgoal for _ y q''
        by (cases y) (auto simp: abandonable_def intro!: obeys_return obeys_bind [OF apply_cs_update])
      done
    done
qed

section \<open>The whole run\<close>

text \<open>The rest of the run behind its stages: after the claim, after the readiness check, with the lock
  asked for, and from the stored record.\<close>

lemma apply_claimed_obeys:
  assumes "t = Some (dc, p)" and "unclaimed (Some cs) True (pol_require_lock p) q" and "op_lock_held r = pol_require_lock p"
    and "pol_require_lock p \<longrightarrow> e_header_ok env (dc_api_key dc)"
  shows "obeys (apply_delta env t input owner) q
    (tryS (or_abandon env dc (op_lock_held r) oid (apply_claim env cs oid)) (\<lambda>cs. apply_push env dc p input r cs prior)) ends"
  apply (rule obeys_tryS, rule obeys_mono)
   apply (rule apply_or_abandon [OF apply_claim_obeys])
    apply (use assms in \<open>simp add: assms(3)\<close>)
   apply (use assms in simp)
  using assms(3,4) by (auto simp: stopped_def intro!: apply_push_obeys [OF assms(1)] split: sum.splits)

lemma apply_ready_obeys:
  assumes "unclaimed (Some cs) True (pol_require_lock p) q" and "op_lock_held r = pol_require_lock p"
    and "pol_require_lock p \<longrightarrow> e_header_ok env (dc_api_key dc)"
  shows "obeys (apply_delta env t input owner) q (or_abandon env dc (op_lock_held r) oid (apply_ready env dc input))
      (\<lambda>x q'. case x of Inl _ \<Rightarrow> stopped q' | Inr _ \<Rightarrow> q' = q)"
proof (rule apply_or_abandon, rule obeys_mono)
  show "obeys (apply_delta env t input owner) q (apply_ready env dc input) (\<lambda>_ q'. q' = q)"
    unfolding apply_ready_def
    by (intro apply_run.quiet_tryS apply_run.quiet_fingerprint apply_run.quiet_lift apply_run.quiet_clean obeys_return refl)
qed (use assms abandonable_unclaimed [OF assms(1)] in \<open>auto split: sum.splits\<close>)

lemma apply_locked_obeys:
  assumes "t = Some (dc, p)" and "unclaimed (Some cs) True False q" and "op_lock_held r = False"
  shows "obeys (apply_delta env t input owner) q (tryS (apply_lock env dc p r) (\<lambda>r.
       tryS (or_abandon env dc (op_lock_held r) oid (apply_ready env dc input)) (\<lambda>prior.
       tryS (or_abandon env dc (op_lock_held r) oid (apply_claim env cs oid)) (\<lambda>cs.
         apply_push env dc p input r cs prior)))) ends"
proof -
  have ready: "obeys (apply_delta env t input owner) q (tryS (or_abandon env dc (op_lock_held r) oid (apply_ready env dc input)) (\<lambda>prior.
       tryS (or_abandon env dc (op_lock_held r) oid (apply_claim env cs oid)) (\<lambda>cs.
         apply_push env dc p input r cs prior))) ends"
    if "unclaimed (Some cs) True (pol_require_lock p) q" "op_lock_held r = pol_require_lock p"
      "pol_require_lock p \<longrightarrow> e_header_ok env (dc_api_key dc)" for q r
    apply (rule obeys_tryS, rule obeys_mono [OF apply_ready_obeys [OF that]])
    subgoal for x
      by (cases x) (simp add: stopped_def, simp only: sum.case, rule apply_claimed_obeys [OF assms(1) that])
    done
  show ?thesis
    apply (rule obeys_tryS, rule obeys_mono [OF apply_lock_obeys [OF assms(2,3)]])
    subgoal for x
      by (cases x; hypsubst; unfold sum.case) (simp add: stopped_def, elim conjE, rule ready)
    done
qed

lemma apply_inserted_obeys:
  assumes "unclaimed (Some cs) False False q"
    and "\<And>q. unclaimed (Some cs) True False q \<Longrightarrow> obeys (apply_delta env t input owner) q (tryS (apply_lock env dc p r) k) ends"
  shows "obeys (apply_delta env t input owner) q (tryS (op_insert env r) (\<lambda>_. tryS (apply_lock env dc p r) k)) ends"
proof -
  have stored: "obeys (apply_delta env t input owner) q (op_insert env r)
      (\<lambda>x q. case x of Inl _ \<Rightarrow> stopped q | Inr _ \<Rightarrow> unclaimed (Some cs) True False q)"
    unfolding op_insert_def
    by (rule obeys_ask_bind)
       (use assms(1) in \<open>auto simp: coord_unit_def unclaimed_def intro!: obeys_return stopped_unsent split: option.splits\<close>)
  show ?thesis
    by (rule obeys_tryS, rule obeys_mono [OF stored]) (use assms(2) in \<open>auto simp: stopped_def split: sum.splits\<close>)
qed

lemma apply_record_unheld: "apply_record env dc p input owner oid cs = Inr r \<Longrightarrow> op_lock_held r = False"
  by (auto simp: apply_record_def and_then_def initial_record_def split: list.splits sum.splits)

lemma apply_guarded_obeys:
  assumes "t = Some (dc, p)" and "unclaimed None False False q"
  shows "obeys (apply_delta env t input owner) q (apply_guarded env dc p input owner tok) ends"
proof -
  have random: "obeys (apply_delta env t input owner) q (new_operation_id env) (\<lambda>_ q'. q' = q)" for q
    unfolding new_operation_id_def by (rule obeys_ask_bind) (simp add: obeys_return)
  have stop: "ends (Inl e) q" if "unclaimed plan rc lk q" for e plan rc lk q by (rule unclaimed_ends [OF that])
  show ?thesis unfolding apply_guarded_def
    apply (rule obeys_quiet_bind [OF apply_run.quiet_cancelled])
    apply (rule obeys_if, rule obeys_return, rule stop [OF assms(2)])
    apply (rule obeys_tryS, rule obeys_mono [OF apply_recheck_obeys [OF assms(2)]])
    subgoal for c x q
      apply (cases x)
       apply (simp add: stop)
      apply (simp only: sum.case is_ok_simps)
      apply (rule obeys_quiet_tryS [OF random], erule stop)
      apply (rule obeys_lift, erule stop)
      apply (rule apply_inserted_obeys, assumption)
      apply (rule apply_locked_obeys [OF assms(1)], assumption, erule apply_record_unheld)
      done
    done
qed

text \<open>The first look leaves nothing but what it read.\<close>

definition looked :: "apply_mon \<Rightarrow> bool" where
  "looked q \<longleftrightarrow> (\<exists>pl ex. q = (am False pl False False False None 0 False False)\<lparr>am_expired := ex\<rparr>)"

lemma apply_checks_obeys:
  "obeys (apply_delta env t input owner) (am False None False False False None 0 False False)
     (apply_checks env sv input owner grant) (\<lambda>_ q. looked q)"
proof -
  let ?d = "apply_delta env t input owner" and ?Q = "\<lambda>_ q. looked q"
  let ?s = "\<lambda>pl ex. (am False pl False False False None 0 False False)\<lparr>am_expired := ex\<rparr>"
  have ok: "looked (?s pl ex)" for pl ex by (auto simp: looked_def)
  have still: "obeys ?d (?s pl ex) m ?Q" if "obeys ?d (?s pl ex) m (\<lambda>_ q. q = ?s pl ex)" for m :: "'z act" and pl ex
    by (rule obeys_mono [OF that]) (use ok in blast)
  have expire: "obeys ?d (?s (Some cs) True) (tryS (cs_update env (cs\<lparr>cs_state := Expired\<rparr>)) (\<lambda>_. ret (Inl e))) ?Q"
    for cs e
    unfolding cs_update_def
    by (rule obeys_tryS, rule obeys_ask_bind) (use ok in \<open>auto intro!: obeys_return split: sum.splits\<close>)
  have clock: "obeys ?d (?s (Some cs) False) (tryS (now_unix env) k) ?Q"
    if "\<And>n. obeys ?d (?s (Some cs) (expired_approval owner cs n)) (k n) ?Q" for cs and k :: "nat \<Rightarrow> 'z res act"
    by (rule obeys_tryS, rule obeys_mono [OF apply_clock]) (use that ok in \<open>auto split: sum.splits\<close>)
  have read: "obeys ?d (?s None False) (tryS (cs_read env (ai_change_set input) (ai_device input)) k) ?Q"
    if "\<And>cs. obeys ?d (?s (Some cs) False) (k cs) ?Q" for k :: "cs_record \<Rightarrow> 'z res act"
    unfolding cs_read_def
    by (rule obeys_tryS, rule obeys_ask_bind) (use that ok in \<open>auto intro!: obeys_return split: sum.splits\<close>)
  have rest: "obeys ?d (?s pl ex) (tryS (lift_res (find_client sv (ai_device input))) (\<lambda>dc.
         tryS (lift_res (require_policy dc)) (\<lambda>p.
         tryS (lift_res (map_err (\<lambda>e. Configuration (''stored change-set action is unreadable: '' @ e))
           (collect_results (e_decode_action env) (cs_actions cs)))) (\<lambda>typed.
         tryS (lift_res (validate_change_set_actions env typed p grant)) (\<lambda>_. ret (Inr (dc, p))))))) ?Q" for pl ex cs
    by (rule still) (intro apply_run.quiet_tryS apply_run.quiet_lift obeys_return refl)
  have "obeys ?d (?s None False) (apply_checks env sv input owner grant) ?Q" unfolding apply_checks_def
    apply (rule obeys_lift, rule ok)
    apply (rule obeys_lift, rule ok)
    apply (rule read)
    apply (rule obeys_if, rule obeys_return, rule ok)
    apply (rule obeys_if, rule obeys_return, rule ok)
    apply (rule clock)
    apply (rule obeys_if)
     apply (subst expired_approval_def)
    subgoal for u v cs n using expire [of cs] by auto
    apply (rule obeys_if, rule obeys_return, rule ok)
    apply (rule rest)
    done
  then show ?thesis by simp
qed

lemma obeys_result:
  assumes "obeys delta p m Q" and "\<And>w. R (fst (run_state m w))"
  shows "obeys delta p m (\<lambda>x q. Q x q \<and> R x)"
  using assms unfolding obeys_def by meson

text \<open>What the checks establish about the change set they read, the clock and the policy.\<close>

definition apply_allowed ::
  "env \<Rightarrow> service \<Rightarrow> apply_input \<Rightarrow> string \<Rightarrow> mutation_grant option \<Rightarrow> world \<Rightarrow> cs_record \<Rightarrow> bool" where
  "apply_allowed env sv input owner grant w cs \<longleftrightarrow>
     (let (read, w1) = run_state (cs_read env (ai_change_set input) (ai_device input)) w in
      read = Inr cs \<and> approved_plan input owner cs
      \<and> (case fst (run_state (now_unix env) w1) of Inl _ \<Rightarrow> False | Inr now \<Rightarrow> now < cs_expires cs)
      \<and> (case (target sv input, collect_results (e_decode_action env) (cs_actions cs)) of
            (Some (dc, p), Inr typed) \<Rightarrow> is_ok (validate_change_set_actions env typed p grant)
          | _ \<Rightarrow> False))"

lemma find_policy_ok:
  assumes "find_client sv (ai_device input) = Inr dc" and "require_policy dc = Inr p"
  shows "target sv input = Some (dc, p)"
  using assms by (auto simp: find_client_def require_policy_def target_def ok_or_def split: option.splits)

lemma checks_target:
  "fst (run_state (apply_checks env sv input owner grant) w) = Inr dp \<Longrightarrow> target sv input = Some dp"
  unfolding apply_checks_def
  by (auto simp: tryS_def lift_res_def run_simps find_policy_ok split: sum.splits if_splits prod.splits)

lemma apply_run_obeys:
  "obeys (apply_delta env (target sv input) input owner) (am False None False False False None 0 False False)
     (apply_change_set env sv input owner grant tok) apply_outcome"
proof -
  let ?d = "apply_delta env (target sv input) input owner" and ?s = "am False None False False False None 0 False False"
  let ?R = "\<lambda>x. case x of Inl e \<Rightarrow> True | Inr dp \<Rightarrow> target sv input = Some dp"
  have checks: "obeys ?d ?s (apply_checks env sv input owner grant) (\<lambda>x q. looked q \<and> ?R x)"
    by (rule obeys_result [OF apply_checks_obeys]) (auto dest: checks_target split: sum.splits)
  have run: "obeys ?d q (with_guard env dc (apply_guarded env dc p input owner tok)) apply_outcome"
    if "target sv input = Some (dc, p)" "looked q" for dc p q
  proof -
    have body: "obeys ?d (am True None False False False None 0 False False)
        (bind_act (apply_guarded env dc p input owner tok) (\<lambda>r.
          bind_act (emit (Unguard (mutation_lock_key dc))) (\<lambda>_. ret r))) apply_outcome"
      by (rule obeys_bind [OF apply_guarded_obeys [OF that(1)]])
         (auto simp: unclaimed_def ends_def intro!: obeys_emit_bind obeys_return)
    show ?thesis unfolding with_guard_def
      apply (rule obeys_ask_bind)
      subgoal for g
        using body that(2) by (cases g) (auto simp: looked_def apply_outcome_def intro!: obeys_return)
      done
  qed
  show ?thesis unfolding apply_change_set_def
    apply (rule obeys_tryS, rule obeys_mono [OF checks])
    subgoal premises prems for x q
      using prems run by (cases x) (auto simp: looked_def apply_outcome_def)
    done
qed

section \<open>The lock is granted first\<close>

lemma grows_steps:
  "grows (cs_update env c)" "grows (op_update env r)" "grows (op_remove i)" "grows (revert_admin_candidate env dc a)"
  "grows (release_config_lock_best_effort env dc)"
  unfolding cs_update_def op_update_def op_remove_def emit_def revert_admin_candidate_def
    release_config_lock_best_effort_def release_config_lock_def
  by (intro grows_rules)+

lemma grows_abandon: "grows (abandon env dc l oid)"
  unfolding abandon_def by (intro grows_rules grows_steps)

lemma grows_or_abandon: "grows m \<Longrightarrow> grows (or_abandon env dc l oid m)"
  unfolding or_abandon_def by (intro grows_rules grows_abandon)

lemma grows_push: "grows (push_actions env dc vs n)"
  by (induction vs arbitrary: n) (auto intro!: grows_rules)

lemma grows_apply_push: "grows (apply_push env dc p input r cs prior)"
  unfolding apply_push_def apply_failed_def apply_finished_def Let_def
  by (intro grows_rules grows_steps grows_push)

lemma grows_after_lock:
  "grows (tryS (or_abandon env dc l oid (apply_ready env dc input)) (\<lambda>prior.
     tryS (or_abandon env dc l oid (apply_claim env cs oid)) (\<lambda>cs. apply_push env dc p input r cs prior)))"
  unfolding apply_ready_def apply_claim_def claim_for_apply_def Let_def
  by (intro grows_rules grows_steps grows_or_abandon grows_apply_push)

lemma apply_lock_locks:
  assumes "pol_require_lock p" and "\<And>r. grows (k r)"
  shows "locks env dc (tryS (apply_lock env dc p r) k)"
proof -
  let ?after = "tryS (or_abandon env dc True (op_id r) (op_update env (r\<lparr>op_lock_held := True\<rparr>)))
     (\<lambda>_. k (r\<lparr>op_lock_held := True\<rparr>))"
  have split: "tryS (apply_lock env dc p r) k = bind_act (acquire_config_lock env dc (op_id r)) (\<lambda>x. case x of
       Inl e \<Rightarrow> bind_act (abandon env dc False (op_id r)) (\<lambda>_. ret (Inl e)) | Inr _ \<Rightarrow> ?after)"
    using assms(1)
    by (intro state.expand ext)
       (simp add: apply_lock_def Let_def or_abandon_def tryS_def run_simps split: sum.split prod.split)
  have refused: "obeys unchanged () (bind_act (abandon env dc False (op_id r)) (\<lambda>_. ret x)) (\<lambda>_ q. q = ())" for x
    unfolding abandon_def by (intro obeys_quiet_bind quiet_asks obeys_return refl obeys_if) simp_all
  show ?thesis unfolding split
    by (rule locks_acquire) (auto intro!: refused grows_tryS grows_or_abandon grows_steps assms(2))
qed

lemma apply_locks:
  assumes "pol_require_lock p"
  shows "locks env dc (apply_guarded env dc p input owner tok)"
proof -
  have recheck: "obeys unchanged () (apply_recheck env input owner) (\<lambda>_ q. q = ())"
    unfolding apply_recheck_def Let_def by (intro unchanged.quiet_tryS quiet_asks obeys_if obeys_return refl)
  show ?thesis unfolding apply_guarded_def
    by (intro locks_bind [OF unchanged.quiet_cancelled] locks_if locks_return locks_tryS [OF recheck]
        locks_tryS [OF quiet_asks(1)] locks_lift locks_tryS [OF quiet_asks(2)] apply_lock_locks grows_after_lock assms)
qed

lemma apply_locks_first: "granted_before_change env sv (ai_device input) (apply_change_set env sv input owner grant tok)"
proof (cases "map_of (sv_clients sv) (ai_device input)")
  case (Some dc)
  have checks: "obeys unchanged () (apply_checks env sv input owner grant) (\<lambda>_ q. q = ())"
    unfolding apply_checks_def by (intro unchanged.quiet_tryS unchanged.quiet_lift quiet_asks obeys_if obeys_return refl)
  have guarded: "locks env dc (with_guard env dc' (apply_guarded env dc' p input owner tok))"
    if "needs_lock sv (ai_device input)" "run_state (apply_checks env sv input owner grant) w = (Inr (dc', p), w1)" for dc' p w w1
  proof -
    have "target sv input = Some (dc', p)" using checks_target [of env sv input owner grant w "(dc', p)"] that(2) by simp
    then have "dc' = dc" "pol_require_lock p"
      using that(1) Some by (auto simp: needs_lock_def target_def split: option.splits)
    then show ?thesis using locks_with_guard apply_locks by blast
  qed
  then show ?thesis unfolding granted_before_change_def apply_change_set_def Some
    by (auto intro!: locks_tryS_when [OF checks])
qed (simp add: granted_before_change_def)

text \<open>
  C9. In every run of an apply, whatever the device and the coordinator answer: before the device guard
  is held nothing is sent but reads and nothing is stored, except that the caller's own approved change
  set is marked as expired when the clock has just shown that its time has passed.  Nothing is
  recorded, locked, claimed or sent before the change set has been read again under the guard as
  the caller's own, approved, unexpired, exact plan; changes are sent only after the operation is
  recorded, the change set that was read claimed, and, where the policy asks for the lock, the device has granted it
  and it was not released since; and they
  are then the claimed actions, each once and in their order; only changes that were sent are
  reverted and nothing is pushed after a revert; the record is removed only while nothing was sent.
  A success means that all actions were sent and the change set is stored as applied.
\<close>

theorem apply_discipline:
  "obeys (apply_delta env (target sv input) input owner) (am False None False False False None 0 False False)
     (apply_change_set env sv input owner grant tok) apply_outcome
   \<and> granted_before_change env sv (ai_device input) (apply_change_set env sv input owner grant tok)"
  by (rule conjI [OF apply_run_obeys apply_locks_first])

text \<open>What the checks do in the two ways they can end: with everything established, or refused, and
  then with no effect but the expiry of the change set they read.\<close>

definition apply_expired :: "env \<Rightarrow> apply_input \<Rightarrow> string \<Rightarrow> world \<Rightarrow> cs_record \<Rightarrow> bool" where
  "apply_expired env input owner w cs \<longleftrightarrow>
     (let (read, w1) = run_state (cs_read env (ai_change_set input) (ai_device input)) w in
      read = Inr cs \<and>
      (case fst (run_state (now_unix env) w1) of Inl _ \<Rightarrow> False | Inr now \<Rightarrow> expired_approval owner cs now))"

lemma checks_effects:
  assumes "run_state (apply_checks env sv input owner grant) w = (x, w')"
  shows "effects w' = effects w
    \<or> \<not> is_ok x \<and> (\<exists>cs answer. effects w' = CsUpdate (cs\<lparr>cs_state := Expired\<rparr>) answer # effects w
        \<and> apply_expired env input owner w cs)"
  using assms unfolding apply_checks_def
  by (auto simp: tryS_def lift_res_def run_simps cs_read_def cs_update_def now_unix_def coord_unit_def effects_def
      apply_expired_def expired_approval_def Let_def split: sum.splits if_splits option.splits prod.splits)

lemma checks_allowed:
  "run_state (apply_checks env sv input owner grant) w = (Inr dp, w') \<Longrightarrow>
   \<exists>cs. apply_allowed env sv input owner grant w cs"
  unfolding apply_checks_def apply_allowed_def approved_plan_def
  by (auto simp: tryS_def lift_res_def run_simps find_policy_ok not_le split: sum.splits if_splits prod.splits)

text \<open>
  C12. An apply has no effect at all - no request but reads, nothing stored, no guard - unless the
  change set it reads is the caller's own, approved with a recorded approver,
  unexpired and exactly the plan named by digest and fingerprint, the device takes mutations, and
  every stored action passes the device policy and the caller's grant.  The one exception: the caller's own
  approved change set whose time has passed by the clock is stored as expired, and nothing else.
  A recorded approver is what the code asks for: a change set waived in lab mode has none and is
  refused, against what the documentation says of lab mode (see the findings).
\<close>

theorem apply_gate_sound:
  "effects (snd (run_state (apply_change_set env sv input owner grant tok) w)) = effects w
   \<or> (\<exists>cs answer. effects (snd (run_state (apply_change_set env sv input owner grant tok) w)) =
          CsUpdate (cs\<lparr>cs_state := Expired\<rparr>) answer # effects w \<and> apply_expired env input owner w cs)
   \<or> (\<exists>cs. apply_allowed env sv input owner grant w cs)"
proof -
  obtain x w1 where checks: "run_state (apply_checks env sv input owner grant) w = (x, w1)" by fastforce
  show ?thesis
  proof (cases x)
    case (Inl e)
    then have "run_state (apply_change_set env sv input owner grant tok) w = (Inl e, w1)"
      using checks by (simp add: apply_change_set_def tryS_def run_simps)
    then show ?thesis using checks_effects [OF checks] by auto
  next
    case (Inr dp)
    then show ?thesis using checks_allowed checks by blast
  qed
qed

end
