(* ===== verification/ServerSpec.thy ===== *)
theory ServerSpec
  imports Server ApplySpec XmlSpec
begin

text \<open>
  What a request to the server may do: who is let in, that a denied or reading request changes
  nothing, that a staged change lies inside the caller's grant, and what a reload keeps.
\<close>

section \<open>Who is let in\<close>

definition granting_tools :: "string list" where
  "granting_tools = [''create_panos_change_set'', ''apply_panos_change_set'', ''stage_panos_config'']"

text \<open>The access rule.  Local stdio is trusted; over HTTP the caller must be known, hold the tool and
  the device, and for a write of the candidate carry a grant.\<close>

fun permitted :: "scope_lib \<Rightarrow> extensions \<Rightarrow> tool_call \<Rightarrow> bool" where
  "permitted sl StdioExt call = True"
| "permitted sl (HttpExt None) call = False"
| "permitted sl (HttpExt (Some c)) call =
     (sl_allows_tool sl (cc_tools c) (call_name call) mutation_tools
      \<and> (case call_device call of None \<Rightarrow> True | Some d \<Rightarrow> sl_allows sl (cc_devices c) d)
      \<and> (call_name call \<in> set granting_tools \<longrightarrow> cc_grant c \<noteq> None))"

lemmas handler_defs =
  create_panos_change_set_def approve_panos_change_set_def get_panos_change_set_def apply_panos_change_set_def
  get_candidate_fingerprint_def stage_panos_config_def diff_panos_candidate_def validate_panos_candidate_def
  commit_panos_candidate_def discard_panos_candidate_def get_panos_operation_def list_devices_tool_def
  gather_device_facts_tool_def execute_panos_op_tool_def get_panos_config_tool_def list_panos_entries_tool_def
  list_panorama_device_groups_tool_def list_panorama_templates_tool_def get_panorama_push_status_tool_def
  list_panos_rulebase_entries_tool_def get_panos_ha_state_tool_def get_panos_license_info_tool_def
  get_panos_content_status_tool_def get_panos_software_status_tool_def test_panos_security_policy_match_tool_def
  query_panos_logs_tool_def get_panos_entry_digest_tool_def

text \<open>The opening of a handler lets a call through only if the rule's first two parts hold.\<close>

definition admitted :: "scope_lib \<Rightarrow> extensions \<Rightarrow> string \<Rightarrow> string option \<Rightarrow> bool" where
  "admitted sl ext tool device =
     (case ext of StdioExt \<Rightarrow> True | HttpExt None \<Rightarrow> False
      | HttpExt (Some c) \<Rightarrow> sl_allows_tool sl (cc_tools c) tool mutation_tools
          \<and> (case device of None \<Rightarrow> True | Some d \<Rightarrow> sl_allows sl (cc_devices c) d))"

lemma when_authorized_cases:
  "admitted (sb_scope sb) ext tool device \<and> when_authorized sb ext tool device k = k
   \<or> \<not> admitted (sb_scope sb) ext tool device \<and> (\<exists>m. when_authorized sb ext tool device k = ret (CallError m))"
  by (auto simp: when_authorized_def authorize_def caller_def is_http_def admitted_def
      split: extensions.splits option.splits)

lemma with_identity_denied:
  "ext = HttpExt (Some c) \<Longrightarrow> cc_grant c = None \<Longrightarrow> \<exists>m. with_identity ext k = ret (CallError m)"
  by (simp add: with_identity_def mutation_identity_def mutation_principal_def caller_def and_then_def) blast

lemma permitted_admitted:
  "permitted sl ext call \<longleftrightarrow> admitted sl ext (call_name call) (call_device call)
     \<and> (call_name call \<in> set granting_tools \<longrightarrow> (\<forall>c. ext = HttpExt (Some c) \<longrightarrow> cc_grant c \<noteq> None))"
  by (cases "(sl, ext, call)" rule: permitted.cases) (auto simp: admitted_def)

lemma call_tool_opens:
  "\<exists>k. call_tool sb env rt tok ext call = when_authorized sb ext (call_name call) (call_device call) k
     \<and> (call_name call \<in> set granting_tools \<longrightarrow> (\<exists>f. k = with_identity ext f))"
  by (cases call) (auto simp: handler_defs granting_tools_def)

lemma unpermitted_opening:
  "permitted (sb_scope sb) ext call \<or> (\<exists>m. call_tool sb env rt tok ext call = ret (CallError m))"
proof -
  obtain k where k: "call_tool sb env rt tok ext call = when_authorized sb ext (call_name call) (call_device call) k"
    and g: "call_name call \<in> set granting_tools \<longrightarrow> (\<exists>f. k = with_identity ext f)"
    using call_tool_opens by blast
  show ?thesis
  proof (cases "admitted (sb_scope sb) ext (call_name call) (call_device call)")
    case True
    with when_authorized_cases have "call_tool sb env rt tok ext call = k" unfolding k by metis
    with True g with_identity_denied show ?thesis unfolding permitted_admitted by metis
  next
    case False
    with when_authorized_cases show ?thesis unfolding k by metis
  qed
qed

text \<open>
  C10. Access is enforced by every one of the 27 tools before anything else: a request that the rule
  does not permit is answered with an error and does nothing at all - no request to a device, no
  read of the store, no change of the server's state.
\<close>

theorem unpermitted_call_inert:
  "permitted (sb_scope sb) ext call
   \<or> (\<exists>m. run_state (call_tool sb env rt tok ext call) w = (CallError m, w))"
  using unpermitted_opening [of sb ext call env rt tok] by (auto simp: run_simps)

section \<open>The tool registry\<close>

text \<open>
  The registry that token scopes are checked against is exactly the list of the tools the
  server answers to: no tool is missing from it, none is registered twice, no name in it is without a
  handler, and the tools that need an explicit scope entry are among them.
\<close>

theorem registry_exact:
  "range call_name = set known_tools \<and> distinct known_tools \<and> set mutation_tools \<subseteq> set known_tools
   \<and> set granting_tools \<subseteq> set mutation_tools"
proof -
  have "call_name call \<in> set known_tools" for call by (cases call) (simp_all add: known_tools_def)
  moreover have "name \<in> range call_name" if "name \<in> set known_tools" for name
    using that unfolding known_tools_def
    by (simp only: list.set insert_iff empty_iff, elim disjE)
       (metis call_name.simps rangeI)+
  ultimately show ?thesis
    by (auto simp: known_tools_def mutation_tools_def granting_tools_def)
qed

section \<open>Reading tools only read\<close>

text \<open>What a reading request may be, spelled out: a \<open>get\<close> or \<open>show\<close> of the configuration, or an
  operational command that asks for information.\<close>

definition fixed_commands :: "string list" where
  "fixed_commands =
     [''<request><license><info></info></license></request>'',
      ''<request><content><upgrade><info></info></upgrade></content></request>'',
      ''<request><system><software><info></info></software></system></request>'']"

text \<open>The parser finds nothing before the root element, but what may stand outside it, and the root is
  \<open>show\<close>.\<close>

definition shows_only :: "lib \<Rightarrow> string \<Rightarrow> bool" where
  "shows_only lb cmd \<longleftrightarrow>
     (case dropWhile outside_ok (map fst (fst (read_events lb True cmd))) of
        XStart name as # rest \<Rightarrow> name = ''show''
      | XEmpty name as # rest \<Rightarrow> name = ''show''
      | _ \<Rightarrow> False)"

definition reading_command :: "lib \<Rightarrow> string \<Rightarrow> bool" where
  "reading_command lb cmd \<longleftrightarrow> cmd \<in> set fixed_commands \<or> shows_only lb cmd
     \<or> starts_with ''<test><security-policy-match>'' cmd \<and> ends_with ''</security-policy-match></test>'' cmd"

fun reads_only :: "lib \<Rightarrow> fields \<Rightarrow> bool" where
  "reads_only lb [(a, b), (c, cmd)] \<longleftrightarrow> a = ''type'' \<and> b = ''op'' \<and> c = ''cmd'' \<and> reading_command lb cmd"
| "reads_only lb [(a, b), (c, d), (e, xpath)] \<longleftrightarrow>
     a = ''type'' \<and> b = ''config'' \<and> c = ''action'' \<and> d \<in> {''get'', ''show''} \<and> e = ''xpath''"
| "reads_only lb fs = False"

text \<open>A step that only looks; a request may also name its virtual system.\<close>

definition looking :: "lib \<Rightarrow> event \<Rightarrow> bool" where
  "looking lb e \<longleftrightarrow>
     (case e of
        Sent d fs \<Rightarrow> reads_only lb (filter (\<lambda>(k, v). k \<noteq> ''vsys'') fs)
      | Slept ms \<Rightarrow> True
      | TokenChecked c \<Rightarrow> True
      | _ \<Rightarrow> False)"

text \<open>An operational command that passed the read-only validation; to the monitors of requests, which go
  by the text of a command, it is a look whatever its text.\<close>

definition vetted :: "lib \<Rightarrow> event \<Rightarrow> bool" where
  "vetted lb e \<longleftrightarrow> (\<exists>d dc cmd. e = Sent d (with_vsys dc (op_fields cmd))
     \<and> is_ok (validate_read_only_op_command lb cmd))"

definition look_delta :: "lib \<Rightarrow> nat \<Rightarrow> event \<Rightarrow> nat option" where
  "look_delta lb p e = (if effectful e \<and> \<not> vetted lb e then None else Some p)"

interpretation look: monitor "look_delta lb" for lb
  by unfold_locales (simp_all add: look_delta_def)

abbreviation looks :: "env \<Rightarrow> 'a act \<Rightarrow> bool" where
  "looks env \<equiv> emits {e. looking (e_lib env) e \<and> (effectful e \<longrightarrow> vetted (e_lib env) e)}"

lemma drop_outside: "list_all outside_ok pre \<Longrightarrow> \<not> outside_ok e \<Longrightarrow> dropWhile outside_ok (pre @ e # es) = e # es"
  by (induction pre) auto

lemma validated_shows:
  assumes "validate_read_only_op_command lb cmd = Inr ()"
  shows "shows_only lb cmd"
proof -
  obtain items fin where r: "read_events lb True cmd = (items, fin)" by fastforce
  obtain sm where "validate_xml_root lb cmd \<lparr>max_bytes = max_op_command_bytes, max_depth = 32\<rparr> ''show'' ''command'' = Inr sm"
    using assms by (auto simp: validate_read_only_op_command_def and_then_Inr)
  from xml_root_document [OF this _ r] obtain pre as root post where
    m: "map fst items = pre @ root @ post" "list_all outside_ok pre" "root_element 32 ''show'' as root"
    by (auto simp: usize_max_def)
  then show ?thesis
    by (auto simp: shows_only_def r root_element_def drop_outside)
qed

lemma filter_vsys [simp]:
  "filter (\<lambda>(k, v). k \<noteq> ''vsys'') (with_vsys dc fs) = filter (\<lambda>(k, v). k \<noteq> ''vsys'') fs"
  by (simp add: with_vsys_def split: option.split)

lemma look_fields:
  "sent_to dc (read_fields (e_lib env)) \<subseteq> {e. looking (e_lib env) e \<and> (effectful e \<longrightarrow> vetted (e_lib env) e)}"
proof -
  have op: "looking (e_lib env) e \<and> vetted (e_lib env) e"
    if "validate_read_only_op_command (e_lib env) c = Inr ()" "e = Sent (device_name dc) (with_vsys dc (op_fields c))" for c e
  proof
    show "looking (e_lib env) e"
      using validated_shows [OF that(1)] by (simp add: that(2) looking_def op_fields_def reading_command_def)
    show "vetted (e_lib env) e"
      unfolding vetted_def by (intro exI conjI, rule that(2)) (simp add: that(1) is_ok_def)
  qed
  have config: "looking (e_lib env) (Sent d (with_vsys dc (config_fields b x)))" for d b x
    by (simp add: looking_def config_fields_def)
  show ?thesis using op config by (fastforce simp: sent_to_def read_fields_def)
qed

lemma look_post:
  assumes "reading_command (e_lib env) cmd" and "kind_of (op_fields cmd) = Read"
  shows "looks env (post env dc (op_fields cmd) tok)"
  by (rule emits_post [where F = "{op_fields cmd}"])
     (use assms in \<open>auto simp: sent_to_def looking_def op_fields_def\<close>)

lemma look_fixed: "cmd \<in> set fixed_commands \<Longrightarrow> looks env (fixed_op env dc cmd tok)"
  unfolding fixed_op_def
  by (rule look_post) (auto simp: reading_command_def fixed_commands_def kind_op starts_with_def)

lemma fixed_are_fixed:
  "license_info_command \<in> set fixed_commands" "content_info_command \<in> set fixed_commands"
  "software_info_command \<in> set fixed_commands"
  by (simp_all add: license_info_command_def content_info_command_def software_info_command_def fixed_commands_def)

lemma match_reads:
  assumes "build_security_policy_match_command env m = Inr cmd"
  shows "reading_command lb cmd \<and> kind_of (op_fields cmd) = Read"
proof -
  obtain body where "cmd = ''<test><security-policy-match>'' @ body @ ''</security-policy-match></test>''"
    using assms by (auto simp: build_security_policy_match_command_def and_then_def split: sum.splits if_splits)
  then show ?thesis by (auto simp: reading_command_def kind_op starts_with_def ends_with_def)
qed

lemmas look_reads = emits_operational [OF look_fields] emits_configuration [OF look_fields]
  emits_configuration_entries [OF look_fields] emits_job_response [OF look_fields]

lemma look_list_page: "looks env (list_page env pl ts device source xpath off lim tok)"
  unfolding list_page_def Let_def split_beta by (intro emits_intro look_reads)

lemma look_template: "looks env (read_panorama_template_variables env pl ts device n tok)"
  unfolding read_panorama_template_variables_def Let_def
  by (intro emits_if emits_return emits_tryS emits_lift emits_bind look_reads)
     (auto intro!: emits_return emits_tryS emits_lift split: sum.splits panos_error.splits)

lemma look_templates: "looks env (read_templates env pl ts device tok acc ns)"
proof (induction ns arbitrary: acc)
  case (Cons n ns)
  show ?case unfolding read_templates.simps by (rule emits_tryS [OF look_template Cons])
qed (simp add: emits_return)

lemma look_list_templates: "looks env (list_panorama_templates env pl ts device tok)"
  unfolding list_panorama_templates_def read_all_templates_def split_beta
  by (intro emits_tryS emits_lift emits_return look_reads look_templates)

lemma look_match: "looks env (test_panos_security_policy_match env pl ts m tok)"
  unfolding test_panos_security_policy_match_def post_fields_def split_beta
  by (rule emits_tryS_lift) (intro emits_tryS emits_lift emits_return look_post; use match_reads in blast)

lemmas read_defs =
  gather_device_facts_def execute_panos_op_def get_panos_ha_state_def get_panos_license_info_def
  get_panos_content_status_def get_panos_software_status_def get_panos_config_def list_panos_entries_def
  list_panos_rulebase_entries_def get_panos_entry_digest_def list_panorama_device_groups_def
  get_panorama_push_status_def

lemma look_render: "looks env m \<Longrightarrow> looks env (render enc m)"
  unfolding render_def by (intro emits_bind emits_return)

lemma look_authorized: "looks env k \<Longrightarrow> looks env (when_authorized sb ext tool device k)"
  by (auto simp: when_authorized_def intro: emits_return split: option.splits)

lemmas look_rules = look_list_templates look_list_page look_match look_reads look_fixed fixed_are_fixed
  emits_tryS emits_lift emits_if emits_return

lemma reading_call_emits:
  assumes "call_name call \<notin> set mutation_tools"
  shows "looks env (call_tool sb env rt tok ext call)"
  using assms
  apply (cases call)
  apply (simp_all add: mutation_tools_def)
  apply (simp_all only: handler_defs read_defs Let_def)
  apply (intro look_authorized look_render look_rules)+
  done

lemma reading_call_looks:
  assumes "call_name call \<notin> set mutation_tools"
  shows "obeys (look_delta (e_lib env)) 0 (call_tool sb env rt tok ext call) (\<lambda>_ q. q = 0)"
  by (rule obeys_emits [OF reading_call_emits [OF assms]]) (auto simp: look_delta_def)

text \<open>
  C19. A tool that needs no explicit scope entry only looks: whatever the caller, the device and the
  network do, all a call does is wait, ask whether it was cancelled, and send requests, and each request is a
  \<open>get\<close> or \<open>show\<close> of the configuration, an operational command whose root element is \<open>show\<close>, a
  security policy match test, or one of the three requests for license, content and software
  information.  It never touches the coordinator.
\<close>

theorem reading_tools_only_read:
  assumes "call_name call \<notin> set mutation_tools"
  shows "\<exists>es. wlog (snd (run_state (call_tool sb env rt tok ext call) w)) = es @ wlog w
    \<and> list_all (looking (e_lib env)) es"
  using reading_call_emits [OF assms, of env sb rt tok ext] unfolding emits_def list_all_iff by blast

section \<open>A write over HTTP stays inside the grant\<close>

text \<open>A stage has an effect only if its action passed the device policy and the grant.\<close>

lemma stage_gate:
  "gated (\<exists>dc p. map_of (sv_clients sv) (si_device input) = Some dc \<and> dc_mutation dc = Some p
      \<and> validate_action (e_lib env) p grant (si_action input) = Inr ())
     (stage_config env sv input owner grant tok) w"
  (is "gated ?G _ _")
proof -
  have "?G" if "run_state (stage_checks env sv input grant tok) w = (Inr v, w1)" for v w1
    using that
    by (auto simp: stage_checks_def Let_def tryS_def lift_res_def run_simps validate_action_def and_then_def
        find_client_def require_policy_def ok_or_def split: option.splits sum.splits if_splits)
  then show ?thesis unfolding stage_config_def by (intro gated_tryS [OF idle.quiet_stage_checks] gated_holds) blast
qed

lemma render_effects: "effects (snd (run_state (render enc m) w)) = effects (snd (run_state m w))"
  by (simp add: render_def run_simps split: prod.splits)

text \<open>
  C16. End to end, for device policies and grants whose roots are plain paths (\<open>plain_path\<close>; for a root
  that quote canonicalisation widens the claim is false, \<open>canonicalize_can_widen\<close>): when a stage
  request over HTTP has any effect, the caller's token carries a grant, the device takes
  mutations, and the change lies, in parsed XPath steps, below a root of the device policy and below a root
  of that grant, with an action both allow.
\<close>

theorem http_stage_confined:
  assumes "caller ext = Some c"
    and "effects (snd (run_state (call_tool sb env rt tok ext (StageConfig input)) w)) \<noteq> effects w"
    and "\<forall>dc p root. (si_device input, dc) \<in> set (sv_clients (service_of rt)) \<and> dc_mutation dc = Some p
           \<and> root \<in> set (pol_roots p) \<longrightarrow> plain_path root"
    and "\<forall>g root. cc_grant c = Some g \<and> root \<in> set (grant_roots g) \<longrightarrow> plain_path root"
  shows "\<exists>dc p g. map_of (sv_clients (service_of rt)) (si_device input) = Some dc \<and> dc_mutation dc = Some p
     \<and> cc_grant c = Some g \<and> permitted (sb_scope sb) ext (StageConfig input)
     \<and> action_authorized p g (si_action input)"
proof -
  have e: "ext = HttpExt (Some c)" using assms(1) by (cases ext) (simp_all add: caller_def)
  have ok: "permitted (sb_scope sb) ext (StageConfig input)"
    using unpermitted_opening [of sb ext "StageConfig input" env rt tok] assms(2) by (auto simp: run_simps)
  then obtain g where g: "cc_grant c = Some g" by (auto simp: e granting_tools_def)
  let ?m = "stage_config env (service_of rt) input (cc_token c) (Some g) tok"
  have "call_tool sb env rt tok ext (StageConfig input) = render (sb_stage_json sb) ?m"
    using ok g by (auto simp: e stage_panos_config_def when_authorized_def authorize_def caller_def is_http_def
        with_identity_def mutation_identity_def mutation_principal_def and_then_def)
  then have "effects (snd (run_state ?m w)) \<noteq> effects w" using assms(2) render_effects by metis
  then obtain dc p where dc: "map_of (sv_clients (service_of rt)) (si_device input) = Some dc" "dc_mutation dc = Some p"
    and v: "validate_action (e_lib env) p (Some g) (si_action input) = Inr ()"
    using stage_gate unfolding gated_def by metis
  moreover have "action_authorized p g (si_action input)"
    by (rule validated_action [OF v]) (use assms(3,4) g dc map_of_SomeD in fast)+
  ultimately show ?thesis using g ok by blast
qed

section \<open>Concrete requests\<close>

text \<open>A server whose scope crate reads lists literally and whose outputs all encode as \<open>ok\<close>.\<close>

fun plain_allows :: "scope_set \<Rightarrow> string \<Rightarrow> bool" where
  "plain_allows Wildcard n = True"
| "plain_allows (ScopeList ns) n = (n \<in> set ns)"

definition plain_server :: server_lib where
  "plain_server =
     \<lparr>sb_scope = \<lparr>sl_allows = plain_allows, sl_allows_tool = \<lambda>s t explicit. if t \<in> set explicit then s \<noteq> Wildcard \<and> plain_allows s t else plain_allows s t\<rparr>,
      sb_policy = \<lparr>pl_compile_rules = \<lambda>r _. Inr r, pl_compile_allow = \<lambda>r _. Inr r, pl_normalize = id,
        pl_check_command = \<lambda>_ _ _. Allow, pl_config_match = \<lambda>_ _ _. None\<rparr>,
      sb_attribution = \<lambda>_. sample_attribution,
      sb_change_set_json = \<lambda>_. Inr ''ok'', sb_stage_json = \<lambda>_. Inr ''ok'', sb_fingerprint_json = \<lambda>_. Inr ''ok'',
      sb_diff_json = \<lambda>_. Inr ''ok'', sb_validation_json = \<lambda>_. Inr ''ok'', sb_commit_json = \<lambda>_. Inr ''ok'',
      sb_discard_json = \<lambda>_. Inr ''ok'', sb_status_json = \<lambda>_. Inr ''ok'', sb_devices_json = \<lambda>_. Inr ''ok'',
      sb_facts_json = \<lambda>_. Inr ''ok'', sb_xml_json = \<lambda>_. Inr ''ok'', sb_config_json = \<lambda>_. Inr ''ok'',
      sb_entries_json = \<lambda>_. Inr ''ok'', sb_rulebase_json = \<lambda>_. Inr ''ok'', sb_groups_json = \<lambda>_. Inr ''ok'', sb_templates_json = \<lambda>_. Inr ''ok'',
      sb_push_json = \<lambda>_. Inr ''ok'', sb_ha_json = \<lambda>_. Inr ''ok'', sb_licenses_json = \<lambda>_. Inr ''ok'',
      sb_content_json = \<lambda>_. Inr ''ok'', sb_software_json = \<lambda>_. Inr ''ok'', sb_match_json = \<lambda>_. Inr ''ok'',
      sb_logs_json = \<lambda>_. Inr ''ok'', sb_digest_json = \<lambda>_. Inr ''ok''\<rparr>"

definition sample_devices :: inventory where
  "sample_devices = \<lparr>inv_source = ''/etc/devices.json'', inv_devices = [(''fw1'', sample_device)],
     inv_policy_mode = Blocklist, inv_allow_defaults = [], inv_pipes_defaults = []\<rparr>"

definition sample_tools :: tool_service where
  "sample_tools = \<lparr>sv_clients = [(''fw1'', sample_device)], sv_direct_commit = None, sv_allow_plane = False,
     ts_inventory = sample_devices, ts_deny = None, ts_mode = Blocklist, ts_allow = []\<rparr>"

definition sample_runtime :: "unit runtime" where
  "sample_runtime = from_parts \<lparr>ps_tools = sample_tools, ps_coordinator = coordinator_settings default_options\<rparr> None"

definition sample_caller :: caller_ctx where
  "sample_caller = \<lparr>cc_token = ''ci'', cc_devices = ScopeList [''fw1''], cc_tools = ScopeList [''stage_panos_config''],
     cc_grant = Some \<lparr>grant_roots = [''/config/shared''], grant_actions = [to_mutation_action StageSet]\<rparr>,
     cc_provider = None, cc_provider_tier = None, cc_on_behalf = None, cc_actor = Agent, cc_client_name = None,
     cc_model = None, cc_session = None, cc_request_id = ''1''\<rparr>"

definition sample_stage :: stage_input where
  "sample_stage = \<lparr>si_device = ''fw1'', si_expected = script_hash, si_action = script_action\<rparr>"

theorem reading_tools_only_read_witness:
  "\<exists>es. wlog (snd (run_state (call_tool plain_server script_env sample_runtime Caller StdioExt (GatherFacts ''fw1'')) start_world))
      = es @ wlog start_world \<and> list_all (looking (e_lib script_env)) es"
  by (rule reading_tools_only_read) (simp add: mutation_tools_def)

theorem http_stage_confined_witness:
  "\<exists>dc p g. map_of (sv_clients (service_of sample_runtime)) ''fw1'' = Some dc \<and> dc_mutation dc = Some p
     \<and> cc_grant sample_caller = Some g
     \<and> permitted (sb_scope plain_server) (HttpExt (Some sample_caller)) (StageConfig sample_stage)
     \<and> action_authorized p g script_action"
proof -
  have run: "effects (snd (run_state (call_tool plain_server guard_refused sample_runtime Caller
      (HttpExt (Some sample_caller)) (StageConfig sample_stage)) start_world)) \<noteq> effects start_world"
    by code_simp
  have "plain_path ''/config/shared''" by code_simp
  then show ?thesis
    using http_stage_confined [OF _ run, of sample_caller]
    by (simp add: caller_def service_of_def tools_of_def sample_runtime_def from_parts_def base_service_def
        service.truncate_def sample_tools_def sample_device_def sample_policy_def sample_caller_def sample_stage_def)
qed

end
