(* ===== verification/StartupSpec.thy ===== *)
theory StartupSpec
  imports Startup XPathSpec
begin

text \<open>
  Starting and reloading: a listener is opened only in the combinations the validation allows, a
  reload is all or nothing and keeps what was chosen at start; bearer headers, token expiry, and
  the XPath deny rules.
\<close>

section \<open>Reload\<close>

text \<open>What an operator chose at start and no reload may change.\<close>

definition posture :: "'t runtime \<Rightarrow> coord_settings \<times> bool \<times> string option \<times> string \<times> string option" where
  "posture rt = (ps_coordinator (sn_service (rt_current rt)), sv_allow_plane (tools_of rt),
     sv_direct_commit (tools_of rt), rt_inventory_path rt, rt_token_path rt)"

lemma build_fields:
  assumes "build lb pl connect iv plane refusal = Inr ts"
  shows "sv_allow_plane ts = plane" "sv_direct_commit ts = refusal" "ts_inventory ts = iv"
    "sv_clients ts = map (\<lambda>dc. (device_name dc, dc)) (map snd (inv_devices iv))"
  using assms by (auto simp: build_def Let_def and_then_Inr)

text \<open>
  A reload is all or nothing.  When any part of it fails - the inventory, a device, a policy
  rule, the token file - the runtime is the old one, unchanged; when it succeeds the inventory,
  its devices and the tokens are all the newly read ones.  In both cases the coordinator with its
  limits, the plane and direct-commit settings and the two paths are those chosen at start.
\<close>

theorem reload_atomic:
  "case reload pf rt of (result, rt') \<Rightarrow>
     posture rt' = posture rt
     \<and> (case result of
          Inl e \<Rightarrow> rt' = rt
        | Inr _ \<Rightarrow> load_tokens pf (rt_token_path rt) = Inr (sn_tokens (rt_current rt'))
            \<and> (case load_inventory pf (rt_inventory_path rt) of
                 Inl e \<Rightarrow> False
               | Inr iv \<Rightarrow> ts_inventory (tools_of rt') = iv
                   \<and> sv_clients (tools_of rt') = map (\<lambda>dc. (device_name dc, dc)) (map snd (inv_devices iv))))"
proof (cases "fst (reload pf rt)")
  case (Inl e)
  then have "snd (reload pf rt) = rt" by (auto simp: reload_def split: if_splits sum.splits)
  with Inl show ?thesis by (simp add: case_prod_unfold)
next
  case (Inr u)
  then obtain sn where sn: "load_snapshot pf (rt_inventory_path rt) (rt_token_path rt) (Some (sn_service (rt_current rt)))
      default_options = Inr sn" and rt': "reload pf rt = (Inr (), rt\<lparr>rt_current := sn\<rparr>)"
    by (auto simp: reload_def split: if_splits sum.splits)
  obtain iv ts where iv: "load_inventory pf (rt_inventory_path rt) = Inr iv"
    and ts: "reload_service (pf_lib pf) (pf_policy pf) (connect_client (pf_tls pf)) iv (tools_of rt) = Inr ts"
    and t: "load_tokens pf (rt_token_path rt) = Inr (sn_tokens sn)"
    and service: "sn_service sn = \<lparr>ps_tools = ts, ps_coordinator = ps_coordinator (sn_service (rt_current rt))\<rparr>"
    using sn by (auto simp: load_snapshot_def rebuild_def and_then_Inr tools_of_def map_err_def split: sum.splits)
  show ?thesis
    using iv t service build_fields [OF ts [unfolded reload_service_def]]
    by (simp add: rt' posture_def tools_of_def)
qed

text \<open>A runtime whose inventory, devices and tokens are all those of one platform's files, with tokens
  exactly when there is a token file.\<close>

definition whole :: "'t platform \<Rightarrow> 't runtime \<Rightarrow> bool" where
  "whole pf rt \<longleftrightarrow>
     load_tokens pf (rt_token_path rt) = Inr (sn_tokens (rt_current rt))
     \<and> load_inventory pf (rt_inventory_path rt) = Inr (ts_inventory (tools_of rt))
     \<and> sv_clients (tools_of rt) = map (\<lambda>dc. (device_name dc, dc)) (map snd (inv_devices (ts_inventory (tools_of rt))))
     \<and> (sn_tokens (rt_current rt) = None) = (rt_token_path rt = None)"

definition verdicts :: "hangup_log list \<Rightarrow> nat" where
  "verdicts logged = length (filter (\<lambda>l. case l of Reloaded \<Rightarrow> True | ReloadRefused e \<Rightarrow> True | _ \<Rightarrow> False) logged)"

lemma tokens_as_path:
  "load_tokens pf path = Inr tokens \<Longrightarrow> (tokens = None) = (path = None)"
  by (auto simp: load_tokens_def and_then_Inr split: option.splits)

lemma reload_whole:
  assumes "reload pf rt = (result, rt')"
  shows "posture rt' = posture rt" and "rt' = rt \<or> whole pf rt'"
proof -
  have all: "case reload pf rt of (result, rt') \<Rightarrow> posture rt' = posture rt \<and> (case result of Inl e \<Rightarrow> rt' = rt
      | Inr _ \<Rightarrow> load_tokens pf (rt_token_path rt) = Inr (sn_tokens (rt_current rt'))
          \<and> (case load_inventory pf (rt_inventory_path rt) of Inl e \<Rightarrow> False
             | Inr iv \<Rightarrow> ts_inventory (tools_of rt') = iv
                 \<and> sv_clients (tools_of rt') = map (\<lambda>dc. (device_name dc, dc)) (map snd (inv_devices iv))))"
    by (rule reload_atomic)
  show same: "posture rt' = posture rt" using all assms by simp
  show "rt' = rt \<or> whole pf rt'"
  proof (cases result)
    case Inl
    with all assms show ?thesis by simp
  next
    case (Inr u)
    have paths: "rt_token_path rt' = rt_token_path rt" "rt_inventory_path rt' = rt_inventory_path rt"
      using same by (simp_all add: posture_def)
    obtain iv where iv: "load_inventory pf (rt_inventory_path rt) = Inr iv"
      using all assms Inr by (cases "load_inventory pf (rt_inventory_path rt)") simp_all
    with all assms Inr have "load_tokens pf (rt_token_path rt') = Inr (sn_tokens (rt_current rt'))"
      "ts_inventory (tools_of rt') = iv"
      "sv_clients (tools_of rt') = map (\<lambda>dc. (device_name dc, dc)) (map snd (inv_devices iv))"
      by (simp_all add: paths)
    with tokens_as_path iv show ?thesis unfolding whole_def paths by blast
  qed
qed

lemma reopen_no_verdict: "verdicts (reopen_audit sink @ logged) = verdicts logged"
  by (auto simp: verdicts_def reopen_audit_def split: option.splits sum.splits)

text \<open>
  C21. However many hangups arrive, each with whatever files the platform holds then: the server
  answers each with one verdict, keeps the coordinator with its limits, the plane and direct-commit
  settings and the paths it was started with, and what it serves is always whole - the runtime it
  had, or the inventory, the devices and the tokens that one of the hangups read together.  A
  server with tokens never comes to serve without them.
\<close>

theorem hangups_keep_runtime_whole:
  "case hangup_loop turns rt of (logged, rt') \<Rightarrow>
     posture rt' = posture rt \<and> verdicts logged = length turns
     \<and> (rt' = rt \<or> list_ex (\<lambda>(pf, _). whole pf rt') turns)"
proof (induction turns rt rule: hangup_loop.induct)
  case (2 pf sink rest rt)
  obtain result rt1 where r: "reload pf rt = (result, rt1)" by fastforce
  obtain later rt2 where l: "hangup_loop rest rt1 = (later, rt2)" by fastforce
  have "verdicts (v # later) = Suc (verdicts later)" if "v = Reloaded \<or> v = ReloadRefused e" for v e
    using that by (auto simp: verdicts_def)
  then have n: "verdicts ((case result of Inl e \<Rightarrow> ReloadRefused e | Inr _ \<Rightarrow> Reloaded) # later) = Suc (verdicts later)"
    by (cases result) auto
  have "case hangup_loop rest rt1 of (logged, rt') \<Rightarrow>
     posture rt' = posture rt1 \<and> verdicts logged = length rest
     \<and> (rt' = rt1 \<or> list_ex (\<lambda>(pf, _). whole pf rt') rest)"
    using 2 r by (simp add: on_hangup_def)
  with l reload_whole [OF r] r show ?case
    by (auto simp: on_hangup_def reopen_no_verdict n)
qed (simp add: verdicts_def)

section \<open>Exposure\<close>

definition listening :: "start_effect list \<Rightarrow> start_effect list" where
  "listening es = filter (\<lambda>e. case e of ServedHttp ip port opts plan \<Rightarrow> True | _ \<Rightarrow> False) es"

text \<open>What is served is what the command line says: each limit of the router, per minute rates as bursts
  and, rounded up, per second; the hosts; the origins with those the transport crate adds for the
  loopback names; and the names of the tools and arguments the bearer boundary needs.\<close>

definition limits_as_given :: "cli \<Rightarrow> limits_config \<Rightarrow> bool" where
  "limits_as_given c l \<longleftrightarrow>
     lc_body_bytes l = cli_body_limit c
     \<and> unat (lc_ip_burst l) = unat (cli_ip_rate c) \<and> unat (lc_ip_per_second l) = (unat (cli_ip_rate c) + 59) div 60
     \<and> unat (lc_token_burst l) = unat (cli_token_rate c)
     \<and> unat (lc_token_per_second l) = (unat (cli_token_rate c) + 59) div 60
     \<and> lc_sessions l = cli_sessions c \<and> lc_sessions_token l = cli_sessions_token c
     \<and> lc_inflight l = cli_inflight c \<and> lc_inflight_token l = cli_inflight_token c
     \<and> lc_inflight_device l = cli_inflight_target c
     \<and> lc_trusted_proxies l = [] \<and> lc_idle_timeout l = 5 * 60 \<and> lc_max_lifetime l = 60 * 60"

definition plan_as_given :: "(16 word \<Rightarrow> bool \<Rightarrow> string list \<Rightarrow> string list) \<Rightarrow> cli \<Rightarrow> serve_plan \<Rightarrow> bool" where
  "plan_as_given loopback c plan \<longleftrightarrow>
     limits_as_given c (sp_limits plan) \<and> sp_target_keys plan = [''device'', ''devices''] \<and> sp_hosts plan = cli_allowed_host c
     \<and> sp_origins plan = loopback (cli_port c) (cli_tls_cert c \<noteq> None) (cli_allowed_origin c)
     \<and> sp_insecure_bind plan = cli_allow_insecure c \<and> sp_metrics plan = cli_metrics c
     \<and> sp_auth plan =
         (if cli_allow_no_auth c then Unauthenticated
          else Authenticated \<lparr>pr_mutation_tools = mutation_tools, pr_target_fields = [''device''], pr_malformed = DenyMalformed\<rparr>)"

text \<open>What may be served over HTTP: on loopback anything with exactly one authentication choice; elsewhere
  only with bearer authentication, with TLS or the explicit plaintext flag, and with named hosts
  and origins.\<close>

definition safe_exposure ::
  "(16 word \<Rightarrow> bool \<Rightarrow> string list \<Rightarrow> string list) \<Rightarrow> cli \<Rightarrow> start_effect \<Rightarrow> bool" where
  "safe_exposure loopback c e =
     (case e of
        ServedHttp ip port opts plan \<Rightarrow>
          parse_ip (cli_host c) = Some ip \<and> port = cli_port c \<and> plan_as_given loopback c plan
          \<and> (cli_tokens_file c = None) = cli_allow_no_auth c
          \<and> (cli_tls_cert c = None) = (cli_tls_key c = None) \<and> ho_tls opts = (cli_tls_cert c \<noteq> None)
          \<and> (is_loopback ip \<or> cli_tokens_file c \<noteq> None \<and> (cli_tls_cert c \<noteq> None \<or> cli_allow_insecure c)
               \<and> cli_allowed_host c \<noteq> [] \<and> cli_allowed_origin c \<noteq> [])
          \<and> 1024 \<le> cli_body_limit c \<and> cli_body_limit c \<le> 5242880
          \<and> 1 \<le> unat (cli_ip_rate c) \<and> unat (cli_ip_rate c) \<le> 100000
          \<and> 1 \<le> unat (cli_token_rate c) \<and> unat (cli_token_rate c) \<le> 100000
      | _ \<Rightarrow> False)"

lemma unat_burst: "unat (ucast (r :: 32 word) :: 64 word) = unat r"
  by transfer (simp add: take_bit_nat_eq_self_iff)

lemma per_second_ceil: "unat (per_minute_to_per_second r) = (unat r + 59) div 60"
proof -
  let ?n = "ucast r :: 64 word"
  have n: "unat ?n = unat r" by (rule unat_burst)
  have small: "unat r < 2 ^ 32" using unsigned_less [of r, where ?'a = nat] by simp
  have d: "unat (?n div 60) = unat r div 60" "unat (?n mod 60) = unat r mod 60"
    using n by (simp_all add: unat_div unat_mod)
  have "unat (?n div 60 + 1) = unat r div 60 + 1"
    using d(1) small by (subst unat_plus_simple [THEN iffD1]) (auto simp: word_le_nat_alt unat_word_ariths)
  moreover have "?n mod 60 = 0 \<longleftrightarrow> unat r mod 60 = 0" by (subst word_unat_eq_iff) (simp only: d(2) unsigned_0)
  moreover have "(m + 59) div 60 = (if m mod 60 = 0 then m div 60 else m div 60 + 1)" for m :: nat
  proof -
    have "(m + 59) div 60 = (m div 60 * 60 + (m mod 60 + 59)) div 60" by simp
    also have "\<dots> = m div 60 + (m mod 60 + 59) div 60" by (simp only: div_mult_self3)
    also have "(m mod 60 + 59) div 60 = (if m mod 60 = 0 then 0 else 1)"
      using mod_less_divisor [of 60 m] by (auto intro: div_nat_eqI)
    finally show ?thesis by simp
  qed
  ultimately show ?thesis using d(1) by (simp add: per_minute_to_per_second_def Let_def)
qed

lemma validated_http:
  assumes "validate_cli lb hb c = Inr u" and "cli_transport c = StreamableHttp"
  obtains ip tls where "parse_ip (cli_host c) = Some ip" "validate_tls_pair c = Inr tls"
    "validate_auth c (is_loopback ip) = Inr ()" "validate_exposure c (is_loopback ip) tls = Inr ()"
    "min_body_bytes \<le> cli_body_limit c" "cli_body_limit c \<le> max_body_bytes"
    "validate_rate (cli_ip_rate c) ''--ip-rate-per-minute'' = Inr ()"
    "validate_rate (cli_token_rate c) ''--token-rate-per-minute'' = Inr ()"
  using assms by (auto simp: validate_cli_def Let_def and_then_Inr ok_or_def split: option.splits if_splits)

text \<open>The runtime that is served has a token store exactly when a token file was given.\<close>

lemma loaded_tokens:
  assumes "load_with_state pf inventory path opts = Inr rt"
  shows "(sn_tokens (rt_current rt) = None) = (path = None)"
  using assms
  by (auto simp: load_with_state_def load_snapshot_def load_tokens_def and_then_Inr split: option.splits)

lemma prepared_plan: "prepare_serve vl rt opts m = Inr plan \<Longrightarrow> plan = build_router (vl_loopback vl) rt opts m"
  by (auto simp: prepare_serve_def Let_def map_err_def and_then_def split: sum.splits)

lemma served_safe:
  assumes "validate_cli lb hb c = Inr u" and "cli_transport c = StreamableHttp"
    and "parse_ip (cli_host c) = Some ip" and "listener_tls me c = Inr tls"
    and "(sn_tokens (rt_current rt) = None) = (cli_tokens_file c = None)"
    and "prepare_serve vl rt (http_options_of c tls) (cli_metrics c) = Inr plan"
  shows "safe_exposure (vl_loopback vl) c (ServedHttp ip (cli_port c) (http_options_of c tls) plan)"
proof -
  obtain ip' tls' where *: "parse_ip (cli_host c) = Some ip'" "validate_tls_pair c = Inr tls'"
    "validate_auth c (is_loopback ip') = Inr ()" "validate_exposure c (is_loopback ip') tls' = Inr ()"
    "min_body_bytes \<le> cli_body_limit c" "cli_body_limit c \<le> max_body_bytes"
    "validate_rate (cli_ip_rate c) ''--ip-rate-per-minute'' = Inr ()"
    "validate_rate (cli_token_rate c) ''--token-rate-per-minute'' = Inr ()"
    using validated_http [OF assms(1,2)] by metis
  have tls: "tls' = tls" "(cli_tls_cert c = None) = (cli_tls_key c = None)" "tls = (cli_tls_cert c \<noteq> None)"
    using *(2) assms(4) by (auto simp: validate_tls_pair_def listener_tls_def and_then_Inr split: option.splits)
  have auth: "(cli_tokens_file c = None) = cli_allow_no_auth c" "is_loopback ip \<or> cli_tokens_file c \<noteq> None"
    using *(3) *(1) assms(3) by (auto simp: validate_auth_def split: option.splits bool.splits if_splits)
  have "is_loopback ip \<or> (tls \<or> cli_allow_insecure c) \<and> cli_allowed_host c \<noteq> [] \<and> cli_allowed_origin c \<noteq> []"
    using *(4) *(1) assms(3) tls(1) by (auto simp: validate_exposure_def split: if_splits)
  then show ?thesis
    using * assms(3,5) tls auth prepared_plan [OF assms(6)]
    by (auto simp: safe_exposure_def plan_as_given_def limits_as_given_def router_limits_def per_second_ceil unat_burst http_options_of_def build_router_def validate_rate_def min_body_bytes_def max_body_bytes_def
        max_rate_per_minute_def split: if_splits)
qed

text \<open>Steps that open no listener, and steps that open at most one, safely.\<close>

definition silent :: "'a start_act \<Rightarrow> bool" where
  "silent m \<longleftrightarrow> (\<forall>es. listening (snd (run_state m es)) = listening es)"

definition guarded :: "(16 word \<Rightarrow> bool \<Rightarrow> string list \<Rightarrow> string list) \<Rightarrow> cli \<Rightarrow> 'a start_act \<Rightarrow> bool" where
  "guarded lp c m \<longleftrightarrow> (\<forall>es. listening es = [] \<longrightarrow>
     listening (snd (run_state m es)) = []
     \<or> (\<exists>e. listening (snd (run_state m es)) = [e] \<and> safe_exposure lp c e))"

lemma silent_lift: "silent (lift_res r)"
  by (simp add: silent_def lift_res_def)

lemma silent_did: "listening [e] = [] \<Longrightarrow> silent (did e)"
  by (simp add: silent_def did_def listening_def split: if_splits)

lemma silent_tryS: "silent m \<Longrightarrow> (\<And>x. silent (k x)) \<Longrightarrow> silent (tryS m k)"
  unfolding silent_def tryS_def by (simp add: run_simps split: sum.splits prod.splits) (metis snd_conv)

lemma silent_outside: "listening [e] = [] \<Longrightarrow> silent (outside r e)"
  unfolding outside_def by (intro silent_tryS silent_lift silent_did)

lemma guarded_silent: "silent m \<Longrightarrow> guarded lp c m"
  by (simp add: silent_def guarded_def)

lemma guarded_tryS:
  assumes "silent m" and "\<And>x. guarded lp c (k x)"
  shows "guarded lp c (tryS m k)"
  unfolding guarded_def
proof (intro allI impI)
  fix es assume es: "listening es = []"
  obtain r es1 where m: "run_state m es = (r, es1)" by fastforce
  have "listening es1 = []" using assms(1) m es unfolding silent_def by (metis snd_conv)
  then show "listening (snd (run_state (tryS m k) es)) = []
      \<or> (\<exists>e. listening (snd (run_state (tryS m k) es)) = [e] \<and> safe_exposure lp c e)"
    using assms(2) m by (cases r) (auto simp: tryS_def run_simps guarded_def)
qed

lemma guarded_lift: "(\<And>x. r = Inr x \<Longrightarrow> guarded lp c (k x)) \<Longrightarrow> guarded lp c (tryS (lift_res r) k)"
  by (cases r) (auto simp: tryS_def lift_res_def run_simps guarded_def)

lemma guarded_outside:
  assumes "\<And>x. r = Inr x \<Longrightarrow> guarded lp c (k x)" and "listening [e] = []"
  shows "guarded lp c (tryS (outside r e) k)"
proof (cases r)
  case (Inl m)
  then show ?thesis by (simp add: guarded_def outside_def tryS_def lift_res_def run_simps)
next
  case (Inr x)
  have "listening (e # es) = listening es" for es using assms(2) by (simp add: listening_def split: if_splits)
  then show ?thesis using assms(1) [OF Inr] Inr
    by (simp add: guarded_def outside_def tryS_def lift_res_def did_def run_simps)
qed

lemma guarded_serve:
  assumes "validate_cli lb hb c = Inr u"
    and "(sn_tokens (rt_current rt) = None) = (token_path_of c = None)"
  shows "guarded (vl_loopback (me_serve me)) c (serve_cli me rt c)"
proof (cases "cli_transport c")
  case Stdio
  have "silent (serve_cli me rt c)" unfolding serve_cli_def Stdio transport.case
    by (intro silent_tryS silent_did silent_lift) (simp add: listening_def)
  then show ?thesis by (rule guarded_silent)
next
  case StreamableHttp
  have step: "guarded (vl_loopback (me_serve me)) c (tryS (did e) (\<lambda>_. lift_res r))" if "safe_exposure (vl_loopback (me_serve me)) c e" for e and r :: "string + unit"
    using that by (auto simp: guarded_def did_def tryS_def lift_res_def run_simps listening_def split: start_effect.splits)
  have tokens: "(sn_tokens (rt_current rt) = None) = (cli_tokens_file c = None)"
    using assms(2) StreamableHttp by (simp add: token_path_of_def)
  show ?thesis unfolding serve_cli_def StreamableHttp transport.case serve_http_def
    by (intro guarded_lift step served_safe [OF assms(1) StreamableHttp _ _ tokens])
       (auto simp: ok_or_def split: option.splits)
qed

lemma guarded_flush: "guarded lp c (serve_cli me rt c) \<Longrightarrow> guarded lp c (serve_and_flush me rt c b)"
  unfolding serve_and_flush_def guarded_def
  by (auto simp: run_simps did_def lift_res_def listening_def split: prod.splits)

text \<open>
  C20. The process opens a network listener at most once and only in a safe exposure: the address is
  the parsed one, there is exactly one of tokens and the no-authentication flag, TLS is used exactly
  when both files are given, outside loopback there are tokens, TLS or the explicit plaintext flag,
  allowed hosts and allowed origins, and the body and rate limits are in range.  The router that is served
  is the one of the command line (\<open>plan_as_given\<close>): each of its limits is the given one, the
  rates per minute rounded up to rates per second; the hosts are those given and the origins those given
  with what the transport crate adds for the port; it asks for bearer tokens, with the registered
  mutation tools, unless the no-authentication flag is set.  Every other command line, and every
  failure on the way, leaves no listener.
\<close>

theorem main_exposure_safe:
  "listening (snd (run_state (main me c) [])) = []
   \<or> (\<exists>e. listening (snd (run_state (main me c) [])) = [e] \<and> safe_exposure (vl_loopback (me_serve me)) c e)"
proof -
  note quiet = silent_lift silent_tryS silent_outside silent_did
  have key: "silent (ensure_audit_hmac_key me path)" for path
    unfolding ensure_audit_hmac_key_def by (simp add: quiet listening_def)
  have command: "silent (run_command me c cmd)" for cmd
    by (cases "(me, c, cmd)" rule: run_command.cases)
       (auto simp: run_token_command_def listening_def intro!: quiet split: prod.splits)
  have refused: "silent (tryS (did (RefusedText t)) (\<lambda>_. lift_res r))" for t and r :: "string + unit"
    by (intro quiet) (simp add: listening_def)
  have server: "guarded (vl_loopback (me_serve me)) c (start_server me c)"
  proof (cases "validate_cli (pf_lib (me_platform me)) (me_http me) c")
    case (Inr u)
    have evidence: "silent (if recorder = None then lift_res (Inr ()) else outside (me_evidence_start me) EvidenceStarted)"
      for recorder :: "string option"
      by (simp add: quiet listening_def)
    have scanned: "silent (did (StaleScanned ws))" for ws by (simp add: quiet listening_def)
    have load: "guarded (vl_loopback (me_serve me)) c (serve_and_flush me rt c b)"
      if "map_err load_error_text (load_with_state pf inventory (token_path_of c) opts) = Inr rt" for pf inventory opts rt b
      using that loaded_tokens [of pf inventory "token_path_of c" opts rt]
      by (intro guarded_flush guarded_serve [OF Inr]) (auto simp: map_err_def split: sum.splits)
    show ?thesis unfolding start_server_def Inr sum.case
      by (intro guarded_lift guarded_tryS [OF evidence] guarded_outside guarded_tryS [OF scanned] load)
         (auto simp: listening_def)
  qed (simp add: start_server_def guarded_silent refused)
  have "guarded (vl_loopback (me_serve me)) c (main me c)"
    unfolding main_def
    by (auto intro!: guarded_tryS quiet key server guarded_silent [OF command] simp: listening_def split: option.splits)
  then show ?thesis by (simp add: guarded_def listening_def)
qed

section \<open>Bearer headers\<close>

lemma trim_padded:
  assumes "list_all P pad" and "list_all P rest" and "tok \<noteq> []" and "\<not> list_ex P tok"
  shows "trim_matches P (pad @ tok @ rest) = tok"
proof -
  have skip: "dropWhile P (xs @ tok' @ ys) = tok' @ ys" if "list_all P xs" "tok' \<noteq> []" "\<not> list_ex P tok'" for xs tok' ys
    using that by (induction xs) (cases tok'; auto)+
  have "dropWhile P (rev (tok @ rest)) = rev tok"
    using skip [of "rev rest" "rev tok" "[]"] assms by (simp add: list_all_iff list_ex_iff)
  then show ?thesis using skip [of pad tok rest] assms by (simp add: trim_matches_def)
qed

lemma trim_split:
  obtains pad rest where "s = pad @ trim_matches P s @ rest" "list_all P pad" "list_all P rest"
proof
  let ?m = "dropWhile P s"
  have "s = takeWhile P s @ ?m" by simp
  moreover have "?m = rev (dropWhile P (rev ?m)) @ rev (takeWhile P (rev ?m))"
    by (metis rev_append rev_rev_ident takeWhile_dropWhile_id)
  ultimately show "s = takeWhile P s @ trim_matches P s @ rev (takeWhile P (rev ?m))"
    by (simp add: trim_matches_def)
  show "list_all P (takeWhile P s)" "list_all P (rev (takeWhile P (rev ?m)))"
    by (auto simp: list_all_iff dest: set_takeWhileD)
qed

lemma scheme_no_space:
  assumes "eq_ignore_ascii_case scheme ''bearer''"
  shows "\<not> list_ex is_ascii_whitespace scheme"
proof -
  have lower: "map to_ascii_lower ''bearer'' = ''bearer''" by code_simp
  have "\<not> is_ascii_whitespace c" if "c \<in> set scheme" for c
  proof
    assume w: "is_ascii_whitespace c"
    then have same: "to_ascii_lower c = c" by (auto simp: to_ascii_lower_def ascii_defs)
    have "to_ascii_lower c \<in> set (map to_ascii_lower scheme)" using that by simp
    then have "to_ascii_lower c \<in> set ''bearer''" using assms lower by (simp only: eq_ignore_ascii_case_def)
    then have "c \<in> set ''bearer''" by (simp only: same)
    moreover have "\<not> list_ex is_ascii_whitespace ''bearer''" by code_simp
    ultimately show False using w by (auto simp only: list_ex_iff)
  qed
  then show ?thesis by (auto simp: list_ex_iff)
qed

text \<open>A header as RFC 6750 writes it: the scheme in any case, white space, one credential, and
  perhaps white space after it.\<close>

definition bearer_form :: "string \<Rightarrow> string \<Rightarrow> bool" where
  "bearer_form h tok \<longleftrightarrow>
     (\<exists>scheme pad rest. h = scheme @ pad @ tok @ rest \<and> eq_ignore_ascii_case scheme ''bearer''
        \<and> pad \<noteq> [] \<and> list_all is_ascii_whitespace pad \<and> list_all is_ascii_whitespace rest
        \<and> tok \<noteq> [] \<and> \<not> list_ex is_ascii_whitespace tok)"

lemma find_separator:
  assumes "\<not> list_ex P scheme" and "list_all P pad" and "pad \<noteq> []"
  shows "find_pos P (scheme @ pad @ r) = Some (length scheme)"
  using assms by (cases pad) (auto simp: find_pos_split list_ex_iff)

text \<open>
  The bearer parser accepts exactly the headers of that form that are at most 4096 bytes of tab and
  printable ASCII, and returns their credential; the credential is therefore unique, non-empty and
  free of white space, and every other header is refused.
\<close>

theorem bearer_exact:
  "parse_bearer_header h = Inr tok \<longleftrightarrow> length h \<le> 4096 \<and> list_all header_byte h \<and> bearer_form h tok"
proof
  assume ok: "parse_bearer_header h = Inr tok"
  obtain i where i: "find_pos is_ascii_whitespace h = Some i" and l: "length h \<le> 4096" "list_all header_byte h"
    using ok by (auto simp: parse_bearer_header_def max_authorization_header_bytes_def split: if_splits option.splits)
  then have scheme: "eq_ignore_ascii_case (take i h) ''bearer''"
    and tok: "tok = trim_matches is_ascii_whitespace (drop i h)" "tok \<noteq> []" "\<not> list_ex is_ascii_whitespace tok"
    using ok by (auto simp: parse_bearer_header_def Let_def split: if_splits)
  obtain pad rest where parts: "drop i h = pad @ tok @ rest" "list_all is_ascii_whitespace pad"
    "list_all is_ascii_whitespace rest"
    using trim_split [of "drop i h" is_ascii_whitespace] tok(1) by metis
  have "is_ascii_whitespace (drop i h ! 0)" and "i < length h" using i by (auto simp: find_pos_Some)
  then have "pad \<noteq> []" using parts(1) tok(2,3) by (cases tok) auto
  moreover have "h = take i h @ pad @ tok @ rest" using parts(1) by (metis append_take_drop_id)
  ultimately show "length h \<le> 4096 \<and> list_all header_byte h \<and> bearer_form h tok"
    unfolding bearer_form_def using l scheme tok parts by blast
next
  assume "length h \<le> 4096 \<and> list_all header_byte h \<and> bearer_form h tok"
  then obtain scheme pad rest where h: "h = scheme @ pad @ tok @ rest" "eq_ignore_ascii_case scheme ''bearer''"
      "pad \<noteq> []" "list_all is_ascii_whitespace pad" "list_all is_ascii_whitespace rest"
      "tok \<noteq> []" "\<not> list_ex is_ascii_whitespace tok"
    and l: "length h \<le> 4096" "list_all header_byte h"
    unfolding bearer_form_def by blast
  have "find_pos is_ascii_whitespace h = Some (length scheme)"
    unfolding h(1) by (rule find_separator [OF scheme_no_space [OF h(2)] h(4,3)])
  moreover have "take (length scheme) h = scheme" "drop (length scheme) h = pad @ tok @ rest" by (simp_all add: h(1))
  moreover have "trim_matches is_ascii_whitespace (pad @ tok @ rest) = tok" by (rule trim_padded [OF h(4-7)])
  ultimately show "parse_bearer_header h = Inr tok"
    using l h(2,6,7) by (simp add: parse_bearer_header_def max_authorization_header_bytes_def Let_def)
qed

section \<open>Two consequences for operators\<close>

text \<open>An expiry beyond what a timestamp can hold leaves a token that never expires.\<close>

lemma far_expiry_never:
  assumes "te_now te = Some now" and "now < v" and "te_timestamp te (sint v) = None"
  shows "resolve_expiry te (Some v) None = Inr None"
  using assms by (simp add: resolve_expiry_def ok_or_def and_then_def not_le)

text \<open>No token command runs, not even a revocation, while the device names cannot be read.\<close>

lemma revoke_needs_inventory:
  assumes "device_names_of me (cli_device_mapping c) = Inl e"
  shows "run_state (run_command me c (TokenCommand (RevokeToken path name pid))) es = (Inl e, es)"
  using assms by (simp add: run_token_command_def tryS_def lift_res_def run_simps)

end
