(* ===== verification/ReadsSpec.thy ===== *)
theory ReadsSpec
  imports Reads XPathSpec
begin

text \<open>
  What the read tools promise about their output bounds and their deny rules.
\<close>

section \<open>Deny rules and quotes\<close>

text \<open>
  The deny rules cannot be dodged by the choice of quotes: two plain paths with the same parsed
  steps - the same elements, attributes and values, quoted either way - get the same answer from the
  XPath policy of the device.
\<close>

theorem deny_rules_ignore_quotes:
  assumes "plain_path x" and "plain_path y" and "xpath_steps x = xpath_steps y"
  shows "check_xpath_policy lb pl ts device x = check_xpath_policy lb pl ts device y"
proof -
  have "canonicalize_xpath_quotes u x = canonicalize_xpath_quotes u y" for u
    using plain_path_text [OF assms(1), of u] plain_path_text [OF assms(2), of u] assms(3) by auto
  then have "canonicalize_xpath_quotes (unicode_alphanumeric lb) x = canonicalize_xpath_quotes (unicode_alphanumeric lb) y" .
  then show ?thesis by (simp add: check_xpath_policy_def split: option.split)
qed

definition tagged :: "char \<Rightarrow> string" where
  "tagged q = ''/config/shared/tag/entry[@name='' @ [q] @ ''a'' @ [q] @ '']''"

theorem deny_rules_ignore_quotes_witness:
  "\<forall>lb pl ts device. check_xpath_policy lb pl ts device (tagged (CHR 0x27))
     = check_xpath_policy lb pl ts device (tagged (CHR 0x22))"
proof -
  have "plain_path (tagged (CHR 0x27))" "plain_path (tagged (CHR 0x22))"
    "xpath_steps (tagged (CHR 0x27)) = xpath_steps (tagged (CHR 0x22))" by code_simp+
  from deny_rules_ignore_quotes [OF this] show ?thesis by blast
qed

section \<open>Bounded output\<close>

lemma nth_newline_at:
  "nth_newline n s = Some i \<Longrightarrow> i < length s \<and> length (filter (\<lambda>c. c = newline) (take i s)) = n \<and> s ! i = newline"
  by (induction n s arbitrary: i rule: nth_newline.induct) (auto split: if_splits nat.splits)

lemma nth_newline_ex:
  "n < length (filter (\<lambda>c. c = newline) s) \<Longrightarrow> \<exists>i. nth_newline n s = Some i"
  by (induction n s rule: nth_newline.induct) (auto split: nat.splits)

abbreviation newlines :: "string \<Rightarrow> nat" where
  "newlines s \<equiv> length (filter (\<lambda>c. c = newline) s)"

lemma line_count_prefix: "line_count (take b s) \<le> line_count s"
proof (cases "drop b s")
  case (Cons c r)
  have "newlines s = newlines (take b s) + newlines (drop b s)"
    by (metis append_take_drop_id filter_append length_append)
  moreover have "1 \<le> newlines (drop b s) + (if last s \<noteq> newline then 1 else 0)"
  proof (cases "last s = newline")
    case True
    have "last s = last (drop b s)" "last (drop b s) \<in> set (drop b s)"
      using Cons last_in_set [of "drop b s"] by (metis append_take_drop_id last_appendR list.discI, metis list.discI)
    then have "newlines (drop b s) \<noteq> 0" using True by (auto simp: filter_empty_conv)
    then show ?thesis by linarith
  qed simp
  moreover have "s \<noteq> []" using Cons by auto
  ultimately show ?thesis by (auto simp: line_count_def)
qed simp

lemma line_count_le: "line_count s \<le> newlines s + 1"
  by (simp add: line_count_def)

lemma newlines_take: "newlines (take i s) \<le> newlines (take j s)" if "i \<le> j"
proof -
  have "take j s = take i s @ drop i (take j s)" using that by (metis append_take_drop_id min.absorb1 take_take)
  then show ?thesis by (metis filter_append le_add1 length_append)
qed

lemma text_boundary_good:
  assumes "1 \<le> ol_lines limits"
  shows "text_boundary s limits \<le> ol_bytes limits" and "text_boundary s limits \<le> length s"
    and "is_char_boundary s (text_boundary s limits)"
    and "line_count (take (text_boundary s limits) s) \<le> ol_lines limits"
    and "text_boundary s limits = length s \<longleftrightarrow> length s \<le> ol_bytes limits \<and> line_count s \<le> ol_lines limits"
proof -
  let ?m = "min (length s) (ol_bytes limits)" and ?n = "ol_lines limits"
  let ?b = "floor_boundary s ?m"
  have b: "?b \<le> ?m" "is_char_boundary s ?b" by (rule floor_boundary_le, rule floor_boundary_boundary)
  have full: "?b = length s" if "length s \<le> ol_bytes limits" using that by simp
  have all: "text_boundary s limits \<le> ol_bytes limits \<and> text_boundary s limits \<le> length s
      \<and> is_char_boundary s (text_boundary s limits) \<and> line_count (take (text_boundary s limits) s) \<le> ol_lines limits
      \<and> (text_boundary s limits = length s) = (length s \<le> ol_bytes limits \<and> line_count s \<le> ol_lines limits)"
    (is ?all)
  proof (cases "?n < line_count s")
    case True
    then have "?n - 1 < newlines s" using assms by (auto simp: line_count_def split: if_splits)
    then obtain i where i: "nth_newline (?n - 1) s = Some i" using nth_newline_ex by blast
    have at: "i < length s" "newlines (take i s) = ?n - 1" "s ! i = newline" using nth_newline_at [OF i] by auto
    have cut: "text_boundary s limits = min ?b i" using True i by (simp add: text_boundary_def)
    have "is_char_boundary s i" using at by (simp add: is_char_boundary_def is_cont_def newline_def byte_def)
    then have "is_char_boundary s (min ?b i)" using b(2) by (simp add: min_def)
    moreover have "line_count (take (min ?b i) s) \<le> ?n"
      using newlines_take [of "min ?b i" i s] at(2) assms
        line_count_le [of "take (min ?b i) s"] by linarith
    ultimately show ?all
      using b(1) at(1) True unfolding cut by auto
  next
    case False
    then have cut: "text_boundary s limits = ?b" by (simp add: text_boundary_def)
    have "line_count (take ?b s) \<le> ?n" using line_count_prefix [of ?b s] False by simp
    then show ?all
      using b False full unfolding cut by auto
  qed
  from all show "text_boundary s limits \<le> ol_bytes limits" and "text_boundary s limits \<le> length s"
    and "is_char_boundary s (text_boundary s limits)"
    and "line_count (take (text_boundary s limits) s) \<le> ol_lines limits"
    and "text_boundary s limits = length s \<longleftrightarrow> length s \<le> ol_bytes limits \<and> line_count s \<le> ol_lines limits"
    by blast+
qed

text \<open>
  C38. Text handed to a caller is within the resolved limits: for every pair of requested limits that
  is accepted (1 byte to 5 MiB, 1 to 100,000 lines) the content is a prefix of the input that ends on a
  character boundary, has no more bytes and no more lines than asked, the counts reported are those of the
  input and of the content, and it is marked truncated exactly when the input exceeds a limit.
\<close>

theorem bounded_output:
  "case resolve_limits bytes lns of
     Inl e \<Rightarrow> \<not> (or_default default_output_bytes bytes \<in> {1..5242880} \<and> or_default default_output_lines lns \<in> {1..100000})
   | Inr limits \<Rightarrow>
       (let t = bound_text s limits; k = bt_returned_bytes t in
        bt_content t = take k s \<and> is_char_boundary s k
        \<and> k \<le> or_default default_output_bytes bytes
        \<and> bt_returned_lines t = line_count (bt_content t) \<and> bt_returned_lines t \<le> or_default default_output_lines lns
        \<and> bt_original_bytes t = length s \<and> bt_original_lines t = line_count s
        \<and> bt_truncated t = (or_default default_output_bytes bytes < length s
             \<or> or_default default_output_lines lns < line_count s))"
proof (cases "resolve_limits bytes lns")
  case (Inl e)
  then show ?thesis by (auto simp: resolve_limits_def Let_def max_output_bytes_def max_output_lines_def split: if_splits)
next
  case (Inr limits)
  then have l: "1 \<le> ol_lines limits" "ol_bytes limits = or_default default_output_bytes bytes"
    "ol_lines limits = or_default default_output_lines lns"
    by (auto simp: resolve_limits_def Let_def split: if_splits)
  show ?thesis
    using text_boundary_good [OF l(1), of s] unfolding Inr sum.case bound_text_def Let_def
    by (auto simp: l)
qed

end
