(* ===== verification/PinSpec.thy ===== *)
theory PinSpec
  imports InventorySpec Tls Samples
begin

text \<open>
  The certificate pin, from the text in the inventory to the verdict in the handshake.
\<close>

lemma hex_digit:
  assumes "d < 16"
  shows "hex_value (hex_char d) = Some d \<and> hex_char d \<noteq> CHR ''+'' \<and> byte (hex_char d) < 128"
proof -
  have "list_all (\<lambda>d. hex_value (hex_char d) = Some d \<and> hex_char d \<noteq> CHR ''+'' \<and> byte (hex_char d) < 128) [0..<16]"
    by code_simp
  with assms show ?thesis by (simp only: list_all_iff set_upt) simp
qed

lemma hex_pair_byte:
  assumes "n < 256"
  shows "parse_hex_pair (hex_char (n div 16)) (hex_char (n mod 16)) = Some n
    \<and> utf8_valid [hex_char (n div 16), hex_char (n mod 16)]"
proof -
  have "n div 16 < 16" "n mod 16 < 16" using assms by simp_all
  from hex_digit [OF this(1)] hex_digit [OF this(2)] show ?thesis
    by (simp add: parse_hex_pair_def)
qed

lemma parse_hex_digest: "parse_hex_chunks (hex_digest bytes) = Inr (map byte bytes)"
proof (induction bytes)
  case (Cons b bytes)
  have "hex_digest (b # bytes) = hex_char (byte b div 16) # hex_char (byte b mod 16) # hex_digest bytes"
    by (simp add: hex_digest_def hex_byte_def)
  with Cons hex_pair_byte [OF byte_less [of b]] show ?case by (simp add: and_then_def del: utf8_valid.simps)
qed (simp add: hex_digest_def)

lemma hex_digest_no_prefix: "strip_prefix ''sha256:'' (hex_digest bytes) = None"
proof (cases "strip_prefix ''sha256:'' (hex_digest bytes)")
  case (Some r)
  then have "CHR ''s'' \<in> set (hex_digest bytes)" by (auto simp: strip_prefix_Some)
  then have "is_lower_hex (CHR ''s'')" by (rule hex_digest_lower)
  then show ?thesis by (simp add: is_lower_hex_def ascii_defs)
qed

text \<open>
  The SHA-256 of a certificate, written as the program writes digests, with or without the
  \<open>sha256:\<close> prefix, is read back as the very bytes of the hash; so the pin in the inventory makes the
  handshake accept the certificates with that hash and no others.
\<close>

theorem pin_roundtrip:
  assumes "length (sha256 lb cert) = 32"
  shows "\<exists>pin. parse_sha256 (hex_digest (sha256 lb cert)) = Inr pin
     \<and> parse_sha256 (''sha256:'' @ hex_digest (sha256 lb cert)) = Inr pin
     \<and> (\<forall>other chain name ocsp now.
           verify_server_cert lb pin other chain name ocsp now \<longleftrightarrow> sha256 lb other = sha256 lb cert)"
proof (intro exI conjI allI)
  let ?h = "sha256 lb cert"
  have "strip_prefix ''sha256:'' (''sha256:'' @ hex_digest ?h) = Some (hex_digest ?h)" by (simp only: strip_prefix_Some)
  then show "parse_sha256 (''sha256:'' @ hex_digest ?h) = Inr (map byte ?h)"
    using assms by (simp only: parse_sha256_def Let_def option.case length_hex_digest parse_hex_digest, simp)
  show "parse_sha256 (hex_digest ?h) = Inr (map byte ?h)"
    using assms by (simp add: parse_sha256_def hex_digest_no_prefix parse_hex_digest)
  have "inj byte" by (rule injI) (simp add: byte_def)
  then show "verify_server_cert lb (map byte ?h) other chain name ocsp now \<longleftrightarrow> sha256 lb other = ?h"
    for other chain name ocsp now
    by (simp add: verify_server_cert_def inj_map_eq_map)
qed

theorem pin_roundtrip_witness:
  "\<exists>pin. parse_sha256 (hex_digest (sha256 script_lib ''cert'')) = Inr pin
     \<and> verify_server_cert script_lib pin ''cert'' [] [] [] 0"
  using pin_roundtrip [of script_lib "''cert''"] by (auto simp: script_lib_def)

end
