(* ===== verification/ChangeSetSpec.thy ===== *)
theory ChangeSetSpec
  imports ServerSpec
begin

text \<open>
  What planning and approving a change set may do: a plan only reads the device and stores one
  unapproved record of exactly the validated actions; an approval is asked for under the caller's own
  name.
\<close>

section \<open>Planning reads\<close>

lemma idle_ask: "(\<And>r. \<not> effectful (ev r)) \<Longrightarrow> obeys idle_delta () (ask f ev) (\<lambda>_ q. q = ())"
  by (rule obeys_ask) (simp add: idle_delta_def)

lemma idle_clock: "obeys idle_delta () (now_unix env) (\<lambda>_ q. q = ())"
  unfolding now_unix_def by (intro obeys_quiet_bind idle_ask obeys_return refl) simp

lemma idle_random: "obeys idle_delta () (new_operation_id env) (\<lambda>_ q. q = ())"
  unfolding new_operation_id_def by (intro obeys_quiet_bind idle_ask obeys_return refl) simp

lemma idle_containers: "obeys idle_delta () (fetch_containers env dc tok as found) (\<lambda>_ q. q = ())"
proof (induction as arbitrary: found)
  case Nil
  show ?case by (simp add: obeys_return)
next
  case (Cons a as)
  show ?case unfolding fetch_containers.simps split_beta
    by (intro idle.quiet_tryS idle.quiet_lift idle.quiet_siblings obeys_if Cons obeys_return refl)
qed

lemma idle_move_targets: "obeys idle_delta () (require_move_targets_exist env dc as tok) (\<lambda>_ q. q = ())"
  unfolding require_move_targets_exist_def by (intro idle.quiet_tryS idle.quiet_lift idle_containers)

lemma idle_create_checks: "obeys idle_delta () (create_checks env sv input grant tok) (\<lambda>_ q. q = ())"
  unfolding create_checks_def
  by (intro idle.quiet_tryS idle.quiet_lift idle_move_targets idle.quiet_fingerprint idle.quiet_clean)

lemma idle_plan: "obeys idle_delta () (create_plan env sv input owner grant tok) (\<lambda>_ q. q = ())"
  unfolding create_plan_def
  by (intro idle.quiet_tryS idle.quiet_lift idle_create_checks idle_clock idle_random obeys_return refl)

section \<open>What is planned\<close>

text \<open>The device of the input takes mutations, its policy and the caller's grant allow every action, and
  the candidate the caller saw was the live one.\<close>

definition plannable ::
  "env \<Rightarrow> service \<Rightarrow> create_input \<Rightarrow> mutation_grant option \<Rightarrow> token \<Rightarrow> world \<Rightarrow> bool" where
  "plannable env sv input grant tok w \<longleftrightarrow>
     (\<exists>dc p w1. map_of (sv_clients sv) (ci_device input) = Some dc \<and> dc_mutation dc = Some p
        \<and> is_ok (validate_change_set_actions env (ci_actions input) p grant)
        \<and> effects w1 = effects w \<and> fst (run_state (candidate_fingerprint env dc tok) w1) = Inr (ci_expected input))"

text \<open>The record: unapproved, bound to its owner, device and fingerprint, with exactly the actions of the
  input and the digest over all of these.\<close>

definition exact_record :: "env \<Rightarrow> create_input \<Rightarrow> string \<Rightarrow> cs_record \<Rightarrow> bool" where
  "exact_record env input owner r \<longleftrightarrow>
     cs_owner r = owner \<and> cs_device r = ci_device input \<and> cs_expected r = ci_expected input
     \<and> collect_results (e_encode_action env) (ci_actions input) = Inr (cs_actions r)
     \<and> e_cs_digest_of env owner (ci_device input) (ci_expected input) (cs_actions r) = Inr (cs_digest r)
     \<and> cs_state r = Planned \<and> cs_approver r = None \<and> cs_approval r = None \<and> cs_operation r = None"

lemma require_ok: "require_policy dc = Inr p \<Longrightarrow> dc_mutation dc = Some p"
  by (auto simp: require_policy_def ok_or_def split: option.splits)

lemma find_ok: "find_client sv d = Inr dc \<Longrightarrow> map_of (sv_clients sv) d = Some dc"
  by (auto simp: find_client_def ok_or_def split: option.splits)

lemma same_fingerprint: "require_fingerprint expected current = Inr u \<Longrightarrow> current = expected"
  by (auto simp: require_fingerprint_def and_then_def split: if_splits sum.splits)

lemma tryS_ok:
  assumes "run_state (tryS m k) w = (Inr x, w')"
  obtains v w1 where "run_state m w = (Inr v, w1)" "run_state (k v) w1 = (Inr x, w')"
  using assms by (auto simp: run_tryS split: prod.splits sum.splits)

lemma tryS_lift_ok:
  assumes "run_state (tryS (lift_res r) k) w = (Inr x, w')"
  obtains v where "r = Inr v" "run_state (k v) w = (Inr x, w')"
  using assms by (cases r) (auto simp: run_simps)

lemma checks_plannable:
  assumes "run_state (create_checks env sv input grant tok) w = (Inr u, w')"
  shows "plannable env sv input grant tok w"
  using assms unfolding create_checks_def
proof (elim tryS_lift_ok tryS_ok)
  fix dc p v1 v2 w1 v3 w2 v4 and v0 :: unit
  assume dc: "find_client sv (ci_device input) = Inr dc" and p: "require_policy dc = Inr p"
    and v: "validate_change_set_actions env (ci_actions input) p grant = Inr v1"
    and m: "run_state (require_move_targets_exist env dc (ci_actions input) tok) w = (Inr v2, w1)"
    and f: "run_state (candidate_fingerprint env dc tok) w1 = (Inr v3, w2)"
    and s: "require_fingerprint (ci_expected input) v3 = Inr v4"
  have "effects w1 = effects w" by (rule idle_run [OF idle_move_targets m])
  moreover have "fst (run_state (candidate_fingerprint env dc tok) w1) = Inr (ci_expected input)"
    using f same_fingerprint [OF s] by simp
  ultimately show ?thesis unfolding plannable_def using find_ok [OF dc] require_ok [OF p] v by auto
qed

lemma map_err_ok: "map_err f r = Inr x \<longleftrightarrow> r = Inr x"
  by (cases r) auto

lemma plan_ok:
  assumes "run_state (create_plan env sv input owner grant tok) w = (Inr r, w')"
  shows "plannable env sv input grant tok w \<and> exact_record env input owner r"
  using assms unfolding create_plan_def
proof (elim tryS_lift_ok tryS_ok)
  fix u w1 now w2 oid w3 actions digest
  assume c: "run_state (create_checks env sv input grant tok) w = (Inr u, w1)"
    and a: "map_err (\<lambda>e. Configuration (''could not serialize actions: '' @ e))
       (collect_results (e_encode_action env) (ci_actions input)) = Inr actions"
    and d: "map_err (\<lambda>e. Configuration (''could not compute digest: '' @ e))
       (e_cs_digest_of env owner (ci_device input) (ci_expected input) actions) = Inr digest"
    and r: "run_state (ret (Inr (planned_record env input oid owner actions digest now))) w3 = (Inr r, w')"
  have "r = planned_record env input oid owner actions digest now" using r by (simp add: run_simps)
  then show ?thesis using a d checks_plannable [OF c]
    by (simp add: exact_record_def planned_record_def map_err_ok)
qed

text \<open>
  C2. Planning a change set never touches the candidate.  Either it has no effect at all, or the device
  takes mutations, every action passes its policy and the caller's grant, the candidate the caller saw
  is the live one, and the only effect is one stored record - unapproved and with exactly the
  actions of the request and the digest over owner, device, fingerprint and actions - followed, only
  on a lab-mode server that stored it, by the waiver of that very record.
\<close>

theorem plan_discipline:
  "effects (snd (run_state (create_change_set env sv input owner grant tok) w)) = effects w
   \<or> (plannable env sv input grant tok w
      \<and> (\<exists>r stored rest. exact_record env input owner r
           \<and> effects (snd (run_state (create_change_set env sv input owner grant tok) w)) = rest @ CsInsert r stored # effects w
           \<and> (rest = [] \<or> (e_lab_mode env \<and> stored = None
                 \<and> (\<exists>x. rest = [CsWaive (cs_id r) (cs_device r) (cs_owner r) (cs_digest r) x])))))"
proof -
  obtain x w1 where p: "run_state (create_plan env sv input owner grant tok) w = (x, w1)" by fastforce
  have same: "effects w1 = effects w" by (rule idle_run [OF idle_plan p])
  show ?thesis
  proof (cases x)
    case (Inl e)
    then show ?thesis using p same by (simp add: create_change_set_def run_tryS)
  next
    case (Inr r)
    let ?stored = "e_coord_cs_insert env (wlog w1) r"
    let ?w2 = "w1\<lparr>wlog := CsInsert r ?stored # wlog w1\<rparr>"
    let ?rest = "if ?stored = None \<and> e_lab_mode env
       then [CsWaive (cs_id r) (cs_device r) (cs_owner r) (cs_digest r)
              (e_coord_waive env (wlog ?w2) (cs_id r) (cs_device r) (cs_owner r) (cs_digest r))] else []"
    have "effects (snd (run_state (create_change_set env sv input owner grant tok) w)) = ?rest @ CsInsert r ?stored # effects w"
      using p Inr same [symmetric]
      by (auto simp: create_change_set_def cs_insert_def waive_approval_def coord_unit_def run_simps Let_def effects_def
          split: option.splits sum.splits)
    moreover have "plannable env sv input grant tok w \<and> exact_record env input owner r"
      using plan_ok p Inr by blast
    moreover have "?rest = [] \<or> (e_lab_mode env \<and> ?stored = None
        \<and> (\<exists>x. ?rest = [CsWaive (cs_id r) (cs_device r) (cs_owner r) (cs_digest r) x]))" by simp
    ultimately show ?thesis by blast
  qed
qed

section \<open>Approving\<close>

text \<open>
  C3. An approval is asked for under the caller's own identity: whatever the request says, its only effect
  is at most one question to the coordinator, for the change set, device and digest it names, in the
  name of the token that made the call and with the actor type of that token (over local stdio:
  as the local operator of unknown type).
\<close>

theorem approval_identity:
  "effects (snd (run_state (call_tool sb env rt tok ext (ApproveChangeSet cs dev digest)) w)) = effects w
   \<or> (\<exists>answer. effects (snd (run_state (call_tool sb env rt tok ext (ApproveChangeSet cs dev digest)) w)) =
        CsApprove cs dev (case caller ext of None \<Rightarrow> ''local-stdio'' | Some c \<Rightarrow> cc_token c) digest
          (case caller ext of None \<Rightarrow> UnknownActor | Some c \<Rightarrow> cc_actor c) answer # effects w)"
proof (cases "authorize (sb_scope sb) ext ''approve_panos_change_set'' (Some dev)")
  case (Some denial)
  then show ?thesis by (simp add: approve_panos_change_set_def when_authorized_def)
next
  case None
  show ?thesis
  proof (cases "mutation_principal ext")
    case (Inl denial)
    then show ?thesis using None by (simp add: approve_panos_change_set_def when_authorized_def with_principal_def)
  next
    case (Inr who)
    then have "who = (case caller ext of None \<Rightarrow> ''local-stdio'' | Some c \<Rightarrow> cc_token c)"
      by (auto simp: mutation_principal_def split: option.splits if_splits)
    with None Inr show ?thesis
      by (cases "caller ext")
         (auto simp: approve_panos_change_set_def when_authorized_def with_principal_def render_def approve_change_set_def
            request_approval_def approved_output_def cs_read_def run_simps Let_def effects_def
            split: sum.splits prod.splits)
  qed
qed

end
