(* ===== verification/AuditScopes.thy ===== *)
theory AuditScopes
  imports Server
begin

text \<open>
  The audit scope around every service operation: \<^verbatim>\<open>rust-panosmcp-core/src/tools.rs\<close> and
  \<open>mutation.rs\<close>.  A scope is opened with the caller, the tool, an action label and the devices,
  collects metadata and is settled by \<open>succeed\<close>, \<open>fail\<close> or the direct-commit policy.  A scope that
  goes out of scope unsettled, because \<open>?\<close> leaves the operation, stays \<open>AuditOpen\<close>: what is then
  recorded is up to the audit crate.  The operations themselves are those of \<open>Reads\<close>, \<open>Lifecycle\<close>
  and \<open>ChangeSets\<close>; here each is run with its scope.
\<close>

section \<open>Scopes\<close>

datatype audit_value = AvText string | AvCount nat

datatype audit_outcome = AuditOpen | AuditOk | AuditError panos_error | AuditDenied string

record audit_scope =
  sc_caller :: "caller_ctx option"
  sc_tool :: string
  sc_action :: string
  sc_devices :: "string list"
  sc_meta :: "(string \<times> audit_value) list"
  sc_outcome :: audit_outcome

text \<open>\<open>AuditScope::from_caller\<close> and \<open>AuditScope::stdio\<close>.\<close>

definition open_scope :: "caller_ctx option \<Rightarrow> string \<Rightarrow> string \<Rightarrow> string list \<Rightarrow> audit_scope" where
  "open_scope ctx tool action devices =
     \<lparr>sc_caller = ctx, sc_tool = tool, sc_action = action, sc_devices = devices, sc_meta = [],
      sc_outcome = AuditOpen\<rparr>"

definition audit_meta :: "string \<Rightarrow> audit_value \<Rightarrow> audit_scope \<Rightarrow> audit_scope" where
  "audit_meta key v s = s\<lparr>sc_meta := sc_meta s @ [(key, v)]\<rparr>"

definition audit_text :: "string \<Rightarrow> string \<Rightarrow> audit_scope \<Rightarrow> audit_scope" where
  "audit_text key v = audit_meta key (AvText v)"

definition audit_succeed :: "audit_scope \<Rightarrow> audit_scope" where
  "audit_succeed s = s\<lparr>sc_outcome := AuditOk\<rparr>"

definition audit_fail :: "panos_error \<Rightarrow> audit_scope \<Rightarrow> audit_scope" where
  "audit_fail e s = s\<lparr>sc_outcome := AuditError e\<rparr>"

definition audit_settle :: "'a res \<Rightarrow> audit_scope \<Rightarrow> audit_scope" where
  "audit_settle r s = (case r of Inr _ \<Rightarrow> audit_succeed s | Inl e \<Rightarrow> audit_fail e s)"

type_synonym 'a audited = "(audit_scope \<times> 'a res) act"

text \<open>The three ways a step ends under a scope: the closing \<open>match\<close>, an early return through \<open>?\<close>, and
  an early return after \<open>fail\<close>.\<close>

definition settled :: "audit_scope \<Rightarrow> 'a res act \<Rightarrow> 'a audited" where
  "settled s m = bind_act m (\<lambda>r. ret (audit_settle r s, r))"

definition or_drop :: "audit_scope \<Rightarrow> 'a res act \<Rightarrow> ('a \<Rightarrow> 'b audited) \<Rightarrow> 'b audited" where
  "or_drop s m k = bind_act m (\<lambda>x. case x of Inl e \<Rightarrow> ret (s, Inl e) | Inr v \<Rightarrow> k v)"

definition or_fail :: "audit_scope \<Rightarrow> 'a res act \<Rightarrow> ('a \<Rightarrow> 'b audited) \<Rightarrow> 'b audited" where
  "or_fail s m k = bind_act m (\<lambda>x. case x of Inl e \<Rightarrow> ret (audit_fail e s, Inl e) | Inr v \<Rightarrow> k v)"

section \<open>Reads\<close>

definition audited_list_devices :: "tool_service \<Rightarrow> caller_ctx option \<Rightarrow> audit_scope \<times> device_metadata list" where
  "audited_list_devices ts ctx =
     (let output = list_devices ts in
      (audit_succeed (audit_meta ''device_count'' (AvCount (length output))
         (open_scope ctx ''list_devices'' ''list'' [])), output))"

definition audited_gather_device_facts ::
  "env \<Rightarrow> tool_service \<Rightarrow> caller_ctx option \<Rightarrow> string \<Rightarrow> token \<Rightarrow> facts_output audited" where
  "audited_gather_device_facts env ts ctx device tok =
     (let s = open_scope ctx ''gather_device_facts'' ''gather-facts'' [device] in
      or_drop s (lift_res (client_of ts device)) (\<lambda>dc.
      or_fail s (operational env dc system_info_command tok) (\<lambda>response.
      or_fail s (lift_res (parse_device_facts (e_lib env) response)) (\<lambda>facts.
      let advisories = (case Option.bind (fact_software_version facts) cve_2026_0310_warning of
                          None \<Rightarrow> [] | Some t \<Rightarrow> [t]) in
        ret (audit_succeed (case advisories of [] \<Rightarrow> s | t # _ \<Rightarrow> audit_text ''version_advisory'' t s),
             Inr \<lparr>fo_device = device, fo_facts = facts, fo_advisories = advisories\<rparr>)))))"

definition audited_execute_panos_op ::
  "env \<Rightarrow> policy_lib \<Rightarrow> tool_service \<Rightarrow> caller_ctx option \<Rightarrow> string \<Rightarrow> string \<Rightarrow> nat option \<Rightarrow> nat option \<Rightarrow> token
     \<Rightarrow> xml_output audited" where
  "audited_execute_panos_op env pl ts ctx device command bytes lns tok =
     settled (open_scope ctx ''execute_panos_op'' ''show-op'' [device])
       (execute_panos_op env pl ts device command bytes lns tok)"

definition audited_get_panos_config ::
  "env \<Rightarrow> policy_lib \<Rightarrow> tool_service \<Rightarrow> caller_ctx option \<Rightarrow> string \<Rightarrow> config_source \<Rightarrow> string option \<Rightarrow> nat option \<Rightarrow> nat option
     \<Rightarrow> token \<Rightarrow> config_output audited" where
  "audited_get_panos_config env pl ts ctx device source xpath bytes lns tok =
     settled (open_scope ctx ''get_panos_config'' ''get-config'' [device])
       (get_panos_config env pl ts device source xpath bytes lns tok)"

definition audited_list_panos_entries ::
  "env \<Rightarrow> policy_lib \<Rightarrow> tool_service \<Rightarrow> caller_ctx option \<Rightarrow> string \<Rightarrow> config_source \<Rightarrow> string \<Rightarrow> nat option \<Rightarrow> nat option
     \<Rightarrow> token \<Rightarrow> entries_output audited" where
  "audited_list_panos_entries env pl ts ctx device source xpath offset limit tok =
     settled (open_scope ctx ''list_panos_entries'' ''list-entries'' [device])
       (list_panos_entries env pl ts device source xpath offset limit tok)"

text \<open>Every early return of the next two operations fails the scope first.\<close>

definition audited_list_panorama_device_groups ::
  "env \<Rightarrow> tool_service \<Rightarrow> caller_ctx option \<Rightarrow> string \<Rightarrow> token \<Rightarrow> (string \<times> device_group_summary list) audited" where
  "audited_list_panorama_device_groups env ts ctx device tok =
     (let s = open_scope ctx ''list_panorama_device_groups'' ''list-device-groups'' [device] in
      or_fail s (lift_res (client_of ts device)) (\<lambda>dc.
      or_fail s (operational env dc panorama_device_groups_op_command tok) (\<lambda>response.
      or_fail s (lift_res (parse_panorama_device_groups_op (e_lib env) response)) (\<lambda>gs.
        ret (audit_succeed s, Inr (device, gs))))))"

definition audited_list_panorama_templates ::
  "env \<Rightarrow> policy_lib \<Rightarrow> tool_service \<Rightarrow> caller_ctx option \<Rightarrow> string \<Rightarrow> token \<Rightarrow> (string \<times> template_summary list) audited" where
  "audited_list_panorama_templates env pl ts ctx device tok =
     (let s = open_scope ctx ''list_panorama_templates'' ''list-templates'' [device] in
      or_fail s (read_all_templates env pl ts device tok) (\<lambda>(templates, skipped).
        ret (audit_succeed (if 0 < skipped then audit_meta ''skipped_template_names'' (AvCount skipped) s else s),
             Inr (device, templates))))"

definition audited_get_panorama_push_status ::
  "env \<Rightarrow> tool_service \<Rightarrow> caller_ctx option \<Rightarrow> string \<Rightarrow> string \<Rightarrow> token \<Rightarrow> (string \<times> string \<times> push_job_status) audited" where
  "audited_get_panorama_push_status env ts ctx device job tok =
     settled (open_scope ctx ''get_panorama_push_status'' ''get-push-status'' [device])
       (get_panorama_push_status env ts device job tok)"

definition audited_get_panos_entry_digest ::
  "env \<Rightarrow> policy_lib \<Rightarrow> tool_service \<Rightarrow> caller_ctx option \<Rightarrow> string \<Rightarrow> config_source \<Rightarrow> string \<Rightarrow> token \<Rightarrow> digest_output audited" where
  "audited_get_panos_entry_digest env pl ts ctx device source xpath tok =
     settled (open_scope ctx ''get_panos_entry_digest'' ''entry-digest'' [device])
       (get_panos_entry_digest env pl ts device source xpath tok)"

definition audited_get_panos_ha_state ::
  "env \<Rightarrow> tool_service \<Rightarrow> caller_ctx option \<Rightarrow> string \<Rightarrow> token \<Rightarrow> (string \<times> ha_state) audited" where
  "audited_get_panos_ha_state env ts ctx device tok =
     settled (open_scope ctx ''get_panos_ha_state'' ''ha-state'' [device]) (get_panos_ha_state env ts device tok)"

definition audited_get_panos_license_info ::
  "env \<Rightarrow> tool_service \<Rightarrow> caller_ctx option \<Rightarrow> string \<Rightarrow> token \<Rightarrow> (string \<times> license_entry list) audited" where
  "audited_get_panos_license_info env ts ctx device tok =
     settled (open_scope ctx ''get_panos_license_info'' ''license-info'' [device])
       (get_panos_license_info env ts device tok)"

definition audited_get_panos_content_status ::
  "env \<Rightarrow> tool_service \<Rightarrow> caller_ctx option \<Rightarrow> string \<Rightarrow> token \<Rightarrow> (string \<times> content_version_entry list) audited" where
  "audited_get_panos_content_status env ts ctx device tok =
     settled (open_scope ctx ''get_panos_content_status'' ''content-status'' [device])
       (get_panos_content_status env ts device tok)"

definition audited_get_panos_software_status ::
  "env \<Rightarrow> tool_service \<Rightarrow> caller_ctx option \<Rightarrow> string \<Rightarrow> token \<Rightarrow> (string \<times> software_version_entry list) audited" where
  "audited_get_panos_software_status env ts ctx device tok =
     settled (open_scope ctx ''get_panos_software_status'' ''software-status'' [device])
       (get_panos_software_status env ts device tok)"

definition audited_test_panos_security_policy_match ::
  "env \<Rightarrow> policy_lib \<Rightarrow> tool_service \<Rightarrow> caller_ctx option \<Rightarrow> match_input \<Rightarrow> token \<Rightarrow> match_output audited" where
  "audited_test_panos_security_policy_match env pl ts ctx m tok =
     settled (open_scope ctx ''test_panos_security_policy_match'' ''policy-match'' [mi_device m])
       (test_panos_security_policy_match env pl ts m tok)"

definition audited_query_panos_logs ::
  "env \<Rightarrow> tool_service \<Rightarrow> caller_ctx option \<Rightarrow> string \<Rightarrow> panos_log_type \<Rightarrow> string option \<Rightarrow> nat option \<Rightarrow> token
     \<Rightarrow> logs_output audited" where
  "audited_query_panos_logs env ts ctx device t query max_logs tok =
     settled (open_scope ctx ''query_panos_logs'' ''log-query'' [device])
       (query_panos_logs env ts device t query max_logs tok)"

definition audited_list_panos_rulebase_entries ::
  "env \<Rightarrow> policy_lib \<Rightarrow> tool_service \<Rightarrow> caller_ctx option \<Rightarrow> string \<Rightarrow> config_source \<Rightarrow> rulebase_kind \<Rightarrow> string \<Rightarrow> nat option
     \<Rightarrow> nat option \<Rightarrow> token \<Rightarrow> rulebase_output audited" where
  "audited_list_panos_rulebase_entries env pl ts ctx device source kind vsys offset limit tok =
     settled (open_scope ctx ''list_panos_rulebase_entries'' ''list-rulebase-entries'' [device])
       (list_panos_rulebase_entries env pl ts device source kind vsys offset limit tok)"

section \<open>Change sets\<close>

definition audited_candidate_fingerprint ::
  "env \<Rightarrow> service \<Rightarrow> caller_ctx option \<Rightarrow> string \<Rightarrow> token \<Rightarrow> (string \<times> string) audited" where
  "audited_candidate_fingerprint env sv ctx device tok =
     settled (open_scope ctx ''get_candidate_fingerprint'' ''get-fingerprint'' [device])
       (candidate_fingerprint_tool env sv device tok)"

definition planned_scope :: "cs_record \<Rightarrow> audit_scope \<Rightarrow> audit_scope" where
  "planned_scope r s = audit_meta ''action_count'' (AvCount (length (cs_actions r)))
     (audit_text ''digest'' (cs_digest r) (audit_text ''change_set_id'' (cs_id r) s))"

definition audited_create_change_set ::
  "env \<Rightarrow> service \<Rightarrow> caller_ctx option \<Rightarrow> create_input \<Rightarrow> string \<Rightarrow> mutation_grant option \<Rightarrow> token \<Rightarrow> change_set_output audited" where
  "audited_create_change_set env sv ctx input owner grant tok =
     (let s0 = open_scope ctx ''create_panos_change_set'' ''plan'' [ci_device input] in
      or_fail s0 (create_plan env sv input owner grant tok) (\<lambda>r.
      or_fail s0 (cs_insert env r) (\<lambda>_.
      let s = planned_scope r s0 in
      if e_lab_mode env then
        or_fail s (waive_approval env r) (\<lambda>state.
          settled (audit_text ''approval_waiver'' ''lab-mode'' s) (lift_res (waived_output env r state)))
      else settled s (lift_res (changeset_record_to_output env r)))))"

text \<open>Id and digest are in the scope before any check.\<close>

definition audited_approve_change_set ::
  "env \<Rightarrow> caller_ctx option \<Rightarrow> string \<Rightarrow> string \<Rightarrow> string \<Rightarrow> string \<Rightarrow> change_set_output audited" where
  "audited_approve_change_set env ctx oid dev approver digest =
     (let s = audit_text ''digest'' digest (audit_text ''change_set_id'' oid
            (open_scope ctx ''approve_panos_change_set'' ''approve'' [dev])) in
      or_fail s (request_approval env oid dev approver digest (map_option cc_actor ctx)) (\<lambda>out.
        settled (audit_meta ''action_count'' (AvCount (ao_count out)) (audit_text ''owner'' (ao_owner out) s))
          (approved_output env out)))"

definition audited_change_set_status ::
  "env \<Rightarrow> caller_ctx option \<Rightarrow> string \<Rightarrow> string \<Rightarrow> change_set_output audited" where
  "audited_change_set_status env ctx oid dev =
     settled (audit_text ''change_set_id'' oid (open_scope ctx ''get_panos_change_set'' ''get-change-set'' [dev]))
       (change_set_status env oid dev)"

section \<open>Apply\<close>

definition audited_guard :: "env \<Rightarrow> device_config \<Rightarrow> audit_scope \<Rightarrow> 'a audited \<Rightarrow> 'a audited" where
  "audited_guard env dc s m =
     bind_act (ask (\<lambda>log. e_coord_guard env log (mutation_lock_key dc)) (Guard (mutation_lock_key dc))) (\<lambda>e.
       case e of Some err \<Rightarrow> ret (s, Inl (coord_error err))
       | None \<Rightarrow> bind_act m (\<lambda>x. bind_act (emit (Unguard (mutation_lock_key dc))) (\<lambda>_. ret x)))"

text \<open>The scope names the error of the push; the caller is told of a failed revert as well.\<close>

definition audited_apply_failed ::
  "env \<Rightarrow> device_config \<Rightarrow> mutation_policy \<Rightarrow> op_record \<Rightarrow> cs_record \<Rightarrow> nat \<Rightarrow> panos_error \<Rightarrow> audit_scope \<Rightarrow> stage_output audited" where
  "audited_apply_failed env dc p r cs applied e s =
     bind_act (if applied > 0 then revert_admin_candidate env dc (pol_admin p) else ret (Inr ())) (\<lambda>reverted.
     let r = r\<lparr>op_state := (if is_ok reverted then Discarded else Indeterminate),
               op_details := Some (failed_details applied e reverted)\<rparr> in
     bind_act (candidate_fingerprint env dc Fresh) (\<lambda>fp.
     let r = (case fp of Inr c \<Rightarrow> r\<lparr>op_current := c\<rparr> | Inl _ \<Rightarrow> r) in
     or_drop s (op_update env r) (\<lambda>_.
     or_drop s (cs_update env (cs\<lparr>cs_state := CsFailed, cs_operation := Some (op_id r)\<rparr>)) (\<lambda>_.
     bind_act (if op_lock_held r then release_config_lock_best_effort env dc else ret ()) (\<lambda>_.
       ret (audit_fail e (audit_text ''operation_id'' (op_id r) s), Inl (case reverted of
           Inr _ \<Rightarrow> e
         | Inl v \<Rightarrow> Configuration (''change-set apply and automatic revert failed: '' @ error_text e
             @ ''; '' @ error_text v))))))))"

definition audited_apply_finished ::
  "env \<Rightarrow> device_config \<Rightarrow> apply_input \<Rightarrow> op_record \<Rightarrow> cs_record \<Rightarrow> string \<Rightarrow> audit_scope \<Rightarrow> stage_output audited" where
  "audited_apply_finished env dc input r cs prior s =
     (let named = audit_text ''operation_id'' (op_id r) s in
      bind_act (candidate_fingerprint env dc Fresh) (\<lambda>fp. case fp of
       Inl e \<Rightarrow>
         or_drop s (op_update env (r\<lparr>op_state := Indeterminate, op_details := Some
           (''all actions were accepted but the resulting fingerprint could not be read: '' @ error_text e)\<rparr>)) (\<lambda>_.
         or_drop s (cs_update env (cs\<lparr>cs_state := CsFailed, cs_operation := Some (op_id r)\<rparr>)) (\<lambda>_.
           ret (audit_fail e named, Inl e)))
     | Inr after \<Rightarrow>
         or_drop s (op_update env (r\<lparr>op_current := after, op_state := Staged\<rparr>)) (\<lambda>_.
         or_drop s (cs_update env (cs\<lparr>cs_state := Applied, cs_operation := Some (op_id r)\<rparr>)) (\<lambda>_.
           ret (audit_succeed (audit_meta ''action_count'' (AvCount (length (cs_actions cs)))
                  (audit_text ''approver'' (opt_text (cs_approver cs)) named)),
                Inr \<lparr>so_operation = op_id r, so_device = ai_device input, so_before = prior,
                    so_after = after, so_lock_held = op_lock_held r\<rparr>)))))"

definition audited_apply_push ::
  "env \<Rightarrow> device_config \<Rightarrow> mutation_policy \<Rightarrow> apply_input \<Rightarrow> op_record \<Rightarrow> cs_record \<Rightarrow> string \<Rightarrow> audit_scope \<Rightarrow> stage_output audited" where
  "audited_apply_push env dc p input r cs prior s =
     bind_act (push_actions env dc (cs_actions cs) 0) (\<lambda>(applied, outcome). case outcome of
         Inl e \<Rightarrow> audited_apply_failed env dc p r cs applied e s
       | Inr _ \<Rightarrow> audited_apply_finished env dc input r cs prior s)"

definition audited_apply_guarded ::
  "env \<Rightarrow> device_config \<Rightarrow> mutation_policy \<Rightarrow> apply_input \<Rightarrow> string \<Rightarrow> token \<Rightarrow> audit_scope \<Rightarrow> stage_output audited" where
  "audited_apply_guarded env dc p input owner tok s =
     bind_act (is_cancelled env tok) (\<lambda>c.
     if c then ret (s, Inl Cancelled)
     else
       or_drop s (apply_recheck env input owner) (\<lambda>cs.
       or_drop s (new_operation_id env) (\<lambda>oid.
       or_drop s (lift_res (apply_record env dc p input owner oid cs)) (\<lambda>r.
       or_drop s (op_insert env r) (\<lambda>_.
       or_drop s (apply_lock env dc p r) (\<lambda>r.
       or_drop s (or_abandon env dc (op_lock_held r) oid (apply_ready env dc input)) (\<lambda>prior.
       or_drop s (or_abandon env dc (op_lock_held r) oid (apply_claim env cs oid)) (\<lambda>cs.
         audited_apply_push env dc p input r cs prior s))))))))"

definition audited_apply_change_set ::
  "env \<Rightarrow> service \<Rightarrow> caller_ctx option \<Rightarrow> apply_input \<Rightarrow> string \<Rightarrow> mutation_grant option \<Rightarrow> token \<Rightarrow> stage_output audited" where
  "audited_apply_change_set env sv ctx input owner grant tok =
     (let s = audit_text ''digest'' (ai_digest input) (audit_text ''change_set_id'' (ai_change_set input)
            (open_scope ctx ''apply_panos_change_set'' ''apply'' [ai_device input])) in
      or_drop s (apply_checks env sv input owner grant) (\<lambda>(dc, p).
        audited_guard env dc s (audited_apply_guarded env dc p input owner tok s)))"

section \<open>Stage\<close>

definition audited_move_check ::
  "env \<Rightarrow> device_config \<Rightarrow> cs_action \<Rightarrow> token \<Rightarrow> audit_scope \<Rightarrow> 'a audited \<Rightarrow> 'a audited" where
  "audited_move_check env dc a tok s k =
     (if ca_action a = StageMove then
        or_fail s (lift_res (extract_move_target (ca_xpath a))) (\<lambda>(container, moved_name).
        or_fail s (require_move_target_exists env dc container moved_name (ca_destination a) tok) (\<lambda>_. k))
      else k)"

definition audited_stage_guarded ::
  "env \<Rightarrow> device_config \<Rightarrow> mutation_policy \<Rightarrow> stage_input \<Rightarrow> string \<Rightarrow> token \<Rightarrow> audit_scope \<Rightarrow> stage_output audited" where
  "audited_stage_guarded env dc p input owner tok s =
     bind_act (is_cancelled env tok) (\<lambda>c.
     if c then ret (s, Inl Cancelled)
     else
      or_drop s (new_operation_id env) (\<lambda>oid.
      or_drop s (lift_res (map_err (\<lambda>e. Configuration (''could not serialize action: '' @ e))
        (e_encode_stage env (ca_action (si_action input))))) (\<lambda>action_json.
      or_drop s (lift_res (map_err (\<lambda>e. Configuration (''could not serialize action: '' @ e))
        (e_encode_action env (si_action input)))) (\<lambda>action_value.
      let record = initial_record env dc p oid owner (si_device input) action_json
            (ca_xpath (si_action input)) [action_value] None (si_expected input) in
      or_drop s (op_insert env record) (\<lambda>_.
      bind_act (if pol_require_lock p then acquire_config_lock env dc oid else ret (Inr ())) (\<lambda>locked.
      case locked of
        Inl e \<Rightarrow> bind_act (op_remove oid) (\<lambda>_. ret (s, Inl e))
      | Inr _ \<Rightarrow>
        bind_act (stage_mutate env dc input (record\<lparr>op_lock_held := pol_require_lock p\<rparr>)) (\<lambda>result.
        bind_act (if \<not> is_ok result \<and> pol_require_lock p
                  then release_config_lock_best_effort env dc else ret ()) (\<lambda>_.
        bind_act (if \<not> is_ok result then op_remove oid else ret ()) (\<lambda>_.
          ret (audit_settle result (audit_text ''operation_id'' oid s), result))))))))))"

definition audited_stage_config ::
  "env \<Rightarrow> service \<Rightarrow> caller_ctx option \<Rightarrow> stage_input \<Rightarrow> string \<Rightarrow> mutation_grant option \<Rightarrow> token \<Rightarrow> stage_output audited" where
  "audited_stage_config env sv ctx input owner grant tok =
     (let a = si_action input; lb = e_lib env;
          s = open_scope ctx ''stage_panos_config'' ''stage'' [si_device input] in
      or_drop s (lift_res (find_client sv (si_device input))) (\<lambda>dc.
      or_drop s (lift_res (require_policy dc)) (\<lambda>p.
      or_drop s (lift_res (validate_fingerprint (si_expected input))) (\<lambda>_.
      or_drop s (lift_res (validate_write_xpath lb (ca_xpath a) (pol_roots p))) (\<lambda>_.
      or_drop s (lift_res (validate_stage_payload lb a (pol_allow_delete p))) (\<lambda>_.
      or_fail s (lift_res (check_grant lb grant (ca_action a) (ca_xpath a))) (\<lambda>_.
        audited_move_check env dc a tok s
          (audited_guard env dc s (audited_stage_guarded env dc p input owner tok s)))))))))"

section \<open>Diff, validate, commit, discard, status\<close>

definition operation_scope :: "caller_ctx option \<Rightarrow> string \<Rightarrow> string \<Rightarrow> string \<Rightarrow> string \<Rightarrow> audit_scope" where
  "operation_scope ctx tool action oid dev = audit_text ''operation_id'' oid (open_scope ctx tool action [dev])"

definition audited_diff_candidate ::
  "env \<Rightarrow> service \<Rightarrow> caller_ctx option \<Rightarrow> operation_input \<Rightarrow> string \<Rightarrow> token \<Rightarrow> diff_output audited" where
  "audited_diff_candidate env sv ctx input owner tok =
     settled (operation_scope ctx ''diff_panos_candidate'' ''diff'' (oi_operation input) (oi_device input))
       (diff_candidate env sv input owner tok)"

definition audited_validate_candidate ::
  "env \<Rightarrow> service \<Rightarrow> caller_ctx option \<Rightarrow> operation_input \<Rightarrow> string \<Rightarrow> token \<Rightarrow> validation_output audited" where
  "audited_validate_candidate env sv ctx input owner tok =
     settled (operation_scope ctx ''validate_panos_candidate'' ''validate'' (oi_operation input) (oi_device input))
       (validate_candidate env sv input owner tok)"

text \<open>The direct-commit policy marks the scope itself: a refusal as denied, a permitted direct commit by
  a metadata entry.  It is asked only for a validated operation without a change set.\<close>

definition direct_commit_asked :: "op_record \<Rightarrow> bool" where
  "direct_commit_asked r \<longleftrightarrow> op_state r = Validated \<and> op_change_set r = None"

definition direct_commit_scope :: "service \<Rightarrow> op_record \<Rightarrow> audit_scope \<Rightarrow> audit_scope" where
  "direct_commit_scope sv r s =
     (if \<not> direct_commit_asked r then s
      else case sv_direct_commit sv of
        Some _ \<Rightarrow> s\<lparr>sc_outcome := AuditDenied ''direct_commit_disabled''\<rparr>
      | None \<Rightarrow> audit_text ''direct_commit_allowed'' ''true'' s)"

definition direct_commit_refused :: "service \<Rightarrow> op_record \<Rightarrow> bool" where
  "direct_commit_refused sv r \<longleftrightarrow> direct_commit_asked r \<and> sv_direct_commit sv \<noteq> None"

definition audited_commit_candidate ::
  "env \<Rightarrow> service \<Rightarrow> caller_ctx option \<Rightarrow> operation_input \<Rightarrow> string \<Rightarrow> attribution \<Rightarrow> token \<Rightarrow> commit_output audited" where
  "audited_commit_candidate env sv ctx input owner a tok =
     (let s0 = operation_scope ctx ''commit_panos_candidate'' ''commit'' (oi_operation input) (oi_device input) in
      or_fail s0 (lift_res (validate_fingerprint (oi_expected input))) (\<lambda>_.
      or_fail s0 (op_read env (oi_operation input) owner (oi_device input)) (\<lambda>record.
      let s = direct_commit_scope sv record s0 in
      bind_act (commit_record env sv input a tok record) (\<lambda>r.
        ret (if direct_commit_refused sv record then s else audit_settle r s, r)))))"

definition audited_discard_candidate ::
  "env \<Rightarrow> service \<Rightarrow> caller_ctx option \<Rightarrow> operation_input \<Rightarrow> string \<Rightarrow> discard_output audited" where
  "audited_discard_candidate env sv ctx input owner =
     settled (operation_scope ctx ''discard_panos_candidate'' ''discard'' (oi_operation input) (oi_device input))
       (discard_candidate env sv input owner)"

definition audited_operation_status ::
  "env \<Rightarrow> caller_ctx option \<Rightarrow> string \<Rightarrow> string \<Rightarrow> string \<Rightarrow> status_output audited" where
  "audited_operation_status env ctx oid owner dev =
     settled (operation_scope ctx ''get_panos_operation'' ''get-operation'' oid dev)
       (operation_status env oid owner dev)"

section \<open>A call with its scope\<close>

text \<open>The handlers of \<open>Server\<close> over the audited operations.  A request that is denied, or has no principal
  or grant, is answered before a scope is opened.\<close>

type_synonym audited_answer = "(audit_scope option \<times> call_result) act"

definition audited_principal :: "extensions \<Rightarrow> (string \<Rightarrow> audited_answer) \<Rightarrow> audited_answer" where
  "audited_principal ext k =
     (case mutation_principal ext of Inl denial \<Rightarrow> ret (None, denial) | Inr who \<Rightarrow> k who)"

definition audited_identity ::
  "extensions \<Rightarrow> (string \<Rightarrow> mutation_grant option \<Rightarrow> audited_answer) \<Rightarrow> audited_answer" where
  "audited_identity ext k =
     (case mutation_identity ext of Inl denial \<Rightarrow> ret (None, denial) | Inr (who, grant) \<Rightarrow> k who grant)"

definition audited_render :: "('a \<Rightarrow> string + string) \<Rightarrow> 'a audited \<Rightarrow> audited_answer" where
  "audited_render enc m = bind_act m (\<lambda>(s, r). ret (Some s, to_call_result enc r))"

fun audited_operation ::
  "server_lib \<Rightarrow> env \<Rightarrow> service \<Rightarrow> tool_service \<Rightarrow> caller_ctx option \<Rightarrow> extensions \<Rightarrow> token \<Rightarrow> tool_call \<Rightarrow> audited_answer" where
  "audited_operation sb env sv ts ctx ext tok (CreateChangeSet a) =
     audited_identity ext (\<lambda>who grant.
       audited_render (sb_change_set_json sb) (audited_create_change_set env sv ctx a who grant tok))"
| "audited_operation sb env sv ts ctx ext tok (ApproveChangeSet a b c) =
     audited_principal ext (\<lambda>who.
       audited_render (sb_change_set_json sb) (audited_approve_change_set env ctx a b who c))"
| "audited_operation sb env sv ts ctx ext tok (GetChangeSet a b) =
     audited_principal ext (\<lambda>who.
       audited_render (sb_change_set_json sb) (audited_change_set_status env ctx a b))"
| "audited_operation sb env sv ts ctx ext tok (ApplyChangeSet a) =
     audited_identity ext (\<lambda>who grant.
       audited_render (sb_stage_json sb) (audited_apply_change_set env sv ctx a who grant tok))"
| "audited_operation sb env sv ts ctx ext tok (GetFingerprint a) =
     audited_render (sb_fingerprint_json sb) (audited_candidate_fingerprint env sv ctx a tok)"
| "audited_operation sb env sv ts ctx ext tok (StageConfig a) =
     audited_identity ext (\<lambda>who grant.
       audited_render (sb_stage_json sb) (audited_stage_config env sv ctx a who grant tok))"
| "audited_operation sb env sv ts ctx ext tok (DiffCandidate a) =
     audited_principal ext (\<lambda>who.
       audited_render (sb_diff_json sb) (audited_diff_candidate env sv ctx a who tok))"
| "audited_operation sb env sv ts ctx ext tok (ValidateCandidate a) =
     audited_principal ext (\<lambda>who.
       audited_render (sb_validation_json sb) (audited_validate_candidate env sv ctx a who tok))"
| "audited_operation sb env sv ts ctx ext tok (CommitCandidate a) =
     audited_principal ext (\<lambda>who.
       audited_render (sb_commit_json sb) (audited_commit_candidate env sv ctx a who (sb_attribution sb ctx) tok))"
| "audited_operation sb env sv ts ctx ext tok (DiscardCandidate a) =
     audited_principal ext (\<lambda>who.
       audited_render (sb_discard_json sb) (audited_discard_candidate env sv ctx a who))"
| "audited_operation sb env sv ts ctx ext tok (GetOperation a b) =
     audited_principal ext (\<lambda>who.
       audited_render (sb_status_json sb) (audited_operation_status env ctx a who b))"
| "audited_operation sb env sv ts ctx ext tok ListDevices =
     (let output = audited_list_devices ts ctx;
             shown = (case ctx of None \<Rightarrow> snd output
               | Some c \<Rightarrow> filter (\<lambda>d. sl_allows (sb_scope sb) (cc_devices c) (dm_name d)) (snd output)) in
         ret (Some (fst output), to_call_result (sb_devices_json sb) (Inr shown)))"
| "audited_operation sb env sv ts ctx ext tok (GatherFacts a) =
     audited_render (sb_facts_json sb) (audited_gather_device_facts env ts ctx a tok)"
| "audited_operation sb env sv ts ctx ext tok (ExecuteOp a b c d) =
     audited_render (sb_xml_json sb) (audited_execute_panos_op env (sb_policy sb) ts ctx a b c d tok)"
| "audited_operation sb env sv ts ctx ext tok (GetConfig a b c d e) =
     audited_render (sb_config_json sb) (audited_get_panos_config env (sb_policy sb) ts ctx a b c d e tok)"
| "audited_operation sb env sv ts ctx ext tok (ListEntries a b c d e) =
     audited_render (sb_entries_json sb) (audited_list_panos_entries env (sb_policy sb) ts ctx a b c d e tok)"
| "audited_operation sb env sv ts ctx ext tok (ListDeviceGroups a) =
     audited_render (sb_groups_json sb) (audited_list_panorama_device_groups env ts ctx a tok)"
| "audited_operation sb env sv ts ctx ext tok (ListTemplates a) =
     audited_render (sb_templates_json sb) (audited_list_panorama_templates env (sb_policy sb) ts ctx a tok)"
| "audited_operation sb env sv ts ctx ext tok (GetPushStatus a b) =
     audited_render (sb_push_json sb) (audited_get_panorama_push_status env ts ctx a b tok)"
| "audited_operation sb env sv ts ctx ext tok (ListRulebase a b c d e f) =
     audited_render (sb_rulebase_json sb) (audited_list_panos_rulebase_entries env (sb_policy sb) ts ctx a b c d e f tok)"
| "audited_operation sb env sv ts ctx ext tok (GetHaState a) =
     audited_render (sb_ha_json sb) (audited_get_panos_ha_state env ts ctx a tok)"
| "audited_operation sb env sv ts ctx ext tok (GetLicenses a) =
     audited_render (sb_licenses_json sb) (audited_get_panos_license_info env ts ctx a tok)"
| "audited_operation sb env sv ts ctx ext tok (GetContent a) =
     audited_render (sb_content_json sb) (audited_get_panos_content_status env ts ctx a tok)"
| "audited_operation sb env sv ts ctx ext tok (GetSoftware a) =
     audited_render (sb_software_json sb) (audited_get_panos_software_status env ts ctx a tok)"
| "audited_operation sb env sv ts ctx ext tok (TestPolicyMatch a) =
     audited_render (sb_match_json sb) (audited_test_panos_security_policy_match env (sb_policy sb) ts ctx a tok)"
| "audited_operation sb env sv ts ctx ext tok (QueryLogs a b c d) =
     audited_render (sb_logs_json sb) (audited_query_panos_logs env ts ctx a b c d tok)"
| "audited_operation sb env sv ts ctx ext tok (GetEntryDigest a b c) =
     audited_render (sb_digest_json sb) (audited_get_panos_entry_digest env (sb_policy sb) ts ctx a b c tok)"

definition audited_call ::
  "server_lib \<Rightarrow> env \<Rightarrow> 't runtime \<Rightarrow> token \<Rightarrow> extensions \<Rightarrow> tool_call \<Rightarrow> audited_answer" where
  "audited_call sb env rt tok ext call =
     (case authorize (sb_scope sb) ext (call_name call) (call_device call) of
        Some denial \<Rightarrow> ret (None, denial)
      | None \<Rightarrow> audited_operation sb env (service_of rt) (tools_of rt) (caller ext) ext tok call)"

end
