(* ===== verification/AuditSpec.thy ===== *)
theory AuditSpec
  imports AuditScopes ServerSpec
begin

text \<open>
  What the audit scopes say: recording does not change what a call does, and the recorded
  outcome is the outcome.
\<close>

section \<open>Recording is transparent\<close>

text \<open>\<open>erases m n\<close>: without its scope, \<open>m\<close> is \<open>n\<close>.\<close>

definition erases :: "('s \<times> 'a) act \<Rightarrow> 'a act \<Rightarrow> bool" where
  "erases m n \<longleftrightarrow> (\<forall>w. case run_state m w of ((s, r), w') \<Rightarrow> run_state n w = (r, w'))"

named_theorems erases_intro \<open>erasing the scope of a composed step\<close>

lemma erases_return [erases_intro]: "erases (ret (s, r)) (ret r)"
  by (simp add: erases_def)

lemma erases_bind [erases_intro]:
  "(\<And>x. erases (k x) (k' x)) \<Longrightarrow> erases (bind_act m k) (bind_act m k')"
  by (fastforce simp: erases_def run_bind split: prod.splits)

lemma erases_then:
  "erases m n \<Longrightarrow> (\<And>s x. erases (k (s, x)) (k' x)) \<Longrightarrow> erases (bind_act m k) (bind_act n k')"
  by (fastforce simp: erases_def run_bind split: prod.splits)

lemma erases_settled [erases_intro]: "erases (settled s m) m"
  by (auto simp: settled_def erases_def run_simps split: prod.splits)

lemma erases_or_drop [erases_intro]:
  "(\<And>x. erases (k x) (k' x)) \<Longrightarrow> erases (or_drop s m k) (tryS m k')"
  unfolding or_drop_def tryS_def by (intro erases_bind) (auto intro: erases_return split: sum.splits)

lemma erases_or_fail [erases_intro]:
  "(\<And>x. erases (k x) (k' x)) \<Longrightarrow> erases (or_fail s m k) (tryS m k')"
  unfolding or_fail_def tryS_def by (intro erases_bind) (auto intro: erases_return split: sum.splits)

lemma erases_guard [erases_intro]:
  "erases m n \<Longrightarrow> erases (audited_guard env dc s m) (with_guard env dc n)"
  unfolding audited_guard_def with_guard_def
  by (intro erases_bind) (auto intro!: erases_return erases_then erases_bind split: option.splits)

lemma erases_if [erases_intro]:
  "(b \<Longrightarrow> erases m n) \<Longrightarrow> (\<not> b \<Longrightarrow> erases m' n') \<Longrightarrow> erases (if b then m else m') (if b then n else n')"
  by simp

lemma erases_apply_failed:
  "erases (audited_apply_failed env dc p r cs applied e s) (apply_failed env dc p r cs applied e)"
  unfolding audited_apply_failed_def apply_failed_def Let_def by (intro erases_intro)

lemma erases_apply_finished:
  "erases (audited_apply_finished env dc input r cs prior s) (apply_finished env dc input r cs prior)"
  unfolding audited_apply_finished_def apply_finished_def Let_def
  by (intro erases_bind) (auto intro!: erases_intro split: sum.splits)

lemma erases_apply_push:
  "erases (audited_apply_push env dc p input r cs prior s) (apply_push env dc p input r cs prior)"
  unfolding audited_apply_push_def apply_push_def
  by (intro erases_bind) (auto intro!: erases_apply_failed erases_apply_finished split: sum.splits prod.splits)

lemma erases_apply_guarded:
  "erases (audited_apply_guarded env dc p input owner tok s) (apply_guarded env dc p input owner tok)"
  unfolding audited_apply_guarded_def apply_guarded_def by (intro erases_intro erases_apply_push)

lemma erases_apply:
  "erases (audited_apply_change_set env sv ctx input owner grant tok) (apply_change_set env sv input owner grant tok)"
  unfolding audited_apply_change_set_def apply_change_set_def Let_def split_beta
  by (intro erases_intro erases_apply_guarded)

lemma erases_stage_guarded:
  "erases (audited_stage_guarded env dc p input owner tok s) (stage_guarded env dc p input owner tok)"
  unfolding audited_stage_guarded_def stage_guarded_def Let_def
  by (intro erases_intro) (auto intro!: erases_intro split: sum.splits)

text \<open>The checks of a stage, written out in one chain.\<close>

lemma erases_move_check:
  assumes "erases k k'"
  shows "erases (audited_move_check env dc a tok s k)
     (tryS (if ca_action a = StageMove then
              tryS (lift_res (extract_move_target (ca_xpath a))) (\<lambda>(container, moved_name).
                require_move_target_exists env dc container moved_name (ca_destination a) tok)
            else ret (Inr ())) (\<lambda>_. k'))"
proof (cases "ca_action a = StageMove")
  case True
  then show ?thesis unfolding audited_move_check_def split_beta
    by (simp add: tryS_assoc) (intro erases_intro assms)
next
  case False
  then show ?thesis unfolding audited_move_check_def by (simp add: tryS_ret assms)
qed

lemma erases_stage:
  "erases (audited_stage_config env sv ctx input owner grant tok) (stage_config env sv input owner grant tok)"
  unfolding audited_stage_config_def stage_config_def stage_checks_def Let_def tryS_assoc tryS_ret prod.case
  by (intro erases_intro erases_move_check erases_stage_guarded)

lemma erases_create:
  "erases (audited_create_change_set env sv ctx input owner grant tok) (create_change_set env sv input owner grant tok)"
  unfolding audited_create_change_set_def create_change_set_def Let_def by (intro erases_intro)

lemma erases_approve:
  "erases (audited_approve_change_set env ctx oid dev approver digest)
     (approve_change_set env oid dev approver digest (map_option cc_actor ctx))"
  unfolding audited_approve_change_set_def approve_change_set_def Let_def by (intro erases_intro)

lemma erases_commit:
  "erases (audited_commit_candidate env sv ctx input owner a tok) (commit_candidate env sv input owner a tok)"
proof -
  have "erases (bind_act m (\<lambda>r. ret (f r, r))) m" for m :: "'b act" and f :: "'b \<Rightarrow> audit_scope"
    by (auto simp: erases_def run_simps split: prod.splits)
  then show ?thesis unfolding audited_commit_candidate_def commit_candidate_def Let_def
    by (intro erases_intro)
qed

lemma erases_gather:
  "erases (audited_gather_device_facts env ts ctx device tok) (gather_device_facts env ts device tok)"
  unfolding audited_gather_device_facts_def gather_device_facts_def Let_def by (intro erases_intro)

lemma erases_groups:
  "erases (audited_list_panorama_device_groups env ts ctx device tok) (list_panorama_device_groups env ts device tok)"
  unfolding audited_list_panorama_device_groups_def list_panorama_device_groups_def Let_def by (intro erases_intro)

lemma erases_templates:
  "erases (audited_list_panorama_templates env pl ts ctx device tok) (list_panorama_templates env pl ts device tok)"
  unfolding audited_list_panorama_templates_def list_panorama_templates_def Let_def split_beta by (intro erases_intro)

lemmas settled_defs =
  audited_execute_panos_op_def audited_get_panos_config_def audited_list_panos_entries_def
  audited_get_panorama_push_status_def audited_get_panos_entry_digest_def audited_get_panos_ha_state_def
  audited_get_panos_license_info_def audited_get_panos_content_status_def audited_get_panos_software_status_def
  audited_test_panos_security_policy_match_def audited_query_panos_logs_def
  audited_list_panos_rulebase_entries_def audited_candidate_fingerprint_def audited_change_set_status_def
  audited_diff_candidate_def audited_validate_candidate_def audited_discard_candidate_def
  audited_operation_status_def

lemmas erases_operations =
  erases_settled erases_apply erases_stage erases_create erases_approve erases_commit erases_gather
  erases_groups erases_templates

section \<open>Transparency of every call\<close>

lemma erases_render: "erases m n \<Longrightarrow> erases (audited_render enc m) (render enc n)"
  unfolding audited_render_def render_def by (erule erases_then) (simp add: erases_return)

lemma erases_principal: "(\<And>who. erases (k who) (k' who)) \<Longrightarrow> erases (audited_principal ext k) (with_principal ext k')"
  by (auto simp: audited_principal_def with_principal_def intro: erases_return split: sum.splits)

lemma erases_identity:
  "(\<And>who grant. erases (k who grant) (k' who grant)) \<Longrightarrow> erases (audited_identity ext k) (with_identity ext k')"
  by (auto simp: audited_identity_def with_identity_def intro: erases_return split: sum.splits)

lemma audited_call_opening:
  "(\<And>x. f x = when_authorized sb ext name dev (g x)) \<Longrightarrow> erases m (g x) \<Longrightarrow>
   erases (case authorize (sb_scope sb) ext name dev of Some denial \<Rightarrow> ret (None, denial) | None \<Rightarrow> m) (f x)"
  by (auto simp: when_authorized_def intro: erases_return split: option.splits)

lemma erases_list_devices:
  "erases (audited_operation sb env sv ts ctx ext tok ListDevices)
     (let output = list_devices ts;
          shown = (case ctx of None \<Rightarrow> output
            | Some c \<Rightarrow> filter (\<lambda>d. sl_allows (sb_scope sb) (cc_devices c) (dm_name d)) output) in
      ret (to_call_result (sb_devices_json sb) (Inr shown)))"
  by (cases ctx) (simp_all add: audited_list_devices_def Let_def erases_return)

text \<open>The translation of a request with its audit scope and the one without give the same answer and the
  same world, so what is proved of \<open>call_tool\<close> holds of the audited request.\<close>

lemma erases_call: "erases (audited_call sb env rt tok ext call) (call_tool sb env rt tok ext call)"
  unfolding audited_call_def
  apply (cases call)
  apply (simp_all only: call_name.simps call_device.simps call_tool.simps handler_defs)
  apply (rule audited_call_opening [OF refl],
     (rule erases_list_devices | simp only: audited_operation.simps settled_defs,
        intro erases_render erases_principal erases_identity erases_operations))+
  done

section \<open>The recorded outcome is the outcome\<close>

text \<open>The scope a call opens, with the metadata it holds before any check.\<close>

fun action_label :: "tool_call \<Rightarrow> string" where
  "action_label (CreateChangeSet a) = ''plan''"
| "action_label (ApproveChangeSet a b c) = ''approve''"
| "action_label (GetChangeSet a b) = ''get-change-set''"
| "action_label (ApplyChangeSet a) = ''apply''"
| "action_label (GetFingerprint a) = ''get-fingerprint''"
| "action_label (StageConfig a) = ''stage''"
| "action_label (DiffCandidate a) = ''diff''"
| "action_label (ValidateCandidate a) = ''validate''"
| "action_label (CommitCandidate a) = ''commit''"
| "action_label (DiscardCandidate a) = ''discard''"
| "action_label (GetOperation a b) = ''get-operation''"
| "action_label ListDevices = ''list''"
| "action_label (GatherFacts a) = ''gather-facts''"
| "action_label (ExecuteOp a b c d) = ''show-op''"
| "action_label (GetConfig a b c d e) = ''get-config''"
| "action_label (ListEntries a b c d e) = ''list-entries''"
| "action_label (ListDeviceGroups a) = ''list-device-groups''"
| "action_label (ListTemplates a) = ''list-templates''"
| "action_label (GetPushStatus a b) = ''get-push-status''"
| "action_label (ListRulebase a b c d e f) = ''list-rulebase-entries''"
| "action_label (GetHaState a) = ''ha-state''"
| "action_label (GetLicenses a) = ''license-info''"
| "action_label (GetContent a) = ''content-status''"
| "action_label (GetSoftware a) = ''software-status''"
| "action_label (TestPolicyMatch a) = ''policy-match''"
| "action_label (QueryLogs a b c d) = ''log-query''"
| "action_label (GetEntryDigest a b c) = ''entry-digest''"

fun call_meta :: "tool_call \<Rightarrow> (string \<times> audit_value) list" where
  "call_meta (ApproveChangeSet a b c) = [(''change_set_id'', AvText a), (''digest'', AvText c)]"
| "call_meta (GetChangeSet a b) = [(''change_set_id'', AvText a)]"
| "call_meta (ApplyChangeSet a) = [(''change_set_id'', AvText (ai_change_set a)), (''digest'', AvText (ai_digest a))]"
| "call_meta (DiffCandidate a) = [(''operation_id'', AvText (oi_operation a))]"
| "call_meta (ValidateCandidate a) = [(''operation_id'', AvText (oi_operation a))]"
| "call_meta (CommitCandidate a) = [(''operation_id'', AvText (oi_operation a))]"
| "call_meta (DiscardCandidate a) = [(''operation_id'', AvText (oi_operation a))]"
| "call_meta (GetOperation a b) = [(''operation_id'', AvText a)]"
| "call_meta _ = []"

definition scope_of_call :: "caller_ctx option \<Rightarrow> tool_call \<Rightarrow> audit_scope" where
  "scope_of_call ctx call =
     (open_scope ctx (call_name call) (action_label call) (case call_device call of None \<Rightarrow> [] | Some d \<Rightarrow> [d]))
       \<lparr>sc_meta := call_meta call\<rparr>"

text \<open>A scope that \<open>s0\<close> has become: same caller, tool, action and devices, metadata only added.\<close>

definition continues :: "audit_scope \<Rightarrow> audit_scope \<Rightarrow> bool" where
  "continues s0 s \<longleftrightarrow> s\<lparr>sc_meta := [], sc_outcome := AuditOpen\<rparr> = s0\<lparr>sc_meta := [], sc_outcome := AuditOpen\<rparr>
     \<and> take (length (sc_meta s0)) (sc_meta s) = sc_meta s0"

lemma continues_refl [simp]: "continues s s"
  by (simp add: continues_def)

lemma continues_meta [simp]: "continues s0 s \<Longrightarrow> continues s0 (audit_meta k v s)"
  by (simp add: continues_def audit_meta_def) (metis length_take min.cobounded1)

lemma continues_text [simp]: "continues s0 s \<Longrightarrow> continues s0 (audit_text k v s)"
  by (simp add: audit_text_def)

lemma continues_outcome [simp]: "continues s0 s \<Longrightarrow> continues s0 (s\<lparr>sc_outcome := x\<rparr>)"
  by (simp add: continues_def)

lemma continues_settle [simp]:
  "continues s0 s \<Longrightarrow> continues s0 (audit_succeed s)" "continues s0 s \<Longrightarrow> continues s0 (audit_fail e s)"
  "continues s0 s \<Longrightarrow> continues s0 (audit_settle r s)"
  by (simp_all add: audit_settle_def audit_succeed_def audit_fail_def split: sum.splits)

lemma outcome_simps [simp]:
  "sc_outcome (open_scope ctx t a ds) = AuditOpen" "sc_outcome (audit_meta k v s) = sc_outcome s"
  "sc_outcome (audit_text k x s) = sc_outcome s" "sc_outcome (audit_succeed s) = AuditOk"
  "sc_outcome (audit_fail e s) = AuditError e"
  "sc_outcome (audit_settle r s) = (case r of Inl e \<Rightarrow> AuditError e | Inr _ \<Rightarrow> AuditOk)"
  by (simp_all add: open_scope_def audit_meta_def audit_text_def audit_succeed_def audit_fail_def audit_settle_def
      split: sum.splits)

text \<open>Which outcome fits a result: \<open>drops\<close> allows an unsettled scope, \<open>loose\<close> an error other than the
  returned one, \<open>denies\<close> a denial.\<close>

record fit =
  ft_drops :: bool
  ft_loose :: bool
  ft_denies :: bool

fun fits :: "fit \<Rightarrow> audit_outcome \<Rightarrow> 'a res \<Rightarrow> bool" where
  "fits f AuditOk r = is_ok r"
| "fits f (AuditError e) r = (\<not> is_ok r \<and> (ft_loose f \<or> r = Inl e))"
| "fits f (AuditDenied reason) r = (\<not> is_ok r \<and> ft_denies f \<and> reason = ''direct_commit_disabled'')"
| "fits f AuditOpen r = (\<not> is_ok r \<and> ft_drops f)"

abbreviation "strict_fit \<equiv> \<lparr>ft_drops = False, ft_loose = False, ft_denies = False\<rparr>"
abbreviation "dropping_fit \<equiv> \<lparr>ft_drops = True, ft_loose = False, ft_denies = False\<rparr>"
abbreviation "apply_fit \<equiv> \<lparr>ft_drops = True, ft_loose = True, ft_denies = False\<rparr>"
abbreviation "commit_fit \<equiv> \<lparr>ft_drops = False, ft_loose = False, ft_denies = True\<rparr>"

definition records :: "audit_scope \<Rightarrow> fit \<Rightarrow> 'a audited \<Rightarrow> bool" where
  "records s0 f m \<longleftrightarrow> (\<forall>w. case run_state m w of ((s, r), _) \<Rightarrow> continues s0 s \<and> fits f (sc_outcome s) r)"

named_theorems records_intro \<open>outcomes of composed steps\<close>

lemma records_ret [records_intro]: "continues s0 s \<Longrightarrow> fits f (sc_outcome s) r \<Longrightarrow> records s0 f (ret (s, r))"
  by (simp add: records_def)

lemma records_bind [records_intro]: "(\<And>x. records s0 f (k x)) \<Longrightarrow> records s0 f (bind_act m k)"
  by (fastforce simp: records_def run_bind split: prod.splits)

lemma records_after:
  "records s0 f m \<Longrightarrow> records s0 f (bind_act m (\<lambda>x. bind_act n (\<lambda>_. ret x)))"
  by (fastforce simp: records_def run_bind split: prod.splits)




lemma records_or_drop [records_intro]:
  "continues s0 s \<Longrightarrow> sc_outcome s = AuditOpen \<Longrightarrow> ft_drops f \<Longrightarrow> (\<And>x. records s0 f (k x)) \<Longrightarrow> records s0 f (or_drop s m k)"
  unfolding or_drop_def by (intro records_bind) (auto intro: records_ret split: sum.splits)

lemma records_guard [records_intro]:
  "continues s0 s \<Longrightarrow> sc_outcome s = AuditOpen \<Longrightarrow> ft_drops f \<Longrightarrow> records s0 f m \<Longrightarrow> records s0 f (audited_guard env dc s m)"
  unfolding audited_guard_def by (intro records_bind) (auto intro: records_ret records_after split: option.splits)

lemma records_if [records_intro]:
  "(b \<Longrightarrow> records s0 f m) \<Longrightarrow> (\<not> b \<Longrightarrow> records s0 f n) \<Longrightarrow> records s0 f (if b then m else n)"
  by simp

lemma records_sum [records_intro]:
  "(\<And>e. records s0 f (g e)) \<Longrightarrow> (\<And>x. records s0 f (h x)) \<Longrightarrow> records s0 f (case_sum g h r)"
  by (cases r) auto

lemma records_prod [records_intro]: "(\<And>a b. records s0 f (g a b)) \<Longrightarrow> records s0 f (case_prod g x)"
  by (cases x) auto














section \<open>Outcomes of every call\<close>















lemmas scope_defs = scope_of_call_def operation_scope_def open_scope_def audit_text_def audit_meta_def


lemma scope_of_call_simps:
  "scope_of_call ctx (CreateChangeSet a) = open_scope ctx ''create_panos_change_set'' ''plan'' [ci_device a]"
  "scope_of_call ctx (StageConfig g) = open_scope ctx ''stage_panos_config'' ''stage'' [si_device g]"
  "scope_of_call ctx (GatherFacts d) = open_scope ctx ''gather_device_facts'' ''gather-facts'' [d]"
  "scope_of_call ctx (ListDeviceGroups d) = open_scope ctx ''list_panorama_device_groups'' ''list-device-groups'' [d]"
  "scope_of_call ctx (ListTemplates d) = open_scope ctx ''list_panorama_templates'' ''list-templates'' [d]"
  "scope_of_call ctx (CommitCandidate i) =
     operation_scope ctx ''commit_panos_candidate'' ''commit'' (oi_operation i) (oi_device i)"
  "scope_of_call ctx (ApproveChangeSet c d x) = audit_text ''digest'' x (audit_text ''change_set_id'' c
     (open_scope ctx ''approve_panos_change_set'' ''approve'' [d]))"
  "scope_of_call ctx (ApplyChangeSet p) = audit_text ''digest'' (ai_digest p) (audit_text ''change_set_id'' (ai_change_set p)
     (open_scope ctx ''apply_panos_change_set'' ''apply'' [ai_device p]))"
  by (simp_all add: scope_defs)





text \<open>Scopes that are left without an outcome: facts of an unknown device, and an apply whose digest is
  malformed.\<close>

lemma facts_scope_dropped:
  "client_of ts device = Inl e \<Longrightarrow> run_state (audited_gather_device_facts env ts ctx device tok) w =
     ((open_scope ctx ''gather_device_facts'' ''gather-facts'' [device], Inl e), w)"
  by (simp add: audited_gather_device_facts_def Let_def or_drop_def run_simps)

lemma apply_scope_dropped:
  "validate_digest (ai_digest input) ''expected_digest'' = Inl e \<Longrightarrow>
   run_state (audited_apply_change_set env sv ctx input owner grant tok) w =
     ((scope_of_call ctx (ApplyChangeSet input), Inl e), w)"
  by (simp add: audited_apply_change_set_def Let_def or_drop_def apply_checks_def run_simps scope_of_call_simps)

end
