(* ===== verification/Wire.thy ===== *)
theory Wire
  imports Server Cli Json
begin

text \<open>
  Tool calls as they arrive: the input structs of \<^verbatim>\<open>rust-panosmcp-core/src/tools.rs\<close> and
  \<open>mutation.rs\<close> with the attributes they derive their decoders from, and the dispatch by name of
  \<open>PanosMcpServer\<close>.  An argument object is a list of members; the derived decoders are those of \<open>Json\<close>.
  Every struct carries \<open>deny_unknown_fields\<close>, an \<open>Option\<close> may be absent or null, an enum is the
  snake-case name of a unit variant.
\<close>

section \<open>Addresses\<close>

text \<open>An address is read from its text and carried as the text it prints to.\<close>

fun show_hex_lower :: "nat \<Rightarrow> string" where
  "show_hex_lower n = (if n < 16 then [hex_char n] else show_hex_lower (n div 16) @ [hex_char (n mod 16)])"

declare show_hex_lower.simps [simp del]

definition show_v4 :: "nat list \<Rightarrow> string" where
  "show_v4 a = join ''.'' (map show_nat a)"

definition zero_run :: "nat list \<Rightarrow> nat" where
  "zero_run gs = length (takeWhile (\<lambda>g. g = 0) gs)"

text \<open>The start and length of the first longest run of zero groups.\<close>

definition longest_zero_run :: "nat list \<Rightarrow> nat \<times> nat" where
  "longest_zero_run gs =
     foldl (\<lambda>best i. if snd best < zero_run (drop i gs) then (i, zero_run (drop i gs)) else best) (0, 0)
       [0..<length gs]"

definition show_v6 :: "nat list \<Rightarrow> string" where
  "show_v6 gs =
     (if take 6 gs = [0, 0, 0, 0, 0, 65535]
      then ''::ffff:'' @ show_v4 (concat (map (\<lambda>g. [g div 256, g mod 256]) (drop 6 gs)))
      else
        (case longest_zero_run gs of (start, len) \<Rightarrow>
           let groups = (\<lambda>xs. join '':'' (map show_hex_lower xs)) in
           if 1 < len then groups (take start gs) @ ''::'' @ groups (drop (start + len) gs)
           else groups gs))"

fun show_ip :: "ip_addr \<Rightarrow> string" where
  "show_ip (V4 a) = show_v4 a"
| "show_ip (V6 gs) = show_v6 gs"

definition read_ip :: "jvalue \<Rightarrow> string option" where
  "read_ip v = map_option show_ip (Option.bind (read_text v) parse_ip)"

section \<open>Structs\<close>

definition read_device :: "members \<Rightarrow> string option" where
  "read_device ms = required ms ''device'' read_text"

text \<open>The nine inputs that name a device and nothing else.\<close>

definition only_device :: "(string \<Rightarrow> tool_call) \<Rightarrow> members \<Rightarrow> tool_call option" where
  "only_device call ms = struct [''device''] ms (map_option call (read_device ms))"

section \<open>Enums\<close>

definition source_variants :: "(string \<times> config_source) list" where
  "source_variants = [(''running'', Running), (''candidate'', Candidate)]"

definition protocol_variants :: "(string \<times> ip_protocol) list" where
  "protocol_variants = [(''tcp'', Tcp), (''udp'', Udp), (''icmp'', Icmp)]"

definition log_type_variants :: "(string \<times> panos_log_type) list" where
  "log_type_variants =
     [(''traffic'', LogTraffic), (''threat'', LogThreat), (''system'', LogSystem), (''config'', LogConfig)]"

definition kind_variants :: "(string \<times> rulebase_kind) list" where
  "kind_variants =
     [(''security_rules'', SecurityRules), (''nat_rules'', NatRules), (''address_objects'', AddressObjects),
      (''service_objects'', ServiceObjects)]"

definition action_variants :: "(string \<times> stage_action) list" where
  "action_variants = [(''set'', StageSet), (''delete'', StageDelete), (''move'', StageMove)]"

definition position_variants :: "(string \<times> move_position) list" where
  "position_variants =
     [(''before'', MoveBefore), (''after'', MoveAfter), (''top'', MoveTop), (''bottom'', MoveBottom)]"

definition read_source :: "members \<Rightarrow> config_source option" where
  "read_source ms = defaulted ms ''source'' (read_variant source_variants) Running"

section \<open>Change sets and the candidate lifecycle\<close>

definition action_fields :: "string list" where
  "action_fields =
     [''action'', ''xpath'', ''element'', ''destructive_confirmation'', ''move_position'', ''move_destination'']"

text \<open>The fields an action and a stage request share.\<close>

definition read_action_fields :: "members \<Rightarrow> cs_action option" where
  "read_action_fields ms =
     Option.bind (required ms ''action'' (read_variant action_variants)) (\<lambda>action.
     Option.bind (required ms ''xpath'' read_text) (\<lambda>xpath.
     Option.bind (optional ms ''element'' read_text) (\<lambda>element.
     Option.bind (optional ms ''destructive_confirmation'' read_text) (\<lambda>confirmation.
     Option.bind (optional ms ''move_position'' (read_variant position_variants)) (\<lambda>position.
     Option.bind (optional ms ''move_destination'' read_text) (\<lambda>destination.
       Some \<lparr>ca_action = action, ca_xpath = xpath, ca_element = element, ca_confirmation = confirmation,
         ca_position = position, ca_destination = destination\<rparr>))))))"

definition read_action :: "jvalue \<Rightarrow> cs_action option" where
  "read_action = read_struct action_fields read_action_fields"

definition read_create_change_set :: "members \<Rightarrow> tool_call option" where
  "read_create_change_set ms =
     struct [''device'', ''expected_candidate_fingerprint'', ''actions''] ms
      (Option.bind (read_device ms) (\<lambda>device.
       Option.bind (required ms ''expected_candidate_fingerprint'' read_text) (\<lambda>expected.
       Option.bind (required ms ''actions'' (read_list read_action)) (\<lambda>actions.
         Some (CreateChangeSet \<lparr>ci_device = device, ci_expected = expected, ci_actions = actions\<rparr>)))))"

definition read_approve_change_set :: "members \<Rightarrow> tool_call option" where
  "read_approve_change_set ms =
     struct [''device'', ''change_set_id'', ''expected_digest''] ms
      (Option.bind (read_device ms) (\<lambda>device.
       Option.bind (required ms ''change_set_id'' read_text) (\<lambda>cs.
       Option.bind (required ms ''expected_digest'' read_text) (\<lambda>digest.
         Some (ApproveChangeSet cs device digest)))))"

definition read_apply_change_set :: "members \<Rightarrow> tool_call option" where
  "read_apply_change_set ms =
     struct [''device'', ''change_set_id'', ''expected_digest'', ''expected_candidate_fingerprint''] ms
      (Option.bind (read_device ms) (\<lambda>device.
       Option.bind (required ms ''change_set_id'' read_text) (\<lambda>cs.
       Option.bind (required ms ''expected_digest'' read_text) (\<lambda>digest.
       Option.bind (required ms ''expected_candidate_fingerprint'' read_text) (\<lambda>expected.
         Some (ApplyChangeSet \<lparr>ai_device = device, ai_change_set = cs, ai_digest = digest, ai_expected = expected\<rparr>))))))"

definition read_change_set_status :: "members \<Rightarrow> tool_call option" where
  "read_change_set_status ms =
     struct [''device'', ''change_set_id''] ms
      (Option.bind (read_device ms) (\<lambda>device.
       Option.bind (required ms ''change_set_id'' read_text) (\<lambda>cs. Some (GetChangeSet cs device))))"

definition read_candidate_fingerprint :: "members \<Rightarrow> tool_call option" where
  "read_candidate_fingerprint = only_device GetFingerprint"

definition read_stage_config :: "members \<Rightarrow> tool_call option" where
  "read_stage_config ms =
     struct ([''device'', ''expected_candidate_fingerprint''] @ action_fields) ms
      (Option.bind (read_device ms) (\<lambda>device.
       Option.bind (required ms ''expected_candidate_fingerprint'' read_text) (\<lambda>expected.
       Option.bind (read_action_fields ms) (\<lambda>action.
         Some (StageConfig \<lparr>si_device = device, si_expected = expected, si_action = action\<rparr>)))))"

definition read_operation :: "(operation_input \<Rightarrow> tool_call) \<Rightarrow> members \<Rightarrow> tool_call option" where
  "read_operation call ms =
     struct [''device'', ''operation_id'', ''expected_candidate_fingerprint''] ms
      (Option.bind (read_device ms) (\<lambda>device.
       Option.bind (required ms ''operation_id'' read_text) (\<lambda>oid.
       Option.bind (required ms ''expected_candidate_fingerprint'' read_text) (\<lambda>expected.
         Some (call \<lparr>oi_device = device, oi_operation = oid, oi_expected = expected\<rparr>)))))"

definition read_operation_status :: "members \<Rightarrow> tool_call option" where
  "read_operation_status ms =
     struct [''device'', ''operation_id''] ms
      (Option.bind (read_device ms) (\<lambda>device.
       Option.bind (required ms ''operation_id'' read_text) (\<lambda>oid. Some (GetOperation oid device))))"

section \<open>Reads\<close>

definition read_list_devices :: "members \<Rightarrow> tool_call option" where
  "read_list_devices ms = struct [] ms (Some ListDevices)"

definition read_gather_facts :: "members \<Rightarrow> tool_call option" where
  "read_gather_facts = only_device GatherFacts"

definition read_execute_op :: "members \<Rightarrow> tool_call option" where
  "read_execute_op ms =
     struct [''device'', ''command'', ''max_bytes'', ''max_lines''] ms
      (Option.bind (read_device ms) (\<lambda>device.
       Option.bind (required ms ''command'' read_text) (\<lambda>command.
       Option.bind (optional ms ''max_bytes'' (read_unsigned 64)) (\<lambda>bytes.
       Option.bind (optional ms ''max_lines'' (read_unsigned 64)) (\<lambda>lns.
         Some (ExecuteOp device command bytes lns))))))"

definition read_get_config :: "members \<Rightarrow> tool_call option" where
  "read_get_config ms =
     struct [''device'', ''source'', ''xpath'', ''max_bytes'', ''max_lines''] ms
      (Option.bind (read_device ms) (\<lambda>device.
       Option.bind (read_source ms) (\<lambda>source.
       Option.bind (optional ms ''xpath'' read_text) (\<lambda>xpath.
       Option.bind (optional ms ''max_bytes'' (read_unsigned 64)) (\<lambda>bytes.
       Option.bind (optional ms ''max_lines'' (read_unsigned 64)) (\<lambda>lns.
         Some (GetConfig device source xpath bytes lns)))))))"

definition read_list_entries :: "members \<Rightarrow> tool_call option" where
  "read_list_entries ms =
     struct [''device'', ''source'', ''xpath'', ''offset'', ''limit''] ms
      (Option.bind (read_device ms) (\<lambda>device.
       Option.bind (read_source ms) (\<lambda>source.
       Option.bind (required ms ''xpath'' read_text) (\<lambda>xpath.
       Option.bind (optional ms ''offset'' (read_unsigned 64)) (\<lambda>offset.
       Option.bind (optional ms ''limit'' (read_unsigned 64)) (\<lambda>limit.
         Some (ListEntries device source xpath offset limit)))))))"

definition read_entry_digest :: "members \<Rightarrow> tool_call option" where
  "read_entry_digest ms =
     struct [''device'', ''source'', ''xpath''] ms
      (Option.bind (read_device ms) (\<lambda>device.
       Option.bind (read_source ms) (\<lambda>source.
       Option.bind (required ms ''xpath'' read_text) (\<lambda>xpath. Some (GetEntryDigest device source xpath)))))"

definition read_ha_state :: "members \<Rightarrow> tool_call option" where
  "read_ha_state = only_device GetHaState"

definition read_license_info :: "members \<Rightarrow> tool_call option" where
  "read_license_info = only_device GetLicenses"

definition read_content_status :: "members \<Rightarrow> tool_call option" where
  "read_content_status = only_device GetContent"

definition read_software_status :: "members \<Rightarrow> tool_call option" where
  "read_software_status = only_device GetSoftware"

definition match_fields :: "string list" where
  "match_fields =
     [''device'', ''source'', ''destination'', ''destination_port'', ''protocol'', ''from_zone'', ''to_zone'',
      ''application'', ''source_user'', ''vsys'']"

definition read_policy_match :: "members \<Rightarrow> tool_call option" where
  "read_policy_match ms =
     struct match_fields ms
      (Option.bind (read_device ms) (\<lambda>device.
       Option.bind (required ms ''source'' read_ip) (\<lambda>source.
       Option.bind (required ms ''destination'' read_ip) (\<lambda>destination.
       Option.bind (optional ms ''destination_port'' (read_unsigned 16)) (\<lambda>port.
       Option.bind (required ms ''protocol'' (read_variant protocol_variants)) (\<lambda>protocol.
       Option.bind (optional ms ''from_zone'' read_text) (\<lambda>from_zone.
       Option.bind (optional ms ''to_zone'' read_text) (\<lambda>to_zone.
       Option.bind (optional ms ''application'' read_text) (\<lambda>application.
       Option.bind (optional ms ''source_user'' read_text) (\<lambda>user.
       Option.bind (optional ms ''vsys'' read_text) (\<lambda>vsys.
         Some (TestPolicyMatch \<lparr>mi_device = device, mi_source = source, mi_destination = destination, mi_port = port,
           mi_protocol = protocol, mi_from = from_zone, mi_to = to_zone, mi_application = application,
           mi_user = user, mi_vsys = vsys\<rparr>))))))))))))"

definition read_query_logs :: "members \<Rightarrow> tool_call option" where
  "read_query_logs ms =
     struct [''device'', ''log_type'', ''query'', ''max_logs''] ms
      (Option.bind (read_device ms) (\<lambda>device.
       Option.bind (required ms ''log_type'' (read_variant log_type_variants)) (\<lambda>log_type.
       Option.bind (optional ms ''query'' read_text) (\<lambda>query.
       Option.bind (optional ms ''max_logs'' (read_unsigned 32)) (\<lambda>max_logs.
         Some (QueryLogs device log_type query max_logs))))))"

definition default_vsys :: string where
  "default_vsys = ''vsys1''"

definition read_list_rulebase :: "members \<Rightarrow> tool_call option" where
  "read_list_rulebase ms =
     struct [''device'', ''source'', ''kind'', ''vsys'', ''offset'', ''limit''] ms
      (Option.bind (read_device ms) (\<lambda>device.
       Option.bind (read_source ms) (\<lambda>source.
       Option.bind (required ms ''kind'' (read_variant kind_variants)) (\<lambda>kind.
       Option.bind (defaulted ms ''vsys'' read_text default_vsys) (\<lambda>vsys.
       Option.bind (optional ms ''offset'' (read_unsigned 64)) (\<lambda>offset.
       Option.bind (optional ms ''limit'' (read_unsigned 64)) (\<lambda>limit.
         Some (ListRulebase device source kind vsys offset limit))))))))"

definition read_list_device_groups :: "members \<Rightarrow> tool_call option" where
  "read_list_device_groups = only_device ListDeviceGroups"

definition read_list_templates :: "members \<Rightarrow> tool_call option" where
  "read_list_templates = only_device ListTemplates"

definition read_push_status :: "members \<Rightarrow> tool_call option" where
  "read_push_status ms =
     struct [''device'', ''job_id''] ms
      (Option.bind (read_device ms) (\<lambda>device.
       Option.bind (required ms ''job_id'' read_text) (\<lambda>job. Some (GetPushStatus device job))))"

section \<open>Dispatch\<close>

text \<open>Each handler's name and the struct of its \<open>Parameters\<close>.\<close>

definition decoders :: "(string \<times> (members \<Rightarrow> tool_call option)) list" where
  "decoders =
     [(''create_panos_change_set'', read_create_change_set),
      (''approve_panos_change_set'', read_approve_change_set),
      (''get_panos_change_set'', read_change_set_status),
      (''apply_panos_change_set'', read_apply_change_set),
      (''get_candidate_fingerprint'', read_candidate_fingerprint),
      (''stage_panos_config'', read_stage_config),
      (''diff_panos_candidate'', read_operation DiffCandidate),
      (''validate_panos_candidate'', read_operation ValidateCandidate),
      (''commit_panos_candidate'', read_operation CommitCandidate),
      (''discard_panos_candidate'', read_operation DiscardCandidate),
      (''get_panos_operation'', read_operation_status),
      (''list_devices'', read_list_devices),
      (''gather_device_facts'', read_gather_facts),
      (''execute_panos_op'', read_execute_op),
      (''get_panos_config'', read_get_config),
      (''list_panos_entries'', read_list_entries),
      (''list_panorama_device_groups'', read_list_device_groups),
      (''list_panorama_templates'', read_list_templates),
      (''get_panorama_push_status'', read_push_status),
      (''list_panos_rulebase_entries'', read_list_rulebase),
      (''get_panos_ha_state'', read_ha_state),
      (''get_panos_license_info'', read_license_info),
      (''get_panos_content_status'', read_content_status),
      (''get_panos_software_status'', read_software_status),
      (''test_panos_security_policy_match'', read_policy_match),
      (''query_panos_logs'', read_query_logs),
      (''get_panos_entry_digest'', read_entry_digest)]"

definition decode_call :: "string \<Rightarrow> members \<Rightarrow> tool_call option" where
  "decode_call name ms = Option.bind (map_of decoders name) (\<lambda>d. d ms)"

text \<open>A request the protocol layer refuses never reaches a handler.\<close>

datatype reply = InvalidRequest | Answered call_result

definition receive ::
  "server_lib \<Rightarrow> env \<Rightarrow> 't runtime \<Rightarrow> token \<Rightarrow> extensions \<Rightarrow> string \<Rightarrow> members \<Rightarrow> reply act" where
  "receive sb env rt tok ext name ms =
     (case decode_call name ms of
        None \<Rightarrow> ret InvalidRequest
      | Some call \<Rightarrow> bind_act (call_tool sb env rt tok ext call) (\<lambda>r. ret (Answered r)))"

end
