(* ===== verification/WireSpec.thy ===== *)
theory WireSpec
  imports Wire ServerSpec
begin

text \<open>
  What arrives at the handlers: the argument objects that are accepted are exactly those of the
  declared shape, every call can be written as one, and the device the access rule is asked
  about is the one the arguments name.
\<close>

section \<open>Shapes\<close>

text \<open>A value as the declared type of a field admits it.\<close>

definition is_text :: "jvalue \<Rightarrow> bool" where
  "is_text v = (case v of JText s \<Rightarrow> True | _ \<Rightarrow> False)"

definition is_unsigned :: "nat \<Rightarrow> jvalue \<Rightarrow> bool" where
  "is_unsigned bits v = (case v of JInt i \<Rightarrow> 0 \<le> i \<and> i < 2 ^ bits | _ \<Rightarrow> False)"

definition is_variant :: "string list \<Rightarrow> jvalue \<Rightarrow> bool" where
  "is_variant names v \<longleftrightarrow> (\<exists>s \<in> set names. v = JText s \<or> v = JObject [(s, JNull)])"

definition is_address :: "jvalue \<Rightarrow> bool" where
  "is_address v = (case v of JText s \<Rightarrow> parse_ip s \<noteq> None | _ \<Rightarrow> False)"

definition nullable :: "(jvalue \<Rightarrow> bool) \<Rightarrow> jvalue \<Rightarrow> bool" where
  "nullable p v \<longleftrightarrow> v = JNull \<or> p v"

datatype presence = Must | May

type_synonym schema = "(string \<times> presence \<times> (jvalue \<Rightarrow> bool)) list"

text \<open>The members have the values the schema asks for.\<close>

definition member_ok :: "members \<Rightarrow> string \<Rightarrow> presence \<Rightarrow> (jvalue \<Rightarrow> bool) \<Rightarrow> bool" where
  "member_ok ms name p ok = (case map_of ms name of None \<Rightarrow> p = May | Some v \<Rightarrow> ok v)"

definition holds :: "schema \<Rightarrow> members \<Rightarrow> bool" where
  "holds sch ms = list_all (\<lambda>(name, p, ok). member_ok ms name p ok) sch"

definition shaped :: "schema \<Rightarrow> members \<Rightarrow> bool" where
  "shaped sch ms \<longleftrightarrow> closed (map fst sch) ms \<and> holds sch ms"

definition action_schema :: schema where
  "action_schema =
     [(''action'', Must, is_variant [''set'', ''delete'', ''move'']), (''xpath'', Must, is_text),
      (''element'', May, nullable is_text), (''destructive_confirmation'', May, nullable is_text),
      (''move_position'', May, nullable (is_variant [''before'', ''after'', ''top'', ''bottom''])),
      (''move_destination'', May, nullable is_text)]"

definition is_action :: "jvalue \<Rightarrow> bool" where
  "is_action v =
     (case v of
        JObject ms \<Rightarrow> shaped action_schema ms
      | JList vs \<Rightarrow> length vs \<le> 6 \<and> holds action_schema (zip (map fst action_schema) vs)
      | _ \<Rightarrow> False)"

definition is_actions :: "jvalue \<Rightarrow> bool" where
  "is_actions v = (case v of JList vs \<Rightarrow> list_all is_action vs | _ \<Rightarrow> False)"

text \<open>The arguments of every tool.\<close>

definition device_field :: schema where
  "device_field = [(''device'', Must, is_text)]"

definition source_field :: schema where
  "source_field = [(''source'', May, is_variant [''running'', ''candidate''])]"

definition count_field :: "string \<Rightarrow> schema" where
  "count_field name = [(name, May, nullable (is_unsigned 64))]"

definition text_field :: "string \<Rightarrow> schema" where
  "text_field name = [(name, Must, is_text)]"

definition opt_text_field :: "string \<Rightarrow> schema" where
  "opt_text_field name = [(name, May, nullable is_text)]"

definition operation_schema :: schema where
  "operation_schema = device_field @ text_field ''operation_id'' @ text_field ''expected_candidate_fingerprint''"

definition schemas :: "(string \<times> schema) list" where
  "schemas =
     [(''create_panos_change_set'',
         device_field @ text_field ''expected_candidate_fingerprint'' @ [(''actions'', Must, is_actions)]),
      (''approve_panos_change_set'', device_field @ text_field ''change_set_id'' @ text_field ''expected_digest''),
      (''get_panos_change_set'', device_field @ text_field ''change_set_id''),
      (''apply_panos_change_set'',
         device_field @ text_field ''change_set_id'' @ text_field ''expected_digest''
           @ text_field ''expected_candidate_fingerprint''),
      (''get_candidate_fingerprint'', device_field),
      (''stage_panos_config'', device_field @ text_field ''expected_candidate_fingerprint'' @ action_schema),
      (''diff_panos_candidate'', operation_schema),
      (''validate_panos_candidate'', operation_schema),
      (''commit_panos_candidate'', operation_schema),
      (''discard_panos_candidate'', operation_schema),
      (''get_panos_operation'', device_field @ text_field ''operation_id''),
      (''list_devices'', []),
      (''gather_device_facts'', device_field),
      (''execute_panos_op'', device_field @ text_field ''command'' @ count_field ''max_bytes'' @ count_field ''max_lines''),
      (''get_panos_config'',
         device_field @ source_field @ opt_text_field ''xpath'' @ count_field ''max_bytes'' @ count_field ''max_lines''),
      (''list_panos_entries'',
         device_field @ source_field @ text_field ''xpath'' @ count_field ''offset'' @ count_field ''limit''),
      (''list_panorama_device_groups'', device_field),
      (''list_panorama_templates'', device_field),
      (''get_panorama_push_status'', device_field @ text_field ''job_id''),
      (''list_panos_rulebase_entries'',
         device_field @ source_field
           @ [(''kind'', Must, is_variant [''security_rules'', ''nat_rules'', ''address_objects'', ''service_objects'']),
              (''vsys'', May, is_text)]
           @ count_field ''offset'' @ count_field ''limit''),
      (''get_panos_ha_state'', device_field),
      (''get_panos_license_info'', device_field),
      (''get_panos_content_status'', device_field),
      (''get_panos_software_status'', device_field),
      (''test_panos_security_policy_match'',
         device_field
           @ [(''source'', Must, is_address), (''destination'', Must, is_address),
              (''destination_port'', May, nullable (is_unsigned 16)),
              (''protocol'', Must, is_variant [''tcp'', ''udp'', ''icmp''])]
           @ opt_text_field ''from_zone'' @ opt_text_field ''to_zone'' @ opt_text_field ''application''
           @ opt_text_field ''source_user'' @ opt_text_field ''vsys''),
      (''query_panos_logs'',
         device_field @ [(''log_type'', Must, is_variant [''traffic'', ''threat'', ''system'', ''config''])]
           @ opt_text_field ''query'' @ [(''max_logs'', May, nullable (is_unsigned 32))]),
      (''get_panos_entry_digest'', device_field @ source_field @ text_field ''xpath'')]"

definition well_typed :: "string \<Rightarrow> members \<Rightarrow> bool" where
  "well_typed name ms = (case map_of schemas name of None \<Rightarrow> False | Some sch \<Rightarrow> shaped sch ms)"

definition named_device :: "members \<Rightarrow> string option" where
  "named_device ms = (case map_of ms ''device'' of Some (JText d) \<Rightarrow> Some d | _ \<Rightarrow> None)"

section \<open>Each reader accepts what its type admits\<close>

text \<open>\<open>reads d p\<close>: the reader \<open>d\<close> accepts exactly the values of type \<open>p\<close>.\<close>

definition reads :: "(jvalue \<Rightarrow> 'a option) \<Rightarrow> (jvalue \<Rightarrow> bool) \<Rightarrow> bool" where
  "reads d p \<longleftrightarrow> (\<forall>v. (\<exists>x. d v = Some x) = p v)"

named_theorems reads_rules

lemma reads_text [reads_rules]: "reads read_text is_text"
  unfolding reads_def is_text_def by (simp split: jvalue.split)

lemma reads_unsigned [reads_rules]: "reads (read_unsigned bits) (is_unsigned bits)"
  unfolding reads_def is_unsigned_def by (simp split: jvalue.split)

lemma reads_option [reads_rules]: "reads d p \<Longrightarrow> reads (read_option d) (nullable p)"
  unfolding reads_def nullable_def
proof
  fix v
  assume "\<forall>v. (\<exists>x. d v = Some x) = p v"
  then show "(\<exists>x. read_option d v = Some x) = (v = JNull \<or> p v)"
    by (cases v) (auto simp: split_option_ex)
qed

lemma unit_variant_Some: "unit_variant v = Some s \<longleftrightarrow> v = JText s \<or> v = JObject [(s, JNull)]"
  by (cases v rule: unit_variant.cases) auto

lemma reads_variant: "reads (read_variant table) (is_variant (map fst table))"
  unfolding reads_def is_variant_def read_variant_def
  by (auto simp: bind_eq_Some_conv unit_variant_Some) (metis map_of_SomeD fst_conv image_eqI, metis map_of_SomeD fst_conv image_eqI,
     metis weak_map_of_SomeI, metis weak_map_of_SomeI)

lemma reads_ip: "reads read_ip is_address"
  unfolding reads_def read_ip_def is_address_def by (auto split: jvalue.split)

lemma those_Some: "(\<exists>ys. those xs = Some ys) \<longleftrightarrow> list_all (\<lambda>x. \<exists>y. x = Some y) xs"
  by (induction xs) (auto split: option.split)

lemma reads_list:
  "reads d p \<Longrightarrow> reads (read_list d) (\<lambda>v. case v of JList vs \<Rightarrow> list_all p vs | _ \<Rightarrow> False)"
  unfolding reads_def by (auto simp: those_Some list_all_iff split: jvalue.split)

lemma required_reads: "reads d p \<Longrightarrow> (\<exists>x. required ms name d = Some x) = member_ok ms name Must p"
  unfolding reads_def required_def member_ok_def by (simp split: option.split)

lemma defaulted_reads: "reads d p \<Longrightarrow> (\<exists>x. defaulted ms name d y = Some x) = member_ok ms name May p"
  unfolding reads_def defaulted_def member_ok_def by (simp split: option.split)

lemma optional_reads: "reads d p \<Longrightarrow> (\<exists>x. optional ms name d = Some x) = member_ok ms name May (nullable p)"
  unfolding optional_def by (rule defaulted_reads [OF reads_option])

lemmas variant_tables =
  source_variants_def protocol_variants_def log_type_variants_def kind_variants_def action_variants_def
  position_variants_def

lemmas member_rules =
  required_reads [OF reads_text] required_reads [OF reads_ip] required_reads [OF reads_variant]
  optional_reads [OF reads_text] optional_reads [OF reads_unsigned] optional_reads [OF reads_variant]
  defaulted_reads [OF reads_text] defaulted_reads [OF reads_variant]

lemma bind_defined: "(\<exists>z. Option.bind x f = Some z) \<longleftrightarrow> (\<exists>y. x = Some y \<and> (\<exists>z. f y = Some z))"
  by (cases x) auto

lemma struct_defined: "(\<exists>z. struct names ms body = Some z) \<longleftrightarrow> closed names ms \<and> (\<exists>z. body = Some z)"
  by (simp add: struct_def)

lemma action_fields_read: "(\<exists>a. read_action_fields ms = Some a) = holds action_schema ms"
  by (simp add: read_action_fields_def bind_defined member_rules variant_tables action_schema_def holds_def)

lemma reads_action: "reads read_action is_action"
  unfolding reads_def
proof
  fix v
  have f: "map fst action_schema = action_fields" "length action_fields = 6"
    by (simp_all add: action_schema_def action_fields_def)
  have "distinct action_fields" by (simp add: action_fields_def)
  then have c: "closed action_fields (zip action_fields vs)" if "length vs \<le> 6" for vs :: "jvalue list"
    using that f(2) by (auto simp: closed_def list_all_iff map_fst_zip_take dest: set_zip_leftD)
  show "(\<exists>x. read_action v = Some x) = is_action v"
    by (cases v) (auto simp: read_action_def read_struct_def is_action_def struct_defined action_fields_read shaped_def f c)
qed

lemma required_actions: "(\<exists>x. required ms name (read_list read_action) = Some x) = member_ok ms name Must is_actions"
  using required_reads [OF reads_list [OF reads_action]] unfolding is_actions_def .

section \<open>Each decoder accepts what its schema admits\<close>

definition decodes :: "(members \<Rightarrow> tool_call option) \<Rightarrow> schema \<Rightarrow> bool" where
  "decodes d sch \<longleftrightarrow> (\<forall>ms. (\<exists>c. d ms = Some c) = shaped sch ms)"

lemmas schema_parts =
  device_field_def source_field_def count_field_def text_field_def opt_text_field_def operation_schema_def

lemmas decode_rules =
  decodes_def struct_defined shaped_def holds_def bind_defined read_device_def member_rules required_actions
  variant_tables schema_parts

lemma only_device_decodes: "decodes (only_device call) device_field"
  by (simp add: only_device_def decode_rules)

lemma operation_decodes: "decodes (read_operation call) operation_schema"
  by (simp add: read_operation_def decode_rules)

lemma stage_decodes:
  "decodes read_stage_config (device_field @ text_field ''expected_candidate_fingerprint'' @ action_schema)"
proof -
  have f: "map fst action_schema = action_fields" by (simp add: action_schema_def action_fields_def)
  show ?thesis
    using action_fields_read by (simp add: read_stage_config_def decode_rules f)
qed

lemmas decoder_defs =
  read_create_change_set_def read_approve_change_set_def read_apply_change_set_def read_change_set_status_def
  read_operation_status_def read_list_devices_def read_execute_op_def read_get_config_def read_list_entries_def
  read_entry_digest_def read_policy_match_def read_query_logs_def read_list_rulebase_def read_push_status_def
  read_source_def match_fields_def

lemmas device_decoder_defs =
  read_candidate_fingerprint_def read_gather_facts_def read_ha_state_def read_license_info_def
  read_content_status_def read_software_status_def read_list_device_groups_def read_list_templates_def

lemma decoders_decode:
  "list_all2 (\<lambda>(name, d) (name', sch). name = name' \<and> decodes d sch) decoders schemas"
  unfolding decoders_def schemas_def device_decoder_defs list.rel_inject list_all2_Nil split_conv
  by (intro conjI refl TrueI only_device_decodes operation_decodes stage_decodes;
      simp add: decoder_defs decode_rules)

section \<open>A decoded call is the one that was named\<close>

lemma bind_Some: "Option.bind x f = Some z \<longleftrightarrow> (\<exists>y. x = Some y \<and> f y = Some z)"
  by (cases x) auto

lemma struct_Some: "struct names ms body = Some z \<longleftrightarrow> closed names ms \<and> body = Some z"
  by (simp add: struct_def)

lemma read_device_named: "read_device ms = Some d \<Longrightarrow> named_device ms = Some d"
  by (auto simp: read_device_def required_def named_device_def bind_Some elim!: read_text.elims split: option.splits)

lemma closed_nothing: "closed [] ms \<longleftrightarrow> ms = []"
  by (cases ms) (simp_all add: closed_def)

lemma named_device_nothing: "named_device [] = None"
  by (simp add: named_device_def)

definition faithful :: "(members \<Rightarrow> tool_call option) \<Rightarrow> string \<Rightarrow> bool" where
  "faithful d name \<longleftrightarrow> (\<forall>ms c. d ms = Some c \<longrightarrow> call_name c = name \<and> call_device c = named_device ms)"

lemma only_device_faithful:
  "(\<And>d. call_name (call d) = name \<and> call_device (call d) = Some d) \<Longrightarrow> faithful (only_device call) name"
  by (auto simp: faithful_def only_device_def struct_Some read_device_named)

lemma operation_faithful:
  "(\<And>a. call_name (call a) = name \<and> call_device (call a) = Some (oi_device a)) \<Longrightarrow> faithful (read_operation call) name"
  by (auto simp: faithful_def read_operation_def struct_Some bind_Some read_device_named)

lemma decoders_faithful: "list_all (\<lambda>(name, d). faithful d name) decoders"
  unfolding decoders_def device_decoder_defs list.pred_inject split_conv
  apply (intro conjI TrueI only_device_faithful operation_faithful; (simp; fail)?)
  apply (auto simp: faithful_def decoder_defs read_stage_config_def struct_Some bind_Some read_device_named closed_nothing
      named_device_nothing)
  done

lemma map_of_all2:
  assumes "list_all2 (\<lambda>(name, d) (name', e). name = name' \<and> R d e) xs ys"
  shows "rel_option R (map_of xs k) (map_of ys k)"
  using assms by (induction xs ys rule: list_all2_induct) auto

lemma decoded_schema: "rel_option decodes (map_of decoders name) (map_of schemas name)"
  by (rule map_of_all2 [OF decoders_decode])

lemma decode_call_defined: "(\<exists>c. decode_call name ms = Some c) = well_typed name ms"
  using decoded_schema [of name]
  by (cases "map_of decoders name"; cases "map_of schemas name") (auto simp: decode_call_def well_typed_def decodes_def)

lemma decode_call_faithful:
  assumes "decode_call name ms = Some c"
  shows "call_name c = name \<and> call_device c = named_device ms"
proof -
  obtain d where d: "map_of decoders name = Some d" "d ms = Some c"
    using assms by (auto simp: decode_call_def bind_Some)
  then have "faithful d name" using decoders_faithful by (auto simp: list_all_iff dest: map_of_SomeD)
  with d show ?thesis by (auto simp: faithful_def)
qed

text \<open>
  C24. The decoders accept exactly the argument objects of the declared shapes: every tool, and no other
  name, has a shape; an argument with an unknown or repeated member, without a required one or
  with a value of another type or range never becomes a call; and a call that is decoded is one of
  the tool that was named, on the very device the arguments name, which is what the access check in
  front of the protocol layer reads.
\<close>

theorem decode_exact:
  "(case decode_call name ms of
      None \<Rightarrow> \<not> well_typed name ms
    | Some c \<Rightarrow> well_typed name ms \<and> call_name c = name \<and> call_device c = named_device ms)
   \<and> set (map fst schemas) = set known_tools"
proof
  show "case decode_call name ms of
      None \<Rightarrow> \<not> well_typed name ms
    | Some c \<Rightarrow> well_typed name ms \<and> call_name c = name \<and> call_device c = named_device ms"
    using decode_call_defined [of name ms] decode_call_faithful [of name ms] by (auto split: option.split)
  show "set (map fst schemas) = set known_tools"
    by (simp add: schemas_def known_tools_def insert_commute)
qed

section \<open>Every call can be asked for\<close>

definition of_option :: "('a \<Rightarrow> jvalue) \<Rightarrow> 'a option \<Rightarrow> jvalue" where
  "of_option f x = (case x of None \<Rightarrow> JNull | Some y \<Rightarrow> f y)"

definition of_nat_option :: "nat option \<Rightarrow> jvalue" where
  "of_nat_option = of_option (\<lambda>n. JInt (int n))"

definition of_text_option :: "string option \<Rightarrow> jvalue" where
  "of_text_option = of_option JText"

text \<open>The name of a variant in its table.\<close>

definition variant_name :: "(string \<times> 'a) list \<Rightarrow> 'a \<Rightarrow> string" where
  "variant_name table x = (case map_of (map prod.swap table) x of None \<Rightarrow> [] | Some s \<Rightarrow> s)"

definition of_variant :: "(string \<times> 'a) list \<Rightarrow> 'a \<Rightarrow> jvalue" where
  "of_variant table x = JText (variant_name table x)"

definition action_members :: "cs_action \<Rightarrow> members" where
  "action_members a =
     [(''action'', of_variant action_variants (ca_action a)), (''xpath'', JText (ca_xpath a)),
      (''element'', of_text_option (ca_element a)),
      (''destructive_confirmation'', of_text_option (ca_confirmation a)),
      (''move_position'', of_option (of_variant position_variants) (ca_position a)),
      (''move_destination'', of_text_option (ca_destination a))]"

definition source_member :: "config_source \<Rightarrow> string \<times> jvalue" where
  "source_member s = (''source'', of_variant source_variants s)"

definition operation_members :: "operation_input \<Rightarrow> members" where
  "operation_members a =
     [(''device'', JText (oi_device a)), (''operation_id'', JText (oi_operation a)),
      (''expected_candidate_fingerprint'', JText (oi_expected a))]"

text \<open>The arguments that ask for a call.\<close>

fun call_members :: "tool_call \<Rightarrow> members" where
  "call_members (CreateChangeSet a) =
     [(''device'', JText (ci_device a)), (''expected_candidate_fingerprint'', JText (ci_expected a)),
      (''actions'', JList (map (\<lambda>x. JObject (action_members x)) (ci_actions a)))]"
| "call_members (ApproveChangeSet cs d digest) =
     [(''device'', JText d), (''change_set_id'', JText cs), (''expected_digest'', JText digest)]"
| "call_members (GetChangeSet cs d) = [(''device'', JText d), (''change_set_id'', JText cs)]"
| "call_members (ApplyChangeSet a) =
     [(''device'', JText (ai_device a)), (''change_set_id'', JText (ai_change_set a)),
      (''expected_digest'', JText (ai_digest a)), (''expected_candidate_fingerprint'', JText (ai_expected a))]"
| "call_members (GetFingerprint d) = [(''device'', JText d)]"
| "call_members (StageConfig a) =
     (''device'', JText (si_device a)) # (''expected_candidate_fingerprint'', JText (si_expected a))
       # action_members (si_action a)"
| "call_members (DiffCandidate a) = operation_members a"
| "call_members (ValidateCandidate a) = operation_members a"
| "call_members (CommitCandidate a) = operation_members a"
| "call_members (DiscardCandidate a) = operation_members a"
| "call_members (GetOperation oid d) = [(''device'', JText d), (''operation_id'', JText oid)]"
| "call_members ListDevices = []"
| "call_members (GatherFacts d) = [(''device'', JText d)]"
| "call_members (ExecuteOp d c b l) =
     [(''device'', JText d), (''command'', JText c), (''max_bytes'', of_nat_option b), (''max_lines'', of_nat_option l)]"
| "call_members (GetConfig d s x b l) =
     [(''device'', JText d), source_member s, (''xpath'', of_text_option x), (''max_bytes'', of_nat_option b),
      (''max_lines'', of_nat_option l)]"
| "call_members (ListEntries d s x f l) =
     [(''device'', JText d), source_member s, (''xpath'', JText x), (''offset'', of_nat_option f),
      (''limit'', of_nat_option l)]"
| "call_members (ListDeviceGroups d) = [(''device'', JText d)]"
| "call_members (ListTemplates d) = [(''device'', JText d)]"
| "call_members (GetPushStatus d j) = [(''device'', JText d), (''job_id'', JText j)]"
| "call_members (ListRulebase d s k v f l) =
     [(''device'', JText d), source_member s, (''kind'', of_variant kind_variants k), (''vsys'', JText v),
      (''offset'', of_nat_option f), (''limit'', of_nat_option l)]"
| "call_members (GetHaState d) = [(''device'', JText d)]"
| "call_members (GetLicenses d) = [(''device'', JText d)]"
| "call_members (GetContent d) = [(''device'', JText d)]"
| "call_members (GetSoftware d) = [(''device'', JText d)]"
| "call_members (TestPolicyMatch a) =
     [(''device'', JText (mi_device a)), (''source'', JText (mi_source a)), (''destination'', JText (mi_destination a)),
      (''destination_port'', of_nat_option (mi_port a)), (''protocol'', of_variant protocol_variants (mi_protocol a)),
      (''from_zone'', of_text_option (mi_from a)), (''to_zone'', of_text_option (mi_to a)),
      (''application'', of_text_option (mi_application a)), (''source_user'', of_text_option (mi_user a)),
      (''vsys'', of_text_option (mi_vsys a))]"
| "call_members (QueryLogs d t q m) =
     [(''device'', JText d), (''log_type'', of_variant log_type_variants t), (''query'', of_text_option q),
      (''max_logs'', of_nat_option m)]"
| "call_members (GetEntryDigest d s x) = [(''device'', JText d), source_member s, (''xpath'', JText x)]"

text \<open>The numbers of a call fit their types, its addresses are printed ones.\<close>

definition small :: "nat \<Rightarrow> nat option \<Rightarrow> bool" where
  "small bits n = (case n of None \<Rightarrow> True | Some n \<Rightarrow> n < 2 ^ bits)"

definition printed_address :: "string \<Rightarrow> bool" where
  "printed_address s \<longleftrightarrow> map_option show_ip (parse_ip s) = Some s"

fun sized :: "tool_call \<Rightarrow> bool" where
  "sized (ExecuteOp d c b l) = (small 64 b \<and> small 64 l)"
| "sized (GetConfig d s x b l) = (small 64 b \<and> small 64 l)"
| "sized (ListEntries d s x f l) = (small 64 f \<and> small 64 l)"
| "sized (ListRulebase d s k v f l) = (small 64 f \<and> small 64 l)"
| "sized (TestPolicyMatch a) =
     (printed_address (mi_source a) \<and> printed_address (mi_destination a) \<and> small 16 (mi_port a))"
| "sized (QueryLogs d t q m) = small 32 m"
| "sized c = True"

lemma read_text_option: "read_option read_text (of_text_option x) = Some x"
  by (cases x) (simp_all add: of_text_option_def of_option_def)

lemma read_nat_option: "small bits n \<Longrightarrow> read_option (read_unsigned bits) (of_nat_option n) = Some n"
  by (cases n) (simp_all add: of_nat_option_def of_option_def small_def)

definition named_by :: "(string \<times> 'a) list \<Rightarrow> bool" where
  "named_by table \<longleftrightarrow> (\<forall>x. map_of table (variant_name table x) = Some x)"

lemma read_of_variant: "named_by table \<Longrightarrow> read_variant table (of_variant table x) = Some x"
  by (simp add: named_by_def of_variant_def read_variant_def)

lemma read_of_variant_option:
  "named_by table \<Longrightarrow> read_option (read_variant table) (of_option (of_variant table) x) = Some x"
  using read_of_variant [of table] by (cases x) (simp_all add: of_option_def of_variant_def)

lemma variants_named:
  "named_by source_variants" "named_by protocol_variants" "named_by log_type_variants"
  "named_by kind_variants" "named_by action_variants" "named_by position_variants"
  unfolding named_by_def variant_name_def variant_tables
  subgoal by (intro allI, case_tac x) simp_all
  subgoal by (intro allI, case_tac x) simp_all
  subgoal by (intro allI, case_tac x) simp_all
  subgoal by (intro allI, case_tac x) simp_all
  subgoal by (intro allI, case_tac x) simp_all
  subgoal by (intro allI, case_tac x) simp_all
  done

lemma read_printed_address: "printed_address s \<Longrightarrow> read_ip (JText s) = Some s"
  by (simp add: printed_address_def read_ip_def)

lemmas member_access = required_def defaulted_def optional_def struct_def closed_def read_device_def read_source_def
  source_member_def

lemmas member_values =
  read_text_option read_nat_option read_of_variant read_of_variant_option variants_named read_printed_address

lemma read_action_members:
  "read_action_fields (action_members a) = Some a"
  "read_action (JObject (action_members a)) = Some a"
  by (simp_all add: read_action_def read_struct_def read_action_fields_def action_members_def action_fields_def
      member_access member_values)

lemma those_map: "(\<And>x. d (f x) = Some x) \<Longrightarrow> those (map (d \<circ> f) xs) = Some xs"
  by (induction xs) simp_all

lemmas lifecycle_decoders =
  read_create_change_set_def read_approve_change_set_def read_apply_change_set_def read_change_set_status_def
  read_operation_status_def read_operation_def read_stage_config_def

lemma rebuilt_inputs:
  "\<lparr>ci_device = ci_device c, ci_expected = ci_expected c, ci_actions = ci_actions c\<rparr> = c"
  "\<lparr>ai_device = ai_device a, ai_change_set = ai_change_set a, ai_digest = ai_digest a, ai_expected = ai_expected a\<rparr> = a"
  "\<lparr>si_device = si_device s, si_expected = si_expected s, si_action = si_action s\<rparr> = s"
  "\<lparr>mi_device = mi_device m, mi_source = mi_source m, mi_destination = mi_destination m, mi_port = mi_port m,
     mi_protocol = mi_protocol m, mi_from = mi_from m, mi_to = mi_to m, mi_application = mi_application m,
     mi_user = mi_user m, mi_vsys = mi_vsys m\<rparr> = m"
  by (cases c; cases a; cases s; cases m; simp)+

lemma read_only_device: "only_device call [(''device'', JText d)] = Some (call d)"
  by (simp add: only_device_def member_access)

lemma read_operation_members: "read_operation call (operation_members a) = Some (call a)"
  by (cases a) (simp add: read_operation_def operation_members_def member_access)

lemma read_stage_members:
  "read_action_fields ((''device'', v) # (''expected_candidate_fingerprint'', u) # ms) = read_action_fields ms"
  by (simp add: read_action_fields_def member_access)

lemma closed_stage: "closed (''device'' # ''expected_candidate_fingerprint'' # action_fields)
    ((''device'', v) # (''expected_candidate_fingerprint'', u) # action_members a)"
  by (simp add: closed_def action_fields_def action_members_def)

text \<open>
  C26. Every call can be asked for: the arguments \<open>call_members\<close> of a call, under its name, are decoded
  to that call, so the theorems that speak of all calls speak of requests that can arrive.
\<close>

theorem call_roundtrip:
  assumes "sized call"
  shows "decode_call (call_name call) (call_members call) = Some call"
proof (cases call)
  case (CreateChangeSet a)
  have "those (map (\<lambda>x. read_action (JObject (action_members x))) as) = Some as" for as
    using those_map [of read_action "\<lambda>x. JObject (action_members x)"] read_action_members(2) by (simp add: comp_def)
  then show ?thesis
    using CreateChangeSet by (simp add: decode_call_def decoders_def read_create_change_set_def member_access comp_def rebuilt_inputs)
next
  case (StageConfig a)
  then show ?thesis
    using read_action_members(1)
    by (simp add: decode_call_def decoders_def read_stage_config_def struct_def closed_stage read_stage_members)
      (simp add: member_access rebuilt_inputs)
qed (use assms in \<open>simp_all add: decode_call_def decoders_def device_decoder_defs decoder_defs
   read_only_device read_operation_members member_access member_values rebuilt_inputs\<close>)

definition sample_match :: tool_call where
  "sample_match = TestPolicyMatch
     \<lparr>mi_device = ''fw'', mi_source = ''10.0.0.1'', mi_destination = ''2001:db8::1'', mi_port = Some 443, mi_protocol = Tcp,
      mi_from = None, mi_to = Some ''dmz'', mi_application = None, mi_user = None, mi_vsys = None\<rparr>"

theorem call_roundtrip_witness:
  "decode_call ''test_panos_security_policy_match'' (call_members sample_match) = Some sample_match"
proof -
  have "printed_address ''10.0.0.1''" "printed_address ''2001:db8::1''" by code_simp+
  then have "sized sample_match" by (simp add: sample_match_def small_def)
  from call_roundtrip [OF this] show ?thesis by (simp add: sample_match_def)
qed

section \<open>Requests on the wire\<close>

definition allowed_request :: "scope_lib \<Rightarrow> extensions \<Rightarrow> string \<Rightarrow> members \<Rightarrow> bool" where
  "allowed_request sl ext name ms \<longleftrightarrow>
     well_typed name ms \<and> admitted sl ext name (named_device ms)
     \<and> (name \<in> set granting_tools \<longrightarrow> (\<forall>c. ext = HttpExt (Some c) \<longrightarrow> cc_grant c \<noteq> None))"

text \<open>
  C23. Nothing reaches a device unless the request is well formed and allowed: a request whose arguments
  do not have the shape of its tool, or whose caller lacks that tool, the device the
  arguments name or, for planning, staging and applying, a grant, is refused and changes nothing.
\<close>

theorem received_request_guarded:
  "allowed_request (sb_scope sb) ext name ms
   \<or> (\<exists>r. run_state (receive sb env rt tok ext name ms) w = (r, w)
        \<and> (case r of InvalidRequest \<Rightarrow> \<not> well_typed name ms | Answered (CallError m) \<Rightarrow> True | _ \<Rightarrow> False))"
proof (cases "decode_call name ms")
  case None
  then show ?thesis using decode_call_defined [of name ms] by (auto simp: receive_def run_simps allowed_request_def)
next
  case (Some call)
  then have c: "well_typed name ms" "call_name call = name" "call_device call = named_device ms"
    using decode_call_defined [of name ms] decode_call_faithful by auto
  with unpermitted_opening [of sb ext call env rt tok] Some show ?thesis
    by (auto simp: receive_def run_simps permitted_admitted allowed_request_def)
qed

end
