(* ===== verification/InventoryFileSpec.thy ===== *)
theory InventoryFileSpec
  imports InventoryFile InventorySpec
begin

text \<open>What an inventory document grants: nothing that it does not spell out.\<close>

section \<open>What a document says\<close>

definition file_fields :: "string list" where
  "file_fields = [''version'', ''devices'', ''policy'']"

definition policy_fields :: "string list" where
  "policy_fields = [''admin'', ''allowed_xpath_roots'', ''allow_delete'', ''require_config_lock'']"

text \<open>The value a document has under a name, and the members of its device entries.\<close>

definition file_member :: "jvalue \<Rightarrow> string \<Rightarrow> jvalue option" where
  "file_member v name = Option.bind (struct_members file_fields v) (\<lambda>ms. map_of ms name)"

definition file_entries :: "jvalue \<Rightarrow> members list" where
  "file_entries v =
     (case file_member v ''devices'' of
        Some (JList es) \<Rightarrow> List.map_filter (struct_members device_fields) es
      | _ \<Rightarrow> [])"

text \<open>An entry spells out the mutation policy: it has one, a lock that is not required is waived in it, and
  deletion is allowed in it.\<close>

definition spells_policy :: "members \<Rightarrow> mutation_policy \<Rightarrow> bool" where
  "spells_policy ms p \<longleftrightarrow>
     (\<exists>pms. Option.bind (map_of ms ''mutation'') (struct_members policy_fields) = Some pms
        \<and> (pol_require_lock p \<or> map_of pms ''require_config_lock'' = Some (JBool False))
        \<and> (\<not> pol_allow_delete p \<or> map_of pms ''allow_delete'' = Some (JBool True)))"

definition spells_out :: "members \<Rightarrow> device_config \<Rightarrow> bool" where
  "spells_out ms d \<longleftrightarrow>
     closed device_fields ms \<and> map_of ms ''name'' = Some (JText (dm_name (dc_metadata d)))
     \<and> (case dc_mutation d of None \<Rightarrow> True | Some p \<Rightarrow> spells_policy ms p)
     \<and> (dc_tls d = TlsSystem \<or> map_of ms ''tls'' \<noteq> None)
     \<and> (dc_authority d = AuthUnknown \<or> map_of ms ''config_authority'' \<noteq> None)"

text \<open>The document asks for the fail-open mode: by name, or by legacy deny rules of some device.\<close>

definition names_blocklist :: "jvalue \<Rightarrow> bool" where
  "names_blocklist v \<longleftrightarrow>
     (\<exists>pms m. Option.bind (file_member v ''policy'') (struct_members [''mode'', ''allow'', ''allowed_pipes'']) = Some pms
        \<and> map_of pms ''mode'' = Some m \<and> unit_variant m = Some ''blocklist'')"

definition denies_commands :: "members \<Rightarrow> bool" where
  "denies_commands ms \<longleftrightarrow>
     (\<exists>bms vs. Option.bind (map_of ms ''blocklist'')
          (struct_members [''commands'', ''xpath'', ''allow'', ''allowed_pipes'']) = Some bms
        \<and> map_of bms ''commands'' = Some (JList vs) \<and> vs \<noteq> [])"

section \<open>Reading one entry\<close>

lemma obtain_bind: "Option.bind x f = Some z \<longleftrightarrow> (\<exists>y. x = Some y \<and> f y = Some z)"
  by (cases x) auto

lemma read_struct_Some:
  "read_struct names body v = Some x \<longleftrightarrow> (\<exists>ms. struct_members names v = Some ms \<and> closed names ms \<and> body ms = Some x)"
  by (auto simp: read_struct_def struct_def obtain_bind)

lemma required_Some: "required ms name d = Some x \<longleftrightarrow> (\<exists>v. map_of ms name = Some v \<and> d v = Some x)"
  by (simp add: required_def obtain_bind)

lemma defaulted_Some:
  "defaulted ms name d y = Some x \<longleftrightarrow> map_of ms name = None \<and> x = y \<or> (\<exists>v. map_of ms name = Some v \<and> d v = Some x)"
  by (auto simp: defaulted_def split: option.splits)

lemma read_text_Some: "read_text v = Some s \<longleftrightarrow> v = JText s"
  by (cases v) auto

lemma read_bool_Some: "read_bool v = Some b \<longleftrightarrow> v = JBool b"
  by (cases v) auto

lemma read_option_Some: "read_option d v = Some (Some x) \<longleftrightarrow> v \<noteq> JNull \<and> d v = Some x"
  by (cases v) auto

lemma read_list_Some: "read_list d v = Some xs \<longleftrightarrow> (\<exists>vs. v = JList vs \<and> those (map d vs) = Some xs)"
  by (cases v) auto

lemma those_member: "those (map d vs) = Some xs \<Longrightarrow> x \<in> set xs \<Longrightarrow> \<exists>v \<in> set vs. d v = Some x"
  by (induction vs arbitrary: xs) (auto split: option.splits)

lemmas read_Some = read_struct_Some required_Some defaulted_Some read_text_Some read_bool_Some obtain_bind

lemma policy_spelled:
  assumes "optional ms ''mutation'' read_mutation_policy = Some (Some p)"
  shows "spells_policy ms p"
  using assms
  by (auto simp: optional_def defaulted_Some read_option_Some read_mutation_policy_def read_Some default_true_def
      spells_policy_def policy_fields_def)

lemma raw_device_spelled:
  assumes "read_raw_device v = Some raw"
  obtains ms where "struct_members device_fields v = Some ms" "closed device_fields ms"
    "map_of ms ''name'' = Some (JText (raw_name raw))"
    "case raw_mutation raw of None \<Rightarrow> True | Some p \<Rightarrow> spells_policy ms p"
    "raw_tls raw = TrustSystem \<or> map_of ms ''tls'' \<noteq> None"
    "raw_authority raw = AuthUnknown \<or> map_of ms ''config_authority'' \<noteq> None"
proof -
  obtain ms where ms: "struct_members device_fields v = Some ms" "closed device_fields ms"
    and b: "required ms ''name'' read_text = Some (raw_name raw)"
      "defaulted ms ''tls'' (read_tagged tls_variants) TrustSystem = Some (raw_tls raw)"
      "optional ms ''mutation'' read_mutation_policy = Some (raw_mutation raw)"
      "defaulted ms ''config_authority'' (read_variant authority_variants) AuthUnknown = Some (raw_authority raw)"
    using assms unfolding read_raw_device_def read_struct_Some obtain_bind by auto
  show thesis
  proof (rule that [OF ms])
    show "map_of ms ''name'' = Some (JText (raw_name raw))" using b(1) by (simp add: read_Some)
    show "case raw_mutation raw of None \<Rightarrow> True | Some p \<Rightarrow> spells_policy ms p"
      using b(3) policy_spelled by (auto split: option.split)
    show "raw_tls raw = TrustSystem \<or> map_of ms ''tls'' \<noteq> None" using b(2) by (auto simp: defaulted_Some)
    show "raw_authority raw = AuthUnknown \<or> map_of ms ''config_authority'' \<noteq> None"
      using b(4) by (auto simp: defaulted_Some)
  qed
qed

section \<open>From the entry to the device\<close>

lemma load_mutation_policy_same: "load_mutation_policy dev raw = Inr p \<Longrightarrow> p = raw"
  by (auto simp: load_mutation_policy_def return_iff Let_def split: if_splits)

lemma load_device_same:
  assumes "load_device lb h raw = Inr d"
  shows "dm_name (dc_metadata d) = raw_name raw" "dc_mutation d = raw_mutation raw"
    "raw_tls raw = TrustSystem \<Longrightarrow> dc_tls d = TlsSystem" "dc_authority d = raw_authority raw"
  using assms
  by (auto simp: load_device_def return_iff transpose_res_def dest: load_mutation_policy_same split: option.splits)

lemma load_devices_from:
  assumes "load_devices lb h devs raws = Inr r" and "(n, d) \<in> set r"
  shows "(n, d) \<in> set devs \<or> (\<exists>raw \<in> set raws. load_device lb h raw = Inr d)"
  using assms
proof (induction lb h devs raws arbitrary: r rule: load_devices.induct)
  case (2 lb h devs raw raws)
  obtain e where e: "load_device lb h raw = Inr e" "dm_name (dc_metadata e) \<notin> fst ` set devs"
    "load_devices lb h (insort_key fst (dm_name (dc_metadata e), e) devs) raws = Inr r"
    using 2(2) by (auto simp: and_then_Inr Let_def split: if_splits)
  with 2(1) [OF refl e(2) e(3) 2(3)] show ?case by (auto simp: set_insort_key)
qed simp

lemma mode_spelled:
  assumes "optional ms ''policy'' read_policy_config = Some policy"
    and "struct_members file_fields v = Some ms"
  shows "resolve_policy_mode policy raws = Allowlist \<or> names_blocklist v \<or> has_legacy_deny_rules raws"
proof (cases "Option.bind policy rp_mode")
  case None
  then show ?thesis by (simp add: resolve_policy_mode_def)
next
  case (Some mode)
  then obtain p where p: "policy = Some p" "rp_mode p = Some mode" by (auto simp: obtain_bind)
  show ?thesis
  proof (cases mode)
    case Blocklist
    with p assms have "names_blocklist v"
      by (auto simp: optional_def defaulted_Some read_option_Some read_policy_config_def read_Some read_variant_def
          mode_variants_def names_blocklist_def file_member_def split: if_splits)
    then show ?thesis by blast
  qed (use Some in \<open>simp add: resolve_policy_mode_def\<close>)
qed

lemma legacy_spelled:
  assumes "read_raw_device v = Some raw" and "raw_blocklist raw = Some bl" and "bl_commands bl \<noteq> []"
    and "struct_members device_fields v = Some ms"
  shows "denies_commands ms"
proof -
  have "optional ms ''blocklist'' read_blocklist = Some (Some bl)"
    using assms(1,2,4) unfolding read_raw_device_def read_struct_Some obtain_bind by auto
  with assms(3) show ?thesis
    by (auto simp: optional_def defaulted_Some read_option_Some read_blocklist_def read_Some read_texts_def read_list_Some
        denies_commands_def)
qed

text \<open>The entries of a document that is read.\<close>

lemma document_entries:
  assumes "read_inventory_file v = Some parsed"
  obtains ms where "struct_members file_fields v = Some ms"
    "optional ms ''policy'' read_policy_config = Some (ri_policy parsed)"
    "\<And>raw. raw \<in> set (ri_devices parsed) \<Longrightarrow>
       \<exists>e ems. read_raw_device e = Some raw \<and> struct_members device_fields e = Some ems \<and> ems \<in> set (file_entries v)"
proof -
  obtain ms where ms: "struct_members file_fields v = Some ms"
    and d: "required ms ''devices'' (read_list read_raw_device) = Some (ri_devices parsed)"
    and p: "optional ms ''policy'' read_policy_config = Some (ri_policy parsed)"
    using assms unfolding read_inventory_file_def read_open_struct_def struct_def obtain_bind file_fields_def
    by (auto simp: obtain_bind split: if_splits)
  obtain es where es: "map_of ms ''devices'' = Some (JList es)" "those (map read_raw_device es) = Some (ri_devices parsed)"
    using d by (auto simp: required_Some read_list_Some)
  show thesis
  proof (rule that [OF ms p])
    fix raw assume "raw \<in> set (ri_devices parsed)"
    then obtain e where e: "e \<in> set es" "read_raw_device e = Some raw" using those_member [OF es(2)] by blast
    then obtain ems where "struct_members device_fields e = Some ems" by (meson raw_device_spelled)
    with e ms es show "\<exists>e ems. read_raw_device e = Some raw \<and> struct_members device_fields e = Some ems
        \<and> ems \<in> set (file_entries v)"
      by (auto simp: file_entries_def file_member_def List.map_filter_def intro!: exI [of _ e] image_eqI [of _ _ e])
  qed
qed

text \<open>
  C25. An inventory grants nothing it does not spell out.  When a document loads, every device comes from
  an entry of its name without unknown members; the device takes mutations only if the entry has a
  mutation policy, without a configuration lock only if the policy says so, and deletions only if
  it says so; it trusts other than the system's certificates only if the entry says how; and
  commands are fail-open only if the document names that mode or some entry has deny rules.
\<close>

theorem inventory_spelled_out:
  "case load_document lb h path (JsonFile v e) of
     Inl _ \<Rightarrow> True
   | Inr iv \<Rightarrow>
       list_all (\<lambda>(_, d). list_ex (\<lambda>ms. spells_out ms d) (file_entries v)) (inv_devices iv)
       \<and> (inv_policy_mode iv = Allowlist \<or> names_blocklist v \<or> list_ex denies_commands (file_entries v))"
proof (cases "load_document lb h path (JsonFile v e)")
  case (Inr iv)
  then obtain parsed where read: "read_inventory_file v = Some parsed"
    and load: "load_with_environment lb h path parsed = Inr iv"
    by (auto simp: load_document_def return_iff)
  obtain ms where ms: "struct_members file_fields v = Some ms"
    "optional ms ''policy'' read_policy_config = Some (ri_policy parsed)"
    and from_entry: "\<And>raw. raw \<in> set (ri_devices parsed) \<Longrightarrow>
       \<exists>e ems. read_raw_device e = Some raw \<and> struct_members device_fields e = Some ems \<and> ems \<in> set (file_entries v)"
    using document_entries [OF read] by blast
  have devs: "load_devices lb h [] (ri_devices parsed) = Inr (inv_devices iv)"
    and mode: "inv_policy_mode iv = resolve_policy_mode (ri_policy parsed) (ri_devices parsed)"
    using load by (auto simp: load_with_environment_def return_iff Let_def split: option.splits)
  have "list_ex (\<lambda>ms. spells_out ms d) (file_entries v)" if nd: "(n, d) \<in> set (inv_devices iv)" for n d
  proof -
    obtain raw where raw: "raw \<in> set (ri_devices parsed)" "load_device lb h raw = Inr d"
      using load_devices_from [OF devs nd] by auto
    then obtain e ems where e: "read_raw_device e = Some raw" "struct_members device_fields e = Some ems"
      "ems \<in> set (file_entries v)" using from_entry by blast
    have "spells_out ems d"
      using raw_device_spelled [OF e(1)] e(2) load_device_same [OF raw(2)] unfolding spells_out_def
      by (metis option.inject)
    with e(3) show ?thesis by (auto simp: list_ex_iff)
  qed
  moreover have "inv_policy_mode iv = Allowlist \<or> names_blocklist v \<or> list_ex denies_commands (file_entries v)"
    using mode_spelled [OF ms(2,1), of "ri_devices parsed"] mode from_entry legacy_spelled
    by (fastforce simp: has_legacy_deny_rules_def list_ex_iff split: option.splits)
  ultimately show ?thesis using Inr by (auto simp: list_all_iff)
qed simp

section \<open>An example\<close>

definition sample_document :: jvalue where
  "sample_document = JObject
     [(''version'', JInt 1),
      (''devices'', JList [JObject
        [(''name'', JText ''fw1''), (''endpoint'', JText ''https://fw1''),
         (''api_key'', JObject [(''type'', JText ''env''), (''name'', JText ''K'')])]])]"

text \<open>A minimal entry loads, and takes no mutations.\<close>

lemma sample_document_loads:
  "case load_document null_lib sample_host ''inv.json'' (JsonFile sample_document []) of
     Inl _ \<Rightarrow> False
   | Inr iv \<Rightarrow> map (\<lambda>(n, d). (n, dc_mutation d, dc_max_concurrency d)) (inv_devices iv) = [(''fw1'', None, 4)]
       \<and> inv_policy_mode iv = Allowlist"
  by code_simp

text \<open>Members the document does not know are refused in an entry and skipped around the entries.\<close>

lemma misspelled_members:
  "read_raw_device (JObject [(''name'', JText ''fw1''), (''endpoint'', JText ''https://fw1''),
     (''api_key'', JObject [(''type'', JText ''env''), (''name'', JText ''K'')]), (''mutations'', JNull)]) = None"
  "read_inventory_file (JObject [(''version'', JInt 1), (''devices'', JList []), (''polcy'', JText ''x'')])
     = Some \<lparr>ri_version = 1, ri_devices = [], ri_policy = None\<rparr>"
  by code_simp+

text \<open>The debug text of trust material does not depend on it.\<close>

lemma tls_debug_hides:
  "tls_debug dbg (TlsCustomCa source pem) = tls_debug dbg (TlsCustomCa source pem')"
  "tls_debug dbg (TlsLeafSha256 fp) = tls_debug dbg (TlsLeafSha256 fp')"
  by simp_all

end
