(* ===== verification/KeySpec.thy ===== *)
theory KeySpec
  imports ServerSpec
begin

text \<open>
  Where the API keys of the devices can go: nowhere but into the header of a request.  Two servers
  that differ only in the keys give the same answers and have the same effects.
\<close>

named_theorems key_rules \<open>steps that do not depend on the key of the device\<close>

section \<open>Changing the keys\<close>

definition rekey :: "(device_config \<Rightarrow> string) \<Rightarrow> device_config \<Rightarrow> device_config" where
  "rekey k dc = dc\<lparr>dc_api_key := k dc\<rparr>"

definition rekey_named :: "(device_config \<Rightarrow> string) \<Rightarrow> (string \<times> device_config) list \<Rightarrow> (string \<times> device_config) list" where
  "rekey_named k = map (\<lambda>(n, dc). (n, rekey k dc))"

definition rekey_service :: "(device_config \<Rightarrow> string) \<Rightarrow> service \<Rightarrow> service" where
  "rekey_service k sv = sv\<lparr>sv_clients := rekey_named k (sv_clients sv)\<rparr>"

definition rekey_tools :: "(device_config \<Rightarrow> string) \<Rightarrow> tool_service \<Rightarrow> tool_service" where
  "rekey_tools k ts = ts\<lparr>sv_clients := rekey_named k (sv_clients ts),
     ts_inventory := (ts_inventory ts)\<lparr>inv_devices := rekey_named k (inv_devices (ts_inventory ts))\<rparr>\<rparr>"

definition rekey_runtime :: "(device_config \<Rightarrow> string) \<Rightarrow> 't runtime \<Rightarrow> 't runtime" where
  "rekey_runtime k rt = rt\<lparr>rt_current := (rt_current rt)\<lparr>sn_service :=
     (sn_service (rt_current rt))\<lparr>ps_tools := rekey_tools k (tools_of rt)\<rparr>\<rparr>\<rparr>"

text \<open>The new key is a legal header value exactly when the old one is.\<close>

definition same_header :: "env \<Rightarrow> (device_config \<Rightarrow> string) \<Rightarrow> bool" where
  "same_header env k \<longleftrightarrow> (\<forall>dc. e_header_ok env (k dc) = e_header_ok env (dc_api_key dc))"

lemma rekey_fields [simp]:
  "device_name (rekey k dc) = device_name dc" "dc_metadata (rekey k dc) = dc_metadata dc"
  "dc_max_response_bytes (rekey k dc) = dc_max_response_bytes dc" "dc_mutation (rekey k dc) = dc_mutation dc"
  "dc_authority (rekey k dc) = dc_authority dc" "mutation_lock_key (rekey k dc) = mutation_lock_key dc"
  "with_vsys (rekey k dc) fs = with_vsys dc fs"
  by (simp_all add: rekey_def device_name_def mutation_lock_key_def with_vsys_def)

lemma rekey_tools_fields [simp]:
  "base_service (rekey_tools k ts) = rekey_service k (base_service ts)"
  "ts_deny (rekey_tools k ts) = ts_deny ts" "ts_mode (rekey_tools k ts) = ts_mode ts"
  "ts_allow (rekey_tools k ts) = ts_allow ts"
  by (simp_all add: rekey_tools_def rekey_service_def base_service_def service.defs)

lemma rekey_service_fields [simp]:
  "sv_direct_commit (rekey_service k sv) = sv_direct_commit sv"
  "sv_allow_plane (rekey_service k sv) = sv_allow_plane sv"
  by (simp_all add: rekey_service_def)

lemma rekey_runtime_tools [simp]:
  "tools_of (rekey_runtime k rt) = rekey_tools k (tools_of rt)"
  "service_of (rekey_runtime k rt) = rekey_service k (service_of rt)"
  by (simp_all add: rekey_runtime_def tools_of_def service_of_def)

text \<open>A step that looks up a device and goes on with it.\<close>

lemma find_client_rekey: "find_client (rekey_service k sv) n = map_sum id (rekey k) (find_client sv n)"
proof -
  have "map_of (rekey_named k cs) n = map_option (rekey k) (map_of cs n)" for cs
    by (induction cs) (auto simp: rekey_named_def)
  then show ?thesis by (cases "map_of (sv_clients sv) n") (simp_all add: find_client_def rekey_service_def)
qed

lemma tryS_lift_map: "tryS (lift_res (map_sum id f r)) c = tryS (lift_res r) (\<lambda>x. c (f x))"
  by (cases r) (simp_all add: lift_res_def tryS_def)

lemma tryS_if: "tryS (if b then m else m') c = (if b then tryS m c else tryS m' c)"
  by simp

lemma tryS_Inl: "tryS (ret (Inl e)) c = ret (Inl e)"
  by (rule state.expand) (simp add: fun_eq_iff run_simps)

text \<open>Equal steps stay equal in the branches of a case distinction.\<close>

declare if_cong [cong] option.case_cong [cong] sum.case_cong [cong] prod.case_cong [cong]
  list.case_cong [cong] panos_error.case_cong [cong] policy_mode.case_cong [cong]

section \<open>The client\<close>

lemma same_headerD: "same_header env k \<Longrightarrow> e_header_ok env (dc_api_key (rekey k dc)) = e_header_ok env (dc_api_key dc)"
  by (simp add: same_header_def rekey_def)

lemma read_chunks_rekey: "read_chunks (rekey k dc) trunc bytes cs = read_chunks dc trunc bytes cs"
  by (induction dc trunc bytes cs rule: read_chunks.induct) simp_all

lemma read_response_rekey: "read_response (rekey k dc) trunc reply = read_response dc trunc reply"
  by (cases reply) (auto simp: read_response_def read_chunks_rekey split: option.splits)

lemma send_rekey [key_rules]:
  "same_header env k \<Longrightarrow> send env (rekey k dc) fs tok trunc = send env dc fs tok trunc"
  by (simp add: send_def transmit_def same_headerD read_response_rekey record_auth_failure_def)

lemma post_rekey [key_rules]: "same_header env k \<Longrightarrow> post env (rekey k dc) fs tok = post env dc fs tok"
  by (simp add: post_def key_rules parse_body_def record_auth_result_def record_auth_failure_def)

lemma reads_rekey [key_rules]:
  assumes "same_header env k"
  shows "post_fields env (rekey k dc) fs tok = post_fields env dc fs tok"
    "operational env (rekey k dc) c tok = operational env dc c tok"
    "configuration env (rekey k dc) b x tok = configuration env dc b x tok"
    "configuration_entries env (rekey k dc) b x tok = configuration_entries env dc b x tok"
    "check_pending_changes env (rekey k dc) tok = check_pending_changes env dc tok"
    "fixed_op env (rekey k dc) c tok = fixed_op env dc c tok"
    "job_response env (rekey k dc) c tok = job_response env dc c tok"
  using assms
  by (simp_all add: post_fields_def operational_def configuration_def configuration_entries_def
      check_pending_changes_def fixed_op_def job_response_def key_rules)

lemma poll_loop_rekey [key_rules]:
  "poll_loop env (rekey k dc) fs tok label request done n b ms = poll_loop env dc fs tok label request done n b ms"
  by (induction n arbitrary: ms) (simp_all)

lemma poll_job_rekey [key_rules]:
  "same_header env k \<Longrightarrow> poll_job env (rekey k dc) j tok = poll_job env dc j tok"
  by (simp add: poll_job_def key_rules)

lemma poll_log_job_rekey [key_rules]:
  "same_header env k \<Longrightarrow> poll_log_job env (rekey k dc) j tok = poll_log_job env dc j tok"
  by (simp add: poll_log_job_def best_effort_finish_log_job_def key_rules)

section \<open>The candidate lifecycle\<close>

lemma require_policy_rekey [key_rules]: "require_policy (rekey k dc) = require_policy dc"
  by (simp add: require_policy_def)

lemma require_operation_policy_rekey [key_rules]:
  "require_operation_policy lb r (rekey k dc) = require_operation_policy lb r dc"
  by (simp add: require_operation_policy_def key_rules)

lemma fingerprint_loop_rekey [key_rules]:
  "same_header env k \<Longrightarrow> fingerprint_loop env (rekey k dc) tok d roots = fingerprint_loop env dc tok d roots"
  by (induction roots arbitrary: d) (simp_all add: key_rules)

lemma candidate_fingerprint_rekey [key_rules]:
  "same_header env k \<Longrightarrow> candidate_fingerprint env (rekey k dc) tok = candidate_fingerprint env dc tok"
  by (simp add: candidate_fingerprint_def key_rules)

lemma candidate_rekey [key_rules]:
  assumes "same_header env k"
  shows "require_clean_candidate env (rekey k dc) tok = require_clean_candidate env dc tok"
    "acquire_config_lock env (rekey k dc) i = acquire_config_lock env dc i"
    "release_config_lock env (rekey k dc) = release_config_lock env dc"
    "release_config_lock_best_effort env (rekey k dc) = release_config_lock_best_effort env dc"
    "revert_admin_candidate env (rekey k dc) a = revert_admin_candidate env dc a"
    "read_siblings env (rekey k dc) x tok = read_siblings env dc x tok"
    "require_move_target_exists env (rekey k dc) x n d tok = require_move_target_exists env dc x n d tok"
  using assms
  by (simp_all add: require_clean_candidate_def acquire_config_lock_def release_config_lock_def
      release_config_lock_best_effort_def revert_admin_candidate_def read_siblings_def require_move_target_exists_def
      key_rules)

lemma initial_record_rekey [key_rules]: "initial_record env (rekey k dc) = initial_record env dc"
  by (simp add: initial_record_def fun_eq_iff)

lemma with_guard_rekey [key_rules]: "with_guard env (rekey k dc) m = with_guard env dc m"
  by (simp add: with_guard_def)

lemma stage_rekey [key_rules]:
  assumes "same_header env k"
  shows "stage_mutate env (rekey k dc) input r = stage_mutate env dc input r"
  using assms by (simp add: stage_mutate_def key_rules Let_def)

lemma stage_guarded_rekey [key_rules]:
  assumes "same_header env k"
  shows "stage_guarded env (rekey k dc) p input owner tok = stage_guarded env dc p input owner tok"
  using assms by (simp add: stage_guarded_def key_rules Let_def)

lemma validate_guarded_rekey [key_rules]:
  assumes "same_header env k"
  shows "validate_guarded env (rekey k dc) input r = validate_guarded env dc input r"
  using assms by (simp add: validate_guarded_def key_rules Let_def)

lemma commit_steps_rekey [key_rules]:
  assumes "same_header env k"
  shows "worker_body env (rekey k dc) command r = worker_body env dc command r"
    "worker_settle env (rekey k dc) r result = worker_settle env dc r result"
  using assms by (simp_all add: worker_body_def worker_settle_def key_rules Let_def)

lemma commit_worker_rekey [key_rules]:
  assumes "same_header env k"
  shows "commit_worker env (rekey k dc) admin r a = commit_worker env dc admin r a"
  using assms by (simp add: commit_worker_def key_rules Let_def)

lemma discard_rekey [key_rules]:
  assumes "same_header env k"
  shows "discard_settle env (rekey k dc) r fp = discard_settle env dc r fp"
    "discard_guarded env (rekey k dc) admin input r = discard_guarded env dc admin input r"
  using assms by (simp_all add: discard_settle_def discard_guarded_def key_rules Let_def)

text \<open>Moves and change sets.\<close>

lemma fetch_containers_rekey [key_rules]:
  assumes "same_header env k"
  shows "fetch_containers env (rekey k dc) tok as cs = fetch_containers env dc tok as cs"
  using assms
  by (induction as arbitrary: cs) (simp_all add: key_rules)

lemma require_move_targets_exist_rekey [key_rules]:
  assumes "same_header env k"
  shows "require_move_targets_exist env (rekey k dc) as tok = require_move_targets_exist env dc as tok"
  using assms by (simp add: require_move_targets_exist_def key_rules)

lemma abandon_rekey [key_rules]:
  assumes "same_header env k"
  shows "abandon env (rekey k dc) locked oid = abandon env dc locked oid"
    "or_abandon env (rekey k dc) locked oid m = or_abandon env dc locked oid m"
  using assms by (simp_all add: abandon_def or_abandon_def key_rules)

lemma push_actions_rekey [key_rules]:
  assumes "same_header env k"
  shows "push_actions env (rekey k dc) vs n = push_actions env dc vs n"
  using assms by (induction vs arbitrary: n) (simp_all add: key_rules)

lemma apply_steps_rekey [key_rules]:
  assumes "same_header env k"
  shows "apply_lock env (rekey k dc) p r = apply_lock env dc p r"
    "apply_ready env (rekey k dc) input = apply_ready env dc input"
    "apply_failed env (rekey k dc) p r cs n e = apply_failed env dc p r cs n e"
    "apply_finished env (rekey k dc) input r cs prior = apply_finished env dc input r cs prior"
  using assms
  by (simp_all add: apply_lock_def apply_ready_def apply_failed_def apply_finished_def key_rules Let_def)

lemma apply_push_rekey [key_rules]:
  assumes "same_header env k"
  shows "apply_push env (rekey k dc) p input r cs prior = apply_push env dc p input r cs prior"
  using assms by (simp add: apply_push_def key_rules)

lemma apply_record_rekey [key_rules]: "apply_record env (rekey k dc) p input owner oid cs = apply_record env dc p input owner oid cs"
  by (simp add: apply_record_def key_rules)

lemma apply_guarded_rekey [key_rules]:
  assumes "same_header env k"
  shows "apply_guarded env (rekey k dc) p input owner tok = apply_guarded env dc p input owner tok"
  using assms by (simp add: apply_guarded_def key_rules)

section \<open>The service\<close>

lemmas through_lookup = find_client_rekey tryS_lift_map tryS_assoc tryS_ret tryS_if tryS_Inl

lemma commit_gate_rekey [key_rules]:
  "commit_gate (rekey_service k sv) dev r = map_sum id (rekey k) (commit_gate sv dev r)"
  by (cases "find_client sv dev")
    (auto simp: commit_gate_def find_client_rekey split: option.split)

lemma lifecycle_rekey [key_rules]:
  assumes "same_header env k"
  shows "diff_candidate env (rekey_service k sv) oi owner tok = diff_candidate env sv oi owner tok"
    "validate_candidate env (rekey_service k sv) oi owner tok = validate_candidate env sv oi owner tok"
    "commit_candidate env (rekey_service k sv) oi owner a tok = commit_candidate env sv oi owner a tok"
    "discard_candidate env (rekey_service k sv) oi owner = discard_candidate env sv oi owner"
    "candidate_fingerprint_tool env (rekey_service k sv) dev tok = candidate_fingerprint_tool env sv dev tok"
  using assms
  by (simp_all add: diff_candidate_def validate_candidate_def commit_candidate_def commit_record_def
      discard_candidate_def candidate_fingerprint_tool_def through_lookup key_rules Let_def)

lemma stage_config_rekey [key_rules]:
  assumes "same_header env k"
  shows "stage_config env (rekey_service k sv) si owner grant tok = stage_config env sv si owner grant tok"
  using assms
  by (simp add: stage_config_def stage_checks_def through_lookup key_rules Let_def)

lemma create_change_set_rekey [key_rules]:
  assumes "same_header env k"
  shows "create_change_set env (rekey_service k sv) ci owner grant tok = create_change_set env sv ci owner grant tok"
  using assms
  by (simp add: create_change_set_def create_plan_def create_checks_def through_lookup key_rules)

lemma apply_change_set_rekey [key_rules]:
  assumes "same_header env k"
  shows "apply_change_set env (rekey_service k sv) ai owner grant tok = apply_change_set env sv ai owner grant tok"
  using assms
  by (simp add: apply_change_set_def apply_checks_def through_lookup key_rules)

section \<open>The reads\<close>

lemma policy_rekey [key_rules]:
  "check_command_policy lb pl (rekey_tools k ts) dev command = check_command_policy lb pl ts dev command"
  "check_xpath_policy lb pl (rekey_tools k ts) dev xpath = check_xpath_policy lb pl ts dev xpath"
  by (simp_all add: check_command_policy_def command_decision_def check_xpath_policy_def)

lemma client_of_rekey [key_rules]: "client_of (rekey_tools k ts) n = map_sum id (rekey k) (client_of ts n)"
  by (simp add: client_of_def find_client_rekey)

lemma operational_tools_rekey [key_rules]:
  assumes "same_header env k"
  shows "gather_device_facts env (rekey_tools k ts) dev tok = gather_device_facts env ts dev tok"
    "execute_panos_op env pl (rekey_tools k ts) dev command bytes lns tok = execute_panos_op env pl ts dev command bytes lns tok"
    "get_panos_ha_state env (rekey_tools k ts) dev tok = get_panos_ha_state env ts dev tok"
    "get_panos_license_info env (rekey_tools k ts) dev tok = get_panos_license_info env ts dev tok"
    "get_panos_content_status env (rekey_tools k ts) dev tok = get_panos_content_status env ts dev tok"
    "get_panos_software_status env (rekey_tools k ts) dev tok = get_panos_software_status env ts dev tok"
    "list_panorama_device_groups env (rekey_tools k ts) dev tok = list_panorama_device_groups env ts dev tok"
    "get_panorama_push_status env (rekey_tools k ts) dev job tok = get_panorama_push_status env ts dev job tok"
    "test_panos_security_policy_match env pl (rekey_tools k ts) m tok = test_panos_security_policy_match env pl ts m tok"
    "query_panos_logs env (rekey_tools k ts) dev t query n tok = query_panos_logs env ts dev t query n tok"
  using assms
  by (simp_all add: gather_device_facts_def execute_panos_op_def get_panos_ha_state_def get_panos_license_info_def
      get_panos_content_status_def get_panos_software_status_def list_panorama_device_groups_def
      get_panorama_push_status_def test_panos_security_policy_match_def query_panos_logs_def
      through_lookup key_rules Let_def)

lemma configuration_tools_rekey [key_rules]:
  assumes "same_header env k"
  shows "get_panos_config env pl (rekey_tools k ts) dev src xpath bytes lns tok = get_panos_config env pl ts dev src xpath bytes lns tok"
    "list_page env pl (rekey_tools k ts) dev src xp off lim tok = list_page env pl ts dev src xp off lim tok"
    "get_panos_entry_digest env pl (rekey_tools k ts) dev src xp tok = get_panos_entry_digest env pl ts dev src xp tok"
    "read_panorama_template_variables env pl (rekey_tools k ts) dev n tok = read_panorama_template_variables env pl ts dev n tok"
  using assms
  by (simp_all add: get_panos_config_def list_page_def get_panos_entry_digest_def read_panorama_template_variables_def
      through_lookup key_rules Let_def)

lemma read_templates_rekey [key_rules]:
  assumes "same_header env k"
  shows "read_templates env pl (rekey_tools k ts) dev tok acc ns = read_templates env pl ts dev tok acc ns"
  using assms by (induction ns arbitrary: acc) (simp_all add: key_rules)

lemma list_tools_rekey [key_rules]:
  assumes "same_header env k"
  shows "list_panos_entries env pl (rekey_tools k ts) dev src xp off lim tok = list_panos_entries env pl ts dev src xp off lim tok"
    "list_panos_rulebase_entries env pl (rekey_tools k ts) dev src kind vsys off lim tok
       = list_panos_rulebase_entries env pl ts dev src kind vsys off lim tok"
    "list_panorama_templates env pl (rekey_tools k ts) dev tok = list_panorama_templates env pl ts dev tok"
  using assms
  by (simp_all add: list_panos_entries_def list_panos_rulebase_entries_def list_panorama_templates_def
      read_all_templates_def through_lookup key_rules)

lemma list_devices_rekey [key_rules]: "list_devices (rekey_tools k ts) = list_devices ts"
  by (simp add: list_devices_def inventory_metadata_def rekey_tools_def rekey_named_def rekey_def split_beta comp_def)

section \<open>All tools\<close>

text \<open>
  C22. An API key goes nowhere but into the header of a request.  For any two runtimes that
  differ only in the keys of their devices, both keys of a device being legal header values or
  neither, every tool call ends in the same world and with the same answer to the client: no
  effect (a form field, a record of the coordinator, a receipt, a lock) and no byte of an output
  or error text is a function of a key, as long as the devices answer alike.
\<close>

theorem api_keys_confined:
  assumes "same_header env k"
  shows "run_state (call_tool sb env (rekey_runtime k rt) tok ext call) w = run_state (call_tool sb env rt tok ext call) w"
  using assms
  by (cases call)
    (simp_all add: create_panos_change_set_def approve_panos_change_set_def get_panos_change_set_def
      apply_panos_change_set_def get_candidate_fingerprint_def stage_panos_config_def diff_panos_candidate_def
      validate_panos_candidate_def commit_panos_candidate_def discard_panos_candidate_def get_panos_operation_def
      list_devices_tool_def gather_device_facts_tool_def execute_panos_op_tool_def get_panos_config_tool_def
      list_panos_entries_tool_def list_panorama_device_groups_tool_def list_panorama_templates_tool_def
      get_panorama_push_status_tool_def list_panos_rulebase_entries_tool_def get_panos_ha_state_tool_def
      get_panos_license_info_tool_def get_panos_content_status_tool_def get_panos_software_status_tool_def
      test_panos_security_policy_match_tool_def query_panos_logs_tool_def get_panos_entry_digest_tool_def key_rules)

theorem api_keys_confined_witness:
  "run_state (call_tool plain_server (script_env\<lparr>e_header_ok := \<lambda>_. True\<rparr>) (rekey_runtime (\<lambda>_. ''other'') sample_runtime)
       Caller StdioExt (GatherFacts ''fw1'')) start_world
     = run_state (call_tool plain_server (script_env\<lparr>e_header_ok := \<lambda>_. True\<rparr>) sample_runtime
       Caller StdioExt (GatherFacts ''fw1'')) start_world"
  by (rule api_keys_confined) (simp add: same_header_def)

end
