(* ===== verification/Once.thy ===== *)
theory Once
  imports StateMachine ServerSpec
begin

text \<open>
  Whole histories: any number of tool calls, one after another, against one store.  A commit of an
  operation is sent at most once in such a history.  Two commits of one operation that are let in
  side by side are both sent: the check and the claim are two steps of the store.
\<close>

section \<open>Histories\<close>

text \<open>The store after a list of events, newest first.\<close>

primrec stored :: "event list \<Rightarrow> string \<Rightarrow> lifecycle_state option" where
  "stored [] = (\<lambda>_. None)"
| "stored (e # log) =
     (case e of
        OpInsert r None \<Rightarrow> (stored log)(op_id r := Some (op_state r))
      | OpUpdate r None \<Rightarrow> (stored log)(op_id r := Some (op_state r))
      | OpRemove i \<Rightarrow> (stored log)(i := None)
      | _ \<Rightarrow> stored log)"

text \<open>The coordinator answered as a store: a record that is read is the one last written under its id,
  and an insert is accepted only for an id that is free.\<close>

primrec store_history :: "event list \<Rightarrow> bool" where
  "store_history [] = True"
| "store_history (e # log) =
     (store_history log
      \<and> (case e of
           OpRead i w d (Inr r) \<Rightarrow> stored log (op_id r) = Some (op_state r)
         | OpInsert r None \<Rightarrow> stored log (op_id r) = None
         | _ \<Rightarrow> True))"

text \<open>A commit request belongs to the operation whose record was written last before it.\<close>

definition is_commit :: "event \<Rightarrow> bool" where
  "is_commit e = (case e of Sent d fs \<Rightarrow> kind_of fs = Commit | _ \<Rightarrow> False)"

primrec last_update :: "event list \<Rightarrow> string option" where
  "last_update [] = None"
| "last_update (e # log) = (case e of OpUpdate r None \<Rightarrow> Some (op_id r) | _ \<Rightarrow> last_update log)"

primrec commits :: "string \<Rightarrow> event list \<Rightarrow> nat" where
  "commits i [] = 0"
| "commits i (e # log) = commits i log + (if is_commit e \<and> last_update log = Some i then 1 else 0)"

text \<open>No commit request is sent for a record that is not stored as committing.\<close>

primrec owned :: "event list \<Rightarrow> bool" where
  "owned [] = True"
| "owned (e # log) = (owned log
     \<and> (is_commit e \<longrightarrow> (\<exists>i. last_update log = Some i \<and> stored log i = Some Committing)))"

section \<open>The invariant of a history\<close>

definition past_commit :: "lifecycle_state set" where
  "past_commit = {Committing, Committed, Failed, Indeterminate, Discarded}"

definition in_focus :: "event list \<Rightarrow> focus \<Rightarrow> bool" where
  "in_focus log f \<longleftrightarrow> stored log (fc_id f) = Some (fc_state f)
     \<and> (fc_phase f \<noteq> Untouched \<longrightarrow> last_update log = Some (fc_id f))
     \<and> (fc_phase f = Opened \<longrightarrow> commits (fc_id f) log = 0)"

definition once :: "event list \<Rightarrow> bool" where
  "once log \<longleftrightarrow> owned log
     \<and> (\<forall>i. commits i log = 0 \<or> commits i log = 1 \<and> stored log i \<in> Some ` past_commit)"

lemma onceD: "once log \<Longrightarrow> stored log i = Some s \<Longrightarrow> s \<notin> past_commit \<Longrightarrow> commits i log = 0"
  "once log \<Longrightarrow> stored log i = None \<Longrightarrow> commits i log = 0"
  by (auto simp: once_def)

text \<open>An event that is neither a commit nor a write of the store.\<close>

fun mute :: "event \<Rightarrow> bool" where
  "mute (Sent d fs) = (kind_of fs \<noteq> Commit)"
| "mute (OpInsert r None) = False"
| "mute (OpUpdate r None) = False"
| "mute (OpRemove i) = False"
| "mute e = True"

lemma mute_keeps:
  assumes "mute e"
  shows "stored (e # log) = stored log" "last_update (e # log) = last_update log" "commits i (e # log) = commits i log"
    "owned (e # log) = owned log" "once (e # log) = once log" "in_focus (e # log) f = in_focus log f"
proof -
  show c: "stored (e # log) = stored log" "last_update (e # log) = last_update log" for log
    using assms by (cases e rule: mute.cases; simp)+
  have n: "\<not> is_commit e" using assms by (cases e rule: mute.cases) (auto simp: is_commit_def)
  then show "commits i (e # log) = commits i log" "owned (e # log) = owned log" by simp_all
  from n c show "once (e # log) = once log" "in_focus (e # log) f = in_focus log f"
    by (simp_all only: once_def in_focus_def commits.simps owned.simps simp_thms if_False add_0_right)
qed

lemma commit_sent:
  assumes "once log" and "in_focus log f" and "fc_state f = Committing" and "fc_phase f = Opened" and "kind_of fs = Commit"
  shows "once (Sent d fs # log) \<and> in_focus (Sent d fs # log) (f\<lparr>fc_phase := Posted\<rparr>)"
  using assms by (auto simp: once_def in_focus_def is_commit_def past_commit_def)

lemma record_inserted:
  assumes "once log" and "stored log (op_id r) = None" and "op_state r = Staging"
  shows "once (OpInsert r None # log) \<and> in_focus (OpInsert r None # log) (fc (op_id r) Staging Untouched)"
  using assms onceD(2) [OF assms(1,2)] by (auto simp: once_def in_focus_def is_commit_def)

lemma record_removed:
  assumes "once log" and "in_focus log f" and "fc_state f = Staging"
  shows "once (OpRemove (fc_id f) # log)"
proof -
  have "commits (fc_id f) log = 0"
    using assms by (intro onceD(1)) (auto simp: in_focus_def past_commit_def)
  with assms(1) show ?thesis by (auto simp: once_def is_commit_def)
qed

text \<open>An accepted update: a record whose commit was sent stays past it, any other was not sent.\<close>

lemma record_updated:
  assumes "once log" and "in_focus log f" and "may_store f r"
  shows "once (OpUpdate r None # log) \<and> in_focus (OpUpdate r None # log) (stored_as f r)"
proof -
  have i: "op_id r = fc_id f" and step: "lifecycle_step (fc_state f) (op_state r)"
    and returned: "fc_state f = Committing \<Longrightarrow> op_state r = Validated \<Longrightarrow> fc_phase f = Opened"
    using assms(3) by (auto simp: may_store_def)
  have past: "op_state r \<in> past_commit" if "commits (fc_id f) log \<noteq> 0"
  proof -
    have "fc_state f \<in> past_commit" using assms(1,2) that onceD(1) unfolding in_focus_def by metis
    moreover have "fc_phase f \<noteq> Opened" using assms(2) that by (auto simp: in_focus_def)
    ultimately show ?thesis using step returned by (auto simp: past_commit_def)
  qed
  have fresh: "commits (fc_id f) log = 0" if "fc_state f = Validated"
    using assms(1,2) that by (intro onceD(1)) (auto simp: in_focus_def past_commit_def)
  have "commits (fc_id f) log = 0 \<or> commits (fc_id f) log = 1" using assms(1) by (auto simp: once_def)
  then show ?thesis
    using assms(1,2) past fresh by (auto simp: once_def in_focus_def is_commit_def stored_as_def i)
qed

lemma once_step:
  assumes "once log" and "\<forall>f. s = Some f \<longrightarrow> in_focus log f"
    and "life_delta s e = Some s'" and "store_history (e # log)"
  shows "once (e # log) \<and> (\<forall>f. s' = Some f \<longrightarrow> in_focus (e # log) f)"
proof (cases "mute e")
  case True
  note keep = mute_keeps [OF True]
  show ?thesis
  proof (cases "s' = s")
    case False
    then obtain i w d r where "e = OpRead i w d (Inr r)" "s' = Some (fc (op_id r) (op_state r) Untouched)"
      using assms(3) True by (cases e rule: mute.cases) (auto split: sum.splits if_splits option.splits)
    with assms(1,4) keep show ?thesis by (auto simp: in_focus_def)
  qed (use assms(1,2) keep in simp)
next
  case False
  then have "\<not> mute e" .
  then consider (sent) d fs where "e = Sent d fs" "kind_of fs = Commit" | (inserted) r where "e = OpInsert r None"
    | (updated) r where "e = OpUpdate r None" | (removed) i where "e = OpRemove i"
    by (cases e rule: mute.cases) auto
  then show ?thesis
    by cases (use assms commit_sent record_inserted record_updated record_removed in \<open>auto split: option.splits if_splits\<close>)
qed

lemma store_history_suffix: "store_history (es @ log) \<Longrightarrow> store_history log"
  by (induction es) auto

lemma once_accept:
  assumes "accept life_delta s (rev es) = Some q" and "once log" and "\<forall>f. s = Some f \<longrightarrow> in_focus log f"
    and "store_history (es @ log)"
  shows "once (es @ log) \<and> (\<forall>f. q = Some f \<longrightarrow> in_focus (es @ log) f)"
  using assms(1,4)
proof (induction es arbitrary: q)
  case (Cons e es)
  then obtain s' where s': "accept life_delta s (rev es) = Some s'" "life_delta s' e = Some q"
    by (auto simp: accept_append split: option.splits)
  have "once (es @ log) \<and> (\<forall>f. s' = Some f \<longrightarrow> in_focus (es @ log) f)"
    using Cons.IH [OF s'(1)] Cons.prems(2) by simp
  with once_step [of "es @ log" s' e q] s'(2) Cons.prems(2) show ?case by simp
qed (use assms(2,3) in auto)

lemma once_run:
  assumes "lives None m" and "once (wlog w)" and "store_history (wlog (snd (run_state m w)))"
  shows "once (wlog (snd (run_state m w)))"
proof -
  obtain es q where "wlog (snd (run_state m w)) = es @ wlog w" "accept life_delta None (rev es) = Some q"
    using assms(1) unfolding obeys_def by blast
  with once_accept [of None es q "wlog w"] assms(2,3) show ?thesis by simp
qed

section \<open>Every tool keeps to the lifecycle\<close>

text \<open>A tool that only looks.\<close>

lemma not_vetted_commit: "kind_of fs = Commit \<Longrightarrow> \<not> vetted lb (Sent d fs)"
  by (auto simp: vetted_def kind_op split: if_splits)

lemma looked_lives:
  assumes "accept (look_delta lb) p es = Some q"
  shows "\<exists>s'. accept life_delta s es = Some s'"
  using assms
proof (induction es arbitrary: p s)
  case (Cons e es)
  then obtain p' where e: "look_delta lb p e = Some p'" "accept (look_delta lb) p' es = Some q"
    by (auto split: option.splits)
  have quiet: "\<not> effectful e \<or> vetted lb e" using e(1) by (auto simp: look_delta_def split: if_splits)
  have "kind_of fs \<noteq> Commit" if "e = Sent d fs" for d fs
    using quiet that not_vetted_commit by auto
  moreover have "e \<noteq> OpInsert r x" "e \<noteq> OpUpdate r x" "e \<noteq> OpRemove i" for r x i
    using quiet by (auto simp: vetted_def)
  ultimately have "\<exists>s'. life_delta s e = Some s'"
  proof (cases e)
    case (OpRead i w d r)
    then show ?thesis by (cases r) auto
  qed auto
  then obtain s' where "life_delta s e = Some s'" by blast
  with Cons.IH [OF e(2), of s'] show ?case by simp
qed simp

lemma look_lives: "obeys (look_delta lb) p m Q \<Longrightarrow> lives s m"
  unfolding obeys_def using looked_lives by meson

lemma lives_render: "lives s m \<Longrightarrow> lives s (render enc m)"
  unfolding render_def by (erule lives_bind) (rule obeys_return, rule TrueI)

lemma lives_authorized: "lives s k \<Longrightarrow> lives s (when_authorized sb ext tool device k)"
  by (auto simp: when_authorized_def intro: obeys_return split: option.splits)

lemma lives_principal: "(\<And>who. lives s (k who)) \<Longrightarrow> lives s (with_principal ext k)"
  by (auto simp: with_principal_def intro: obeys_return split: sum.splits)

lemma lives_identity: "(\<And>who grant. lives s (k who grant)) \<Longrightarrow> lives s (with_identity ext k)"
  by (auto simp: with_identity_def intro: obeys_return split: sum.splits)

lemmas lives_tools = lives_stage lives_diff lives_validate lives_commit lives_discard lives_status lives_apply
  life.keeps_create [THEN lives_quiet] life.keeps_approve [THEN lives_quiet] life.keeps_cs_status [THEN lives_quiet]
  life.keeps_fingerprint_tool [THEN lives_quiet] life.keeps_logs [THEN lives_quiet]

lemma lives_call: "lives None (call_tool sb env rt tok ext call)"
proof (cases "call_name call \<in> set mutation_tools")
  case True
  then show ?thesis
    by (cases call)
       (auto simp: mutation_tools_def handler_defs intro!: lives_authorized lives_principal lives_identity lives_render lives_tools)
next
  case False
  show ?thesis by (rule look_lives [OF reading_call_looks [OF False]])
qed

section \<open>One commit per operation\<close>

text \<open>A request to the server, in its environment, with the snapshot and the caller it is served for.\<close>

record 't request =
  rq_server :: server_lib
  rq_env :: env
  rq_runtime :: "'t runtime"
  rq_token :: token
  rq_ext :: extensions
  rq_call :: tool_call

definition serve :: "'t request \<Rightarrow> world \<Rightarrow> world" where
  "serve q w = snd (run_state (call_tool (rq_server q) (rq_env q) (rq_runtime q) (rq_token q) (rq_ext q) (rq_call q)) w)"

lemma serve_extends: "\<exists>es. wlog (serve q w) = es @ wlog w"
  using lives_call unfolding serve_def obeys_def by meson

lemma once_served:
  "once (wlog w) \<Longrightarrow> store_history (wlog (fold serve qs w)) \<Longrightarrow> once (wlog (fold serve qs w))"
proof (induction qs arbitrary: w)
  case (Cons q qs)
  have "\<exists>es. wlog (fold serve qs v) = es @ wlog v" for v
  proof (induction qs arbitrary: v)
    case (Cons q' qs')
    obtain es fs where "wlog (fold serve qs' (serve q' v)) = es @ wlog (serve q' v)" "wlog (serve q' v) = fs @ wlog v"
      using Cons.IH serve_extends by metis
    then show ?case by (intro exI [of _ "es @ fs"]) simp
  qed simp
  then have "store_history (wlog (serve q w))"
    using Cons.prems(2) store_history_suffix by (metis fold_simps(2))
  then have "once (wlog (serve q w))"
    using once_run [OF lives_call Cons.prems(1)] by (simp add: serve_def)
  with Cons.IH Cons.prems(2) show ?case by simp
qed simp

lemma once_start:
  assumes "list_all (\<lambda>e. \<not> is_commit e) log"
  shows "once log"
proof -
  have "owned log \<and> (\<forall>i. commits i log = 0)" using assms by (induction log) auto
  then show ?thesis by (simp add: once_def)
qed

text \<open>
  C5. A commit is sent at most once, and only for an operation that is stored as committing.  In every
  history of tool calls served one after another - any tools and callers, any snapshots and
  environments, so also across reloads - in which the coordinator answers as a store, the commit requests
  of one operation add up to one or none, however often the commit is asked for again, whatever the
  devices answer, and also when the store refuses updates.  That the calls do not overlap is needed:
  \<open>overtaken_commit_sent_twice\<close> below.
\<close>

theorem commit_sent_once:
  assumes "store_history (wlog (fold serve qs w))" and "list_all (\<lambda>e. \<not> is_commit e) (wlog w)"
  shows "owned (wlog (fold serve qs w)) \<and> commits i (wlog (fold serve qs w)) \<le> 1"
proof -
  have "once (wlog (fold serve qs w))" using once_served [OF once_start [OF assms(2)] assms(1)] .
  then show ?thesis by (auto simp: once_def dest: spec [where x = i])
qed

section \<open>Two commits of one operation\<close>

text \<open>The coordinator as a store that holds one operation, staged and validated, and a device whose
  answer to the commit request is lost.\<close>

definition store_env :: env where
  "store_env = script_env\<lparr>e_net := \<lambda>_ _ _. NetTimeout, e_evidence_on := False, e_xml_escape := \<lambda>_. [],
     e_coord_record := \<lambda>log _ _ _. case stored log ''op'' of
       None \<Rightarrow> Inl (''operation_id'', ''unknown'')
     | Some s \<Rightarrow> Inr (script_op\<lparr>op_state := s, op_change_set := Some ''cs''\<rparr>)\<rparr>"

definition store_world :: world where
  "store_world = start_world\<lparr>wlog := [OpInsert (script_op\<lparr>op_state := Validated\<rparr>) None]\<rparr>"

definition rootless_device :: device_config where
  "rootless_device = sample_device\<lparr>dc_mutation := Some (sample_policy\<lparr>pol_roots := []\<rparr>)\<rparr>"

definition rootless_runtime :: "unit runtime" where
  "rootless_runtime = from_parts \<lparr>ps_tools = sample_tools\<lparr>sv_clients := [(''fw1'', rootless_device)]\<rparr>,
     ps_coordinator = coordinator_settings default_options\<rparr> None"

definition sample_commit :: operation_input where
  "sample_commit = \<lparr>oi_device = ''fw1'', oi_operation = ''op'', oi_expected = script_hash\<rparr>"

definition commit_request_of :: "unit request" where
  "commit_request_of = \<lparr>rq_server = plain_server, rq_env = store_env, rq_runtime = rootless_runtime,
     rq_token = Caller, rq_ext = StdioExt, rq_call = CommitCandidate sample_commit\<rparr>"

abbreviation sample_run :: "commit_output res act" where
  "sample_run \<equiv> commit_candidate store_env (service_of rootless_runtime) sample_commit ''local-stdio'' sample_attribution Caller"

lemma serve_commit: "serve commit_request_of w = snd (run_state sample_run w)"
  by (simp add: serve_def commit_request_of_def commit_panos_candidate_def when_authorized_def authorize_def caller_def
      is_http_def with_principal_def mutation_principal_def render_def run_simps plain_server_def split_beta)

lemma sample_runs:
  "(\<lambda>(x, w). store_history (wlog w) \<and> commits ''op'' (wlog w) \<noteq> 0)
     (run_state (bind_act sample_run (\<lambda>_. sample_run)) store_world)"
  by code_simp

theorem commit_sent_once_witness:
  "owned (wlog (fold serve [commit_request_of, commit_request_of] store_world))
   \<and> commits ''op'' (wlog (fold serve [commit_request_of, commit_request_of] store_world)) = 1"
proof -
  let ?log = "wlog (fold serve [commit_request_of, commit_request_of] store_world)"
  have run: "store_history ?log" "commits ''op'' ?log \<noteq> 0"
    using sample_runs by (simp_all add: serve_commit run_simps split_beta)
  have "list_all (\<lambda>e. \<not> is_commit e) (wlog store_world)" by code_simp
  from commit_sent_once [OF run(1) this, of "''op''"] run(2) show ?thesis by linarith
qed

text \<open>The handler, cut where it may be overtaken: the checks of the stored record, and the claim.\<close>

definition commit_admit ::
  "env \<Rightarrow> service \<Rightarrow> operation_input \<Rightarrow> string \<Rightarrow> (op_record \<times> device_config \<times> mutation_policy) res act" where
  "commit_admit env sv input owner =
     tryS (lift_res (validate_fingerprint (oi_expected input))) (\<lambda>_.
     tryS (op_read env (oi_operation input) owner (oi_device input)) (\<lambda>r.
     tryS (lift_res (commit_gate sv (oi_device input) r)) (\<lambda>dc.
     tryS (lift_res (require_policy dc)) (\<lambda>p.
     tryS (lift_res (require_operation_policy (e_lib env) r dc)) (\<lambda>_.
     tryS (candidate_fingerprint env dc Fresh) (\<lambda>current.
     tryS (lift_res (require_operation_fingerprint (oi_expected input) r current)) (\<lambda>_.
       ret (Inr (r, dc, p)))))))))"

definition commit_claim ::
  "env \<Rightarrow> operation_input \<Rightarrow> attribution \<Rightarrow> token \<Rightarrow> op_record \<times> device_config \<times> mutation_policy \<Rightarrow> commit_output res act" where
  "commit_claim env input a tok = (\<lambda>(record, dc, p).
     let r = record\<lparr>op_state := Committing\<rparr> in
     tryS (op_update env r) (\<lambda>_.
     bind_act (commit_attribution env (oi_device input) r a) (\<lambda>a'.
     bind_act (commit_worker env dc (pol_admin p) r a') (\<lambda>result.
     bind_act (ask (\<lambda>log. tok = Caller \<and> e_detached env log) TokenChecked) (\<lambda>detached.
       ret (if detached
            then Inr \<lparr>co_operation = op_id r, co_disposition = Detached, co_job = None, co_succeeded = None,
                   co_details = Some ''commit continues in a detached reconciliation worker; poll operation status''\<rparr>
            else result))))))"

lemma commit_in_two: "commit_candidate env sv input owner a tok = tryS (commit_admit env sv input owner) (commit_claim env input a tok)"
  by (simp add: commit_candidate_def commit_record_def commit_admit_def commit_claim_def tryS_assoc tryS_ret)

abbreviation sample_admit :: "(op_record \<times> device_config \<times> mutation_policy) res act" where
  "sample_admit \<equiv> commit_admit store_env (service_of rootless_runtime) sample_commit ''local-stdio''"

text \<open>Two handlers that are both admitted before either claims.\<close>

definition claim_of :: "(op_record \<times> device_config \<times> mutation_policy) res \<Rightarrow> commit_output res act" where
  "claim_of x = (case x of Inl e \<Rightarrow> ret (Inl e) | Inr a \<Rightarrow> commit_claim store_env sample_commit sample_attribution Caller a)"

definition first_admitted :: "(op_record \<times> device_config \<times> mutation_policy) res \<times> world" where
  "first_admitted = run_state sample_admit store_world"

definition second_admitted :: "(op_record \<times> device_config \<times> mutation_policy) res \<times> world" where
  "second_admitted = run_state sample_admit (snd first_admitted)"

definition overtaken :: world where
  "overtaken = snd (run_state (claim_of (fst second_admitted))
     (snd (run_state (claim_of (fst first_admitted)) (snd second_admitted))))"

definition sent_twice :: "event list \<Rightarrow> bool" where
  "sent_twice log \<longleftrightarrow> store_history log \<and> commits ''op'' log = 2"

text \<open>The store never errs, and two commit requests of the one operation are sent.\<close>

lemma overtaken_commit_sent_twice: "store_history (wlog overtaken) \<and> commits ''op'' (wlog overtaken) = 2"
proof -
  have "sent_twice (wlog overtaken)" by code_simp
  then show ?thesis by (simp add: sent_twice_def)
qed

end
