(* ===== verification/Exclusive.thy ===== *)
theory Exclusive
  imports Once
begin

text \<open>
  Handlers side by side.  A concurrent history is any interleaving of the events of any number of
  requests; when the coordinator's device guard is a mutex on the management endpoint, nothing that
  alters a candidate is sent but by the handler that holds the guard of that endpoint.
\<close>

section \<open>One run: requests under the guard\<close>

text \<open>A request that is more than a look.\<close>

definition alters :: "lib \<Rightarrow> event \<Rightarrow> bool" where
  "alters lb e \<longleftrightarrow> (case e of Sent d fs \<Rightarrow> kind_of fs \<noteq> Read | _ \<Rightarrow> False) \<and> \<not> vetted lb e"

text \<open>The guard this run holds, and whether it has sent a commit.  After its commit a run may still
  release the configuration lock.\<close>

fun hold_delta :: "lib \<Rightarrow> (string \<Rightarrow> string) \<Rightarrow> string option \<times> bool \<Rightarrow> event \<Rightarrow> (string option \<times> bool) option" where
  "hold_delta lb key (h, c) (Guard k e) =
     (if e \<noteq> None then Some (h, c) else if h = None then Some (Some k, c) else None)"
| "hold_delta lb key (h, c) (Unguard k) = (if h = Some k then Some (None, c) else None)"
| "hold_delta lb key (h, c) (Sent d fs) =
     (if \<not> alters lb (Sent d fs) \<or> kind_of fs = Unlock \<and> c then Some (h, c)
      else if h = Some (key d) then Some (h, c \<or> kind_of fs = Commit) else None)"
| "hold_delta lb key p e = Some p"

lemma hold_free: "free_event e \<Longrightarrow> hold_delta lb key p e = Some p"
  by (cases p) (auto elim: free_event.elims)

interpretation hold: bystander "hold_delta lb key" for lb key
  by unfold_locales (auto simp: hold_free alters_def split: prod.splits)

abbreviation keeps_hold :: "lib \<Rightarrow> (string \<Rightarrow> string) \<Rightarrow> string option \<times> bool \<Rightarrow> 'a act \<Rightarrow> bool" where
  "keeps_hold lb key p m \<equiv> obeys (hold_delta lb key) p m (\<lambda>_ q. q = p)"

abbreviation under :: "lib \<Rightarrow> (string \<Rightarrow> string) \<Rightarrow> device_config \<Rightarrow> bool \<Rightarrow> 'a act \<Rightarrow> bool" where
  "under lb key dc c m \<equiv> keeps_hold lb key (Some (key (device_name dc)), c) m"

lemma hold_op_event:
  "keeps_hold lb key p (op_insert env r)" "keeps_hold lb key p (op_update env r)" "keeps_hold lb key p (op_remove i)"
  "keeps_hold lb key p (op_read env i w d)"
  unfolding op_insert_def op_update_def op_remove_def op_read_def emit_def
  by (cases p; auto intro!: obeys_ask_bind obeys_ask obeys_return)+

lemma under_post: "kind_of fs \<noteq> Commit \<Longrightarrow> under lb key dc c (post env dc fs tok)"
  by (rule obeys_mono [OF hold.post_sends]) (auto split: if_splits)

lemma under_post_fields: "kind_of fs \<noteq> Commit \<Longrightarrow> under lb key dc c (post_fields env dc fs tok)"
  unfolding post_fields_def by (rule under_post)

lemma under_lock: "under lb key dc c (acquire_config_lock env dc i)"
  unfolding acquire_config_lock_def by (intro hold.quiet_tryS under_post_fields obeys_return refl) simp

lemma under_unlock: "under lb key dc c (release_config_lock env dc)"
  unfolding release_config_lock_def by (intro obeys_quiet_bind under_post_fields obeys_return refl) simp

lemma under_unlock_best: "under lb key dc c (release_config_lock_best_effort env dc)"
  unfolding release_config_lock_best_effort_def by (intro obeys_quiet_bind under_unlock obeys_return refl)

lemma under_revert: "under lb key dc c (revert_admin_candidate env dc a)"
  unfolding revert_admin_candidate_def by (intro hold.quiet_tryS under_post_fields obeys_return refl) simp

lemma keeps_sum:
  "(\<And>e. obeys delta p (f e) Q) \<Longrightarrow> (\<And>x. obeys delta p (g x) Q) \<Longrightarrow> obeys delta p (case_sum f g r) Q"
  by (cases r) auto

lemmas under_rules = hold.keeps_rules hold.quiet_tryS obeys_quiet_bind hold_op_event under_post_fields under_lock
  under_unlock under_unlock_best under_revert obeys_if keeps_sum obeys_return refl hold.keeps_recheck hold.keeps_claim
  hold.keeps_ready

text \<open>The guarded parts of the handlers.\<close>

lemma under_stage: "under lb key dc c (stage_guarded env dc p input owner tok)"
proof -
  have mutate: "under lb key dc c (stage_mutate env dc input r)" for r
    unfolding stage_mutate_def by (intro under_rules) simp
  show ?thesis unfolding stage_guarded_def Let_def by (intro under_rules mutate)
qed

lemma under_validate: "under lb key dc c (validate_guarded env dc input r)"
  unfolding validate_guarded_def Let_def by (intro under_rules) simp

lemma under_discard: "under lb key dc c (discard_guarded env dc admin input r)"
  unfolding discard_guarded_def discard_settle_def Let_def by (intro under_rules) simp

lemma under_abandon: "under lb key dc c m \<Longrightarrow> under lb key dc c (or_abandon env dc l i m)"
  unfolding or_abandon_def abandon_def by (intro under_rules)

lemma under_push: "under lb key dc c (push_actions env dc vs n)"
proof (induction vs arbitrary: n)
  case (Cons v vs)
  then show ?case unfolding push_actions.simps by (intro under_rules) simp
qed (simp add: obeys_return)

lemma under_apply_lock: "under lb key dc c (apply_lock env dc p r)"
  unfolding apply_lock_def Let_def by (intro under_rules under_abandon)

lemma under_apply_push: "under lb key dc c (apply_push env dc p input r cs pr)"
proof -
  have failed: "under lb key dc c (apply_failed env dc p r cs n e)" for n e
    unfolding apply_failed_def Let_def by (intro under_rules)
  have finished: "under lb key dc c (apply_finished env dc input r cs pr)"
    unfolding apply_finished_def by (intro under_rules)
  show ?thesis unfolding apply_push_def split_beta by (intro under_rules under_push failed finished)
qed

lemma under_apply: "under lb key dc c (apply_guarded env dc p input owner tok)"
  unfolding apply_guarded_def by (intro under_rules under_apply_lock under_abandon under_apply_push)

section \<open>Whole handlers\<close>

text \<open>The guard of a device is the one of its endpoint.\<close>

definition keyed :: "(string \<Rightarrow> string) \<Rightarrow> service \<Rightarrow> bool" where
  "keyed key sv \<longleftrightarrow> (\<forall>(n, dc) \<in> set (sv_clients sv). mutation_lock_key dc = key (device_name dc))"

lemma keyed_client: "keyed key sv \<Longrightarrow> find_client sv n = Inr dc \<Longrightarrow> mutation_lock_key dc = key (device_name dc)"
  by (auto simp: keyed_def find_client_def ok_or_def split: option.splits dest: map_of_SomeD)

abbreviation rests :: "lib \<Rightarrow> (string \<Rightarrow> string) \<Rightarrow> 'a act \<Rightarrow> bool" where
  "rests lb key m \<equiv> obeys (hold_delta lb key) (None, False) m (\<lambda>_ q. fst q = None)"

lemma rests_quiet: "keeps_hold lb key (None, False) m \<Longrightarrow> rests lb key m"
  by (erule obeys_mono) simp

lemma rests_then: "keeps_hold lb key (None, False) m \<Longrightarrow> (\<And>x. rests lb key (k x)) \<Longrightarrow> rests lb key (tryS m k)"
  by (rule obeys_quiet_tryS) auto

lemma rests_guarded:
  assumes "mutation_lock_key dc = key (device_name dc)" and "under lb key dc False m"
  shows "rests lb key (with_guard env dc m)"
proof -
  let ?k = "key (device_name dc)"
  have release: "rests lb key (ret r)" "obeys (hold_delta lb key) (Some ?k, False) (bind_act (emit (Unguard ?k)) (\<lambda>_. ret r))
      (\<lambda>_ q. fst q = None)" for r :: "'a res"
    by (rule obeys_return, simp) (rule obeys_emit_bind [where q = "(None, False)"], simp, rule obeys_return, simp)
  have held: "obeys (hold_delta lb key) (Some ?k, False) (bind_act m (\<lambda>r. bind_act (emit (Unguard ?k)) (\<lambda>_. ret r)))
      (\<lambda>_ q. fst q = None)"
    by (rule obeys_quiet_bind [OF assms(2)]) (rule release(2))
  show ?thesis unfolding with_guard_def assms(1)
    apply (rule obeys_ask_bind)
    subgoal for e by (cases e) (use release(1) held in auto)
    done
qed

text \<open>A device that a step looked up.\<close>

lemma rests_client:
  assumes "keyed key sv" and "\<And>dc. mutation_lock_key dc = key (device_name dc) \<Longrightarrow> rests lb key (k dc)"
  shows "rests lb key (tryS (lift_res (find_client sv n)) k)"
  by (rule obeys_lift) (use assms keyed_client in auto)

lemma checked_client:
  "fst (run_state (stage_checks env sv si grant tok) w) = Inr (dc, p) \<Longrightarrow> \<exists>n. find_client sv n = Inr dc"
  "fst (run_state (apply_checks env sv ai owner grant) w) = Inr (dc, p) \<Longrightarrow> \<exists>n. find_client sv n = Inr dc"
  unfolding stage_checks_def apply_checks_def Let_def
  by (auto simp: tryS_def lift_res_def run_simps split: sum.splits prod.splits if_splits)

lemma rests_checked:
  assumes "keeps_hold lb key (None, False) m" and "\<And>w dp. fst (run_state m w) = Inr dp \<Longrightarrow> rests lb key (k dp)"
  shows "rests lb key (tryS m k)"
proof (rule obeys_tryS)
  have "obeys (hold_delta lb key) (None, False) m (\<lambda>x q. q = (None, False) \<and> (\<forall>dp. x = Inr dp \<longrightarrow> rests lb key (k dp)))"
    by (rule obeys_result [OF assms(1)]) (use assms(2) in blast)
  then show "obeys (hold_delta lb key) (None, False) m
      (\<lambda>x q. case x of Inl e \<Rightarrow> fst q = None | Inr v \<Rightarrow> obeys (hold_delta lb key) q (k v) (\<lambda>_ q. fst q = None))"
    by (rule obeys_mono) (auto split: sum.splits)
qed

lemma rests_stage: "keyed key sv \<Longrightarrow> rests lb key (stage_config env sv input owner grant tok)"
  unfolding stage_config_def
  by (rule rests_checked [OF hold.quiet_stage_checks])
     (auto dest!: checked_client(1) keyed_client intro!: rests_guarded under_stage)

lemma rests_apply: "keyed key sv \<Longrightarrow> rests lb key (apply_change_set env sv input owner grant tok)"
  unfolding apply_change_set_def
  by (rule rests_checked [OF hold.keeps_apply_checks])
     (auto dest!: checked_client(2) keyed_client intro!: rests_guarded under_apply)

lemma rests_validate: "keyed key sv \<Longrightarrow> rests lb key (validate_candidate env sv input owner tok)"
  unfolding validate_candidate_def
  by (intro rests_then hold.quiet_lift hold_op_event obeys_if rests_client rests_guarded under_validate)
     (auto intro: obeys_return)

lemma rests_discard: "keyed key sv \<Longrightarrow> rests lb key (discard_candidate env sv input owner)"
  unfolding discard_candidate_def
  by (intro rests_then hold.quiet_lift hold_op_event obeys_if rests_client rests_guarded under_discard)
     (auto intro: obeys_return)

lemma rests_diff: "rests lb key (diff_candidate env sv input owner tok)"
  unfolding diff_candidate_def Let_def split_beta
  by (intro rests_quiet hold.quiet_tryS hold.keeps_rules hold_op_event obeys_return refl)
     (simp add: post_fields_def hold.quiet_post)

lemma rests_status: "rests lb key (operation_status env oid owner dev)"
  unfolding operation_status_def by (intro rests_quiet hold.quiet_tryS hold_op_event obeys_return refl)

section \<open>The commit worker\<close>

text \<open>Its block ends under the guard; a result means that the commit was sent.\<close>

lemma commit_alters: "alters lb (Sent d (with_vsys dc (commit_fields c)))"
  by (auto simp: alters_def not_vetted_commit)

lemma under_block:
  "obeys (hold_delta lb key) (Some (key (device_name dc)), False) (worker_body env dc command r)
     (\<lambda>(r', out) q. fst q = Some (key (device_name dc)) \<and> (is_ok out \<longrightarrow> snd q))"
proof -
  let ?Q = "\<lambda>(r', out) q. fst q = Some (key (device_name dc)) \<and> (is_ok (out :: commit_output res) \<longrightarrow> snd q)"
  have quiet: "obeys (hold_delta lb key) (Some (key (device_name dc)), True) (try_with r' m k) ?Q"
    if "under lb key dc True m" "\<And>x. obeys (hold_delta lb key) (Some (key (device_name dc)), True) (k x) ?Q"
    for r' k and m :: "'x res act"
    by (rule try_with_quiet [OF that(1)]) (use that(2) in auto)
  have after: "obeys (hold_delta lb key) (Some (key (device_name dc)), True)
    (try_with r (lift_res (parse_job_id (e_lib env) response)) (\<lambda>job_id.
     let r1 = r\<lparr>op_job := Some job_id\<rparr> in
     try_with r1 (op_update env r1) (\<lambda>_.
     try_with r1 (poll_job env dc job_id Fresh) (\<lambda>status.
     try_with r1 (candidate_fingerprint env dc Fresh) (\<lambda>current.
     let r2 = r1\<lparr>op_current := current, op_details := job_details status,
               op_state := (if succeeded status then Committing else Failed)\<rparr> in
     try_with r2 (op_update env r2) (\<lambda>_.
       ret (r2, Inr \<lparr>co_operation = op_id r, co_disposition = Reconciled, co_job = Some job_id,
                   co_succeeded = Some (succeeded status), co_details = job_details status\<rparr>))))))) ?Q" for response
    unfolding Let_def
    by (intro quiet hold.quiet_lift hold_op_event hold.quiet_poll_job hold.quiet_fingerprint obeys_return) simp
  show ?thesis unfolding worker_body_def post_fields_def
    unfolding try_with_def [of _ "post _ _ _ _"]
    by (rule obeys_bind, rule hold.post_sends)
       (auto simp: commit_alters intro!: obeys_return after split: sum.splits if_splits)
qed

lemma keeps_settle:
  assumes "is_ok out \<longrightarrow> c"
  shows "keeps_hold lb key (None, c) (worker_settle env dc r out)"
proof -
  have "keeps_hold lb key (None, True) (release_config_lock env dc)"
    unfolding release_config_lock_def post_fields_def
    by (intro obeys_quiet_bind obeys_mono [OF hold.post_sends] obeys_return) (auto split: if_splits)
  then show ?thesis using assms
    by (cases out) (auto simp: worker_settle_def commit_ok_def Let_def intro!: obeys_return obeys_quiet_bind split: sum.splits)
qed

lemma rests_worker:
  assumes "mutation_lock_key dc = key (device_name dc)"
  shows "rests lb key (commit_worker env dc admin r a)"
proof -
  let ?k = "key (device_name dc)"
  have drop: "obeys (hold_delta lb key) (Some ?k, c) (bind_act (emit (Unguard ?k)) k) (\<lambda>_ q. fst q = None)"
    if "obeys (hold_delta lb key) (None, c) (k ()) (\<lambda>_ q. fst q = None)" for c and k :: "unit \<Rightarrow> commit_output res act"
    by (rule obeys_emit_bind, simp, rule that)
  have refused: "under lb key dc False (worker_refused env r e)" for e
    unfolding worker_refused_def by (intro obeys_quiet_bind hold_op_event obeys_return refl)
  have tail: "obeys (hold_delta lb key) (None, c) (bind_act (worker_settle env dc r1 out) (\<lambda>(r2, result).
      bind_act (worker_receipt env a i r2 b result) (\<lambda>_. tryS (op_update env r2) (\<lambda>_. ret result)))) (\<lambda>_ q. fst q = None)"
    if "is_ok out \<longrightarrow> c" for c r1 out i b
    unfolding split_beta
    by (intro obeys_quiet_bind [OF keeps_settle [OF that]] obeys_quiet_bind [OF hold.keeps_receipt]
        obeys_quiet_tryS [OF hold_op_event(2)] obeys_return) simp_all
  have block: "obeys (hold_delta lb key) (Some ?k, False) (bind_act (worker_body env dc command r) (\<lambda>(r1, outcome).
      bind_act (emit (Unguard ?k)) (\<lambda>_. bind_act (worker_settle env dc r1 outcome) (\<lambda>(r2, result).
      bind_act (worker_receipt env a i r2 (commit_ok outcome) result) (\<lambda>_. tryS (op_update env r2) (\<lambda>_. ret result))))))
      (\<lambda>_ q. fst q = None)" for command i
    by (rule obeys_bind [OF under_block]) (auto intro!: drop tail)
  show ?thesis unfolding commit_worker_def Let_def assms
    apply (rule obeys_ask_bind)
    subgoal for e
      by (cases e) (auto intro!: obeys_return obeys_quiet_bind [OF hold.keeps_intent] obeys_quiet_bind [OF refused]
          drop block split: option.split)
    done
qed

lemma rests_commit:
  assumes "keyed key sv"
  shows "rests lb key (commit_candidate env sv input owner a tok)"
proof -
  have gate: "commit_gate sv dev r = Inr dc \<Longrightarrow> mutation_lock_key dc = key (device_name dc)" for dev r dc
    using keyed_client [OF assms] by (auto simp: commit_gate_def and_then_Inr split: if_splits option.splits)
  have answer: "obeys (hold_delta lb key) q (bind_act (ask f TokenChecked) (\<lambda>d. ret (g d))) (\<lambda>_ q. fst q = None)"
    if "fst q = None" for q f and g :: "bool \<Rightarrow> commit_output res"
    by (rule obeys_ask_bind) (use that in \<open>cases q; auto intro: obeys_return\<close>)
  have work: "rests lb key (bind_act (commit_worker env dc admin r a') (\<lambda>result.
      bind_act (ask f TokenChecked) (\<lambda>d. ret (g result d))))"
    if "mutation_lock_key dc = key (device_name dc)" for dc admin r a' f and g :: "commit_output res \<Rightarrow> bool \<Rightarrow> commit_output res"
    by (rule obeys_bind, rule rests_worker, rule that, rule answer)
  show ?thesis unfolding commit_candidate_def commit_record_def Let_def
    apply (rule rests_then, rule hold.quiet_lift)
    apply (rule rests_then, rule hold_op_event)
    apply (rule obeys_lift, simp, drule gate)
    apply (rule rests_then, rule hold.quiet_lift)
    apply (rule rests_then, rule hold.quiet_lift)
    apply (rule rests_then, rule hold.quiet_fingerprint)
    apply (rule rests_then, rule hold.quiet_lift)
    apply (rule rests_then, rule hold_op_event)
    apply (rule obeys_quiet_bind, rule hold.keeps_attribution)
    apply (erule work)
    done
qed

section \<open>Every tool\<close>

lemma looked_holds:
  assumes "accept (look_delta lb) n es = Some q"
  shows "accept (hold_delta lb key) p es = Some p"
  using assms
proof (induction es arbitrary: n)
  case (Cons e es)
  then obtain n' where e: "look_delta lb n e = Some n'" "accept (look_delta lb) n' es = Some q"
    by (auto split: option.splits)
  then have "\<not> alters lb e" "\<And>k x. e \<noteq> Guard k x" "\<And>k. e \<noteq> Unguard k"
    by (auto simp: look_delta_def alters_def vetted_def split: if_splits event.splits)
  then have "hold_delta lb key p e = Some p" by (cases p; cases e) auto
  with Cons.IH [OF e(2)] show ?case by simp
qed simp

lemma look_rests:
  assumes "obeys (look_delta lb) n m Q"
  shows "rests lb key m"
  using assms looked_holds unfolding obeys_def by (metis fst_conv)

lemma rests_render: "rests lb key m \<Longrightarrow> rests lb key (render enc m)"
  unfolding render_def by (erule obeys_bind) (rule obeys_return)

lemma rests_authorized: "rests lb key k \<Longrightarrow> rests lb key (when_authorized sb ext tool device k)"
  by (auto simp: when_authorized_def intro: obeys_return split: option.splits)

lemma rests_principal: "(\<And>who. rests lb key (k who)) \<Longrightarrow> rests lb key (with_principal ext k)"
  by (auto simp: with_principal_def intro: obeys_return split: sum.splits)

lemma rests_identity: "(\<And>who grant. rests lb key (k who grant)) \<Longrightarrow> rests lb key (with_identity ext k)"
  by (auto simp: with_identity_def intro: obeys_return split: sum.splits)

lemmas rests_tools = rests_stage rests_apply rests_validate rests_discard rests_diff rests_status rests_commit
  hold.keeps_create [THEN rests_quiet] hold.keeps_approve [THEN rests_quiet] hold.keeps_cs_status [THEN rests_quiet]
  hold.keeps_fingerprint_tool [THEN rests_quiet] hold.keeps_logs [THEN rests_quiet]

lemma rests_call:
  assumes "keyed key (service_of rt)"
  shows "rests (e_lib env) key (call_tool sb env rt tok ext call)"
proof (cases "call_name call \<in> set mutation_tools")
  case True
  then show ?thesis using assms
    by (cases call)
       (auto simp: mutation_tools_def handler_defs
        intro!: rests_authorized rests_principal rests_identity rests_render rests_tools)
next
  case False
  show ?thesis by (rule look_rests [OF reading_call_looks [OF False]])
qed

section \<open>Concurrent histories\<close>

text \<open>A history is a list of events, newest first, each with the number of the handler that made it.
  A handler's own events are a beginning of a run of its request; its environment, which is arbitrary,
  stands for what the others did meanwhile.\<close>

type_synonym history = "(nat \<times> event) list"

definition own :: "nat \<Rightarrow> history \<Rightarrow> event list" where
  "own j h = map snd (filter (\<lambda>x. fst x = j) h)"

definition begun :: "'t request \<Rightarrow> event list \<Rightarrow> bool" where
  "begun q es \<longleftrightarrow> (\<exists>w later. wlog (serve q w) = later @ es @ wlog w)"

definition concurrent :: "'t request list \<Rightarrow> history \<Rightarrow> bool" where
  "concurrent qs h \<longleftrightarrow> (\<forall>x \<in> set h. fst x < length qs) \<and> (\<forall>j < length qs. begun (qs ! j) (own j h))"

primrec holder :: "history \<Rightarrow> string \<Rightarrow> nat option" where
  "holder [] = (\<lambda>_. None)"
| "holder (x # h) = (case snd x of
     Guard k None \<Rightarrow> (holder h)(k := Some (fst x)) | Unguard k \<Rightarrow> (holder h)(k := None) | _ \<Rightarrow> holder h)"

text \<open>The coordinator grants a guard only when nobody holds it.\<close>

primrec mutex :: "history \<Rightarrow> bool" where
  "mutex [] = True"
| "mutex (x # h) = (mutex h \<and> (case snd x of Guard k None \<Rightarrow> holder h k = None | _ \<Rightarrow> True))"

primrec serialized :: "lib \<Rightarrow> (string \<Rightarrow> string) \<Rightarrow> history \<Rightarrow> bool" where
  "serialized lb key [] = True"
| "serialized lb key (x # h) = (serialized lb key h
     \<and> (case snd x of
          Sent d fs \<Rightarrow> alters lb (Sent d fs) \<longrightarrow> holder h (key d) = Some (fst x)
            \<or> kind_of fs = Unlock \<and> list_ex is_commit (own (fst x) h)
        | _ \<Rightarrow> True))"

definition matches :: "history \<Rightarrow> nat \<Rightarrow> string option \<times> bool \<Rightarrow> bool" where
  "matches h j p \<longleftrightarrow> (\<forall>k. holder h k = Some j \<longleftrightarrow> fst p = Some k) \<and> (snd p \<longrightarrow> list_ex is_commit (own j h))"

text \<open>One event of a handler: it keeps its own view true and the others'.\<close>

lemma own_cons: "own j (x # h) = (if fst x = j then snd x # own j h else own j h)"
  by (simp add: own_def)

definition still :: "event \<Rightarrow> bool" where
  "still e \<longleftrightarrow> (\<forall>k. e \<noteq> Guard k None \<and> e \<noteq> Unguard k)"

lemma holder_still: "still e \<Longrightarrow> holder ((j, e) # h) = holder h"
  by (cases e) (auto simp: still_def split: option.splits)

lemma hold_cases:
  assumes "hold_delta lb key p e = Some q"
  shows "(\<exists>k. e = Guard k None \<and> fst p = None \<and> q = (Some k, snd p))
    \<or> (\<exists>k. e = Unguard k \<and> fst p = Some k \<and> q = (None, snd p))
    \<or> (still e \<and> fst q = fst p \<and> (snd q \<longrightarrow> snd p \<or> is_commit e))"
proof -
  obtain g c where p: "p = (g, c)" by fastforce
  show ?thesis
  proof (cases e)
    case (Guard k x)
    with assms show ?thesis by (cases x) (auto simp: p still_def split: if_splits)
  qed (use assms in \<open>auto simp: p still_def is_commit_def split: if_splits\<close>)
qed

lemma step_self:
  assumes "hold_delta lb key p e = Some q" and "matches h j p" and "mutex ((j, e) # h)"
  shows "matches ((j, e) # h) j q"
proof -
  consider (taken) k where "e = Guard k None" "fst p = None" "q = (Some k, snd p)"
    | (dropped) k where "e = Unguard k" "fst p = Some k" "q = (None, snd p)"
    | (plain) "still e" "fst q = fst p" "snd q \<longrightarrow> snd p \<or> is_commit e"
    using hold_cases [OF assms(1)] by metis
  then show ?thesis
  proof cases
    case plain
    then show ?thesis using assms(2) unfolding matches_def holder_still [OF plain(1)] own_cons
      by (simp split: if_splits) blast
  qed (use assms(2,3) in \<open>simp_all add: matches_def own_cons\<close>)
qed

lemma step_other:
  assumes "hold_delta lb key p e = Some q" and "matches h j p" and "mutex ((j, e) # h)" and "i \<noteq> j" and "matches h i p'"
  shows "matches ((j, e) # h) i p'"
proof -
  consider (taken) k where "e = Guard k None" "holder h k = None"
    | (dropped) k where "e = Unguard k" "holder h k = Some j"
    | (plain) "still e"
    using hold_cases [OF assms(1)] assms(2,3) unfolding matches_def by fastforce
  then have "holder ((j, e) # h) k = Some i \<longleftrightarrow> holder h k = Some i" for k
  proof cases
    case plain
    then show ?thesis by (simp only: holder_still)
  qed (use assms(4) in simp_all)
  with assms(4,5) show ?thesis by (simp add: matches_def own_cons del: holder.simps)
qed

lemma step_serialized:
  assumes "hold_delta lb key p e = Some q" and "matches h j p" and "serialized lb key h"
  shows "serialized lb key ((j, e) # h)"
proof (cases e)
  case (Sent d fs)
  with assms show ?thesis by (cases p) (auto simp: matches_def split: if_splits)
qed (use assms(3) in simp_all)

lemma accepted_matches:
  assumes "\<And>j. j < n \<Longrightarrow> \<exists>q. accept (hold_delta lb key) (None, False) (rev (own j h)) = Some q"
    and "\<forall>x \<in> set h. fst x < n" and "mutex h"
  shows "serialized lb key h \<and>
    (\<forall>j q. accept (hold_delta lb key) (None, False) (rev (own j h)) = Some q \<longrightarrow> matches h j q)"
  using assms
proof (induction h)
  case Nil
  show ?case by (auto simp: own_def matches_def)
next
  case (Cons x h)
  obtain j e where x: "x = (j, e)" by fastforce
  let ?acc = "\<lambda>i h. accept (hold_delta lb key) (None, False) (rev (own i h))"
  have before: "\<exists>q. ?acc i h = Some q" if "i < n" for i
    using Cons.prems(1) [OF that] by (auto simp: own_cons accept_append split: if_splits option.splits)
  have IH: "serialized lb key h" "\<And>i q. ?acc i h = Some q \<Longrightarrow> matches h i q"
    using Cons.IH [OF before] Cons.prems(2,3) by auto
  have "j < n" using Cons.prems(2) x by simp
  from Cons.prems(1) [OF this] obtain q where "?acc j (x # h) = Some q" by blast
  then obtain p where p: "?acc j h = Some p" "hold_delta lb key p e = Some q"
    by (auto simp: own_cons x accept_append split: option.splits)
  have "matches (x # h) i r" if "?acc i (x # h) = Some r" for i r
  proof (cases "i = j")
    case True
    with that p \<open>?acc j (x # h) = Some q\<close> show ?thesis
      using step_self [OF p(2) IH(2) [OF p(1)]] Cons.prems(3) x by simp
  next
    case False
    with that have "?acc i h = Some r" by (simp add: own_cons x)
    then show ?thesis
      using step_other [OF p(2) IH(2) [OF p(1)] _ False IH(2)] Cons.prems(3) x by simp
  qed
  with step_serialized [OF p(2) IH(2) [OF p(1)] IH(1)] show ?case unfolding x by blast
qed

text \<open>
  C6. Changes of a device's candidate are serialised.  Take any interleaving of the events of any
  number of tool calls, each in an environment of its own, so whatever the others do in between:
  when the coordinator grants the guard of an endpoint only while nobody holds it, every request
  that is more than a look - lock, change, revert, validation, commit - is sent to a device by the handler that
  then holds the guard of that device's management endpoint, under whatever name the device goes.
  The one exception is the release of the configuration lock by a handler that has sent a commit.
  A device name stands for one endpoint in all snapshots (\<open>keyed\<close>); operational commands that
  passed the read-only validation are looks.
\<close>

theorem candidate_serialized:
  assumes "concurrent qs h" and "mutex h"
    and "\<forall>q \<in> set qs. e_lib (rq_env q) = lb \<and> keyed key (service_of (rq_runtime q))"
  shows "serialized lb key h"
proof -
  have "\<exists>q. accept (hold_delta lb key) (None, False) (rev (own j h)) = Some q" if "j < length qs" for j
  proof -
    let ?q = "qs ! j"
    have "e_lib (rq_env ?q) = lb" "keyed key (service_of (rq_runtime ?q))" using assms(3) that by auto
    then have rests: "rests lb key (call_tool (rq_server ?q) (rq_env ?q) (rq_runtime ?q) (rq_token ?q) (rq_ext ?q) (rq_call ?q))"
      using rests_call by blast
    have "begun ?q (own j h)" using assms(1) that by (simp add: concurrent_def)
    then obtain w later where w: "wlog (serve ?q w) = (later @ own j h) @ wlog w" unfolding begun_def by auto
    have "\<exists>es q. wlog (serve ?q w) = es @ wlog w \<and> accept (hold_delta lb key) (None, False) (rev es) = Some q"
      using rests unfolding serve_def obeys_def by blast
    then have "\<exists>q. accept (hold_delta lb key) (None, False) (rev (later @ own j h)) = Some q"
      unfolding w by auto
    then show ?thesis by (auto simp: accept_append split: option.splits)
  qed
  moreover have "\<forall>x \<in> set h. fst x < length qs" using assms(1) by (simp add: concurrent_def)
  ultimately show ?thesis using accepted_matches [OF _ _ assms(2)] by blast
qed

section \<open>A concrete interleaving\<close>

definition status_request :: "unit request" where
  "status_request = commit_request_of\<lparr>rq_call := GetOperation ''op'' ''fw1''\<rparr>"

lemma serve_status: "serve status_request w = snd (run_state (operation_status store_env ''op'' ''local-stdio'' ''fw1'') w)"
  by (simp add: serve_def status_request_def commit_request_of_def get_panos_operation_def when_authorized_def
      authorize_def caller_def is_http_def with_principal_def mutation_principal_def render_def run_simps split_beta)

text \<open>A commit that is overtaken, under the guard, by a request for the status of its operation.\<close>

definition commit_events :: "event list" where
  "commit_events = butlast (wlog (serve commit_request_of store_world))"

definition status_events :: "event list" where
  "status_events = butlast (wlog (serve status_request store_world))"

definition overlapping :: history where
  "overlapping = map (Pair 0) (take 4 commit_events) @ map (Pair 1) status_events @ map (Pair 0) (drop 4 commit_events)"

lemma begun_at_store: "begun q (butlast (wlog (serve q store_world)))"
proof -
  obtain es where es: "wlog (serve q store_world) = es @ wlog store_world" using serve_extends by blast
  moreover have "length (wlog store_world) = 1" by (simp add: store_world_def)
  ultimately have "butlast (wlog (serve q store_world)) = es" by (cases "wlog store_world") (simp_all add: butlast_append)
  with es show ?thesis unfolding begun_def by (metis append_Nil)
qed

definition well_mixed :: "history \<Rightarrow> bool" where
  "well_mixed h \<longleftrightarrow> mutex h \<and> list_ex (\<lambda>x. is_commit (snd x)) h \<and> list_ex (\<lambda>x. fst x = 1) h"

lemma overlapping_mixed: "well_mixed overlapping"
  unfolding overlapping_def commit_events_def status_events_def serve_commit serve_status by code_simp

theorem candidate_serialized_witness:
  "serialized (e_lib store_env) (\<lambda>_. mutation_lock_key rootless_device) overlapping
   \<and> list_ex (\<lambda>x. is_commit (snd x)) overlapping"
proof -
  have own: "own 0 overlapping = commit_events" "own 1 overlapping = status_events"
    unfolding overlapping_def by (simp_all add: own_def filter_map comp_def)
  have "begun ([commit_request_of, status_request] ! j) (own j overlapping)" if "j < 2" for j
    using that own begun_at_store by (cases j) (auto simp: commit_events_def status_events_def less_2_cases_iff)
  moreover have "\<forall>x \<in> set overlapping. fst x < 2" by (auto simp: overlapping_def)
  ultimately have "concurrent [commit_request_of, status_request] overlapping"
    by (simp add: concurrent_def numeral_2_eq_2)
  from candidate_serialized [OF this, of "e_lib store_env" "\<lambda>_. mutation_lock_key rootless_device"] overlapping_mixed
  show ?thesis
    by (simp add: well_mixed_def commit_request_of_def status_request_def keyed_def service_of_def tools_of_def
        rootless_runtime_def from_parts_def base_service_def service.defs)
qed

end
