(* ===== verification/Plans.thy ===== *)
theory Plans
  imports Exclusive MutationSpec
begin

text \<open>
  Applying side by side.  Where the commit checks a stored state and writes it in two steps, the apply
  asks the coordinator for a claim: of any number of handlers that apply one change set at the same
  time, at most one pushes it.
\<close>

section \<open>One run: no push without a claim\<close>

definition is_push :: "event \<Rightarrow> bool" where
  "is_push e = (case e of Sent d fs \<Rightarrow> kind_of fs = Change | _ \<Rightarrow> False)"

definition grant_of :: "string \<Rightarrow> event \<Rightarrow> bool" where
  "grant_of i e = (case e of CsClaim i' d (Inr _) \<Rightarrow> i' = i | _ \<Rightarrow> False)"

text \<open>The coordinator reads the change set it is asked for.\<close>

definition reads_right :: "event \<Rightarrow> bool" where
  "reads_right e = (case e of CsRead i d (Inr cs) \<Rightarrow> cs_id cs = i | _ \<Rightarrow> True)"

text \<open>What an accepted beginning of a run has seen, oldest event first.\<close>

definition claimed_first :: "string \<Rightarrow> event list \<Rightarrow> apply_mon \<Rightarrow> bool" where
  "claimed_first i es q \<longleftrightarrow> (\<forall>cs. am_plan q = Some cs \<longrightarrow> cs_id cs = i)
     \<and> (am_left q \<noteq> None \<longrightarrow> list_ex (grant_of i) es) \<and> (list_ex is_push es \<longrightarrow> am_left q \<noteq> None)"

lemma claimed_step:
  assumes "apply_delta env t input owner q e = Some q'" and "claimed_first (ai_change_set input) es q" and "reads_right e"
  shows "claimed_first (ai_change_set input) (es @ [e]) q'"
proof (cases e)
  case (Sent d fs)
  with assms(1,2) show ?thesis
    by (cases "kind_of fs"; cases t; cases "am_left q")
       (auto simp: claimed_first_def is_push_def grant_of_def split: if_splits)
next
  case (CsRead i d r)
  with assms show ?thesis
    by (cases r) (auto simp: claimed_first_def is_push_def grant_of_def reads_right_def split: if_splits)
next
  case (CsClaim i d r)
  with assms(1,2) show ?thesis
    by (cases r) (auto simp: claimed_first_def is_push_def grant_of_def split: if_splits)
next
  case (Clock now)
  with assms(1,2) show ?thesis
    by (cases now; cases "am_plan q") (auto simp: claimed_first_def is_push_def grant_of_def)
qed (use assms(1,2) in \<open>auto simp: claimed_first_def is_push_def grant_of_def split: if_splits option.splits\<close>)

lemma claimed_accept:
  assumes "accept (apply_delta env t input owner) q es = Some q'" and "claimed_first (ai_change_set input) fs q"
    and "list_all reads_right es"
  shows "claimed_first (ai_change_set input) (fs @ es) q'"
  using assms
proof (induction es arbitrary: q fs)
  case (Cons e es)
  then obtain p where p: "apply_delta env t input owner q e = Some p" "accept (apply_delta env t input owner) p es = Some q'"
    by (auto split: option.splits)
  have "claimed_first (ai_change_set input) (fs @ [e]) p" by (rule claimed_step [OF p(1)]) (use Cons.prems in simp_all)
  from Cons.IH [OF p(2) this] Cons.prems(3) show ?case by simp
qed simp

text \<open>A served apply is a run of the operation for some caller, or is denied.\<close>

lemma apply_served:
  "\<exists>owner. obeys (apply_delta env (target (service_of rt) input) input owner) (am False None False False False None 0 False False)
     (call_tool sb env rt tok ext (ApplyChangeSet input)) (\<lambda>_ _. True)"
proof -
  have ran: "obeys (apply_delta env (target (service_of rt) input) input owner) (am False None False False False None 0 False False)
      (render enc (apply_change_set env (service_of rt) input owner grant tok)) (\<lambda>_ _. True)" for owner grant and enc :: "stage_output \<Rightarrow> string + string"
    unfolding render_def by (rule obeys_bind [OF apply_run_obeys]) (rule obeys_return, rule TrueI)
  show ?thesis
    using ran by (auto simp: apply_panos_change_set_def when_authorized_def with_identity_def
        intro: obeys_return split: option.splits sum.splits)
qed

section \<open>Many handlers\<close>

definition applies :: "string \<Rightarrow> 't request \<Rightarrow> bool" where
  "applies i q = (case rq_call q of ApplyChangeSet input \<Rightarrow> ai_change_set input = i | _ \<Rightarrow> False)"

text \<open>The handlers that have pushed an action of change set \<open>i\<close>, and the claims of it that were granted.\<close>

definition pushers :: "'t request list \<Rightarrow> history \<Rightarrow> string \<Rightarrow> nat list" where
  "pushers qs h i = filter (\<lambda>j. applies i (qs ! j) \<and> list_ex is_push (own j h)) [0..<length qs]"

definition grants :: "string \<Rightarrow> history \<Rightarrow> (nat \<times> event) list" where
  "grants i h = filter (\<lambda>x. grant_of i (snd x)) h"

lemma pusher_claimed:
  assumes "begun q es" and "applies i q" and "list_all reads_right es" and "list_ex is_push es"
  shows "list_ex (grant_of i) es"
proof -
  obtain input where input: "rq_call q = ApplyChangeSet input" "ai_change_set input = i"
    using assms(2) by (auto simp: applies_def split: tool_call.splits)
  obtain w later where w: "wlog (serve q w) = (later @ es) @ wlog w"
    using assms(1) unfolding begun_def by auto
  let ?s = "am False None False False False None 0 False False"
  obtain owner where "obeys (apply_delta (rq_env q) (target (service_of (rq_runtime q)) input) input owner) ?s
      (call_tool (rq_server q) (rq_env q) (rq_runtime q) (rq_token q) (rq_ext q) (ApplyChangeSet input)) (\<lambda>_ _. True)"
    using apply_served by blast
  then obtain fs p where "wlog (serve q w) = fs @ wlog w"
      "accept (apply_delta (rq_env q) (target (service_of (rq_runtime q)) input) input owner) ?s (rev fs) = Some p"
    unfolding serve_def obeys_def input(1) by blast
  then obtain p' where p': "accept (apply_delta (rq_env q) (target (service_of (rq_runtime q)) input) input owner) ?s (rev es) = Some p'"
    unfolding w by (auto simp: accept_append split: option.splits)
  have "claimed_first i ([] @ rev es) p'"
    using claimed_accept [OF p', of "[]"] assms(3) input(2) by (simp add: claimed_first_def)
  then show ?thesis using assms(4) by (auto simp: claimed_first_def)
qed

text \<open>
  C7. A change set is pushed by one handler at most.  Take any interleaving of any number of tool
  calls, however the environments of the calls answer: if the coordinator reads back the change set it is asked
  for and grants a change set's claim only once, then of all the handlers that apply one change set
  at most one ever sends one of its changes to the device.
\<close>

theorem plan_pushed_once:
  assumes "concurrent qs h" and "list_all (\<lambda>x. reads_right (snd x)) h" and "length (grants i h) \<le> 1"
  shows "length (pushers qs h i) \<le> 1"
proof -
  have "\<exists>e. (j, e) \<in> set (grants i h)" if "j \<in> set (pushers qs h i)" for j
  proof -
    have j: "j < length qs" "applies i (qs ! j)" "list_ex is_push (own j h)" using that by (auto simp: pushers_def)
    have "begun (qs ! j) (own j h)" using assms(1) j(1) by (simp add: concurrent_def)
    moreover have "list_all reads_right (own j h)" using assms(2) by (auto simp: own_def list_all_iff)
    ultimately have "list_ex (grant_of i) (own j h)" using pusher_claimed j(2,3) by blast
    then show ?thesis by (force simp: own_def list_ex_iff grants_def)
  qed
  then have "set (pushers qs h i) \<subseteq> fst ` set (grants i h)" by force
  then have "card (set (pushers qs h i)) \<le> card (fst ` set (grants i h))" by (intro card_mono) simp_all
  also have "\<dots> \<le> length (grants i h)" using card_image_le [of "set (grants i h)" fst] card_length [of "grants i h"] by simp
  also have "card (set (pushers qs h i)) = length (pushers qs h i)"
    by (rule distinct_card) (simp add: pushers_def)
  finally show ?thesis using assms(3) by simp
qed

section \<open>Two applies of one change set\<close>

text \<open>Both see the approved plan, of one deletion; the first claims it and its push times out, the
  second is refused.\<close>

definition first_env :: env where
  "first_env = script_env\<lparr>e_coord_change_set := \<lambda>_ _ _. Inr (script_cs\<lparr>cs_owner := ''local-stdio''\<rparr>),
     e_decode_action := \<lambda>_. Inr sample_delete, e_xml_escape := \<lambda>_. [],
     e_net := \<lambda>log _ fs. if kind_of fs = Change \<or> (case log of Sent _ gs # _ \<Rightarrow> kind_of gs = Change | _ \<Rightarrow> False) then NetTimeout else script_reply fs\<rparr>"

definition second_env :: env where
  "second_env = first_env\<lparr>e_coord_claim := \<lambda>_ _ _. Inl (''change_set_id'', ''already claimed'')\<rparr>"

definition clearing_device :: device_config where
  "clearing_device = sample_device\<lparr>dc_mutation := Some \<lparr>pol_admin = [], pol_roots = [''/config/shared''],
     pol_allow_delete = True, pol_require_lock = False\<rparr>\<rparr>"

definition clearing_runtime :: "unit runtime" where
  "clearing_runtime = from_parts \<lparr>ps_tools = sample_tools\<lparr>sv_clients := [(''fw1'', clearing_device)]\<rparr>,
     ps_coordinator = coordinator_settings default_options\<rparr> None"

abbreviation sample_apply_input :: apply_input where
  "sample_apply_input \<equiv> \<lparr>ai_device = ''fw1'', ai_change_set = ''cs'', ai_digest = script_hash, ai_expected = script_hash\<rparr>"

abbreviation sample_apply :: "env \<Rightarrow> stage_output res act" where
  "sample_apply env \<equiv> apply_change_set env (service_of clearing_runtime) sample_apply_input ''local-stdio'' None Caller"

definition apply_request_of :: "env \<Rightarrow> unit request" where
  "apply_request_of env = \<lparr>rq_server = plain_server, rq_env = env, rq_runtime = clearing_runtime,
     rq_token = Caller, rq_ext = StdioExt, rq_call = ApplyChangeSet sample_apply_input\<rparr>"

lemma serve_apply:
  "wlog (serve (apply_request_of env) start_world) = wlog (snd (run_state (sample_apply env) start_world))"
  by (simp add: serve_def apply_request_of_def apply_panos_change_set_def when_authorized_def authorize_def caller_def
      is_http_def with_identity_def mutation_identity_def with_principal_def mutation_principal_def render_def run_simps plain_server_def split_beta)

text \<open>The second handler has made its first checks when the first one runs from beginning to end.\<close>

definition overtaking :: "event list \<Rightarrow> event list \<Rightarrow> history" where
  "overtaking es fs = (let n = length fs - 2 in
     map (Pair 1) (take n fs) @ map (Pair 0) es @ map (Pair 1) (drop n fs))"

definition granted_once :: "event list \<Rightarrow> event list \<Rightarrow> bool" where
  "granted_once es fs \<longleftrightarrow> list_ex is_push es \<and> list_all (\<lambda>x. reads_right (snd x)) (overtaking es fs)
     \<and> length (grants ''cs'' (overtaking es fs)) = 1
     \<and> list_ex (\<lambda>e. case e of CsClaim i d (Inl _) \<Rightarrow> True | _ \<Rightarrow> False) fs"

definition first_events :: "event list" where
  "first_events = wlog (serve (apply_request_of first_env) start_world)"

definition second_events :: "event list" where
  "second_events = wlog (serve (apply_request_of second_env) start_world)"

lemma applies_granted: "granted_once first_events second_events"
  unfolding first_events_def second_events_def serve_apply by code_simp

lemma begun_at_start: "begun q (wlog (serve q start_world))"
  unfolding begun_def by (rule exI [of _ start_world]) (simp add: start_world_def)

theorem plan_pushed_once_witness:
  "pushers [apply_request_of first_env, apply_request_of second_env] (overtaking first_events second_events) ''cs'' = [0]
   \<and> list_ex (\<lambda>e. case e of CsClaim i d (Inl _) \<Rightarrow> True | _ \<Rightarrow> False) second_events"
proof -
  let ?h = "overtaking first_events second_events" and ?qs = "[apply_request_of first_env, apply_request_of second_env]"
  have own: "own 0 ?h = first_events" "own 1 ?h = second_events"
    by (simp_all add: overtaking_def own_def filter_map comp_def Let_def)
  have "begun (?qs ! j) (own j ?h)" if "j < 2" for j
    using that own begun_at_start by (cases j) (auto simp: first_events_def second_events_def less_2_cases_iff)
  moreover have "\<forall>x \<in> set ?h. fst x < 2" by (auto simp: overtaking_def Let_def)
  ultimately have c: "concurrent ?qs ?h" by (simp add: concurrent_def numeral_2_eq_2)
  have g: "list_ex is_push first_events" "list_all (\<lambda>x. reads_right (snd x)) ?h" "length (grants ''cs'' ?h) \<le> 1"
    using applies_granted by (simp_all add: granted_once_def)
  have "applies ''cs'' (apply_request_of env)" for env by (simp add: applies_def apply_request_of_def)
  then have "pushers ?qs ?h ''cs'' = 0 # (if list_ex is_push second_events then [1] else [])"
    using own g(1) by (simp add: pushers_def upt_rec)
  with plan_pushed_once [OF c g(2,3)] applies_granted show ?thesis
    by (simp add: granted_once_def split: if_splits)
qed

end
