(* ===== verification/Spec2Isabelle.thy ===== *)
theory Spec2Isabelle
  imports XPathSpec XmlSpec XmlInput RedactSpec InventorySpec ClientSpec MutationSpec LifecycleSpec
    StateMachine CommandPolicy Reads Advisory Samples Startup
    CommitSpec ApplySpec ServerSpec StartupSpec ReadsSpec PinSpec ChangeSetSpec AuditSpec WireSpec InventoryFileSpec KeySpec Once Exclusive
    Plans Locked
begin

text \<open>
  A model of \<^verbatim>\<open>rust-panosmcp\<close>, an MCP server that lets an agent read PAN-OS firewalls and change
  their candidate configuration under a grant, a two-person approval and a fingerprint, and the
  theorems that make it correct.

  The parts and how they interact.  The process (\<^verbatim>\<open>main.rs\<close>, \<^verbatim>\<open>cli.rs\<close>, \<^verbatim>\<open>cli_validate.rs\<close>,
  \<^verbatim>\<open>token_cmd.rs\<close>) parses a command line, and either runs a token or recovery command or loads an
  inventory and serves.  The server (\<^verbatim>\<open>rust-panosmcp/src/lib.rs\<close>, \<^verbatim>\<open>http_transport.rs\<close>) holds one
  snapshot of service and tokens, replaced as a whole on a hangup, and one handler per tool:
  authorise the caller, take the snapshot, run one operation of the service, render the result.
  The service (\<^verbatim>\<open>rust-panosmcp-core/src/{tools,mutation}.rs\<close>) reads a device or drives the candidate
  lifecycle - stage, diff, validate, commit, discard, and change sets with create, approve and apply -
  through one client per device (\<^verbatim>\<open>client.rs\<close>), which posts forms and parses XML replies
  (\<^verbatim>\<open>xml.rs\<close>); operations and change sets are stored by a shared coordinator.  Grants and path
  authorisation are \<^verbatim>\<open>rust-panosmcp-auth/src/grant.rs\<close>; what is handed out is redacted
  (\<^verbatim>\<open>redact.rs\<close>, \<^verbatim>\<open>xml.rs\<close>).

  The model, in the order of the imports.
  \<^item> \<open>Prelude\<close>: Rust strings as byte lists (a \<open>char\<close> is one byte, so \<open>length\<close> is \<open>len()\<close>),
    the standard-library functions the program uses, results as sums, \<open>tryS\<close> for the \<open>?\<close> operator
    in a state.  \<open>Errors\<close>: the error type and its texts.  \<open>Libs\<close>: the record \<open>lib\<close> of the
    crates that are called and not contained (the XML reader, SHA-256, the redaction crate, Unicode).
  \<^item> \<open>XPath\<close>, \<open>Auth\<close>: grants, quote canonicalisation, the strict path grammar; bearer headers,
    the tool registry, the caller of a request.
  \<^item> \<open>Xml\<close>, \<open>XmlInput\<close>, \<open>Responses\<close>, \<open>Redact\<close>: the structure check, the entry scanner and the
    extraction of texts as folds over the reader's events; the validation of paths, commands and
    elements; the parser of each reply; the redaction passes.
  \<^item> \<open>Json\<close>: JSON values and the decoders derived from struct and enum declarations.
  \<^item> \<open>InventoryFile\<close>, \<open>Inventory\<close>, \<open>Tls\<close>: from the inventory document to validated devices; the HTTP
    client's settings and the certificate pin.
  \<^item> \<open>World\<close>: what the service acts on.  A \<open>world\<close> is the list of events so far, newest first, and the
    health flag of each device; an \<open>act\<close> is a state transformer on it; every answer of the outside
    (device, coordinator, clock, token, evidence recorder) is a function in the record \<open>env\<close> of the events
    before it, so a theorem about every \<open>env\<close> is about every behaviour of the outside.
  \<^item> \<open>Client\<close>, \<open>Mutation\<close>, \<open>Lifecycle\<close>, \<open>ChangeSets\<close>, \<open>CommandPolicy\<close>, \<open>Reads\<close>, \<open>Advisory\<close>: the
    operations of the service, each with its checks in the order of the code and all its effects.
  \<^item> \<open>Runtime\<close>, \<open>Server\<close>, \<open>Transport\<close>, \<open>Cli\<close>, \<open>TokenCmd\<close>, \<open>Stale\<close>, \<open>Startup\<close>: snapshots and reload,
    the 27 tool handlers, what is handed to the transport crate, the arguments and their refusals, the
    token commands, the scan for secret files left at old places, and \<open>main\<close> as a list of steps that
    leaves its effects, with the hangup loop that reloads the served runtime.
  \<^item> \<open>Wire\<close>: the input struct of each tool, decoded from the arguments of a request, and the dispatch by
    name.
  \<^item> \<open>AuditScopes\<close>: the same operations, each run with the audit scope its function opens, describes and
    settles, and one audited call per tool.
  \<^item> \<open>Samples\<close>: a concrete device and scripted environments, at which the theorems are instantiated.

  What the lemmas show.
  \<^item> \<open>XPathSpec\<close>, \<open>XmlInput\<close>, \<open>MutationSpec\<close>: textual root checks decide containment of parsed XPath
    steps (locale \<open>root_guard\<close>, interpreted for grants and for device roots); validated actions are
    authorised; the move simulation is exact; fingerprint and policy bytes determine their inputs.
  \<^item> \<open>XmlSpec\<close>, \<open>RedactSpec\<close>, \<open>ReadsSpec\<close>, \<open>InventorySpec\<close>, \<open>PinSpec\<close>, \<open>ClientSpec\<close>: one bounded
    well-nested document; pages that tile a listing; extracted and returned texts within their bounds;
    no hash and no key blob survives the redaction passes (locale \<open>scan_replace\<close>), and the structural
    pass is the redaction of the document tree; a loaded inventory is well formed; pins round-trip; bodies are limited and polling ends.
  \<^item> \<open>Monitor\<close>: a discipline of runs is a partial transition function over the events of a run, and
    \<open>obeys\<close> a total-correctness triple for it.  The locale \<open>monitor\<close> proves once what the client and
    the shared helpers do under any monitor that ignores reads, and \<open>bystander\<close> extends it to the
    operations that touch only the clock, the change sets and the evidence; they are interpreted for the stage
    (\<open>LifecycleSpec\<close>), the commit (\<open>CommitSpec\<close>), the apply (\<open>ApplySpec\<close>), the lifecycle state machine
    (\<open>StateMachine\<close>, an \<open>inductive\<close> step relation with its reachable states), for requests that only
    look (\<open>ServerSpec\<close>) and for the device guard (\<open>Exclusive\<close>).
  \<^item> \<open>Locked\<close>: a stage and an apply change a candidate only after the device granted the configuration
    lock, where the policy asks for it; rules for the worlds of a run, since the monitors see no replies.
  \<^item> \<open>CommitSpec\<close>, \<open>ApplySpec\<close>: in addition, a gate theorem for each: the handler has no effect unless
    every condition of the code held, spelled out in \<open>commit_allowed\<close> and \<open>apply_allowed\<close>.
  \<^item> \<open>ChangeSetSpec\<close>: a plan has no effect but its stored record, an approval carries the identity of
    the caller.  \<open>AuditSpec\<close>: recording is transparent, so every theorem on the operations speaks of
    the audited ones, and the recorded outcome is the outcome, with the calls that can leave none.
  \<^item> \<open>WireSpec\<close>, \<open>InventoryFileSpec\<close>: the arguments that are accepted are exactly those of the declared
    shapes, the device a call acts on is the one its arguments name, and every call can arrive; an
    inventory document grants nothing it does not spell out.
  \<^item> \<open>KeySpec\<close>: two servers that differ only in the API keys of their devices answer and act alike.
  \<^item> \<open>Once\<close>: whole histories of calls against one store.  An operation is committed at most once when
    calls do not overlap; a concrete history of two overlapping commits sends two.
  \<^item> \<open>Exclusive\<close>: every interleaving of any number of handlers.  What alters a candidate is sent by the
    holder of the device guard, but for the release of the lock after a commit.
  \<^item> \<open>Plans\<close>: in every such interleaving one change set is pushed by one handler at most, given a
    coordinator that grants its claim once.
  \<^item> \<open>ServerSpec\<close>, \<open>StartupSpec\<close>: access control for every tool, a write over HTTP confined to the caller's
    grant end to end, the exact tool registry, atomic reload, listeners only in safe exposures.

  Bounds and loops.  Recursion over texts, event lists and paths is structural or ends by the length
  of what is left.  The polling loops run under a timeout in the code; the number of rounds that
  fit is an answer of the outside (\<open>e_rounds\<close>, with whether the deadline struck while a request was
  in flight), and a loop that runs out of rounds returns the timeout error of the code.  Because the
  rounds are arbitrary this bounds no behaviour.  Sizes are natural numbers where the code's \<open>usize\<close>
  cannot overflow on data in memory; saturating and checked arithmetic is written out, and rates,
  ports and Unix times are words of their width.

  Concurrency.  An \<open>act\<close> is one handler's run.  Other handlers act between its steps: their effects
  are the coordinator's and the device's answers, which may change at every event.  The spawned
  commit worker runs to its end in the model; whether the caller saw its result or was detached is
  the answer \<open>e_detached\<close>.  \<open>Once\<close> puts runs one after another; \<open>Exclusive\<close> and \<open>Plans\<close> take any
  interleaving of the events of many runs, each in an environment of its own.

  Not modelled, and why.  The bodies of the crates the program calls (the coordinator with its
  persistence, the transport with its router, rate limiter and bearer boundary, TLS, the reading of
  JSON and XML text, the token file, the policy matcher) are not in the repository: they are parameters, and
  no law is assumed of them beyond what a theorem states.  Tracing spans, log lines other than
  those of the hangup loop, and progress messages leave no trace a property speaks of.  The
  listener loop is the transport crate's; the model ends with the plan it is given.  Tool descriptions and the generated router are data for the
  MCP crate.  The lines no definition translates are these, comments, imports, attributes and tests.
\<close>

end
